(* ===== verification/Project_Error.thy ===== *)
theory Project_Error
  imports Main
begin

text \<open>
  The project-wide error type of \<^verbatim>\<open>core/src/error.rs\<close>: its variants, the
  constructors the other components use, and the predicates that look through wrapped
  errors (class, TLS admission, connection failures, retryability, the stage shown in
  metrics).
\<close>

datatype error_class = ClassInvalidInput | ClassNotFound | ClassConflict

datatype readmission_required = StaleOrExpired | Superseded

text \<open>
  The \<open>source\<close> of a wrapped error is a boxed trait object. What the code can
  distinguish about it by downcasting is its type: another project error, a
  readmission demand, or anything else.
\<close>

datatype error =
    Nvs "error_source option" string
  | Storage "error_source option" string
  | Config string string
  | InvalidInput string string
  | NotFound string string
  | Conflict string string
  | Io string string
  | Esp int string
  | Http nat string
  | Other error_source string
and error_source =
    MemoryError error
  | ReadmissionRequired readmission_required
  | ForeignError string

text \<open>The constructors take the stage last, as the variants of the source list their fields.\<close>

definition config_error :: "string \<Rightarrow> string \<Rightarrow> error" where
  "config_error stage msg = Config msg stage"

definition invalid_input_error :: "string \<Rightarrow> string \<Rightarrow> error" where
  "invalid_input_error stage msg = InvalidInput msg stage"

definition conflict_error :: "string \<Rightarrow> string \<Rightarrow> error" where
  "conflict_error stage msg = Conflict msg stage"

fun nested_memory_error :: "error \<Rightarrow> error option" where
  "nested_memory_error (Nvs (Some (MemoryError e)) _) = Some e"
| "nested_memory_error (Storage (Some (MemoryError e)) _) = Some e"
| "nested_memory_error (Other (MemoryError e) _) = Some e"
| "nested_memory_error _ = None"

fun stage_of :: "error \<Rightarrow> string" where
  "stage_of (Nvs _ s) = s"
| "stage_of (Storage _ s) = s"
| "stage_of (Config _ s) = s"
| "stage_of (InvalidInput _ s) = s"
| "stage_of (NotFound _ s) = s"
| "stage_of (Conflict _ s) = s"
| "stage_of (Io _ s) = s"
| "stage_of (Esp _ s) = s"
| "stage_of (Http _ s) = s"
| "stage_of (Other _ s) = s"

fun class_of :: "error \<Rightarrow> error_class option" where
  "class_of (InvalidInput _ _) = Some ClassInvalidInput"
| "class_of (NotFound _ _) = Some ClassNotFound"
| "class_of (Conflict _ _) = Some ClassConflict"
| "class_of (Nvs (Some (MemoryError e)) _) = class_of e"
| "class_of (Storage (Some (MemoryError e)) _) = class_of e"
| "class_of (Other (MemoryError e) _) = class_of e"
| "class_of _ = None"

fun is_tls_admission :: "error \<Rightarrow> bool" where
  "is_tls_admission (Nvs (Some (MemoryError e)) s) = (s = ''tls_admission'' \<or> is_tls_admission e)"
| "is_tls_admission (Storage (Some (MemoryError e)) s) = (s = ''tls_admission'' \<or> is_tls_admission e)"
| "is_tls_admission (Other (MemoryError e) s) = (s = ''tls_admission'' \<or> is_tls_admission e)"
| "is_tls_admission e = (stage_of e = ''tls_admission'')"

definition connect_stage :: "string \<Rightarrow> bool" where
  "connect_stage s \<longleftrightarrow> s \<in> set [''http_post_request'', ''http_get_request'', ''http_post_submit'',
     ''http_get_submit'', ''http_client_replace'', ''http_read'']"

fun is_connect_error :: "error \<Rightarrow> bool" where
  "is_connect_error (Io _ s) = connect_stage s"
| "is_connect_error (Other (MemoryError e) s) = (connect_stage s \<or> is_connect_error e)"
| "is_connect_error (Other _ s) = connect_stage s"
| "is_connect_error (Nvs (Some (MemoryError e)) _) = is_connect_error e"
| "is_connect_error (Storage (Some (MemoryError e)) _) = is_connect_error e"
| "is_connect_error _ = False"

fun http_status_code :: "error \<Rightarrow> nat option" where
  "http_status_code (Http c _) = Some c"
| "http_status_code _ = None"

definition is_retryable_upstream :: "error \<Rightarrow> bool" where
  "is_retryable_upstream e \<longleftrightarrow>
     is_tls_admission e \<or> is_connect_error e \<or>
     (case http_status_code e of
        None \<Rightarrow> False
      | Some c \<Rightarrow> c \<in> {408, 409, 425, 429} \<or> (500 \<le> c \<and> c \<le> 599))"

fun with_stage :: "error \<Rightarrow> string \<Rightarrow> error" where
  "with_stage (Nvs src _) s = Nvs src s"
| "with_stage (Storage src _) s = Storage src s"
| "with_stage (Config m _) s = Config m s"
| "with_stage (InvalidInput m _) s = InvalidInput m s"
| "with_stage (NotFound m _) s = NotFound m s"
| "with_stage (Conflict m _) s = Conflict m s"
| "with_stage (Io src _) s = Io src s"
| "with_stage (Esp c _) s = Esp c s"
| "with_stage (Http c _) s = Http c s"
| "with_stage (Other src _) s = Other src s"

fun metrics_stage :: "error \<Rightarrow> string" where
  "metrics_stage (Nvs (Some (MemoryError e)) s) =
     (if s = ''tls_admission'' \<or> is_connect_error e then s else metrics_stage e)"
| "metrics_stage (Storage (Some (MemoryError e)) s) =
     (if s = ''tls_admission'' \<or> is_connect_error e then s else metrics_stage e)"
| "metrics_stage (Other (MemoryError e) s) =
     (if s = ''tls_admission'' \<or> connect_stage s \<or> is_connect_error e then s
      else metrics_stage e)"
| "metrics_stage e = stage_of e"

lemma stage_of_with_stage [simp]: "stage_of (with_stage e s) = s"
  by (cases e) auto

lemma nested_with_stage [simp]: "nested_memory_error (with_stage e s) = nested_memory_error e"
  by (cases e rule: nested_memory_error.cases) auto

text \<open>The class, and the HTTP status, survive a change of stage; so a wrapper may rename the stage freely.\<close>

lemma class_with_stage [simp]: "class_of (with_stage e s) = class_of e"
  by (cases e rule: class_of.cases) auto

lemma http_status_with_stage [simp]: "http_status_code (with_stage e s) = http_status_code e"
  by (cases e) auto

text \<open>The class of a wrapped error is the class of what it wraps, through any depth.\<close>

lemma class_nested: "nested_memory_error e = Some e' \<Longrightarrow> class_of e = class_of e'"
  by (cases e rule: nested_memory_error.cases) auto

section \<open>Display\<close>

fun dec :: "nat \<Rightarrow> string" where
  "dec n = (if n < 10 then [char_of (48 + n)] else dec (n div 10) @ [char_of (48 + n mod 10)])"

declare dec.simps [simp del]

definition dec_int :: "int \<Rightarrow> string" where
  "dec_int i = (if i < 0 then ''-'' @ dec (nat (- i)) else dec (nat i))"

definition at_stage :: "string \<Rightarrow> string \<Rightarrow> string" where
  "at_stage text s = text @ '' (stage: '' @ s @ '')''"

fun display_error :: "error \<Rightarrow> string" and display_source :: "error_source \<Rightarrow> string" where
  "display_error (Nvs _ s) = at_stage ''NVS'' s"
| "display_error (Storage _ s) = at_stage ''storage'' s"
| "display_error (Config m s) = at_stage (''config: '' @ m) s"
| "display_error (InvalidInput m s) = at_stage (''invalid input: '' @ m) s"
| "display_error (NotFound m s) = at_stage (''not found: '' @ m) s"
| "display_error (Conflict m s) = at_stage (''conflict: '' @ m) s"
| "display_error (Io src s) = at_stage (''IO: '' @ src) s"
| "display_error (Esp c s) = at_stage (''ESP-IDF: code='' @ dec_int c) s"
| "display_error (Http c s) = at_stage (''HTTP: status='' @ dec c) s"
| "display_error (Other src s) = at_stage (''other: '' @ display_source src) s"
| "display_source (MemoryError e) = display_error e"
| "display_source (ReadmissionRequired StaleOrExpired) = ''runtime budget report is stale or expired''"
| "display_source (ReadmissionRequired Superseded) =
     ''transaction admission is not the current exact runtime authority report''"
| "display_source (ForeignError text) = text"

end
