(* ===== verification/Rust_Prelude.thy ===== *)
theory Rust_Prelude
  imports Project_Error "HOL-Library.Char_ord" "HOL-Library.List_Lexorder" "HOL-Library.Product_Lexorder"
begin

text \<open>
  What every component shares: the \<open>Result\<close> discipline over the project's error type, the integer
  operations of the Rust standard library the sources use (saturating, checked,
  rounding up), strings as byte sequences with \<open>str::trim\<close>, and loops that stop at
  the first error.

  Unsigned integers are \<^typ>\<open>nat\<close> with the bound of the width written out where the
  source saturates or checks; \<open>usize\<close> is the 64-bit one. A \<open>String\<close> is the
  \<^typ>\<open>string\<close> of its UTF-8 bytes, so \<^const>\<open>length\<close> is \<open>str::len\<close> and the
  lexicographic order is Rust's order on \<open>String\<close>.
\<close>

named_theorems result_simps \<open>unfolding of Result combinators\<close>
named_theorems arith_defs \<open>definitions of the bounded integer operations\<close>

type_synonym usize = nat
type_synonym u64 = nat
type_synonym u32 = nat
type_synonym bytes = string

section \<open>Results\<close>

type_synonym 'a result = "error + 'a"

abbreviation Ok :: "'a \<Rightarrow> error + 'a" where "Ok \<equiv> Inr"
abbreviation Err :: "error \<Rightarrow> error + 'a" where "Err \<equiv> Inl"

text \<open>The \<open>?\<close> operator: continue with the value, or return the error.\<close>

definition and_then :: "'a result \<Rightarrow> ('a \<Rightarrow> 'b result) \<Rightarrow> 'b result" where
  "and_then r f = (case r of Inl e \<Rightarrow> Inl e | Inr x \<Rightarrow> f x)"

text \<open>An early return: \<open>ensure c e\<close> is \<open>if !c { return Err(e) }\<close>.\<close>

definition ensure :: "bool \<Rightarrow> error \<Rightarrow> unit result" where
  "ensure c e = (if c then Inr () else Inl e)"

definition ok_or :: "error \<Rightarrow> 'a option \<Rightarrow> 'a result" where
  "ok_or e x = (case x of None \<Rightarrow> Inl e | Some v \<Rightarrow> Inr v)"

lemma and_then_Ok [simp]: "and_then (Inr x) f = f x"
  by (simp add: and_then_def)

lemma and_then_Err [simp]: "and_then (Inl e) f = Inl e"
  by (simp add: and_then_def)

lemma and_then_eq_Ok [result_simps]:
  "and_then r f = Inr y \<longleftrightarrow> (\<exists>x. r = Inr x \<and> f x = Inr y)"
  by (auto simp: and_then_def split: sum.splits)

lemma and_then_eq_Err [result_simps]:
  "and_then r f = Inl e \<longleftrightarrow> r = Inl e \<or> (\<exists>x. r = Inr x \<and> f x = Inl e)"
  by (auto simp: and_then_def split: sum.splits)

lemma and_then_assoc: "and_then (and_then r f) g = and_then r (\<lambda>x. and_then (f x) g)"
  by (simp add: and_then_def split: sum.splits)

lemma ensure_eq_Ok [simp]: "ensure c e = Inr u \<longleftrightarrow> c"
  by (simp add: ensure_def)

lemma ensure_eq_Err [simp]: "ensure c e = Inl e' \<longleftrightarrow> \<not> c \<and> e' = e"
  by (auto simp: ensure_def)

lemma ensure_True [simp]: "ensure True e = Inr ()"
  by (simp add: ensure_def)

lemma ensure_False [simp]: "ensure False e = Inl e"
  by (simp add: ensure_def)

lemma if_Err_Ok [result_simps]: "(if c then Inl e else r) = Inr x \<longleftrightarrow> \<not> c \<and> r = Inr x"
  by simp

lemma ok_or_eq_Ok [simp]: "ok_or e x = Inr v \<longleftrightarrow> x = Some v"
  by (auto simp: ok_or_def split: option.splits)

lemma ok_or_Some [simp]: "ok_or e (Some v) = Inr v"
  by (simp add: ok_or_def)

text \<open>
  \<open>try_fold\<close> is a loop over a slice whose body may return early; \<open>collect_results\<close>
  is \<open>map(..).collect::<Result<Vec<_>>>()\<close>.
\<close>

fun try_fold :: "('a \<Rightarrow> 's \<Rightarrow> 's result) \<Rightarrow> 'a list \<Rightarrow> 's \<Rightarrow> 's result" where
  "try_fold f [] s = Inr s"
| "try_fold f (x # xs) s = and_then (f x s) (try_fold f xs)"

fun collect_results :: "('a \<Rightarrow> 'b result) \<Rightarrow> 'a list \<Rightarrow> 'b list result" where
  "collect_results f [] = Inr []"
| "collect_results f (x # xs) =
     and_then (f x) (\<lambda>y. and_then (collect_results f xs) (\<lambda>ys. Inr (y # ys)))"

definition for_each :: "('a \<Rightarrow> unit result) \<Rightarrow> 'a list \<Rightarrow> unit result" where
  "for_each f xs = try_fold (\<lambda>x _. f x) xs ()"

lemma for_each_Ok [result_simps]: "for_each f xs = Inr u \<longleftrightarrow> (\<forall>x \<in> set xs. f x = Inr ())"
  unfolding for_each_def by (induction xs) (auto simp: and_then_def split: sum.splits)

lemma try_fold_append:
  "try_fold f (xs @ ys) s = and_then (try_fold f xs s) (try_fold f ys)"
  by (induction xs arbitrary: s) (auto simp: and_then_def split: sum.splits)

lemma try_fold_invariant:
  assumes "try_fold f xs s = Inr t" and "I s"
    and "\<And>x s s'. x \<in> set xs \<Longrightarrow> I s \<Longrightarrow> f x s = Inr s' \<Longrightarrow> I s'"
  shows "I t"
  using assms
proof (induction xs arbitrary: s)
  case Nil
  then show ?case by simp
next
  case (Cons x xs)
  from Cons.prems(1) obtain u where u: "f x s = Inr u" "try_fold f xs u = Inr t"
    by (auto simp: result_simps)
  then have "I u" using Cons.prems(2,3) by force
  then show ?case using Cons.IH [OF u(2)] Cons.prems(3) by (meson list.set_intros(2))
qed

lemma collect_results_Ok:
  "collect_results f xs = Inr ys \<longleftrightarrow> list_all2 (\<lambda>x y. f x = Inr y) xs ys"
  by (induction xs arbitrary: ys) (auto simp: result_simps list_all2_Cons1)

section \<open>Bounded integers\<close>

definition usize_max :: nat where [arith_defs]: "usize_max = 2 ^ 64 - 1"
definition u64_max :: nat where [arith_defs]: "u64_max = 2 ^ 64 - 1"

definition saturating_add :: "nat \<Rightarrow> nat \<Rightarrow> nat" where
  [arith_defs]: "saturating_add a b = min (a + b) usize_max"

definition saturating_sub :: "nat \<Rightarrow> nat \<Rightarrow> nat" where
  [arith_defs]: "saturating_sub a b = (if a < b then 0 else a - b)"

definition saturating_mul :: "nat \<Rightarrow> nat \<Rightarrow> nat" where
  [arith_defs]: "saturating_mul a b = min (a * b) usize_max"

definition checked_add :: "nat \<Rightarrow> nat \<Rightarrow> nat option" where
  [arith_defs]: "checked_add a b = (if a + b \<le> usize_max then Some (a + b) else None)"

definition div_ceil :: "nat \<Rightarrow> nat \<Rightarrow> nat" where
  [arith_defs]: "div_ceil a b = a div b + (if a mod b = 0 then 0 else 1)"

lemma saturating_sub_minus [simp]: "saturating_sub a b = a - b"
  by (simp add: saturating_sub_def)

lemma saturating_add_exact: "a + b \<le> usize_max \<Longrightarrow> saturating_add a b = a + b"
  by (simp add: saturating_add_def)

lemma saturating_add_le: "saturating_add a b \<le> a + b"
  by (simp add: saturating_add_def)

lemma saturating_add_cases: "saturating_add a b = a + b \<or> saturating_add a b = usize_max"
  by (auto simp: saturating_add_def min_def)

lemma saturating_add_le_lt_max:
  "saturating_add a b \<le> c \<Longrightarrow> c < usize_max \<Longrightarrow> saturating_add a b = a + b"
  using saturating_add_cases [of a b] by auto

lemma checked_add_Some [simp]:
  "checked_add a b = Some c \<longleftrightarrow> c = a + b \<and> a + b \<le> usize_max"
  by (auto simp: checked_add_def)

lemma div_ceil_bounds: "0 < b \<Longrightarrow> a \<le> b * div_ceil a b \<and> b * div_ceil a b < a + b"
proof -
  assume b: "0 < b"
  have a: "a = b * (a div b) + a mod b" by simp
  have lt: "a mod b < b" using b by simp
  show ?thesis
  proof (cases "a mod b = 0")
    case True
    then have "b * div_ceil a b = a" using a by (simp add: div_ceil_def)
    then show ?thesis using b by simp
  next
    case False
    then have "b * div_ceil a b = b * (a div b) + b" by (simp add: div_ceil_def)
    then show ?thesis using a lt False by linarith
  qed
qed

section \<open>Strings as UTF-8 bytes\<close>

definition starts_with :: "string \<Rightarrow> string \<Rightarrow> bool" where
  "starts_with s p \<longleftrightarrow> take (length p) s = p"

definition strip_prefix :: "string \<Rightarrow> string \<Rightarrow> string option" where
  "strip_prefix p s = (if starts_with s p then Some (drop (length p) s) else None)"

text \<open>
  \<open>str::trim\<close> removes the characters with the Unicode White\_Space property at both
  ends; these are their UTF-8 encodings. In a well-formed string an encoding found at
  the front or at the back is a whole character, since each begins with a leading byte.
\<close>

definition white_space :: "string list" where
  "white_space = map (map char_of)
     [[0x09], [0x0A], [0x0B], [0x0C], [0x0D], [0x20 :: nat], [0xC2, 0x85], [0xC2, 0xA0],
      [0xE1, 0x9A, 0x80], [0xE2, 0x80, 0x80], [0xE2, 0x80, 0x81], [0xE2, 0x80, 0x82],
      [0xE2, 0x80, 0x83], [0xE2, 0x80, 0x84], [0xE2, 0x80, 0x85], [0xE2, 0x80, 0x86],
      [0xE2, 0x80, 0x87], [0xE2, 0x80, 0x88], [0xE2, 0x80, 0x89], [0xE2, 0x80, 0x8A],
      [0xE2, 0x80, 0xA8], [0xE2, 0x80, 0xA9], [0xE2, 0x80, 0xAF], [0xE2, 0x81, 0x9F],
      [0xE3, 0x80, 0x80]]"

lemma white_space_nonempty: "w \<in> set white_space \<Longrightarrow> 0 < length w"
  by (auto simp: white_space_def)

definition leading_ws :: "string \<Rightarrow> string option" where
  "leading_ws s = find (starts_with s) white_space"

lemma leading_ws_length: "leading_ws s = Some w \<Longrightarrow> length s - length w < length s"
proof -
  assume "leading_ws s = Some w"
  then have "w \<in> set white_space" "starts_with s w"
    by (auto simp: leading_ws_def find_Some_iff set_conv_nth)
  then have "0 < length w" "length w \<le> length s"
    using white_space_nonempty by (auto simp: starts_with_def dest: arg_cong [where f = length])
  then show ?thesis by linarith
qed

function trim_start :: "string \<Rightarrow> string" where
  "trim_start s = (case leading_ws s of None \<Rightarrow> s | Some w \<Rightarrow> trim_start (drop (length w) s))"
  by pat_completeness auto
termination
  by (relation "measure length") (auto dest: leading_ws_length)

declare trim_start.simps [simp del]

definition trailing_ws :: "string \<Rightarrow> string option" where
  "trailing_ws s = find (\<lambda>w. starts_with (rev s) (rev w)) white_space"

lemma trailing_ws_length: "trailing_ws s = Some w \<Longrightarrow> length s - length w < length s"
proof -
  assume "trailing_ws s = Some w"
  then have "w \<in> set white_space" "starts_with (rev s) (rev w)"
    by (auto simp: trailing_ws_def find_Some_iff set_conv_nth)
  then have "0 < length w" "length w \<le> length s"
    using white_space_nonempty by (auto simp: starts_with_def dest: arg_cong [where f = length])
  then show ?thesis by linarith
qed

function trim_end :: "string \<Rightarrow> string" where
  "trim_end s = (case trailing_ws s of
     None \<Rightarrow> s | Some w \<Rightarrow> trim_end (take (length s - length w) s))"
  by pat_completeness auto
termination
  by (relation "measure length") (auto dest: trailing_ws_length)

declare trim_end.simps [simp del]

definition trim :: "string \<Rightarrow> string" where
  "trim s = trim_end (trim_start s)"

lemma trim_start_length: "length (trim_start s) \<le> length s"
proof (induction s rule: trim_start.induct)
  case (1 s)
  show ?case
  proof (cases "leading_ws s")
    case None
    then show ?thesis by (simp add: trim_start.simps [of s])
  next
    case (Some w)
    from "1.IH" [OF Some] show ?thesis
      by (simp add: trim_start.simps [of s] Some)
  qed
qed

lemma trim_end_length: "length (trim_end s) \<le> length s"
proof (induction s rule: trim_end.induct)
  case (1 s)
  show ?case
  proof (cases "trailing_ws s")
    case None
    then show ?thesis by (simp add: trim_end.simps [of s])
  next
    case (Some w)
    from "1.IH" [OF Some] show ?thesis
      by (simp add: trim_end.simps [of s] Some)
  qed
qed

lemma trim_length: "length (trim s) \<le> length s"
  using trim_start_length trim_end_length le_trans unfolding trim_def by blast

lemmas trim_eval = trim_def trim_start.simps trim_end.simps leading_ws_def trailing_ws_def
  white_space_def starts_with_def

text \<open>A string that starts with an ASCII letter is not blank.\<close>

lemma white_space_no_r: "w \<in> set white_space \<Longrightarrow> CHR ''r'' \<notin> set w"
proof -
  have "list_all (\<lambda>w. list_all (\<lambda>c. of_char c \<noteq> (114 :: nat)) w) white_space"
    by (simp add: white_space_def of_char_of)
  then show "w \<in> set white_space \<Longrightarrow> CHR ''r'' \<notin> set w" by (force simp: list_all_iff)
qed

lemma trim_end_starts_r: "\<exists>t. trim_end (CHR ''r'' # s) = CHR ''r'' # t"
proof (induction "length s" arbitrary: s rule: less_induct)
  case less
  show ?case
  proof (cases "trailing_ws (CHR ''r'' # s)")
    case None
    then show ?thesis by (simp add: trim_end.simps [of "CHR ''r'' # s"])
  next
    case (Some w)
    then have w: "w \<in> set white_space" "starts_with (rev (CHR ''r'' # s)) (rev w)"
      by (auto simp: trailing_ws_def find_Some_iff set_conv_nth)
    then have "rev w = take (length w) (rev s @ [CHR ''r''])" by (simp add: starts_with_def)
    moreover from this have "CHR ''r'' \<notin> set (take (length w) (rev s @ [CHR ''r'']))"
      using white_space_no_r [OF w(1)] by (metis set_rev)
    ultimately have "length w \<le> length s" by (cases "length w \<le> length s") auto
    moreover have "0 < length w" using w(1) by (rule white_space_nonempty)
    ultimately have "take (length (CHR ''r'' # s) - length w) (CHR ''r'' # s) = CHR ''r'' # take (length s - length w) s"
      "length (take (length s - length w) s) < length s"
      by (simp_all add: Suc_diff_le del: length_greater_0_conv)
    then show ?thesis using less by (simp add: trim_end.simps [of "CHR ''r'' # s"] Some)
  qed
qed

lemma trim_starts_r: "trim (CHR ''r'' # s) \<noteq> []"
proof -
  have "\<not> starts_with (CHR ''r'' # s) w" if "w \<in> set white_space" for w
    using white_space_no_r [OF that] white_space_nonempty [OF that]
    by (cases w) (auto simp: starts_with_def)
  then have "leading_ws (CHR ''r'' # s) = None" by (simp add: leading_ws_def find_None_iff)
  then show ?thesis
    using trim_end_starts_r [of s] by (auto simp: trim_def trim_start.simps [of "CHR ''r'' # s"])
qed

end
