(* ===== verification/Profiles.thy ===== *)
theory Profiles
  imports Rust_Prelude
begin

text \<open>
  Deployment targets, roles and profiles of \<^verbatim>\<open>core/src/feature_gate.rs\<close>, and the
  pressure level of \<^verbatim>\<open>core/src/orchestrator.rs\<close>. A profile is a pair of a target and a
  role; its name is the two names joined by a plus sign.
\<close>

datatype target_feature = Esp_target | LinuxDevice | DesktopMacos | DesktopLinux | DesktopWindows | ServerLinux

datatype role_feature = StandaloneMemory | EmbeddedSdk | MemoryGateway | DevFull

datatype profile_id =
    EspStandaloneMemory
  | EspEmbeddedSdk
  | LinuxDeviceStandaloneMemory
  | DesktopMacosStandaloneMemory
  | DesktopMacosEmbeddedSdk
  | DesktopMacosDevFull
  | DesktopLinuxEmbeddedSdk
  | DesktopWindowsEmbeddedSdk
  | DesktopWindowsDevFull
  | ServerLinuxMemoryGateway
  | ServerLinuxDevFull

datatype pressure_level = Normal | Cautious | Critical

fun target_as_str :: "target_feature \<Rightarrow> string" where
  "target_as_str Esp_target = ''target-esp''"
| "target_as_str LinuxDevice = ''target-linux-device''"
| "target_as_str DesktopMacos = ''target-desktop-macos''"
| "target_as_str DesktopLinux = ''target-desktop-linux''"
| "target_as_str DesktopWindows = ''target-desktop-windows''"
| "target_as_str ServerLinux = ''target-server-linux''"

fun role_as_str :: "role_feature \<Rightarrow> string" where
  "role_as_str StandaloneMemory = ''role-standalone-memory''"
| "role_as_str EmbeddedSdk = ''role-embedded-sdk''"
| "role_as_str MemoryGateway = ''role-memory-gateway''"
| "role_as_str DevFull = ''role-dev-full''"

fun profile_as_str :: "profile_id \<Rightarrow> string" where
  "profile_as_str EspStandaloneMemory = ''target-esp+role-standalone-memory''"
| "profile_as_str EspEmbeddedSdk = ''target-esp+role-embedded-sdk''"
| "profile_as_str LinuxDeviceStandaloneMemory = ''target-linux-device+role-standalone-memory''"
| "profile_as_str DesktopMacosStandaloneMemory = ''target-desktop-macos+role-standalone-memory''"
| "profile_as_str DesktopMacosEmbeddedSdk = ''target-desktop-macos+role-embedded-sdk''"
| "profile_as_str DesktopMacosDevFull = ''target-desktop-macos+role-dev-full''"
| "profile_as_str DesktopLinuxEmbeddedSdk = ''target-desktop-linux+role-embedded-sdk''"
| "profile_as_str DesktopWindowsEmbeddedSdk = ''target-desktop-windows+role-embedded-sdk''"
| "profile_as_str DesktopWindowsDevFull = ''target-desktop-windows+role-dev-full''"
| "profile_as_str ServerLinuxMemoryGateway = ''target-server-linux+role-memory-gateway''"
| "profile_as_str ServerLinuxDevFull = ''target-server-linux+role-dev-full''"

fun profile_target :: "profile_id \<Rightarrow> target_feature" where
  "profile_target EspStandaloneMemory = Esp_target"
| "profile_target EspEmbeddedSdk = Esp_target"
| "profile_target LinuxDeviceStandaloneMemory = LinuxDevice"
| "profile_target DesktopMacosStandaloneMemory = DesktopMacos"
| "profile_target DesktopMacosEmbeddedSdk = DesktopMacos"
| "profile_target DesktopMacosDevFull = DesktopMacos"
| "profile_target DesktopLinuxEmbeddedSdk = DesktopLinux"
| "profile_target DesktopWindowsEmbeddedSdk = DesktopWindows"
| "profile_target DesktopWindowsDevFull = DesktopWindows"
| "profile_target ServerLinuxMemoryGateway = ServerLinux"
| "profile_target ServerLinuxDevFull = ServerLinux"

fun profile_role :: "profile_id \<Rightarrow> role_feature" where
  "profile_role EspStandaloneMemory = StandaloneMemory"
| "profile_role LinuxDeviceStandaloneMemory = StandaloneMemory"
| "profile_role DesktopMacosStandaloneMemory = StandaloneMemory"
| "profile_role EspEmbeddedSdk = EmbeddedSdk"
| "profile_role DesktopMacosEmbeddedSdk = EmbeddedSdk"
| "profile_role DesktopLinuxEmbeddedSdk = EmbeddedSdk"
| "profile_role DesktopWindowsEmbeddedSdk = EmbeddedSdk"
| "profile_role ServerLinuxMemoryGateway = MemoryGateway"
| "profile_role DesktopMacosDevFull = DevFull"
| "profile_role DesktopWindowsDevFull = DevFull"
| "profile_role ServerLinuxDevFull = DevFull"

fun pressure_as_str :: "pressure_level \<Rightarrow> string" where
  "pressure_as_str Normal = ''Normal''"
| "pressure_as_str Cautious = ''Cautious''"
| "pressure_as_str Critical = ''Critical''"

text \<open>The derived order of the levels is their discriminant order.\<close>

fun pressure_rank :: "pressure_level \<Rightarrow> nat" where
  "pressure_rank Normal = 0"
| "pressure_rank Cautious = 1"
| "pressure_rank Critical = 2"

instantiation pressure_level :: linorder
begin

definition less_eq_pressure_level :: "pressure_level \<Rightarrow> pressure_level \<Rightarrow> bool" where
  "less_eq_pressure_level p q \<longleftrightarrow> pressure_rank p \<le> pressure_rank q"

definition less_pressure_level :: "pressure_level \<Rightarrow> pressure_level \<Rightarrow> bool" where
  "less_pressure_level p q \<longleftrightarrow> pressure_rank p < pressure_rank q"

instance
proof
  fix p q r :: pressure_level
  show "p \<le> q \<Longrightarrow> q \<le> p \<Longrightarrow> p = q"
    by (cases p; cases q) (simp_all add: less_eq_pressure_level_def)
qed (auto simp: less_eq_pressure_level_def less_pressure_level_def)

end

lemma profile_name: "profile_as_str p = target_as_str (profile_target p) @ ''+'' @ role_as_str (profile_role p)"
  by (cases p) simp_all

text \<open>Target and role identify the profile, and so does the name.\<close>

lemma profile_by_target_role:
  "profile_target p = profile_target q \<Longrightarrow> profile_role p = profile_role q \<Longrightarrow> p = q"
  by (cases p; cases q) simp_all

lemma profile_as_str_inject [simp]: "profile_as_str p = profile_as_str q \<longleftrightarrow> p = q"
  by (cases p; cases q) simp_all

end
