(* ===== verification/Resource.thy ===== *)
theory Resource
  imports Profiles
begin

text \<open>
  Runtime resource observations of \<^verbatim>\<open>core/src/resource.rs\<close>: what a probe reports, how
  long the report counts as current, the snapshot cache with its two clocks, and the rule
  that turns free memory into a pressure level.

  The probe itself (operating-system calls or firmware) is outside the model: a caller
  passes the outcome of one probe as a \<open>result\<close>. The monotonic clock of the host is a
  number of milliseconds passed to the operations that read it.
\<close>

datatype probe_source =
  Source_Unavailable | StaticManifest | FirmwareManifest | HostMacos | HostLinux | HostWindows | HostOther

fun probe_source_as_str :: "probe_source \<Rightarrow> string" where
  "probe_source_as_str Source_Unavailable = ''unavailable''"
| "probe_source_as_str StaticManifest = ''static_manifest''"
| "probe_source_as_str FirmwareManifest = ''firmware_manifest''"
| "probe_source_as_str HostMacos = ''host_macos''"
| "probe_source_as_str HostLinux = ''host_linux''"
| "probe_source_as_str HostWindows = ''host_windows''"
| "probe_source_as_str HostOther = ''host_other''"

datatype unavailable_reason =
  ProbeNotConfigured | ProbeFailed | SnapshotStale | MemoryUnavailable | StorageUnavailable

fun reason_as_str :: "unavailable_reason \<Rightarrow> string" where
  "reason_as_str ProbeNotConfigured = ''probe_not_configured''"
| "reason_as_str ProbeFailed = ''probe_failed''"
| "reason_as_str SnapshotStale = ''snapshot_stale''"
| "reason_as_str MemoryUnavailable = ''memory_unavailable''"
| "reason_as_str StorageUnavailable = ''storage_unavailable''"

record observation =
  observed_at_unix_secs :: u64
  ttl_ms :: u64
  stale :: bool
  pressure :: pressure_level
  available_parallelism :: "nat option"
  memory_total_bytes :: "u64 option"
  memory_available_bytes :: "u64 option"
  internal_heap_free_bytes :: "u64 option"
  internal_heap_minimum_free_bytes :: "u64 option"
  internal_heap_largest_block_bytes :: "u64 option"
  psram_total_bytes :: "u64 option"
  psram_free_bytes :: "u64 option"
  psram_largest_block_bytes :: "u64 option"
  storage_total_bytes :: "u64 option"
  storage_available_bytes :: "u64 option"
  unavailable_reason :: "unavailable_reason option"
  unavailable_detail :: "string option"

text \<open>A snapshot dereferences to its observation; the source is the only extra field.\<close>

record snapshot = observation +
  source :: probe_source

definition observation_unavailable :: "u64 \<Rightarrow> unavailable_reason \<Rightarrow> observation" where
  "observation_unavailable observed_at reason =
     \<lparr> observed_at_unix_secs = observed_at, ttl_ms = 30000, stale = False, pressure = Cautious,
       available_parallelism = None, memory_total_bytes = None, memory_available_bytes = None,
       internal_heap_free_bytes = None, internal_heap_minimum_free_bytes = None,
       internal_heap_largest_block_bytes = None, psram_total_bytes = None,
       psram_free_bytes = None, psram_largest_block_bytes = None, storage_total_bytes = None,
       storage_available_bytes = None, unavailable_reason = Some reason,
       unavailable_detail = None \<rparr>"

definition with_unavailable_detail :: "'a observation_scheme \<Rightarrow> string \<Rightarrow> 'a observation_scheme" where
  "with_unavailable_detail s detail = s\<lparr>unavailable_detail := Some detail\<rparr>"

definition mark_stale :: "'a observation_scheme \<Rightarrow> 'a observation_scheme" where
  "mark_stale s =
     (let s = s\<lparr>stale := True\<rparr>;
          s = (if pressure s = Normal then s\<lparr>pressure := Cautious\<rparr> else s)
      in s\<lparr>unavailable_reason := Some SnapshotStale\<rparr>)"

definition is_expired :: "'a observation_scheme \<Rightarrow> u64 \<Rightarrow> bool" where
  "is_expired s now_secs \<longleftrightarrow>
     (if now_secs < observed_at_unix_secs s then True
      else div_ceil (ttl_ms s) 1000 \<le> now_secs - observed_at_unix_secs s)"

definition from_observation :: "probe_source \<Rightarrow> observation \<Rightarrow> snapshot" where
  "from_observation src ob = observation.extend ob \<lparr>source = src\<rparr>"

definition snapshot_unavailable :: "u64 \<Rightarrow> probe_source \<Rightarrow> unavailable_reason \<Rightarrow> snapshot" where
  "snapshot_unavailable observed_at src reason =
     from_observation src (observation_unavailable observed_at reason)"

section \<open>Pressure\<close>

definition pressure_from_resources :: "u64 option \<Rightarrow> u64 option \<Rightarrow> pressure_level" where
  "pressure_from_resources memory_total memory_available =
     (case memory_available of
        None \<Rightarrow> Cautious
      | Some available \<Rightarrow>
          if available < 64 * 1024 * 1024 then Critical
          else if available < 256 * 1024 * 1024 then Cautious
          else (case memory_total of
                  None \<Rightarrow> Normal
                | Some memory_tot \<Rightarrow>
                    if 0 < memory_tot \<and> saturating_mul available 100 div memory_tot < 5 then Critical
                    else if 0 < memory_tot \<and> saturating_mul available 100 div memory_tot < 15 then Cautious
                    else Normal))"

text \<open>
  The observation of a host probe: the memory and storage figures are what the operating
  system reports; \<open>storage_path_given\<close> tells whether the probe is bound to a path.
\<close>

definition host_probe ::
  "u64 \<Rightarrow> bool \<Rightarrow> u64 option \<times> u64 option \<Rightarrow> u64 option \<times> u64 option \<Rightarrow> nat option \<Rightarrow> observation" where
  "host_probe now_secs storage_path_given host_memory host_storage parallelism =
     (let (memory_total, memory_available) = host_memory;
          (storage_total, storage_available) = (if storage_path_given then host_storage else (None, None));
          ob = \<lparr> observed_at_unix_secs = now_secs, ttl_ms = 30000, stale = False,
             pressure = pressure_from_resources memory_total memory_available,
             available_parallelism = parallelism, memory_total_bytes = memory_total,
             memory_available_bytes = memory_available, internal_heap_free_bytes = None,
             internal_heap_minimum_free_bytes = None, internal_heap_largest_block_bytes = None,
             psram_total_bytes = None, psram_free_bytes = None, psram_largest_block_bytes = None,
             storage_total_bytes = storage_total, storage_available_bytes = storage_available,
             unavailable_reason = None, unavailable_detail = None \<rparr>;
          ob = (if memory_total = None \<and> memory_available = None
                then ob\<lparr>unavailable_reason := Some MemoryUnavailable\<rparr> else ob)
      in if storage_path_given \<and> storage_total = None \<and> storage_available = None
         then ob\<lparr>unavailable_reason := (case unavailable_reason ob of
                None \<Rightarrow> Some StorageUnavailable | Some r \<Rightarrow> Some r)\<rparr>
         else ob)"

section \<open>Probe registration\<close>

datatype host_storage_observation = Host_VolatileMemory | Host_PersistentFilesystem

record probe_registration =
  attested_source :: probe_source
  host_storage_observation :: "host_storage_observation option"

definition registration_host :: "probe_source \<Rightarrow> host_storage_observation \<Rightarrow> probe_registration" where
  "registration_host compiled_source observed =
     \<lparr> attested_source = compiled_source, host_storage_observation = Some observed \<rparr>"

definition registration_firmware :: probe_registration where
  "registration_firmware = \<lparr> attested_source = FirmwareManifest, host_storage_observation = None \<rparr>"

definition storage_observation :: "string option \<Rightarrow> host_storage_observation" where
  "storage_observation storage_path =
     (if storage_path \<noteq> None then Host_PersistentFilesystem else Host_VolatileMemory)"

text \<open>The registration stamps its own source on whatever the probe reports.\<close>

definition probe_snapshot :: "probe_registration \<Rightarrow> observation result \<Rightarrow> snapshot result" where
  "probe_snapshot reg probe = and_then probe (\<lambda>ob. Inr (from_observation (attested_source reg) ob))"

section \<open>Snapshot cache\<close>

text \<open>
  \<open>Instant\<close> is a monotonic clock reading in milliseconds; \<open>instant_max\<close> is the last
  instant the host clock can represent.
\<close>

type_synonym instant = nat

definition instant_max :: instant where
  "instant_max = (2 ^ 63 - 1) * 1000 + 999"

record snapshot_cache =
  sc_snapshot :: snapshot
  refresh_deadline :: instant

definition monotonic_refresh_deadline :: "instant \<Rightarrow> u64 \<Rightarrow> instant" where
  "monotonic_refresh_deadline tick ttl = (if tick + ttl \<le> instant_max then tick + ttl else tick)"

definition cache_new :: "instant \<Rightarrow> snapshot \<Rightarrow> snapshot_cache" where
  "cache_new tick s = \<lparr> sc_snapshot = s, refresh_deadline = monotonic_refresh_deadline tick (ttl_ms s) \<rparr>"

definition requires_refresh :: "snapshot_cache \<Rightarrow> u64 \<Rightarrow> instant \<Rightarrow> bool" where
  "requires_refresh c now_secs tick \<longleftrightarrow>
     stale (sc_snapshot c) \<or> is_expired (sc_snapshot c) now_secs \<or> refresh_deadline c \<le> tick"

definition cache_current :: "snapshot_cache \<Rightarrow> u64 \<Rightarrow> instant \<Rightarrow> snapshot" where
  "cache_current c now_secs tick =
     (if \<not> stale (sc_snapshot c) \<and> requires_refresh c now_secs tick
      then mark_stale (sc_snapshot c) else sc_snapshot c)"

definition cache_replace :: "snapshot_cache \<Rightarrow> instant \<Rightarrow> snapshot \<Rightarrow> snapshot_cache" where
  "cache_replace c tick s =
     c\<lparr>refresh_deadline := monotonic_refresh_deadline tick (ttl_ms s), sc_snapshot := s\<rparr>"

section \<open>Lemmas\<close>

lemma mark_stale_fields [simp]:
  "stale (mark_stale s)"
  "unavailable_reason (mark_stale s) = Some SnapshotStale"
  "observed_at_unix_secs (mark_stale s) = observed_at_unix_secs s"
  "ttl_ms (mark_stale s) = ttl_ms s"
  "memory_available_bytes (mark_stale s) = memory_available_bytes s"
  "storage_available_bytes (mark_stale s) = storage_available_bytes s"
  by (simp_all add: mark_stale_def Let_def)

lemma mark_stale_pressure: "pressure (mark_stale s) = max (pressure s) Cautious"
  by (cases "pressure s") (simp_all add: mark_stale_def Let_def max_def less_eq_pressure_level_def)

text \<open>Expiry never reverses while the wall clock moves forward from the observation.\<close>

lemma is_expired_mono:
  "is_expired s now \<Longrightarrow> observed_at_unix_secs s \<le> now \<Longrightarrow> now \<le> later \<Longrightarrow> is_expired s later"
  by (auto simp: is_expired_def)

lemma fresh_iff:
  "\<not> is_expired s now \<longleftrightarrow>
     observed_at_unix_secs s \<le> now \<and> (now - observed_at_unix_secs s) * 1000 < ttl_ms s"
proof -
  have "div_ceil t 1000 \<le> d \<longleftrightarrow> t \<le> d * 1000" for t d :: nat
    using div_ceil_bounds [of 1000 t] by auto
  then show ?thesis by (auto simp: is_expired_def not_le)
qed

lemma from_observation_sel [simp]:
  "source (from_observation src ob) = src"
  "observed_at_unix_secs (from_observation src ob) = observed_at_unix_secs ob"
  "ttl_ms (from_observation src ob) = ttl_ms ob"
  "stale (from_observation src ob) = stale ob"
  "pressure (from_observation src ob) = pressure ob"
  "unavailable_reason (from_observation src ob) = unavailable_reason ob"
  by (simp_all add: from_observation_def observation.defs)

lemma probe_snapshot_Ok [result_simps]:
  "probe_snapshot reg probe = Inr s \<longleftrightarrow>
     (\<exists>ob. probe = Inr ob \<and> s = from_observation (attested_source reg) ob)"
  by (auto simp: probe_snapshot_def result_simps)

lemma snapshot_unavailable_sel [simp]:
  "source (snapshot_unavailable t src r) = src"
  "observed_at_unix_secs (snapshot_unavailable t src r) = t"
  "ttl_ms (snapshot_unavailable t src r) = 30000"
  "\<not> stale (snapshot_unavailable t src r)"
  "pressure (snapshot_unavailable t src r) = Cautious"
  "unavailable_reason (snapshot_unavailable t src r) = Some r"
  by (simp_all add: snapshot_unavailable_def observation_unavailable_def)

lemma with_unavailable_detail_sel [simp]:
  "observed_at_unix_secs (with_unavailable_detail s d) = observed_at_unix_secs s"
  "ttl_ms (with_unavailable_detail s d) = ttl_ms s"
  "stale (with_unavailable_detail s d) = stale s"
  "pressure (with_unavailable_detail s d) = pressure s"
  "is_expired (with_unavailable_detail s d) n = is_expired s n"
  by (simp_all add: with_unavailable_detail_def is_expired_def)

text \<open>
  Less free memory never lowers the pressure within the range where the ratio to the total
  decides, nor in the range below the critical floor.
\<close>

lemma pressure_antimono:
  assumes "a \<le> b" and "a < 64 * 1024 * 1024 \<or> 256 * 1024 * 1024 \<le> a \<or> t = None"
  shows "pressure_from_resources t (Some b) \<le> pressure_from_resources t (Some a)"
proof (cases t)
  case (Some memory_tot)
  have "saturating_mul a 100 div memory_tot \<le> saturating_mul b 100 div memory_tot"
    using assms(1) by (simp add: div_le_mono saturating_mul_def min_def)
  then show ?thesis
    using assms Some
    by (auto simp: pressure_from_resources_def less_eq_pressure_level_def)
qed (use assms in \<open>auto simp: pressure_from_resources_def less_eq_pressure_level_def\<close>)

end
