(* ===== verification/Budget_Types.thy ===== *)
theory Budget_Types
  imports Resource
begin

text \<open>
  The data of \<^verbatim>\<open>core/src/budget.rs\<close>: the static platform manifest, the budgets of the
  components, and the report that bundles them. Field names carry a two-letter prefix for
  the structure they belong to, since several structures of the source share field names.
\<close>

section \<open>Manifest and provider limit\<close>

datatype store_medium = VolatileMemory | PersistentFilesystem | EmbeddedFlash

fun store_medium_as_str :: "store_medium \<Rightarrow> string" where
  "store_medium_as_str VolatileMemory = ''volatile_memory''"
| "store_medium_as_str PersistentFilesystem = ''persistent_filesystem''"
| "store_medium_as_str EmbeddedFlash = ''embedded_flash''"

record static_platform_manifest =
  sm_manifest_id :: string
  sm_profile :: profile_id
  sm_deployment_target :: target_feature
  sm_deployment_role :: role_feature
  sm_store_medium :: store_medium
  sm_memory_floor_bytes :: u64
  sm_storage_floor_bytes :: u64
  sm_notes :: "string list"

record provider_model_context_limit =
  pl_provider :: "string option"
  pl_model :: "string option"
  pl_max_context_tokens :: "usize option"
  pl_max_prompt_chars :: "usize option"

record runtime_budget_input =
  in_profile :: profile_id
  in_resource_snapshot :: snapshot
  in_static_platform_manifest :: static_platform_manifest
  in_provider_model_context_limit :: "provider_model_context_limit option"

section \<open>Budgets of the components\<close>

record memory_core_budget =
  mc_profile_max_records :: usize
  mc_recall_working_set_max_items :: usize
  mc_long_term_scan_max_items :: usize

record graph_expansion_runtime_budget =
  ge_max_hops :: nat
  ge_max_seed_candidates :: usize
  ge_max_expanded_candidates :: usize
  ge_max_neighbors_per_candidate :: usize
  ge_max_graph_nodes_loaded :: usize
  ge_max_graph_edges_loaded :: usize
  ge_max_backlinks_loaded :: usize
  ge_compact_graph_node_limit :: usize
  ge_compact_graph_edge_limit :: usize
  ge_default_recall_multi_hop_allowed :: bool
  ge_eval_recall_multi_hop_allowed :: bool

record facet_recall_runtime_budget =
  fr_max_query_facets :: usize
  fr_max_facet_index_docs_read :: usize
  fr_max_facet_anchor_candidates :: usize
  fr_max_facet_expanded_candidates :: usize

record recall_delivery_runtime_budget =
  rd_max_selected_candidates :: usize
  rd_max_rendered_capsules :: usize
  rd_max_capsule_chars :: usize
  rd_max_loss_ledger_entries :: usize

record governed_state_runtime_budget =
  gs_max_validity_joins :: usize
  gs_max_lineage_depth :: usize
  gs_max_retained_long_term_revisions_per_owner :: usize
  gs_max_retained_runtime_skill_owners_per_scope :: usize
  gs_max_runtime_skill_lineage_depth :: usize
  gs_max_agent_tool_experience_owners_per_subject :: usize
  gs_max_agent_tool_experience_revisions_per_owner :: usize
  gs_max_agent_tool_experience_evidence_refs_per_owner :: usize
  gs_max_as_of_candidates :: usize
  gs_max_obsolete_decisions :: usize
  gs_max_procedural_candidates :: usize
  gs_max_premises_per_skill :: usize
  gs_max_premise_evidence_reads :: usize
  gs_max_state_transitions_per_write :: usize
  gs_max_subject_soul_manifest_entries :: usize
  gs_max_subject_soul_revisions_per_generation :: usize
  gs_max_subject_soul_generation_tombstones :: usize
  gs_max_subject_soul_transaction_mutations :: usize

record evidence_document_runtime_budget =
  ed_max_document_bytes :: usize
  ed_max_document_body_bytes :: usize
  ed_max_chunk_bytes :: usize
  ed_max_chunks_per_document :: usize
  ed_max_documents_per_transaction :: usize
  ed_max_documents_per_read :: usize
  ed_max_total_bytes_per_transaction :: usize

record store_runtime_budget =
  sb_metric_source_max_items :: usize
  sb_event_log_max_items :: usize
  sb_kv_max_entries :: usize
  sb_blob_max_bytes :: usize
  sb_snapshot_max_bytes :: usize
  sb_logical_namespace_max_bytes :: usize
  sb_logical_key_max_bytes :: usize
  sb_event_record_key_max_bytes :: usize
  sb_export_max_bytes :: usize
  sb_import_max_bytes :: usize

record adapter_runtime_budget =
  ad_http_header_max_bytes :: usize
  ad_http_body_max_bytes :: usize
  ad_wss_frame_max_bytes :: usize
  ad_wss_max_subscriptions :: usize
  ad_wss_session_max_frames :: usize

record projection_source_budget =
  ps_context_assembly_max_chars :: usize
  ps_recent_messages_limit :: usize
  ps_recall_candidate_max_items :: usize

record projection_render_budget =
  pr_system_block_max_chars :: usize
  pr_provider_prompt_max_chars :: "usize option"

record maintenance_budget =
  mb_user_input_max_chars :: usize
  mb_user_input_max_bytes :: usize
  mb_reply_input_max_chars :: usize
  mb_reply_input_max_bytes :: usize

record runtime_job_budget =
  rj_max_concurrent_jobs :: usize
  rj_max_background_jobs :: usize
  rj_maintenance_batch_max_items :: usize

record llm_gateway_budget =
  lg_runtime_cache_max_runtimes :: usize
  lg_projection_render_max_chars :: usize
  lg_recent_messages_limit :: usize
  lg_maintenance_user_max_chars :: usize
  lg_maintenance_reply_max_chars :: usize
  lg_buffered_json_max_bytes :: usize
  lg_stream_chunk_max_bytes :: usize
  lg_stream_event_max_bytes :: usize
  lg_stream_max_events :: usize
  lg_response_body_max_bytes :: usize

record transcript_governance_budget =
  tg_transcript_page_size :: usize
  tg_host_refs_per_turn :: usize
  tg_max_attrs_per_turn :: usize
  tg_max_attrs_per_message :: usize
  tg_redaction_items_per_page :: usize
  tg_derived_refs_per_report :: usize
  tg_repair_issues_per_report :: usize

section \<open>The report\<close>

record runtime_budget_report =
  rb_report_id :: string
  rb_profile :: profile_id
  rb_deployment_target :: target_feature
  rb_deployment_role :: role_feature
  rb_store_medium :: store_medium
  rb_resource_snapshot :: snapshot
  rb_static_platform_manifest :: static_platform_manifest
  rb_provider_model_context_limit :: "provider_model_context_limit option"
  rb_memory_core_budget :: memory_core_budget
  rb_graph_expansion_budget :: graph_expansion_runtime_budget
  rb_facet_recall_budget :: facet_recall_runtime_budget
  rb_recall_delivery_budget :: recall_delivery_runtime_budget
  rb_governed_state_budget :: governed_state_runtime_budget
  rb_evidence_document_budget :: evidence_document_runtime_budget
  rb_store_budget :: store_runtime_budget
  rb_adapter_budget :: adapter_runtime_budget
  rb_projection_source_budget :: projection_source_budget
  rb_projection_render_budget :: projection_render_budget
  rb_maintenance_budget :: maintenance_budget
  rb_runtime_job_budget :: runtime_job_budget
  rb_llm_gateway_budget :: llm_gateway_budget
  rb_transcript_governance_budget :: transcript_governance_budget
  rb_limited_by :: "string list"
  rb_unavailable_reasons :: "string list"

section \<open>Comparing budgets\<close>

text \<open>
  The numeric fields of each budget, in declaration order. One budget is within another
  when each field is at most the other's.
\<close>

definition mc_fields :: "memory_core_budget \<Rightarrow> nat list" where
  "mc_fields b = [mc_profile_max_records b, mc_recall_working_set_max_items b,
     mc_long_term_scan_max_items b]"

definition ge_fields :: "graph_expansion_runtime_budget \<Rightarrow> nat list" where
  "ge_fields b = [ge_max_hops b, ge_max_seed_candidates b, ge_max_expanded_candidates b,
     ge_max_neighbors_per_candidate b, ge_max_graph_nodes_loaded b,
     ge_max_graph_edges_loaded b, ge_max_backlinks_loaded b,
     ge_compact_graph_node_limit b, ge_compact_graph_edge_limit b]"

definition fr_fields :: "facet_recall_runtime_budget \<Rightarrow> nat list" where
  "fr_fields b = [fr_max_query_facets b, fr_max_facet_index_docs_read b,
     fr_max_facet_anchor_candidates b, fr_max_facet_expanded_candidates b]"

definition rd_fields :: "recall_delivery_runtime_budget \<Rightarrow> nat list" where
  "rd_fields b = [rd_max_selected_candidates b, rd_max_rendered_capsules b, rd_max_capsule_chars b,
     rd_max_loss_ledger_entries b]"

definition gs_fields :: "governed_state_runtime_budget \<Rightarrow> nat list" where
  "gs_fields b = [gs_max_validity_joins b, gs_max_lineage_depth b,
     gs_max_retained_long_term_revisions_per_owner b,
     gs_max_retained_runtime_skill_owners_per_scope b,
     gs_max_runtime_skill_lineage_depth b,
     gs_max_agent_tool_experience_owners_per_subject b,
     gs_max_agent_tool_experience_revisions_per_owner b,
     gs_max_agent_tool_experience_evidence_refs_per_owner b, gs_max_as_of_candidates b,
     gs_max_obsolete_decisions b, gs_max_procedural_candidates b,
     gs_max_premises_per_skill b, gs_max_premise_evidence_reads b,
     gs_max_state_transitions_per_write b, gs_max_subject_soul_manifest_entries b,
     gs_max_subject_soul_revisions_per_generation b,
     gs_max_subject_soul_generation_tombstones b,
     gs_max_subject_soul_transaction_mutations b]"

definition ed_fields :: "evidence_document_runtime_budget \<Rightarrow> nat list" where
  "ed_fields b = [ed_max_document_bytes b, ed_max_document_body_bytes b, ed_max_chunk_bytes b,
     ed_max_chunks_per_document b, ed_max_documents_per_transaction b,
     ed_max_documents_per_read b, ed_max_total_bytes_per_transaction b]"

definition sb_fields :: "store_runtime_budget \<Rightarrow> nat list" where
  "sb_fields b = [sb_metric_source_max_items b, sb_event_log_max_items b, sb_kv_max_entries b,
     sb_blob_max_bytes b, sb_snapshot_max_bytes b, sb_logical_namespace_max_bytes b,
     sb_logical_key_max_bytes b, sb_event_record_key_max_bytes b, sb_export_max_bytes b,
     sb_import_max_bytes b]"

definition ad_fields :: "adapter_runtime_budget \<Rightarrow> nat list" where
  "ad_fields b = [ad_http_header_max_bytes b, ad_http_body_max_bytes b, ad_wss_frame_max_bytes b,
     ad_wss_max_subscriptions b, ad_wss_session_max_frames b]"

definition ps_fields :: "projection_source_budget \<Rightarrow> nat list" where
  "ps_fields b = [ps_context_assembly_max_chars b, ps_recent_messages_limit b,
     ps_recall_candidate_max_items b]"

definition pr_fields :: "projection_render_budget \<Rightarrow> nat list" where
  "pr_fields b = [pr_system_block_max_chars b]"

definition mb_fields :: "maintenance_budget \<Rightarrow> nat list" where
  "mb_fields b = [mb_user_input_max_chars b, mb_user_input_max_bytes b, mb_reply_input_max_chars b,
     mb_reply_input_max_bytes b]"

definition rj_fields :: "runtime_job_budget \<Rightarrow> nat list" where
  "rj_fields b = [rj_max_concurrent_jobs b, rj_max_background_jobs b, rj_maintenance_batch_max_items b]"

definition lg_fields :: "llm_gateway_budget \<Rightarrow> nat list" where
  "lg_fields b = [lg_runtime_cache_max_runtimes b, lg_projection_render_max_chars b,
     lg_recent_messages_limit b, lg_maintenance_user_max_chars b,
     lg_maintenance_reply_max_chars b, lg_buffered_json_max_bytes b,
     lg_stream_chunk_max_bytes b, lg_stream_event_max_bytes b, lg_stream_max_events b,
     lg_response_body_max_bytes b]"

definition tg_fields :: "transcript_governance_budget \<Rightarrow> nat list" where
  "tg_fields b = [tg_transcript_page_size b, tg_host_refs_per_turn b, tg_max_attrs_per_turn b,
     tg_max_attrs_per_message b, tg_redaction_items_per_page b,
     tg_derived_refs_per_report b, tg_repair_issues_per_report b]"

abbreviation within :: "nat list \<Rightarrow> nat list \<Rightarrow> bool" where
  "within \<equiv> list_all2 (\<le>)"

lemmas budget_fields_defs = mc_fields_def ge_fields_def fr_fields_def rd_fields_def gs_fields_def ed_fields_def sb_fields_def ad_fields_def ps_fields_def pr_fields_def mb_fields_def rj_fields_def lg_fields_def tg_fields_def

lemma within_trans: "within xs ys \<Longrightarrow> within ys zs \<Longrightarrow> within xs zs"
  by (rule list_all2_trans) auto

lemma within_refl [simp]: "within xs xs"
  by (simp add: list.rel_refl)

end
