(* ===== verification/Budget_Profiles.thy ===== *)
theory Budget_Profiles
  imports Budget_Types
begin

text \<open>
  The table of budget ceilings per profile of \<^verbatim>\<open>core/src/budget.rs\<close>: one specification per
  group of profiles, and the function that derives the ceiling of every component from it.
\<close>

definition mib :: u64 where "mib = 1024 * 1024"

definition max_usize :: "usize \<Rightarrow> usize \<Rightarrow> usize" where
  "max_usize left right = (if right \<le> left then left else right)"

record profile_budget_spec =
  sp_memory_floor_bytes :: u64
  sp_storage_floor_bytes :: u64
  sp_records :: usize
  sp_retained_long_term_revisions_per_owner :: usize
  sp_retained_runtime_skill_owners_per_scope :: usize
  sp_runtime_skill_lineage_depth :: usize
  sp_events :: usize
  sp_metric_source_max_items :: usize
  sp_blob_max_bytes :: usize
  sp_snapshot_max_bytes :: usize
  sp_http_body_max_bytes :: usize
  sp_llm_response_max_bytes :: usize
  sp_source_chars :: usize
  sp_render_chars :: usize
  sp_maintenance_chars :: usize
  sp_runtime_cache_max_runtimes :: usize
  sp_wss_subscriptions :: usize
  sp_graph_max_hops :: nat
  sp_graph_default_recall_multi_hop_allowed :: bool
  sp_graph_eval_recall_multi_hop_allowed :: bool

record budget_ceiling =
  pc_memory_floor_bytes :: u64
  pc_storage_floor_bytes :: u64
  pc_memory_core_budget :: memory_core_budget
  pc_graph_expansion_budget :: graph_expansion_runtime_budget
  pc_facet_recall_budget :: facet_recall_runtime_budget
  pc_recall_delivery_budget :: recall_delivery_runtime_budget
  pc_governed_state_budget :: governed_state_runtime_budget
  pc_store_budget :: store_runtime_budget
  pc_adapter_budget :: adapter_runtime_budget
  pc_projection_source_budget :: projection_source_budget
  pc_projection_render_budget :: projection_render_budget
  pc_maintenance_budget :: maintenance_budget
  pc_runtime_job_budget :: runtime_job_budget
  pc_llm_gateway_budget :: llm_gateway_budget
  pc_transcript_governance_budget :: transcript_governance_budget
  pc_p0_min_records :: usize
  pc_p0_min_recall_items :: usize
  pc_p0_min_events :: usize
  pc_p0_min_blob_bytes :: usize
  pc_p0_min_snapshot_bytes :: usize
  pc_p0_min_http_body_bytes :: usize
  pc_p0_min_wss_frame_bytes :: usize
  pc_p0_min_projection_source_chars :: usize
  pc_p0_min_projection_render_chars :: usize
  pc_p0_min_maintenance_chars :: usize
  pc_p0_min_maintenance_bytes :: usize

definition memory_core_ceiling :: "profile_budget_spec \<Rightarrow> memory_core_budget" where
  "memory_core_ceiling spec = \<lparr>
     mc_profile_max_records = sp_records spec,
     mc_recall_working_set_max_items = max_usize (sp_records spec div 16) 16,
     mc_long_term_scan_max_items = max_usize (sp_records spec div 8) 32 \<rparr>"

definition graph_expansion_ceiling :: "profile_budget_spec \<Rightarrow> graph_expansion_runtime_budget" where
  "graph_expansion_ceiling spec = \<lparr>
     ge_max_hops = sp_graph_max_hops spec,
     ge_max_seed_candidates = max_usize (sp_records spec div 64) 4,
     ge_max_expanded_candidates = max_usize (sp_records spec div 128) 8,
     ge_max_neighbors_per_candidate = max_usize (sp_records spec div 512) 2,
     ge_max_graph_nodes_loaded = max_usize (sp_records spec div 16) 16,
     ge_max_graph_edges_loaded = max_usize (sp_records spec div 8) 32,
     ge_max_backlinks_loaded = max_usize (sp_records spec div 8) 32,
     ge_compact_graph_node_limit = (if 4096 \<le> sp_records spec then 32 else 16),
     ge_compact_graph_edge_limit = (if 4096 \<le> sp_records spec then 32 else 16),
     ge_default_recall_multi_hop_allowed = sp_graph_default_recall_multi_hop_allowed spec,
     ge_eval_recall_multi_hop_allowed = sp_graph_eval_recall_multi_hop_allowed spec \<rparr>"

definition facet_recall_ceiling :: "profile_budget_spec \<Rightarrow> facet_recall_runtime_budget" where
  "facet_recall_ceiling spec = \<lparr>
     fr_max_query_facets = max_usize (sp_source_chars spec div 256) 4,
     fr_max_facet_index_docs_read = max_usize (sp_records spec div 8) 32,
     fr_max_facet_anchor_candidates = max_usize (sp_records spec div 128) 8,
     fr_max_facet_expanded_candidates = max_usize (sp_records spec div 256) 8 \<rparr>"

definition recall_delivery_ceiling :: "profile_budget_spec \<Rightarrow> recall_delivery_runtime_budget" where
  "recall_delivery_ceiling spec = \<lparr>
     rd_max_selected_candidates = max_usize (sp_source_chars spec div 128) 8,
     rd_max_rendered_capsules = max_usize (sp_source_chars spec div 512) 2,
     rd_max_capsule_chars = max_usize (sp_render_chars spec div 3) 256,
     rd_max_loss_ledger_entries = max_usize (sp_source_chars spec div 256) 4 \<rparr>"

definition governed_state_ceiling :: "profile_budget_spec \<Rightarrow> governed_state_runtime_budget" where
  "governed_state_ceiling spec = \<lparr>
     gs_max_validity_joins = max_usize (sp_records spec div 256) 2,
     gs_max_lineage_depth = (if 4096 \<le> sp_records spec then 16 else 4),
     gs_max_retained_long_term_revisions_per_owner = sp_retained_long_term_revisions_per_owner spec,
     gs_max_retained_runtime_skill_owners_per_scope = sp_retained_runtime_skill_owners_per_scope spec,
     gs_max_runtime_skill_lineage_depth = sp_runtime_skill_lineage_depth spec,
     gs_max_agent_tool_experience_owners_per_subject = sp_retained_runtime_skill_owners_per_scope spec,
     gs_max_agent_tool_experience_revisions_per_owner = sp_runtime_skill_lineage_depth spec,
     gs_max_agent_tool_experience_evidence_refs_per_owner = max_usize (sp_source_chars spec div 128) 8,
     gs_max_as_of_candidates = max_usize (sp_records spec div 512) 2,
     gs_max_obsolete_decisions = max_usize (sp_records spec div 256) 2,
     gs_max_procedural_candidates = max_usize (sp_source_chars spec div 256) 2,
     gs_max_premises_per_skill = max_usize (sp_source_chars spec div 1024) 2,
     gs_max_premise_evidence_reads = max_usize (sp_source_chars spec div 512) 2,
     gs_max_state_transitions_per_write = (if 4096 \<le> sp_records spec then 8 else 2),
     gs_max_subject_soul_manifest_entries = max_usize (sp_records spec div 16) 16,
     gs_max_subject_soul_revisions_per_generation = sp_retained_long_term_revisions_per_owner spec,
     gs_max_subject_soul_generation_tombstones = (if 4096 \<le> sp_records spec then 8 else 2),
     gs_max_subject_soul_transaction_mutations = max_usize (sp_records spec div 128) 16 \<rparr>"

definition store_ceiling :: "profile_budget_spec \<Rightarrow> store_runtime_budget" where
  "store_ceiling spec = \<lparr>
     sb_metric_source_max_items = sp_metric_source_max_items spec,
     sb_event_log_max_items = sp_events spec,
     sb_kv_max_entries = sp_records spec,
     sb_blob_max_bytes = sp_blob_max_bytes spec,
     sb_snapshot_max_bytes = sp_snapshot_max_bytes spec,
     sb_logical_namespace_max_bytes = 96,
     sb_logical_key_max_bytes = max_usize (sp_snapshot_max_bytes spec div 1024) 512,
     sb_event_record_key_max_bytes = max_usize (sp_snapshot_max_bytes spec div 1024) 512,
     sb_export_max_bytes = sp_snapshot_max_bytes spec,
     sb_import_max_bytes = sp_snapshot_max_bytes spec \<rparr>"

definition adapter_ceiling :: "profile_budget_spec \<Rightarrow> adapter_runtime_budget" where
  "adapter_ceiling spec = \<lparr>
     ad_http_header_max_bytes = 16 * 1024,
     ad_http_body_max_bytes = sp_http_body_max_bytes spec,
     ad_wss_frame_max_bytes = sp_http_body_max_bytes spec,
     ad_wss_max_subscriptions = sp_wss_subscriptions spec,
     ad_wss_session_max_frames = max_usize (saturating_mul (sp_wss_subscriptions spec) 8) 8 \<rparr>"

definition projection_source_ceiling :: "profile_budget_spec \<Rightarrow> projection_source_budget" where
  "projection_source_ceiling spec = \<lparr>
     ps_context_assembly_max_chars = sp_source_chars spec,
     ps_recent_messages_limit = max_usize (sp_source_chars spec div 256) 4,
     ps_recall_candidate_max_items = max_usize (sp_source_chars spec div 256) 4 \<rparr>"

definition projection_render_ceiling :: "profile_budget_spec \<Rightarrow> projection_render_budget" where
  "projection_render_ceiling spec = \<lparr>
     pr_system_block_max_chars = sp_render_chars spec,
     pr_provider_prompt_max_chars = None \<rparr>"

definition maintenance_ceiling :: "profile_budget_spec \<Rightarrow> maintenance_budget" where
  "maintenance_ceiling spec = \<lparr>
     mb_user_input_max_chars = sp_maintenance_chars spec,
     mb_user_input_max_bytes = sp_maintenance_chars spec * 2,
     mb_reply_input_max_chars = sp_maintenance_chars spec,
     mb_reply_input_max_bytes = sp_maintenance_chars spec * 2 \<rparr>"

definition runtime_job_ceiling :: "profile_budget_spec \<Rightarrow> runtime_job_budget" where
  "runtime_job_ceiling spec = \<lparr>
     rj_max_concurrent_jobs = max_usize (sp_runtime_cache_max_runtimes spec div 4) 1,
     rj_max_background_jobs = max_usize (sp_runtime_cache_max_runtimes spec div 8) 1,
     rj_maintenance_batch_max_items = max_usize (sp_records spec div 64) 4 \<rparr>"

definition llm_gateway_ceiling :: "profile_budget_spec \<Rightarrow> llm_gateway_budget" where
  "llm_gateway_ceiling spec = \<lparr>
     lg_runtime_cache_max_runtimes = sp_runtime_cache_max_runtimes spec,
     lg_projection_render_max_chars = sp_render_chars spec,
     lg_recent_messages_limit = max_usize (sp_source_chars spec div 256) 4,
     lg_maintenance_user_max_chars = sp_maintenance_chars spec,
     lg_maintenance_reply_max_chars = sp_maintenance_chars spec,
     lg_buffered_json_max_bytes = sp_llm_response_max_bytes spec,
     lg_stream_chunk_max_bytes = sp_http_body_max_bytes spec,
     lg_stream_event_max_bytes = sp_http_body_max_bytes spec,
     lg_stream_max_events = sp_events spec,
     lg_response_body_max_bytes = sp_llm_response_max_bytes spec \<rparr>"

definition transcript_governance_ceiling :: "profile_budget_spec \<Rightarrow> transcript_governance_budget" where
  "transcript_governance_ceiling spec = \<lparr>
     tg_transcript_page_size = max_usize (sp_source_chars spec div 256) 4,
     tg_host_refs_per_turn = max_usize (sp_http_body_max_bytes spec div (8 * 1024)) 1,
     tg_max_attrs_per_turn = max_usize (sp_source_chars spec div 512) 2,
     tg_max_attrs_per_message = max_usize (sp_source_chars spec div 512) 2,
     tg_redaction_items_per_page = max_usize (sp_source_chars spec div 128) 8,
     tg_derived_refs_per_report = max_usize (sp_records spec div 512) 4,
     tg_repair_issues_per_report = max_usize (sp_events spec div 512) 4 \<rparr>"

definition profile_budget :: "profile_budget_spec \<Rightarrow> budget_ceiling" where
  "profile_budget spec = \<lparr>
     pc_memory_floor_bytes = sp_memory_floor_bytes spec,
     pc_storage_floor_bytes = sp_storage_floor_bytes spec,
     pc_memory_core_budget = memory_core_ceiling spec,
     pc_graph_expansion_budget = graph_expansion_ceiling spec,
     pc_facet_recall_budget = facet_recall_ceiling spec,
     pc_recall_delivery_budget = recall_delivery_ceiling spec,
     pc_governed_state_budget = governed_state_ceiling spec,
     pc_store_budget = store_ceiling spec,
     pc_adapter_budget = adapter_ceiling spec,
     pc_projection_source_budget = projection_source_ceiling spec,
     pc_projection_render_budget = projection_render_ceiling spec,
     pc_maintenance_budget = maintenance_ceiling spec,
     pc_runtime_job_budget = runtime_job_ceiling spec,
     pc_llm_gateway_budget = llm_gateway_ceiling spec,
     pc_transcript_governance_budget = transcript_governance_ceiling spec,
     pc_p0_min_records = 64,
     pc_p0_min_recall_items = 4,
     pc_p0_min_events = 64,
     pc_p0_min_blob_bytes = 64 * 1024,
     pc_p0_min_snapshot_bytes = 64 * 1024,
     pc_p0_min_http_body_bytes = 4 * 1024,
     pc_p0_min_wss_frame_bytes = 4 * 1024,
     pc_p0_min_projection_source_chars = 1024,
     pc_p0_min_projection_render_chars = 512,
     pc_p0_min_maintenance_chars = 512,
     pc_p0_min_maintenance_bytes = 1024 \<rparr>"

definition spec_esp_embedded_sdk :: profile_budget_spec where
  "spec_esp_embedded_sdk = \<lparr>
     sp_memory_floor_bytes = 128 * mib, sp_storage_floor_bytes = 8 * mib, sp_records = 512,
     sp_retained_long_term_revisions_per_owner = 4,
     sp_retained_runtime_skill_owners_per_scope = 16, sp_runtime_skill_lineage_depth = 4,
     sp_events = 256, sp_metric_source_max_items = 1, sp_blob_max_bytes = 1024 * 1024,
     sp_snapshot_max_bytes = 256 * 1024, sp_http_body_max_bytes = 8 * 1024,
     sp_llm_response_max_bytes = 64 * 1024, sp_source_chars = 1024, sp_render_chars = 2048,
     sp_maintenance_chars = 1024, sp_runtime_cache_max_runtimes = 8, sp_wss_subscriptions = 4,
     sp_graph_max_hops = 1, sp_graph_default_recall_multi_hop_allowed = False,
     sp_graph_eval_recall_multi_hop_allowed = False \<rparr>"

definition spec_esp_standalone_memory :: profile_budget_spec where
  "spec_esp_standalone_memory = \<lparr>
     sp_memory_floor_bytes = 256 * mib, sp_storage_floor_bytes = 16 * mib, sp_records = 4096,
     sp_retained_long_term_revisions_per_owner = 4,
     sp_retained_runtime_skill_owners_per_scope = 64, sp_runtime_skill_lineage_depth = 4,
     sp_events = 2048, sp_metric_source_max_items = 1, sp_blob_max_bytes = 4 * 1024 * 1024,
     sp_snapshot_max_bytes = 1024 * 1024, sp_http_body_max_bytes = 16 * 1024,
     sp_llm_response_max_bytes = 256 * 1024, sp_source_chars = 2048, sp_render_chars = 4096,
     sp_maintenance_chars = 2048, sp_runtime_cache_max_runtimes = 16, sp_wss_subscriptions = 8,
     sp_graph_max_hops = 1, sp_graph_default_recall_multi_hop_allowed = False,
     sp_graph_eval_recall_multi_hop_allowed = False \<rparr>"

definition spec_linux_device_standalone_memory :: profile_budget_spec where
  "spec_linux_device_standalone_memory = \<lparr>
     sp_memory_floor_bytes = 512 * mib, sp_storage_floor_bytes = 256 * mib, sp_records = 12000,
     sp_retained_long_term_revisions_per_owner = 8,
     sp_retained_runtime_skill_owners_per_scope = 256, sp_runtime_skill_lineage_depth = 8,
     sp_events = 4096, sp_metric_source_max_items = 2, sp_blob_max_bytes = 16 * 1024 * 1024,
     sp_snapshot_max_bytes = 4 * 1024 * 1024, sp_http_body_max_bytes = 64 * 1024,
     sp_llm_response_max_bytes = 1024 * 1024, sp_source_chars = 4096, sp_render_chars = 8192,
     sp_maintenance_chars = 4096, sp_runtime_cache_max_runtimes = 32, sp_wss_subscriptions = 16,
     sp_graph_max_hops = 1, sp_graph_default_recall_multi_hop_allowed = False,
     sp_graph_eval_recall_multi_hop_allowed = False \<rparr>"

definition spec_desktop_embedded_sdk :: profile_budget_spec where
  "spec_desktop_embedded_sdk = \<lparr>
     sp_memory_floor_bytes = 512 * mib, sp_storage_floor_bytes = 256 * mib, sp_records = 4096,
     sp_retained_long_term_revisions_per_owner = 8,
     sp_retained_runtime_skill_owners_per_scope = 128, sp_runtime_skill_lineage_depth = 8,
     sp_events = 8192, sp_metric_source_max_items = 2, sp_blob_max_bytes = 8 * 1024 * 1024,
     sp_snapshot_max_bytes = 2 * 1024 * 1024, sp_http_body_max_bytes = 32 * 1024,
     sp_llm_response_max_bytes = 512 * 1024, sp_source_chars = 2048, sp_render_chars = 4096,
     sp_maintenance_chars = 2048, sp_runtime_cache_max_runtimes = 16, sp_wss_subscriptions = 8,
     sp_graph_max_hops = 1, sp_graph_default_recall_multi_hop_allowed = False,
     sp_graph_eval_recall_multi_hop_allowed = False \<rparr>"

definition spec_desktop_macos_standalone_memory :: profile_budget_spec where
  "spec_desktop_macos_standalone_memory = \<lparr>
     sp_memory_floor_bytes = 1024 * mib, sp_storage_floor_bytes = 512 * mib, sp_records = 20000,
     sp_retained_long_term_revisions_per_owner = 16,
     sp_retained_runtime_skill_owners_per_scope = 512, sp_runtime_skill_lineage_depth = 16,
     sp_events = 8192, sp_metric_source_max_items = 2, sp_blob_max_bytes = 32 * 1024 * 1024,
     sp_snapshot_max_bytes = 8 * 1024 * 1024, sp_http_body_max_bytes = 96 * 1024,
     sp_llm_response_max_bytes = 2 * 1024 * 1024, sp_source_chars = 8192, sp_render_chars = 12288,
     sp_maintenance_chars = 8192, sp_runtime_cache_max_runtimes = 64, sp_wss_subscriptions = 32,
     sp_graph_max_hops = 1, sp_graph_default_recall_multi_hop_allowed = False,
     sp_graph_eval_recall_multi_hop_allowed = False \<rparr>"

definition spec_server_linux_memory_gateway :: profile_budget_spec where
  "spec_server_linux_memory_gateway = \<lparr>
     sp_memory_floor_bytes = 1024 * mib, sp_storage_floor_bytes = 1024 * mib, sp_records = 40000,
     sp_retained_long_term_revisions_per_owner = 32,
     sp_retained_runtime_skill_owners_per_scope = 1024, sp_runtime_skill_lineage_depth = 32,
     sp_events = 16384, sp_metric_source_max_items = 2, sp_blob_max_bytes = 64 * 1024 * 1024,
     sp_snapshot_max_bytes = 16 * 1024 * 1024, sp_http_body_max_bytes = 128 * 1024,
     sp_llm_response_max_bytes = 8 * 1024 * 1024, sp_source_chars = 8192, sp_render_chars = 16384,
     sp_maintenance_chars = 8192, sp_runtime_cache_max_runtimes = 128, sp_wss_subscriptions = 64,
     sp_graph_max_hops = 2, sp_graph_default_recall_multi_hop_allowed = True,
     sp_graph_eval_recall_multi_hop_allowed = True \<rparr>"

definition spec_dev_full :: profile_budget_spec where
  "spec_dev_full = \<lparr>
     sp_memory_floor_bytes = 2048 * mib, sp_storage_floor_bytes = 2048 * mib, sp_records = 80000,
     sp_retained_long_term_revisions_per_owner = 32,
     sp_retained_runtime_skill_owners_per_scope = 2048, sp_runtime_skill_lineage_depth = 32,
     sp_events = 32768, sp_metric_source_max_items = 2, sp_blob_max_bytes = 128 * 1024 * 1024,
     sp_snapshot_max_bytes = 32 * 1024 * 1024, sp_http_body_max_bytes = 256 * 1024,
     sp_llm_response_max_bytes = 16 * 1024 * 1024, sp_source_chars = 16384,
     sp_render_chars = 32768, sp_maintenance_chars = 16384, sp_runtime_cache_max_runtimes = 256,
     sp_wss_subscriptions = 128, sp_graph_max_hops = 2,
     sp_graph_default_recall_multi_hop_allowed = True,
     sp_graph_eval_recall_multi_hop_allowed = True \<rparr>"

fun profile_budget_ceiling :: "profile_id \<Rightarrow> budget_ceiling" where
  "profile_budget_ceiling EspEmbeddedSdk = profile_budget spec_esp_embedded_sdk"
| "profile_budget_ceiling EspStandaloneMemory = profile_budget spec_esp_standalone_memory"
| "profile_budget_ceiling LinuxDeviceStandaloneMemory = profile_budget spec_linux_device_standalone_memory"
| "profile_budget_ceiling DesktopMacosEmbeddedSdk = profile_budget spec_desktop_embedded_sdk"
| "profile_budget_ceiling DesktopLinuxEmbeddedSdk = profile_budget spec_desktop_embedded_sdk"
| "profile_budget_ceiling DesktopWindowsEmbeddedSdk = profile_budget spec_desktop_embedded_sdk"
| "profile_budget_ceiling DesktopMacosStandaloneMemory = profile_budget spec_desktop_macos_standalone_memory"
| "profile_budget_ceiling ServerLinuxMemoryGateway = profile_budget spec_server_linux_memory_gateway"
| "profile_budget_ceiling DesktopMacosDevFull = profile_budget spec_dev_full"
| "profile_budget_ceiling DesktopWindowsDevFull = profile_budget spec_dev_full"
| "profile_budget_ceiling ServerLinuxDevFull = profile_budget spec_dev_full"

lemma max_usize_max [simp]: "max_usize a b = max a b"
  by (simp add: max_usize_def max_def)

lemma profile_budget_sel [simp]:
  "pc_memory_floor_bytes (profile_budget spec) = sp_memory_floor_bytes spec"
  "pc_storage_floor_bytes (profile_budget spec) = sp_storage_floor_bytes spec"
  "pc_memory_core_budget (profile_budget spec) = memory_core_ceiling spec"
  "pc_graph_expansion_budget (profile_budget spec) = graph_expansion_ceiling spec"
  "pc_facet_recall_budget (profile_budget spec) = facet_recall_ceiling spec"
  "pc_recall_delivery_budget (profile_budget spec) = recall_delivery_ceiling spec"
  "pc_governed_state_budget (profile_budget spec) = governed_state_ceiling spec"
  "pc_store_budget (profile_budget spec) = store_ceiling spec"
  "pc_adapter_budget (profile_budget spec) = adapter_ceiling spec"
  "pc_projection_source_budget (profile_budget spec) = projection_source_ceiling spec"
  "pc_projection_render_budget (profile_budget spec) = projection_render_ceiling spec"
  "pc_maintenance_budget (profile_budget spec) = maintenance_ceiling spec"
  "pc_runtime_job_budget (profile_budget spec) = runtime_job_ceiling spec"
  "pc_llm_gateway_budget (profile_budget spec) = llm_gateway_ceiling spec"
  "pc_transcript_governance_budget (profile_budget spec) = transcript_governance_ceiling spec"
  "pc_p0_min_records (profile_budget spec) = 64"
  "pc_p0_min_recall_items (profile_budget spec) = 4"
  "pc_p0_min_events (profile_budget spec) = 64"
  "pc_p0_min_blob_bytes (profile_budget spec) = 64 * 1024"
  "pc_p0_min_snapshot_bytes (profile_budget spec) = 64 * 1024"
  "pc_p0_min_http_body_bytes (profile_budget spec) = 4 * 1024"
  "pc_p0_min_wss_frame_bytes (profile_budget spec) = 4 * 1024"
  "pc_p0_min_projection_source_chars (profile_budget spec) = 1024"
  "pc_p0_min_projection_render_chars (profile_budget spec) = 512"
  "pc_p0_min_maintenance_chars (profile_budget spec) = 512"
  "pc_p0_min_maintenance_bytes (profile_budget spec) = 1024"
  by (simp_all add: profile_budget_def)

lemmas ceiling_defs = memory_core_ceiling_def graph_expansion_ceiling_def facet_recall_ceiling_def recall_delivery_ceiling_def governed_state_ceiling_def store_ceiling_def adapter_ceiling_def projection_source_ceiling_def projection_render_ceiling_def maintenance_ceiling_def runtime_job_ceiling_def llm_gateway_ceiling_def transcript_governance_ceiling_def

lemmas spec_defs = spec_esp_embedded_sdk_def spec_esp_standalone_memory_def spec_linux_device_standalone_memory_def spec_desktop_embedded_sdk_def spec_desktop_macos_standalone_memory_def spec_server_linux_memory_gateway_def spec_dev_full_def

end
