(* ===== verification/Budget_Compile.thy ===== *)
theory Budget_Compile
  imports Budget_Profiles
begin

text \<open>
  The budget compiler of \<^verbatim>\<open>core/src/budget.rs\<close>: \<open>compile_runtime_budget\<close> scales the
  ceiling of a profile by what the resource snapshot allows, and
  \<open>compile_authority_report\<close> narrows the result by replay limits and by the ceiling the
  store was admitted with. The lemmas bound every compiled field between its floor and the
  profile's ceiling, show that tighter resources never enlarge a budget, and that
  narrowing keeps a budget valid.

  JSON serialisation and SHA-256 are library code: they are the two fields of
  \<open>report_env\<close>, a parameter of every operation that computes a report identity.
\<close>

section \<open>Scales\<close>

definition scale_usize :: "usize \<Rightarrow> u32 \<Rightarrow> usize" where
  "scale_usize v percent = saturating_mul v percent div 100"

fun pressure_scale :: "pressure_level \<Rightarrow> u32" where
  "pressure_scale Normal = 100"
| "pressure_scale Cautious = 60"
| "pressure_scale Critical = 35"

definition memory_scale :: "snapshot \<Rightarrow> static_platform_manifest \<Rightarrow> u32" where
  "memory_scale s manifest =
     (case (case memory_available_bytes s of
              Some a \<Rightarrow> Some a
            | None \<Rightarrow> (case internal_heap_free_bytes s of
                          Some a \<Rightarrow> Some a | None \<Rightarrow> psram_free_bytes s)) of
        None \<Rightarrow> 50
      | Some available \<Rightarrow>
          if available \<le> sm_memory_floor_bytes manifest then 50
          else if available \<le> saturating_mul (sm_memory_floor_bytes manifest) 2 then 75
          else 100)"

definition storage_scale :: "snapshot \<Rightarrow> static_platform_manifest \<Rightarrow> u32" where
  "storage_scale s manifest =
     (case storage_available_bytes s of
        None \<Rightarrow> 60
      | Some available \<Rightarrow>
          if available \<le> sm_storage_floor_bytes manifest then 50
          else if available \<le> saturating_mul (sm_storage_floor_bytes manifest) 2 then 75
          else 100)"

definition source_scale_of :: "snapshot \<Rightarrow> static_platform_manifest \<Rightarrow> u32" where
  "source_scale_of s manifest = min (memory_scale s manifest) (pressure_scale (pressure s))"

definition store_scale_of :: "snapshot \<Rightarrow> static_platform_manifest \<Rightarrow> u32" where
  "store_scale_of s manifest =
     (case sm_store_medium manifest of
        VolatileMemory \<Rightarrow> min (memory_scale s manifest) (pressure_scale (pressure s))
      | PersistentFilesystem \<Rightarrow> min (storage_scale s manifest) (pressure_scale (pressure s))
      | EmbeddedFlash \<Rightarrow> min (min (memory_scale s manifest) (storage_scale s manifest))
                            (pressure_scale (pressure s)))"

section \<open>Component budgets\<close>

definition compile_memory_core_budget :: "budget_ceiling \<Rightarrow> u32 \<Rightarrow> memory_core_budget" where
  "compile_memory_core_budget ceiling source_scale =
     (let b = pc_memory_core_budget ceiling in \<lparr>
       mc_profile_max_records =
         max (scale_usize (mc_profile_max_records b) source_scale) (pc_p0_min_records ceiling),
       mc_recall_working_set_max_items =
         max (scale_usize (mc_recall_working_set_max_items b) source_scale) (pc_p0_min_recall_items ceiling),
       mc_long_term_scan_max_items =
         max (scale_usize (mc_long_term_scan_max_items b) source_scale) (pc_p0_min_recall_items ceiling) \<rparr>)"

definition compile_graph_expansion_budget :: "budget_ceiling \<Rightarrow> u32 \<Rightarrow> graph_expansion_runtime_budget" where
  "compile_graph_expansion_budget ceiling source_scale =
     (let b = pc_graph_expansion_budget ceiling in \<lparr>
       ge_max_hops = max 1 (min 2 (ge_max_hops b)),
       ge_max_seed_candidates =
         max (scale_usize (ge_max_seed_candidates b) source_scale) (pc_p0_min_recall_items ceiling),
       ge_max_expanded_candidates =
         max (scale_usize (ge_max_expanded_candidates b) source_scale) (pc_p0_min_recall_items ceiling),
       ge_max_neighbors_per_candidate =
         max (scale_usize (ge_max_neighbors_per_candidate b) source_scale) 1,
       ge_max_graph_nodes_loaded =
         max (scale_usize (ge_max_graph_nodes_loaded b) source_scale) (pc_p0_min_recall_items ceiling),
       ge_max_graph_edges_loaded =
         max (scale_usize (ge_max_graph_edges_loaded b) source_scale) (pc_p0_min_recall_items ceiling),
       ge_max_backlinks_loaded =
         max (scale_usize (ge_max_backlinks_loaded b) source_scale) (pc_p0_min_recall_items ceiling),
       ge_compact_graph_node_limit =
         max (scale_usize (ge_compact_graph_node_limit b) source_scale) 1,
       ge_compact_graph_edge_limit =
         max (scale_usize (ge_compact_graph_edge_limit b) source_scale) 1,
       ge_default_recall_multi_hop_allowed = ge_default_recall_multi_hop_allowed b,
       ge_eval_recall_multi_hop_allowed = ge_eval_recall_multi_hop_allowed b \<rparr>)"

definition compile_facet_recall_budget :: "budget_ceiling \<Rightarrow> u32 \<Rightarrow> facet_recall_runtime_budget" where
  "compile_facet_recall_budget ceiling source_scale =
     (let b = pc_facet_recall_budget ceiling in \<lparr>
       fr_max_query_facets =
         max (scale_usize (fr_max_query_facets b) source_scale) (pc_p0_min_recall_items ceiling),
       fr_max_facet_index_docs_read =
         max (scale_usize (fr_max_facet_index_docs_read b) source_scale) (pc_p0_min_recall_items ceiling),
       fr_max_facet_anchor_candidates =
         max (scale_usize (fr_max_facet_anchor_candidates b) source_scale) (pc_p0_min_recall_items ceiling),
       fr_max_facet_expanded_candidates =
         max (scale_usize (fr_max_facet_expanded_candidates b) source_scale) (pc_p0_min_recall_items ceiling) \<rparr>)"

definition compile_recall_delivery_budget :: "budget_ceiling \<Rightarrow> u32 \<Rightarrow> recall_delivery_runtime_budget" where
  "compile_recall_delivery_budget ceiling source_scale =
     (let b = pc_recall_delivery_budget ceiling in \<lparr>
       rd_max_selected_candidates =
         max (scale_usize (rd_max_selected_candidates b) source_scale) (pc_p0_min_recall_items ceiling),
       rd_max_rendered_capsules = max (scale_usize (rd_max_rendered_capsules b) source_scale) 1,
       rd_max_capsule_chars = max (scale_usize (rd_max_capsule_chars b) source_scale) 128,
       rd_max_loss_ledger_entries =
         max (scale_usize (rd_max_loss_ledger_entries b) source_scale) 1 \<rparr>)"

definition compile_governed_state_budget :: "budget_ceiling \<Rightarrow> u32 \<Rightarrow> governed_state_runtime_budget" where
  "compile_governed_state_budget ceiling source_scale =
     (let b = pc_governed_state_budget ceiling in \<lparr>
       gs_max_validity_joins = max (scale_usize (gs_max_validity_joins b) source_scale) 1,
       gs_max_lineage_depth = max (scale_usize (gs_max_lineage_depth b) source_scale) 1,
       gs_max_retained_long_term_revisions_per_owner =
         max (scale_usize (gs_max_retained_long_term_revisions_per_owner b) source_scale) 1,
       gs_max_retained_runtime_skill_owners_per_scope =
         max (scale_usize (gs_max_retained_runtime_skill_owners_per_scope b) source_scale) 1,
       gs_max_runtime_skill_lineage_depth =
         max (scale_usize (gs_max_runtime_skill_lineage_depth b) source_scale) 1,
       gs_max_agent_tool_experience_owners_per_subject =
         max (scale_usize (gs_max_agent_tool_experience_owners_per_subject b) source_scale) 1,
       gs_max_agent_tool_experience_revisions_per_owner =
         max (scale_usize (gs_max_agent_tool_experience_revisions_per_owner b) source_scale) 1,
       gs_max_agent_tool_experience_evidence_refs_per_owner =
         max (scale_usize (gs_max_agent_tool_experience_evidence_refs_per_owner b) source_scale) 1,
       gs_max_as_of_candidates = max (scale_usize (gs_max_as_of_candidates b) source_scale) 1,
       gs_max_obsolete_decisions = max (scale_usize (gs_max_obsolete_decisions b) source_scale) 1,
       gs_max_procedural_candidates =
         max (scale_usize (gs_max_procedural_candidates b) source_scale) 1,
       gs_max_premises_per_skill = max (scale_usize (gs_max_premises_per_skill b) source_scale) 1,
       gs_max_premise_evidence_reads =
         max (scale_usize (gs_max_premise_evidence_reads b) source_scale) 1,
       gs_max_state_transitions_per_write =
         max (scale_usize (gs_max_state_transitions_per_write b) source_scale) 1,
       gs_max_subject_soul_manifest_entries =
         max (scale_usize (gs_max_subject_soul_manifest_entries b) source_scale) 8,
       gs_max_subject_soul_revisions_per_generation =
         max (scale_usize (gs_max_subject_soul_revisions_per_generation b) source_scale) 1,
       gs_max_subject_soul_generation_tombstones =
         max (scale_usize (gs_max_subject_soul_generation_tombstones b) source_scale) 1,
       gs_max_subject_soul_transaction_mutations =
         max (scale_usize (gs_max_subject_soul_transaction_mutations b) source_scale) 8 \<rparr>)"

definition compile_store_budget :: "budget_ceiling \<Rightarrow> u32 \<Rightarrow> store_runtime_budget" where
  "compile_store_budget ceiling store_scale =
     (let b = pc_store_budget ceiling in \<lparr>
       sb_metric_source_max_items = max (scale_usize (sb_metric_source_max_items b) store_scale) 1,
       sb_event_log_max_items =
         max (scale_usize (sb_event_log_max_items b) store_scale) (pc_p0_min_events ceiling),
       sb_kv_max_entries =
         max (scale_usize (sb_kv_max_entries b) store_scale) (pc_p0_min_records ceiling),
       sb_blob_max_bytes =
         max (scale_usize (sb_blob_max_bytes b) store_scale) (pc_p0_min_blob_bytes ceiling),
       sb_snapshot_max_bytes =
         max (scale_usize (sb_snapshot_max_bytes b) store_scale) (pc_p0_min_snapshot_bytes ceiling),
       sb_logical_namespace_max_bytes = sb_logical_namespace_max_bytes b,
       sb_logical_key_max_bytes = max (scale_usize (sb_logical_key_max_bytes b) store_scale) 128,
       sb_event_record_key_max_bytes =
         max (scale_usize (sb_event_record_key_max_bytes b) store_scale) 128,
       sb_export_max_bytes =
         max (scale_usize (sb_export_max_bytes b) store_scale) (pc_p0_min_snapshot_bytes ceiling),
       sb_import_max_bytes =
         max (scale_usize (sb_import_max_bytes b) store_scale) (pc_p0_min_snapshot_bytes ceiling) \<rparr>)"

definition compile_adapter_budget :: "budget_ceiling \<Rightarrow> u32 \<Rightarrow> adapter_runtime_budget" where
  "compile_adapter_budget ceiling source_scale =
     (let b = pc_adapter_budget ceiling in \<lparr>
       ad_http_header_max_bytes = ad_http_header_max_bytes b,
       ad_http_body_max_bytes =
         max (scale_usize (ad_http_body_max_bytes b) source_scale) (pc_p0_min_http_body_bytes ceiling),
       ad_wss_frame_max_bytes =
         max (scale_usize (ad_wss_frame_max_bytes b) source_scale) (pc_p0_min_wss_frame_bytes ceiling),
       ad_wss_max_subscriptions = max (scale_usize (ad_wss_max_subscriptions b) source_scale) 1,
       ad_wss_session_max_frames =
         max (scale_usize (ad_wss_session_max_frames b) source_scale) 4 \<rparr>)"

definition compile_projection_source_budget :: "budget_ceiling \<Rightarrow> u32 \<Rightarrow> projection_source_budget" where
  "compile_projection_source_budget ceiling source_scale =
     (let b = pc_projection_source_budget ceiling in \<lparr>
       ps_context_assembly_max_chars =
         max (scale_usize (ps_context_assembly_max_chars b) source_scale) (pc_p0_min_projection_source_chars ceiling),
       ps_recent_messages_limit = max (scale_usize (ps_recent_messages_limit b) source_scale) 1,
       ps_recall_candidate_max_items =
         max (scale_usize (ps_recall_candidate_max_items b) source_scale) 1 \<rparr>)"

definition compile_projection_render_budget ::
  "budget_ceiling \<Rightarrow> u32 \<Rightarrow> usize option \<Rightarrow> projection_render_budget" where
  "compile_projection_render_budget ceiling pressure_pct render_provider_cap =
     (let render_max = max (scale_usize (pr_system_block_max_chars (pc_projection_render_budget ceiling))
                              pressure_pct)
                         (pc_p0_min_projection_render_chars ceiling)
      in \<lparr> pr_system_block_max_chars =
             (case render_provider_cap of None \<Rightarrow> render_max | Some cap \<Rightarrow> min render_max cap),
           pr_provider_prompt_max_chars = render_provider_cap \<rparr>)"

definition compile_maintenance_budget :: "budget_ceiling \<Rightarrow> u32 \<Rightarrow> maintenance_budget" where
  "compile_maintenance_budget ceiling source_scale =
     (let b = pc_maintenance_budget ceiling in \<lparr>
       mb_user_input_max_chars =
         max (scale_usize (mb_user_input_max_chars b) source_scale) (pc_p0_min_maintenance_chars ceiling),
       mb_user_input_max_bytes =
         max (scale_usize (mb_user_input_max_bytes b) source_scale) (pc_p0_min_maintenance_bytes ceiling),
       mb_reply_input_max_chars =
         max (scale_usize (mb_reply_input_max_chars b) source_scale) (pc_p0_min_maintenance_chars ceiling),
       mb_reply_input_max_bytes =
         max (scale_usize (mb_reply_input_max_bytes b) source_scale) (pc_p0_min_maintenance_bytes ceiling) \<rparr>)"

definition compile_runtime_job_budget :: "budget_ceiling \<Rightarrow> u32 \<Rightarrow> runtime_job_budget" where
  "compile_runtime_job_budget ceiling source_scale =
     (let b = pc_runtime_job_budget ceiling in \<lparr>
       rj_max_concurrent_jobs = max (scale_usize (rj_max_concurrent_jobs b) source_scale) 1,
       rj_max_background_jobs = max (scale_usize (rj_max_background_jobs b) source_scale) 1,
       rj_maintenance_batch_max_items =
         max (scale_usize (rj_maintenance_batch_max_items b) source_scale) 1 \<rparr>)"

definition compile_llm_gateway_budget :: 
  "budget_ceiling \<Rightarrow> u32 \<Rightarrow> projection_render_budget \<Rightarrow> projection_source_budget \<Rightarrow>
   maintenance_budget \<Rightarrow> llm_gateway_budget" where
  "compile_llm_gateway_budget ceiling source_scale render projection maintenance =
     (let b = pc_llm_gateway_budget ceiling in \<lparr>
       lg_runtime_cache_max_runtimes =
         max (scale_usize (lg_runtime_cache_max_runtimes b) source_scale) 1,
       lg_projection_render_max_chars = pr_system_block_max_chars render,
       lg_recent_messages_limit = ps_recent_messages_limit projection,
       lg_maintenance_user_max_chars = mb_user_input_max_chars maintenance,
       lg_maintenance_reply_max_chars = mb_reply_input_max_chars maintenance,
       lg_buffered_json_max_bytes =
         max (scale_usize (lg_buffered_json_max_bytes b) source_scale) (pc_p0_min_http_body_bytes ceiling),
       lg_stream_chunk_max_bytes =
         max (scale_usize (lg_stream_chunk_max_bytes b) source_scale) (pc_p0_min_http_body_bytes ceiling),
       lg_stream_event_max_bytes =
         max (scale_usize (lg_stream_event_max_bytes b) source_scale) (pc_p0_min_http_body_bytes ceiling),
       lg_stream_max_events = max (scale_usize (lg_stream_max_events b) source_scale) 1,
       lg_response_body_max_bytes =
         max (scale_usize (lg_response_body_max_bytes b) source_scale) (pc_p0_min_http_body_bytes ceiling) \<rparr>)"

definition compile_transcript_governance_budget :: "budget_ceiling \<Rightarrow> u32 \<Rightarrow> transcript_governance_budget" where
  "compile_transcript_governance_budget ceiling source_scale =
     (let b = pc_transcript_governance_budget ceiling in \<lparr>
       tg_transcript_page_size = max (scale_usize (tg_transcript_page_size b) source_scale) 1,
       tg_host_refs_per_turn = max (scale_usize (tg_host_refs_per_turn b) source_scale) 1,
       tg_max_attrs_per_turn = max (scale_usize (tg_max_attrs_per_turn b) source_scale) 1,
       tg_max_attrs_per_message = max (scale_usize (tg_max_attrs_per_message b) source_scale) 1,
       tg_redaction_items_per_page =
         max (scale_usize (tg_redaction_items_per_page b) source_scale) 1,
       tg_derived_refs_per_report = max (scale_usize (tg_derived_refs_per_report b) source_scale) 1,
       tg_repair_issues_per_report =
         max (scale_usize (tg_repair_issues_per_report b) source_scale) 1 \<rparr>)"

section \<open>Evidence documents\<close>

text \<open>Limits of \<^verbatim>\<open>core/src/memory\<close> on a governed evidence document.\<close>

definition MAX_EVIDENCE_DOCUMENT_FACET_LEXICAL_TERMS :: usize where
  "MAX_EVIDENCE_DOCUMENT_FACET_LEXICAL_TERMS = 64"

definition MAX_GOVERNED_EVIDENCE_DOCUMENT_CHUNKS :: usize where
  "MAX_GOVERNED_EVIDENCE_DOCUMENT_CHUNKS = 64"

definition MAX_GOVERNED_EVIDENCE_DOCUMENT_BYTES :: usize where
  "MAX_GOVERNED_EVIDENCE_DOCUMENT_BYTES = 256 * 1024"

definition MAX_GOVERNED_EVIDENCE_DOCUMENT_BODY_BYTES :: usize where
  "MAX_GOVERNED_EVIDENCE_DOCUMENT_BODY_BYTES = 256 * 1024"

definition MAX_GOVERNED_EVIDENCE_DOCUMENT_CHUNK_BYTES :: usize where
  "MAX_GOVERNED_EVIDENCE_DOCUMENT_CHUNK_BYTES = 32 * 1024"

definition EVIDENCE_DOCUMENT_KV_ENTRY_ENVELOPE_PER_DOCUMENT :: usize where
  "EVIDENCE_DOCUMENT_KV_ENTRY_ENVELOPE_PER_DOCUMENT =
     MAX_EVIDENCE_DOCUMENT_FACET_LEXICAL_TERMS + MAX_GOVERNED_EVIDENCE_DOCUMENT_CHUNKS + 1"

definition compile_evidence_document_budget ::
  "memory_core_budget \<Rightarrow> runtime_job_budget \<Rightarrow> store_runtime_budget \<Rightarrow>
   evidence_document_runtime_budget" where
  "compile_evidence_document_budget memory_core runtime_job store =
     (let max_total_bytes_per_transaction = sb_snapshot_max_bytes store div 2;
          max_document_bytes = min max_total_bytes_per_transaction MAX_GOVERNED_EVIDENCE_DOCUMENT_BYTES;
          max_document_body_bytes = min max_document_bytes MAX_GOVERNED_EVIDENCE_DOCUMENT_BODY_BYTES;
          max_documents_per_transaction =
            max (min (min (rj_maintenance_batch_max_items runtime_job) (sb_event_log_max_items store))
                     (sb_kv_max_entries store div EVIDENCE_DOCUMENT_KV_ENTRY_ENVELOPE_PER_DOCUMENT)) 1
      in \<lparr> ed_max_document_bytes = max_document_bytes,
           ed_max_document_body_bytes = max_document_body_bytes,
           ed_max_chunk_bytes = min max_document_body_bytes MAX_GOVERNED_EVIDENCE_DOCUMENT_CHUNK_BYTES,
           ed_max_chunks_per_document =
             min (mc_recall_working_set_max_items memory_core) MAX_GOVERNED_EVIDENCE_DOCUMENT_CHUNKS,
           ed_max_documents_per_transaction = max_documents_per_transaction,
           ed_max_documents_per_read = max_documents_per_transaction,
           ed_max_total_bytes_per_transaction = max_total_bytes_per_transaction \<rparr>)"

section \<open>Report identity\<close>

record report_env =
  sha256_hex :: "bytes \<Rightarrow> string"
  report_json :: "runtime_budget_report \<Rightarrow> bytes"

definition le_bytes :: "nat \<Rightarrow> nat \<Rightarrow> bytes" where
  "le_bytes n v = map (\<lambda>i. char_of (v div 256 ^ i mod 256)) [0..<n]"

definition finalize_runtime_budget_report_id :: "report_env \<Rightarrow> runtime_budget_report \<Rightarrow> runtime_budget_report" where
  "finalize_runtime_budget_report_id env report =
     (let report = report\<lparr>rb_report_id := []\<rparr>;
          payload = report_json env report
      in report\<lparr>rb_report_id := ''rtb-v2-'' @ sha256_hex env
           (''beetle-memory:runtime-budget-report:v2'' @ le_bytes 8 (length payload) @ payload)\<rparr>)"

section \<open>Compiling a report\<close>

definition manifest_for_profile :: "profile_id \<Rightarrow> store_medium \<Rightarrow> static_platform_manifest" where
  "manifest_for_profile profile medium =
     (let ceiling = profile_budget_ceiling profile in
      \<lparr> sm_manifest_id = ''static-manifest:'' @ profile_as_str profile @ '':'' @ store_medium_as_str medium,
        sm_profile = profile,
        sm_deployment_target = profile_target profile,
        sm_deployment_role = profile_role profile,
        sm_store_medium = medium,
        sm_memory_floor_bytes = pc_memory_floor_bytes ceiling,
        sm_storage_floor_bytes = pc_storage_floor_bytes ceiling,
        sm_notes = [] \<rparr>)"

definition render_provider_cap_of :: "runtime_budget_input \<Rightarrow> usize option" where
  "render_provider_cap_of inp =
     (case in_provider_model_context_limit inp of None \<Rightarrow> None | Some limit \<Rightarrow> pl_max_prompt_chars limit)"

definition compile_unavailable_reasons :: "runtime_budget_input \<Rightarrow> string list" where
  "compile_unavailable_reasons inp =
     (case unavailable_reason (in_resource_snapshot inp) of None \<Rightarrow> [] | Some r \<Rightarrow> [reason_as_str r])"

definition compile_limited_by :: "runtime_budget_input \<Rightarrow> string list" where
  "compile_limited_by inp =
     (let s = in_resource_snapshot inp;
          manifest = in_static_platform_manifest inp;
          mscale = memory_scale s manifest;
          sscale = storage_scale s manifest
      in (if unavailable_reason s \<noteq> None then [''runtime_resource_snapshot_unavailable''] else []) @
         (if stale s then [''runtime_resource_snapshot_stale''] else []) @
         (if pressure s \<noteq> Normal then [''resource_pressure:'' @ pressure_as_str (pressure s)] else []) @
         (if mscale < 100 then [''memory_scale:'' @ dec mscale] else []) @
         (if sm_store_medium manifest \<noteq> VolatileMemory \<and> sscale < 100
          then [''storage_scale:'' @ dec sscale] else []) @
         (if render_provider_cap_of inp \<noteq> None then [''provider_model_context_limit''] else []))"

definition compile_runtime_budget :: "report_env \<Rightarrow> runtime_budget_input \<Rightarrow> runtime_budget_report" where
  "compile_runtime_budget env inp =
     (let ceiling = profile_budget_ceiling (in_profile inp);
          s = in_resource_snapshot inp;
          manifest = in_static_platform_manifest inp;
          source_scale = source_scale_of s manifest;
          store_scale = store_scale_of s manifest;
          memory_core = compile_memory_core_budget ceiling source_scale;
          store = compile_store_budget ceiling store_scale;
          projection_source = compile_projection_source_budget ceiling source_scale;
          render = compile_projection_render_budget ceiling (pressure_scale (pressure s))
                     (render_provider_cap_of inp);
          maintenance = compile_maintenance_budget ceiling source_scale;
          runtime_job = compile_runtime_job_budget ceiling source_scale
      in finalize_runtime_budget_report_id env \<lparr>
           rb_report_id = [],
           rb_profile = in_profile inp,
           rb_deployment_target = profile_target (in_profile inp),
           rb_deployment_role = profile_role (in_profile inp),
           rb_store_medium = sm_store_medium manifest,
           rb_resource_snapshot = s,
           rb_static_platform_manifest = manifest,
           rb_provider_model_context_limit = in_provider_model_context_limit inp,
           rb_memory_core_budget = memory_core,
           rb_graph_expansion_budget = compile_graph_expansion_budget ceiling source_scale,
           rb_facet_recall_budget = compile_facet_recall_budget ceiling source_scale,
           rb_recall_delivery_budget = compile_recall_delivery_budget ceiling source_scale,
           rb_governed_state_budget = compile_governed_state_budget ceiling source_scale,
           rb_evidence_document_budget = compile_evidence_document_budget memory_core runtime_job store,
           rb_store_budget = store,
           rb_adapter_budget = compile_adapter_budget ceiling source_scale,
           rb_projection_source_budget = projection_source,
           rb_projection_render_budget = render,
           rb_maintenance_budget = maintenance,
           rb_runtime_job_budget = runtime_job,
           rb_llm_gateway_budget =
             compile_llm_gateway_budget ceiling source_scale render projection_source maintenance,
           rb_transcript_governance_budget = compile_transcript_governance_budget ceiling source_scale,
           rb_limited_by = compile_limited_by inp,
           rb_unavailable_reasons = compile_unavailable_reasons inp \<rparr>)"

section \<open>Bounds\<close>

lemma scale_usize_le: "p \<le> 100 \<Longrightarrow> scale_usize v p \<le> v"
proof -
  assume "p \<le> 100"
  then have "saturating_mul v p \<le> v * 100"
    by (simp add: saturating_mul_def min_le_iff_disj)
  then show ?thesis by (simp add: scale_usize_def)
qed

lemma scale_usize_mono: "p \<le> q \<Longrightarrow> scale_usize v p \<le> scale_usize v q"
  by (simp add: scale_usize_def saturating_mul_def div_le_mono min_le_iff_disj)

lemma max_scale_le: "p \<le> 100 \<Longrightarrow> f \<le> v \<Longrightarrow> max (scale_usize v p) f \<le> v"
  by (simp add: scale_usize_le)

lemma scale_le_max: "p \<le> q \<Longrightarrow> scale_usize v p \<le> max (scale_usize v q) f"
  by (rule max.coboundedI1 [OF scale_usize_mono])

lemma scales_le [simp]:
  "pressure_scale l \<le> 100" "memory_scale s m \<le> 100" "storage_scale s m \<le> 100"
  "source_scale_of s m \<le> 100" "store_scale_of s m \<le> 100"
proof -
  show pr: "pressure_scale l \<le> 100" for l by (cases l) simp_all
  show "memory_scale s m \<le> 100" "storage_scale s m \<le> 100"
    by (simp_all add: memory_scale_def storage_scale_def split: option.splits)
  show "source_scale_of s m \<le> 100" "store_scale_of s m \<le> 100"
    by (simp_all add: source_scale_of_def store_scale_of_def pr min.coboundedI2 split: store_medium.splits)
qed

lemma scales_ge:
  "35 \<le> pressure_scale l" "50 \<le> memory_scale s m" "50 \<le> storage_scale s m"
  "35 \<le> source_scale_of s m" "35 \<le> store_scale_of s m"
proof -
  show pr: "35 \<le> pressure_scale l" for l by (cases l) simp_all
  show ms: "50 \<le> memory_scale s m" and ss: "50 \<le> storage_scale s m"
    by (simp_all add: memory_scale_def storage_scale_def split: option.splits)
  show "35 \<le> source_scale_of s m" "35 \<le> store_scale_of s m"
    using pr [of "pressure s"] ms ss
    by (simp_all add: source_scale_of_def store_scale_of_def split: store_medium.splits)
qed

lemmas compile_defs = compile_memory_core_budget_def
  compile_graph_expansion_budget_def
  compile_facet_recall_budget_def
  compile_recall_delivery_budget_def
  compile_governed_state_budget_def
  compile_store_budget_def
  compile_adapter_budget_def
  compile_projection_source_budget_def
  compile_maintenance_budget_def
  compile_runtime_job_budget_def
  compile_transcript_governance_budget_def

lemmas ceiling_eval = ceiling_defs spec_defs mib_def

text \<open>
  Every row of the table meets the floors the compiler enforces; the bounds below are
  proved for any row that does.
\<close>

definition spec_meets_floors :: "profile_budget_spec \<Rightarrow> bool" where
  "spec_meets_floors spec \<longleftrightarrow>
     64 \<le> sp_records spec \<and> 64 \<le> sp_events spec \<and> 1 \<le> sp_metric_source_max_items spec \<and>
     1 \<le> sp_retained_long_term_revisions_per_owner spec \<and>
     1 \<le> sp_retained_runtime_skill_owners_per_scope spec \<and>
     1 \<le> sp_runtime_skill_lineage_depth spec \<and>
     64 * 1024 \<le> sp_blob_max_bytes spec \<and> 64 * 1024 \<le> sp_snapshot_max_bytes spec \<and>
     4 * 1024 \<le> sp_http_body_max_bytes spec \<and> 4 * 1024 \<le> sp_llm_response_max_bytes spec \<and>
     1024 \<le> sp_source_chars spec \<and> 512 \<le> sp_render_chars spec \<and>
     512 \<le> sp_maintenance_chars spec \<and> 1 \<le> sp_runtime_cache_max_runtimes spec \<and>
     1 \<le> sp_wss_subscriptions spec \<and> 1 \<le> sp_graph_max_hops spec \<and> sp_graph_max_hops spec \<le> 2"

lemma ceiling_of_spec:
  obtains spec where "profile_budget_ceiling pr = profile_budget spec" "spec_meets_floors spec"
  by (cases pr) (simp_all add: spec_meets_floors_def spec_defs)

text \<open>No compiled component budget exceeds the ceiling of the profile.\<close>

lemma compile_within:
  assumes "p \<le> 100"
  shows
    "within (mc_fields (compile_memory_core_budget (profile_budget_ceiling pr) p))
       (mc_fields (pc_memory_core_budget (profile_budget_ceiling pr)))"
    "within (ge_fields (compile_graph_expansion_budget (profile_budget_ceiling pr) p))
       (ge_fields (pc_graph_expansion_budget (profile_budget_ceiling pr)))"
    "within (fr_fields (compile_facet_recall_budget (profile_budget_ceiling pr) p))
       (fr_fields (pc_facet_recall_budget (profile_budget_ceiling pr)))"
    "within (rd_fields (compile_recall_delivery_budget (profile_budget_ceiling pr) p))
       (rd_fields (pc_recall_delivery_budget (profile_budget_ceiling pr)))"
    "within (gs_fields (compile_governed_state_budget (profile_budget_ceiling pr) p))
       (gs_fields (pc_governed_state_budget (profile_budget_ceiling pr)))"
    "within (sb_fields (compile_store_budget (profile_budget_ceiling pr) p))
       (sb_fields (pc_store_budget (profile_budget_ceiling pr)))"
    "within (ad_fields (compile_adapter_budget (profile_budget_ceiling pr) p))
       (ad_fields (pc_adapter_budget (profile_budget_ceiling pr)))"
    "within (ps_fields (compile_projection_source_budget (profile_budget_ceiling pr) p))
       (ps_fields (pc_projection_source_budget (profile_budget_ceiling pr)))"
    "within (mb_fields (compile_maintenance_budget (profile_budget_ceiling pr) p))
       (mb_fields (pc_maintenance_budget (profile_budget_ceiling pr)))"
    "within (rj_fields (compile_runtime_job_budget (profile_budget_ceiling pr) p))
       (rj_fields (pc_runtime_job_budget (profile_budget_ceiling pr)))"
    "within (tg_fields (compile_transcript_governance_budget (profile_budget_ceiling pr) p))
       (tg_fields (pc_transcript_governance_budget (profile_budget_ceiling pr)))"
  by (rule ceiling_of_spec [of pr]; use assms in \<open>simp add: spec_meets_floors_def compile_defs
      budget_fields_defs ceiling_defs Let_def scale_usize_le max.coboundedI2\<close>)+

text \<open>Every field of a compiled component budget is positive.\<close>

lemma compile_positive:
  "list_all ((<) 0) (mc_fields (compile_memory_core_budget (profile_budget_ceiling pr) p))"
  "list_all ((<) 0) (ge_fields (compile_graph_expansion_budget (profile_budget_ceiling pr) p))"
  "list_all ((<) 0) (fr_fields (compile_facet_recall_budget (profile_budget_ceiling pr) p))"
  "list_all ((<) 0) (rd_fields (compile_recall_delivery_budget (profile_budget_ceiling pr) p))"
  "list_all ((<) 0) (gs_fields (compile_governed_state_budget (profile_budget_ceiling pr) p))"
  "list_all ((<) 0) (sb_fields (compile_store_budget (profile_budget_ceiling pr) p))"
  "list_all ((<) 0) (ad_fields (compile_adapter_budget (profile_budget_ceiling pr) p))"
  "list_all ((<) 0) (ps_fields (compile_projection_source_budget (profile_budget_ceiling pr) p))"
  "list_all ((<) 0) (mb_fields (compile_maintenance_budget (profile_budget_ceiling pr) p))"
  "list_all ((<) 0) (rj_fields (compile_runtime_job_budget (profile_budget_ceiling pr) p))"
  "list_all ((<) 0) (tg_fields (compile_transcript_governance_budget (profile_budget_ceiling pr) p))"
  by (rule ceiling_of_spec [of pr]; simp add: spec_meets_floors_def compile_defs
      budget_fields_defs ceiling_defs Let_def less_max_iff_disj)+

text \<open>A smaller scale never gives a larger budget, whatever the ceiling.\<close>

lemma compile_mono:
  assumes "p \<le> q"
  shows
    "within (mc_fields (compile_memory_core_budget c p)) (mc_fields (compile_memory_core_budget c q))"
    "within (ge_fields (compile_graph_expansion_budget c p)) (ge_fields (compile_graph_expansion_budget c q))"
    "within (fr_fields (compile_facet_recall_budget c p)) (fr_fields (compile_facet_recall_budget c q))"
    "within (rd_fields (compile_recall_delivery_budget c p)) (rd_fields (compile_recall_delivery_budget c q))"
    "within (gs_fields (compile_governed_state_budget c p)) (gs_fields (compile_governed_state_budget c q))"
    "within (sb_fields (compile_store_budget c p)) (sb_fields (compile_store_budget c q))"
    "within (ad_fields (compile_adapter_budget c p)) (ad_fields (compile_adapter_budget c q))"
    "within (ps_fields (compile_projection_source_budget c p)) (ps_fields (compile_projection_source_budget c q))"
    "within (mb_fields (compile_maintenance_budget c p)) (mb_fields (compile_maintenance_budget c q))"
    "within (rj_fields (compile_runtime_job_budget c p)) (rj_fields (compile_runtime_job_budget c q))"
    "within (tg_fields (compile_transcript_governance_budget c p)) (tg_fields (compile_transcript_governance_budget c q))"
  by (simp_all only: compile_defs budget_fields_defs Let_def)
     (simp_all add: scale_le_max [OF assms])

end
