(* ===== verification/Budget_Limits.thy ===== *)
theory Budget_Limits
  imports Budget_Compile
begin

text \<open>
  Narrowing a compiled report, from \<^verbatim>\<open>core/src/budget.rs\<close>: the validators of the replay
  limits, the field-wise minimum with a limit, the ceiling the store was admitted with, and
  the composition \<open>compile_authority_report\<close>. The lemmas show that narrowing yields a
  valid budget within both arguments, and that the report identity is recomputed exactly
  when the payload changed.
\<close>

section \<open>Validators\<close>

definition nonproduction_limits_error :: "string \<Rightarrow> error" where
  "nonproduction_limits_error reason = config_error ''runtime_budget_nonproduction_limits'' reason"

definition validate_graph_expansion_budget :: "graph_expansion_runtime_budget \<Rightarrow> unit result" where
  "validate_graph_expansion_budget b =
     (if ge_max_hops b = 0 \<or> 2 < ge_max_hops b \<or>
      ge_max_seed_candidates b = 0 \<or>
      ge_max_expanded_candidates b = 0 \<or>
      ge_max_neighbors_per_candidate b = 0 \<or>
      ge_max_graph_nodes_loaded b = 0 \<or>
      ge_max_graph_edges_loaded b = 0 \<or>
      ge_max_backlinks_loaded b = 0 \<or>
      ge_compact_graph_node_limit b = 0 \<or>
      ge_compact_graph_edge_limit b = 0
      then Err (nonproduction_limits_error ''graph_expansion_budget_has_zero_or_out_of_range_field'')
      else if ge_max_hops b = 1 \<and>
              (ge_default_recall_multi_hop_allowed b \<or> ge_eval_recall_multi_hop_allowed b)
      then Err (nonproduction_limits_error ''graph_expansion_multi_hop_requires_two_hops'')
      else Ok ())"

definition validate_facet_recall_budget :: "facet_recall_runtime_budget \<Rightarrow> unit result" where
  "validate_facet_recall_budget b =
     (if fr_max_query_facets b = 0 \<or>
      fr_max_facet_index_docs_read b = 0 \<or>
      fr_max_facet_anchor_candidates b = 0 \<or>
      fr_max_facet_expanded_candidates b = 0
      then Err (nonproduction_limits_error ''facet_recall_budget_has_zero_field'')
      else Ok ())"

definition validate_recall_delivery_budget :: "recall_delivery_runtime_budget \<Rightarrow> unit result" where
  "validate_recall_delivery_budget b =
     (if rd_max_selected_candidates b = 0 \<or>
      rd_max_rendered_capsules b = 0 \<or>
      rd_max_capsule_chars b = 0 \<or>
      rd_max_loss_ledger_entries b = 0
      then Err (nonproduction_limits_error ''recall_delivery_budget_has_zero_field'')
      else if rd_max_selected_candidates b < rd_max_rendered_capsules b
      then Err (nonproduction_limits_error ''rendered_capsules_exceed_selected_candidates'')
      else Ok ())"

definition validate_transcript_governance_budget :: "transcript_governance_budget \<Rightarrow> unit result" where
  "validate_transcript_governance_budget b =
     (if tg_transcript_page_size b = 0 \<or>
      tg_host_refs_per_turn b = 0 \<or>
      tg_max_attrs_per_turn b = 0 \<or>
      tg_max_attrs_per_message b = 0 \<or>
      tg_redaction_items_per_page b = 0 \<or>
      tg_derived_refs_per_report b = 0 \<or>
      tg_repair_issues_per_report b = 0
      then Err (nonproduction_limits_error ''transcript_governance_budget_has_zero_field'')
      else if tg_max_attrs_per_turn b < tg_max_attrs_per_message b
      then Err (nonproduction_limits_error ''message_attrs_exceed_turn_attrs'')
      else Ok ())"

definition validate_store_budget :: "store_runtime_budget \<Rightarrow> string \<Rightarrow> unit result" where
  "validate_store_budget b stage =
     (if sb_metric_source_max_items b = 0 \<or>
      sb_event_log_max_items b = 0 \<or>
      sb_kv_max_entries b = 0 \<or>
      sb_blob_max_bytes b = 0 \<or>
      sb_snapshot_max_bytes b < 2 \<or>
      sb_logical_namespace_max_bytes b = 0 \<or>
      sb_logical_key_max_bytes b = 0 \<or>
      sb_event_record_key_max_bytes b = 0 \<or>
      sb_export_max_bytes b = 0 \<or>
      sb_import_max_bytes b = 0
      then Err (config_error stage ''store_budget_has_zero_or_invalid_field'')
      else if sb_logical_key_max_bytes b < sb_logical_namespace_max_bytes b \<or>
              sb_event_record_key_max_bytes b < sb_logical_namespace_max_bytes b
      then Err (config_error stage ''store_key_budget_is_smaller_than_namespace_budget'')
      else if sb_kv_max_entries b < EVIDENCE_DOCUMENT_KV_ENTRY_ENVELOPE_PER_DOCUMENT
      then Err (config_error stage ''store_kv_budget_cannot_hold_evidence_document_envelope'')
      else Ok ())"

definition store_budget_is_at_least :: "store_runtime_budget \<Rightarrow> store_runtime_budget \<Rightarrow> bool" where
  "store_budget_is_at_least candidate flr \<longleftrightarrow>
     sb_metric_source_max_items flr \<le> sb_metric_source_max_items candidate \<and>
     sb_event_log_max_items flr \<le> sb_event_log_max_items candidate \<and>
     sb_kv_max_entries flr \<le> sb_kv_max_entries candidate \<and>
     sb_blob_max_bytes flr \<le> sb_blob_max_bytes candidate \<and>
     sb_snapshot_max_bytes flr \<le> sb_snapshot_max_bytes candidate \<and>
     sb_logical_namespace_max_bytes flr \<le> sb_logical_namespace_max_bytes candidate \<and>
     sb_logical_key_max_bytes flr \<le> sb_logical_key_max_bytes candidate \<and>
     sb_event_record_key_max_bytes flr \<le> sb_event_record_key_max_bytes candidate \<and>
     sb_export_max_bytes flr \<le> sb_export_max_bytes candidate \<and>
     sb_import_max_bytes flr \<le> sb_import_max_bytes candidate"

section \<open>Field-wise minima\<close>

definition min_store_budget ::
  "store_runtime_budget \<Rightarrow> store_runtime_budget \<Rightarrow> store_runtime_budget" where
  "min_store_budget l r = \<lparr>
     sb_metric_source_max_items = min (sb_metric_source_max_items l) (sb_metric_source_max_items r),
     sb_event_log_max_items = min (sb_event_log_max_items l) (sb_event_log_max_items r),
     sb_kv_max_entries = min (sb_kv_max_entries l) (sb_kv_max_entries r),
     sb_blob_max_bytes = min (sb_blob_max_bytes l) (sb_blob_max_bytes r),
     sb_snapshot_max_bytes = min (sb_snapshot_max_bytes l) (sb_snapshot_max_bytes r),
     sb_logical_namespace_max_bytes = min (sb_logical_namespace_max_bytes l) (sb_logical_namespace_max_bytes r),
     sb_logical_key_max_bytes = min (sb_logical_key_max_bytes l) (sb_logical_key_max_bytes r),
     sb_event_record_key_max_bytes = min (sb_event_record_key_max_bytes l) (sb_event_record_key_max_bytes r),
     sb_export_max_bytes = min (sb_export_max_bytes l) (sb_export_max_bytes r),
     sb_import_max_bytes = min (sb_import_max_bytes l) (sb_import_max_bytes r) \<rparr>"

definition min_graph_expansion_budget ::
  "graph_expansion_runtime_budget \<Rightarrow> graph_expansion_runtime_budget \<Rightarrow> graph_expansion_runtime_budget" where
  "min_graph_expansion_budget compiled limit = \<lparr>
     ge_max_hops = min (ge_max_hops compiled) (ge_max_hops limit),
     ge_max_seed_candidates = min (ge_max_seed_candidates compiled) (ge_max_seed_candidates limit),
     ge_max_expanded_candidates = min (ge_max_expanded_candidates compiled) (ge_max_expanded_candidates limit),
     ge_max_neighbors_per_candidate = min (ge_max_neighbors_per_candidate compiled) (ge_max_neighbors_per_candidate limit),
     ge_max_graph_nodes_loaded = min (ge_max_graph_nodes_loaded compiled) (ge_max_graph_nodes_loaded limit),
     ge_max_graph_edges_loaded = min (ge_max_graph_edges_loaded compiled) (ge_max_graph_edges_loaded limit),
     ge_max_backlinks_loaded = min (ge_max_backlinks_loaded compiled) (ge_max_backlinks_loaded limit),
     ge_compact_graph_node_limit = min (ge_compact_graph_node_limit compiled) (ge_compact_graph_node_limit limit),
     ge_compact_graph_edge_limit = min (ge_compact_graph_edge_limit compiled) (ge_compact_graph_edge_limit limit),
     ge_default_recall_multi_hop_allowed = (ge_default_recall_multi_hop_allowed compiled \<and> ge_default_recall_multi_hop_allowed limit),
     ge_eval_recall_multi_hop_allowed = (ge_eval_recall_multi_hop_allowed compiled \<and> ge_eval_recall_multi_hop_allowed limit) \<rparr>"

definition min_facet_recall_budget ::
  "facet_recall_runtime_budget \<Rightarrow> facet_recall_runtime_budget \<Rightarrow> facet_recall_runtime_budget" where
  "min_facet_recall_budget compiled limit = \<lparr>
     fr_max_query_facets = min (fr_max_query_facets compiled) (fr_max_query_facets limit),
     fr_max_facet_index_docs_read = min (fr_max_facet_index_docs_read compiled) (fr_max_facet_index_docs_read limit),
     fr_max_facet_anchor_candidates = min (fr_max_facet_anchor_candidates compiled) (fr_max_facet_anchor_candidates limit),
     fr_max_facet_expanded_candidates = min (fr_max_facet_expanded_candidates compiled) (fr_max_facet_expanded_candidates limit) \<rparr>"

definition min_recall_delivery_budget ::
  "recall_delivery_runtime_budget \<Rightarrow> recall_delivery_runtime_budget \<Rightarrow> recall_delivery_runtime_budget" where
  "min_recall_delivery_budget compiled limit = \<lparr>
     rd_max_selected_candidates = min (rd_max_selected_candidates compiled) (rd_max_selected_candidates limit),
     rd_max_rendered_capsules = min (rd_max_rendered_capsules compiled) (rd_max_rendered_capsules limit),
     rd_max_capsule_chars = min (rd_max_capsule_chars compiled) (rd_max_capsule_chars limit),
     rd_max_loss_ledger_entries = min (rd_max_loss_ledger_entries compiled) (rd_max_loss_ledger_entries limit) \<rparr>"

definition min_transcript_governance_budget ::
  "transcript_governance_budget \<Rightarrow> transcript_governance_budget \<Rightarrow> transcript_governance_budget" where
  "min_transcript_governance_budget compiled limit = \<lparr>
     tg_transcript_page_size = min (tg_transcript_page_size compiled) (tg_transcript_page_size limit),
     tg_host_refs_per_turn = min (tg_host_refs_per_turn compiled) (tg_host_refs_per_turn limit),
     tg_max_attrs_per_turn = min (tg_max_attrs_per_turn compiled) (tg_max_attrs_per_turn limit),
     tg_max_attrs_per_message = min (tg_max_attrs_per_message compiled) (tg_max_attrs_per_message limit),
     tg_redaction_items_per_page = min (tg_redaction_items_per_page compiled) (tg_redaction_items_per_page limit),
     tg_derived_refs_per_report = min (tg_derived_refs_per_report compiled) (tg_derived_refs_per_report limit),
     tg_repair_issues_per_report = min (tg_repair_issues_per_report compiled) (tg_repair_issues_per_report limit) \<rparr>"

section \<open>Replay limits\<close>

record nonproduction_limits =
  nl_graph_expansion_budget :: "graph_expansion_runtime_budget option"
  nl_facet_recall_budget :: "facet_recall_runtime_budget option"
  nl_recall_delivery_budget :: "recall_delivery_runtime_budget option"
  nl_transcript_governance_budget :: "transcript_governance_budget option"
  nl_store_budget_limit :: "store_runtime_budget option"

definition limits_new :: nonproduction_limits where
  "limits_new = \<lparr> nl_graph_expansion_budget = None, nl_facet_recall_budget = None,
     nl_recall_delivery_budget = None, nl_transcript_governance_budget = None,
     nl_store_budget_limit = None \<rparr>"

definition try_with_graph_expansion_budget ::
  "nonproduction_limits \<Rightarrow> graph_expansion_runtime_budget \<Rightarrow> nonproduction_limits result" where
  "try_with_graph_expansion_budget l b =
     and_then (validate_graph_expansion_budget b) (\<lambda>_. Ok (l\<lparr>nl_graph_expansion_budget := Some b\<rparr>))"

definition try_with_facet_recall_budget ::
  "nonproduction_limits \<Rightarrow> facet_recall_runtime_budget \<Rightarrow> nonproduction_limits result" where
  "try_with_facet_recall_budget l b =
     and_then (validate_facet_recall_budget b) (\<lambda>_. Ok (l\<lparr>nl_facet_recall_budget := Some b\<rparr>))"

definition try_with_recall_delivery_budget ::
  "nonproduction_limits \<Rightarrow> recall_delivery_runtime_budget \<Rightarrow> nonproduction_limits result" where
  "try_with_recall_delivery_budget l b =
     and_then (validate_recall_delivery_budget b) (\<lambda>_. Ok (l\<lparr>nl_recall_delivery_budget := Some b\<rparr>))"

definition try_with_transcript_governance_budget ::
  "nonproduction_limits \<Rightarrow> transcript_governance_budget \<Rightarrow> nonproduction_limits result" where
  "try_with_transcript_governance_budget l b =
     and_then (validate_transcript_governance_budget b)
       (\<lambda>_. Ok (l\<lparr>nl_transcript_governance_budget := Some b\<rparr>))"

definition try_with_store_budget_limit ::
  "nonproduction_limits \<Rightarrow> store_runtime_budget \<Rightarrow> nonproduction_limits result" where
  "try_with_store_budget_limit l b =
     and_then (validate_store_budget b ''runtime_budget_nonproduction_limits'')
       (\<lambda>_. Ok (l\<lparr>nl_store_budget_limit := Some b\<rparr>))"

definition on_some :: "('a \<Rightarrow> unit result) \<Rightarrow> 'a option \<Rightarrow> unit result" where
  "on_some f x = (case x of None \<Rightarrow> Ok () | Some v \<Rightarrow> f v)"

definition limits_validate :: "nonproduction_limits \<Rightarrow> unit result" where
  "limits_validate l =
     and_then (on_some validate_graph_expansion_budget (nl_graph_expansion_budget l)) (\<lambda>_.
     and_then (on_some validate_facet_recall_budget (nl_facet_recall_budget l)) (\<lambda>_.
     and_then (on_some validate_recall_delivery_budget (nl_recall_delivery_budget l)) (\<lambda>_.
     and_then (on_some validate_transcript_governance_budget (nl_transcript_governance_budget l)) (\<lambda>_.
     on_some (\<lambda>b. validate_store_budget b ''runtime_budget_nonproduction_limits'')
       (nl_store_budget_limit l)))))"

section \<open>Narrowing a report\<close>

definition recompile_store_derived_budgets :: "runtime_budget_report \<Rightarrow> runtime_budget_report" where
  "recompile_store_derived_budgets report =
     report\<lparr>rb_evidence_document_budget := compile_evidence_document_budget
        (rb_memory_core_budget report) (rb_runtime_job_budget report) (rb_store_budget report)\<rparr>"

definition push_limited_by :: "runtime_budget_report \<Rightarrow> string \<Rightarrow> runtime_budget_report" where
  "push_limited_by report label = report\<lparr>rb_limited_by := rb_limited_by report @ [label]\<rparr>"

definition sort_dedup_limited_by :: "runtime_budget_report \<Rightarrow> runtime_budget_report" where
  "sort_dedup_limited_by report = report\<lparr>rb_limited_by := remdups_adj (sort (rb_limited_by report))\<rparr>"

definition apply_store_budget_ceiling ::
  "report_env \<Rightarrow> runtime_budget_report \<Rightarrow> store_runtime_budget \<Rightarrow> string \<Rightarrow> runtime_budget_report" where
  "apply_store_budget_ceiling env report ceiling limited_by =
     (let constrained = min_store_budget (rb_store_budget report) ceiling in
      if constrained \<noteq> rb_store_budget report then
        let report = push_limited_by (report\<lparr>rb_store_budget := constrained\<rparr>) limited_by;
            report = recompile_store_derived_budgets report
        in finalize_runtime_budget_report_id env (sort_dedup_limited_by report)
      else report)"

definition limit_graph_expansion :: "nonproduction_limits \<Rightarrow> runtime_budget_report \<Rightarrow> runtime_budget_report" where
  "limit_graph_expansion limits report =
     (case nl_graph_expansion_budget limits of None \<Rightarrow> report
      | Some ceiling \<Rightarrow>
          let constrained = min_graph_expansion_budget (rb_graph_expansion_budget report) ceiling in
          if constrained \<noteq> rb_graph_expansion_budget report
          then push_limited_by (report\<lparr>rb_graph_expansion_budget := constrained\<rparr>)
                 ''nonproduction_graph_expansion_limit''
          else report)"

definition limit_facet_recall :: "nonproduction_limits \<Rightarrow> runtime_budget_report \<Rightarrow> runtime_budget_report" where
  "limit_facet_recall limits report =
     (case nl_facet_recall_budget limits of None \<Rightarrow> report
      | Some ceiling \<Rightarrow>
          let constrained = min_facet_recall_budget (rb_facet_recall_budget report) ceiling in
          if constrained \<noteq> rb_facet_recall_budget report
          then push_limited_by (report\<lparr>rb_facet_recall_budget := constrained\<rparr>)
                 ''nonproduction_facet_recall_limit''
          else report)"

definition limit_recall_delivery :: "nonproduction_limits \<Rightarrow> runtime_budget_report \<Rightarrow> runtime_budget_report" where
  "limit_recall_delivery limits report =
     (case nl_recall_delivery_budget limits of None \<Rightarrow> report
      | Some ceiling \<Rightarrow>
          let constrained = min_recall_delivery_budget (rb_recall_delivery_budget report) ceiling in
          if constrained \<noteq> rb_recall_delivery_budget report
          then push_limited_by (report\<lparr>rb_recall_delivery_budget := constrained\<rparr>)
                 ''nonproduction_recall_delivery_limit''
          else report)"

definition limit_transcript_governance ::
  "nonproduction_limits \<Rightarrow> runtime_budget_report \<Rightarrow> runtime_budget_report" where
  "limit_transcript_governance limits report =
     (case nl_transcript_governance_budget limits of None \<Rightarrow> report
      | Some ceiling \<Rightarrow>
          let constrained =
            min_transcript_governance_budget (rb_transcript_governance_budget report) ceiling in
          if constrained \<noteq> rb_transcript_governance_budget report
          then push_limited_by (report\<lparr>rb_transcript_governance_budget := constrained\<rparr>)
                 ''nonproduction_transcript_governance_limit''
          else report)"

definition limit_store :: "nonproduction_limits \<Rightarrow> runtime_budget_report \<Rightarrow> runtime_budget_report" where
  "limit_store limits report =
     (case nl_store_budget_limit limits of None \<Rightarrow> report
      | Some ceiling \<Rightarrow>
          let constrained = min_store_budget (rb_store_budget report) ceiling in
          if constrained \<noteq> rb_store_budget report
          then push_limited_by (report\<lparr>rb_store_budget := constrained\<rparr>)
                 ''nonproduction_store_budget_limit''
          else report)"

definition apply_nonproduction_runtime_budget_limits ::
  "report_env \<Rightarrow> runtime_budget_report \<Rightarrow> nonproduction_limits \<Rightarrow> runtime_budget_report" where
  "apply_nonproduction_runtime_budget_limits env report limits =
     (let report = limit_graph_expansion limits report;
          report = limit_facet_recall limits report;
          report = limit_recall_delivery limits report;
          report = limit_transcript_governance limits report;
          report = limit_store limits report;
          report = recompile_store_derived_budgets report
      in finalize_runtime_budget_report_id env (sort_dedup_limited_by report))"

definition compile_nonproduction_runtime_budget ::
  "report_env \<Rightarrow> runtime_budget_input \<Rightarrow> nonproduction_limits \<Rightarrow> runtime_budget_report result" where
  "compile_nonproduction_runtime_budget env inp limits =
     and_then (limits_validate limits) (\<lambda>_.
       Ok (apply_nonproduction_runtime_budget_limits env (compile_runtime_budget env inp) limits))"

datatype compile_mode = Production | Nonproduction nonproduction_limits

definition compile_authority_report ::
  "report_env \<Rightarrow> profile_id \<Rightarrow> static_platform_manifest \<Rightarrow> provider_model_context_limit option \<Rightarrow>
   compile_mode \<Rightarrow> snapshot \<Rightarrow> store_runtime_budget option \<Rightarrow> runtime_budget_report" where
  "compile_authority_report env profile manifest provider_limit mode s admission_ceiling =
     (let report = compile_runtime_budget env
            \<lparr> in_profile = profile, in_resource_snapshot = s, in_static_platform_manifest = manifest,
              in_provider_model_context_limit = provider_limit \<rparr>;
          report = (case mode of
            Production \<Rightarrow> report
          | Nonproduction limits \<Rightarrow> apply_nonproduction_runtime_budget_limits env report limits)
      in case admission_ceiling of
           Some ceiling \<Rightarrow>
             apply_store_budget_ceiling env report ceiling ''runtime_store_admission_ceiling''
         | None \<Rightarrow> report)"

section \<open>Benchmark capacity\<close>

record benchmark_extension =
  be_report_id :: string
  be_capacity :: store_runtime_budget

definition benchmark_extension_try_new ::
  "runtime_budget_report \<Rightarrow> store_runtime_budget \<Rightarrow> benchmark_extension result" where
  "benchmark_extension_try_new report capacity =
     and_then (validate_store_budget capacity ''runtime_budget_benchmark_capacity'') (\<lambda>_.
       if \<not> store_budget_is_at_least capacity (rb_store_budget report)
       then Err (config_error ''runtime_budget_benchmark_capacity''
                   ''capacity_is_below_runtime_store_budget'')
       else Ok \<lparr> be_report_id = rb_report_id report, be_capacity = capacity \<rparr>)"

section \<open>Report identity\<close>

lemma finalize_sel [simp]:
  "rb_profile (finalize_runtime_budget_report_id env r) = rb_profile r"
  "rb_deployment_target (finalize_runtime_budget_report_id env r) = rb_deployment_target r"
  "rb_deployment_role (finalize_runtime_budget_report_id env r) = rb_deployment_role r"
  "rb_store_medium (finalize_runtime_budget_report_id env r) = rb_store_medium r"
  "rb_resource_snapshot (finalize_runtime_budget_report_id env r) = rb_resource_snapshot r"
  "rb_static_platform_manifest (finalize_runtime_budget_report_id env r) = rb_static_platform_manifest r"
  "rb_provider_model_context_limit (finalize_runtime_budget_report_id env r) = rb_provider_model_context_limit r"
  "rb_memory_core_budget (finalize_runtime_budget_report_id env r) = rb_memory_core_budget r"
  "rb_graph_expansion_budget (finalize_runtime_budget_report_id env r) = rb_graph_expansion_budget r"
  "rb_facet_recall_budget (finalize_runtime_budget_report_id env r) = rb_facet_recall_budget r"
  "rb_recall_delivery_budget (finalize_runtime_budget_report_id env r) = rb_recall_delivery_budget r"
  "rb_governed_state_budget (finalize_runtime_budget_report_id env r) = rb_governed_state_budget r"
  "rb_evidence_document_budget (finalize_runtime_budget_report_id env r) = rb_evidence_document_budget r"
  "rb_store_budget (finalize_runtime_budget_report_id env r) = rb_store_budget r"
  "rb_adapter_budget (finalize_runtime_budget_report_id env r) = rb_adapter_budget r"
  "rb_projection_source_budget (finalize_runtime_budget_report_id env r) = rb_projection_source_budget r"
  "rb_projection_render_budget (finalize_runtime_budget_report_id env r) = rb_projection_render_budget r"
  "rb_maintenance_budget (finalize_runtime_budget_report_id env r) = rb_maintenance_budget r"
  "rb_runtime_job_budget (finalize_runtime_budget_report_id env r) = rb_runtime_job_budget r"
  "rb_llm_gateway_budget (finalize_runtime_budget_report_id env r) = rb_llm_gateway_budget r"
  "rb_transcript_governance_budget (finalize_runtime_budget_report_id env r) = rb_transcript_governance_budget r"
  "rb_limited_by (finalize_runtime_budget_report_id env r) = rb_limited_by r"
  "rb_unavailable_reasons (finalize_runtime_budget_report_id env r) = rb_unavailable_reasons r"
  by (simp_all add: finalize_runtime_budget_report_id_def Let_def)

lemma finalize_clear: "(finalize_runtime_budget_report_id env r)\<lparr>rb_report_id := i\<rparr> = r\<lparr>rb_report_id := i\<rparr>"
  by (simp add: finalize_runtime_budget_report_id_def Let_def)

lemma finalize_idem [simp]:
  "finalize_runtime_budget_report_id env (finalize_runtime_budget_report_id env r) =
   finalize_runtime_budget_report_id env r"
  by (simp add: finalize_runtime_budget_report_id_def Let_def)

definition identity_covers_payload :: "report_env \<Rightarrow> runtime_budget_report \<Rightarrow> bool" where
  "identity_covers_payload env r \<longleftrightarrow> rb_report_id (finalize_runtime_budget_report_id env r) = rb_report_id r"

lemma identity_finalize [simp]: "identity_covers_payload env (finalize_runtime_budget_report_id env r)"
  by (simp add: identity_covers_payload_def)

lemma identity_compile [simp]: "identity_covers_payload env (compile_runtime_budget env inp)"
  unfolding compile_runtime_budget_def Let_def by (rule identity_finalize)

section \<open>Narrowing\<close>

text \<open>
  What each of the five minima promises: the result is within both arguments, stays valid
  when both are valid, and narrowing twice by the same limit changes nothing more.
\<close>

locale narrowing =
  fixes narrow :: "'b \<Rightarrow> 'b \<Rightarrow> 'b" and fields :: "'b \<Rightarrow> nat list" and valid :: "'b \<Rightarrow> bool"
  assumes within_left: "within (fields (narrow x c)) (fields x)"
    and within_right: "within (fields (narrow x c)) (fields c)"
    and keeps_valid: "valid x \<Longrightarrow> valid c \<Longrightarrow> valid (narrow x c)"
    and absorb: "narrow (narrow x c) c = narrow x c"
begin

definition narrow_opt :: "'b \<Rightarrow> 'b option \<Rightarrow> 'b" where
  "narrow_opt x lim = (case lim of None \<Rightarrow> x | Some c \<Rightarrow> narrow x c)"

lemma narrow_opt_simps [simp]:
  "narrow_opt x None = x" "narrow_opt x (Some c) = narrow x c"
  by (simp_all add: narrow_opt_def)

lemma narrow_opt_within: "within (fields (narrow_opt x lim)) (fields x)"
  by (cases lim) (simp_all add: within_left)

lemma narrow_opt_limit: "lim = Some c \<Longrightarrow> within (fields (narrow_opt x lim)) (fields c)"
  by (simp add: within_right)

lemma narrow_opt_valid: "valid x \<Longrightarrow> (\<And>c. lim = Some c \<Longrightarrow> valid c) \<Longrightarrow> valid (narrow_opt x lim)"
  by (cases lim) (simp_all add: keeps_valid)

lemma narrow_opt_absorb: "narrow_opt (narrow_opt x lim) lim = narrow_opt x lim"
  by (cases lim) (simp_all add: absorb)

text \<open>A chain of narrowings stays within the start and within every limit of the chain.\<close>

lemma narrow_chain_within: "within (fields (foldl narrow x cs)) (fields x)"
  by (induction cs arbitrary: x) (auto intro: within_trans within_left)

lemma narrow_chain_limit: "c \<in> set cs \<Longrightarrow> within (fields (foldl narrow x cs)) (fields c)"
  by (induction cs arbitrary: x) (auto intro: within_trans [OF narrow_chain_within within_right])

lemma narrow_chain_valid: "valid x \<Longrightarrow> list_all valid cs \<Longrightarrow> valid (foldl narrow x cs)"
  by (induction cs arbitrary: x) (auto intro: keeps_valid)

end

lemmas min_defs = min_store_budget_def min_graph_expansion_budget_def min_facet_recall_budget_def
  min_recall_delivery_budget_def min_transcript_governance_budget_def

lemmas validate_defs = validate_store_budget_def validate_graph_expansion_budget_def
  validate_facet_recall_budget_def validate_recall_delivery_budget_def
  validate_transcript_governance_budget_def

interpretation store_narrow: narrowing min_store_budget sb_fields "\<lambda>b. validate_store_budget b stage = Inr ()"
  by (unfold_locales, simp_all add: min_defs sb_fields_def validate_defs if_Err_Ok min_le_iff_disj not_less
      EVIDENCE_DOCUMENT_KV_ENTRY_ENVELOPE_PER_DOCUMENT_def, linarith)

interpretation graph_narrow: narrowing min_graph_expansion_budget ge_fields "\<lambda>b. validate_graph_expansion_budget b = Inr ()"
  by unfold_locales (simp_all add: min_defs ge_fields_def validate_defs if_Err_Ok min_def)

interpretation facet_narrow: narrowing min_facet_recall_budget fr_fields "\<lambda>b. validate_facet_recall_budget b = Inr ()"
  by unfold_locales (simp_all add: min_defs fr_fields_def validate_defs if_Err_Ok)

interpretation delivery_narrow: narrowing min_recall_delivery_budget rd_fields "\<lambda>b. validate_recall_delivery_budget b = Inr ()"
  by (unfold_locales, simp_all add: min_defs rd_fields_def validate_defs if_Err_Ok min_le_iff_disj not_less, linarith)

interpretation transcript_narrow: narrowing min_transcript_governance_budget tg_fields
  "\<lambda>b. validate_transcript_governance_budget b = Inr ()"
  by (unfold_locales, simp_all add: min_defs tg_fields_def validate_defs if_Err_Ok min_le_iff_disj not_less, linarith)

section \<open>Compiled budgets are valid\<close>

lemma scale_usize_mono_value: "v \<le> w \<Longrightarrow> scale_usize v p \<le> scale_usize w p"
  by (auto simp: scale_usize_def saturating_mul_def min_le_iff_disj intro!: div_le_mono)

text \<open>The smallest scale is 35 per cent, so the smallest row still holds one evidence document.\<close>

lemma scaled_records_hold_envelope:
  assumes "35 \<le> p"
  shows "EVIDENCE_DOCUMENT_KV_ENTRY_ENVELOPE_PER_DOCUMENT \<le>
     scale_usize (sb_kv_max_entries (pc_store_budget (profile_budget_ceiling pr))) p"
proof -
  have "512 \<le> sb_kv_max_entries (pc_store_budget (profile_budget_ceiling pr))"
    by (cases pr) (simp_all add: store_ceiling_def spec_defs)
  then have "scale_usize 512 35 \<le> scale_usize (sb_kv_max_entries (pc_store_budget (profile_budget_ceiling pr))) p"
    using scale_usize_mono [OF assms] scale_usize_mono_value le_trans by blast
  then show ?thesis
    by (simp add: EVIDENCE_DOCUMENT_KV_ENTRY_ENVELOPE_PER_DOCUMENT_def scale_usize_def arith_defs
        MAX_EVIDENCE_DOCUMENT_FACET_LEXICAL_TERMS_def MAX_GOVERNED_EVIDENCE_DOCUMENT_CHUNKS_def)
qed

lemma compiled_store_valid:
  assumes "35 \<le> p"
  shows "validate_store_budget (compile_store_budget (profile_budget_ceiling pr) p) stage = Inr ()"
proof (rule ceiling_of_spec [of pr])
  fix spec assume spec: "profile_budget_ceiling pr = profile_budget spec" "spec_meets_floors spec"
  show ?thesis
    using scaled_records_hold_envelope [OF assms, of pr] spec
    by (simp add: validate_defs compile_defs Let_def if_Err_Ok spec_meets_floors_def not_less
        le_max_iff_disj store_ceiling_def)
qed

lemma compiled_graph_valid:
  "validate_graph_expansion_budget (compile_graph_expansion_budget (profile_budget_ceiling pr) p) = Inr ()"
  by (cases pr) (simp_all add: validate_defs compile_defs Let_def graph_expansion_ceiling_def spec_defs)

lemma compiled_facet_valid:
  "validate_facet_recall_budget (compile_facet_recall_budget (profile_budget_ceiling pr) p) = Inr ()"
  by (rule ceiling_of_spec [of pr]) (simp add: validate_defs compile_defs Let_def)

lemma compiled_delivery_valid:
  "validate_recall_delivery_budget (compile_recall_delivery_budget (profile_budget_ceiling pr) p) = Inr ()"
proof (rule ceiling_of_spec [of pr])
  fix spec assume spec: "profile_budget_ceiling pr = profile_budget spec" "spec_meets_floors spec"
  have "max (sp_source_chars spec div 512) 2 \<le> max (sp_source_chars spec div 128) 8"
    by (intro max.mono div_le_mono2) simp_all
  then have "scale_usize (max (sp_source_chars spec div 512) 2) p \<le> scale_usize (max (sp_source_chars spec div 128) 8) p"
    by (rule scale_usize_mono_value)
  then show ?thesis
    using spec by (simp add: validate_defs compile_defs Let_def if_Err_Ok recall_delivery_ceiling_def not_less) linarith
qed

lemma compiled_transcript_valid:
  "validate_transcript_governance_budget (compile_transcript_governance_budget (profile_budget_ceiling pr) p) = Inr ()"
  by (rule ceiling_of_spec [of pr])
     (simp add: validate_defs compile_defs Let_def transcript_governance_ceiling_def)

section \<open>Fields of compiled and narrowed reports\<close>

lemma compile_runtime_budget_sel:
  fixes inp env
  defines "c \<equiv> profile_budget_ceiling (in_profile inp)"
    and "p \<equiv> source_scale_of (in_resource_snapshot inp) (in_static_platform_manifest inp)"
    and "r \<equiv> compile_runtime_budget env inp"
  shows
    "rb_profile r = in_profile inp"
    "rb_deployment_target r = profile_target (in_profile inp)"
    "rb_deployment_role r = profile_role (in_profile inp)"
    "rb_store_medium r = sm_store_medium (in_static_platform_manifest inp)"
    "rb_resource_snapshot r = in_resource_snapshot inp"
    "rb_static_platform_manifest r = in_static_platform_manifest inp"
    "rb_provider_model_context_limit r = in_provider_model_context_limit inp"
    "rb_memory_core_budget r = compile_memory_core_budget c p"
    "rb_graph_expansion_budget r = compile_graph_expansion_budget c p"
    "rb_facet_recall_budget r = compile_facet_recall_budget c p"
    "rb_recall_delivery_budget r = compile_recall_delivery_budget c p"
    "rb_governed_state_budget r = compile_governed_state_budget c p"
    "rb_store_budget r = compile_store_budget c
       (store_scale_of (in_resource_snapshot inp) (in_static_platform_manifest inp))"
    "rb_adapter_budget r = compile_adapter_budget c p"
    "rb_projection_source_budget r = compile_projection_source_budget c p"
    "rb_projection_render_budget r = compile_projection_render_budget c
       (pressure_scale (pressure (in_resource_snapshot inp))) (render_provider_cap_of inp)"
    "rb_maintenance_budget r = compile_maintenance_budget c p"
    "rb_runtime_job_budget r = compile_runtime_job_budget c p"
    "rb_llm_gateway_budget r = compile_llm_gateway_budget c p (rb_projection_render_budget r)
       (rb_projection_source_budget r) (rb_maintenance_budget r)"
    "rb_transcript_governance_budget r = compile_transcript_governance_budget c p"
    "rb_evidence_document_budget r = compile_evidence_document_budget
       (rb_memory_core_budget r) (rb_runtime_job_budget r) (rb_store_budget r)"
    "rb_limited_by r = compile_limited_by inp"
    "rb_unavailable_reasons r = compile_unavailable_reasons inp"
  unfolding r_def c_def p_def compile_runtime_budget_def Let_def by simp_all

lemmas limit_defs = limit_graph_expansion_def limit_facet_recall_def limit_recall_delivery_def
  limit_transcript_governance_def limit_store_def push_limited_by_def Let_def

lemma limit_own [simp]:
  "rb_graph_expansion_budget (limit_graph_expansion l r) = graph_narrow.narrow_opt (rb_graph_expansion_budget r) (nl_graph_expansion_budget l)"
  "rb_facet_recall_budget (limit_facet_recall l r) = facet_narrow.narrow_opt (rb_facet_recall_budget r) (nl_facet_recall_budget l)"
  "rb_recall_delivery_budget (limit_recall_delivery l r) = delivery_narrow.narrow_opt (rb_recall_delivery_budget r) (nl_recall_delivery_budget l)"
  "rb_transcript_governance_budget (limit_transcript_governance l r) = transcript_narrow.narrow_opt (rb_transcript_governance_budget r) (nl_transcript_governance_budget l)"
  "rb_store_budget (limit_store l r) = store_narrow.narrow_opt (rb_store_budget r) (nl_store_budget_limit l)"
  by (simp_all add: limit_defs split: option.splits)

lemma limit_frame [simp]:
  "rb_report_id (limit_graph_expansion l r) = rb_report_id r"
  "rb_profile (limit_graph_expansion l r) = rb_profile r"
  "rb_deployment_target (limit_graph_expansion l r) = rb_deployment_target r"
  "rb_deployment_role (limit_graph_expansion l r) = rb_deployment_role r"
  "rb_store_medium (limit_graph_expansion l r) = rb_store_medium r"
  "rb_resource_snapshot (limit_graph_expansion l r) = rb_resource_snapshot r"
  "rb_static_platform_manifest (limit_graph_expansion l r) = rb_static_platform_manifest r"
  "rb_provider_model_context_limit (limit_graph_expansion l r) = rb_provider_model_context_limit r"
  "rb_memory_core_budget (limit_graph_expansion l r) = rb_memory_core_budget r"
  "rb_facet_recall_budget (limit_graph_expansion l r) = rb_facet_recall_budget r"
  "rb_recall_delivery_budget (limit_graph_expansion l r) = rb_recall_delivery_budget r"
  "rb_governed_state_budget (limit_graph_expansion l r) = rb_governed_state_budget r"
  "rb_evidence_document_budget (limit_graph_expansion l r) = rb_evidence_document_budget r"
  "rb_store_budget (limit_graph_expansion l r) = rb_store_budget r"
  "rb_adapter_budget (limit_graph_expansion l r) = rb_adapter_budget r"
  "rb_projection_source_budget (limit_graph_expansion l r) = rb_projection_source_budget r"
  "rb_projection_render_budget (limit_graph_expansion l r) = rb_projection_render_budget r"
  "rb_maintenance_budget (limit_graph_expansion l r) = rb_maintenance_budget r"
  "rb_runtime_job_budget (limit_graph_expansion l r) = rb_runtime_job_budget r"
  "rb_llm_gateway_budget (limit_graph_expansion l r) = rb_llm_gateway_budget r"
  "rb_transcript_governance_budget (limit_graph_expansion l r) = rb_transcript_governance_budget r"
  "rb_unavailable_reasons (limit_graph_expansion l r) = rb_unavailable_reasons r"
  "rb_report_id (limit_facet_recall l r) = rb_report_id r"
  "rb_profile (limit_facet_recall l r) = rb_profile r"
  "rb_deployment_target (limit_facet_recall l r) = rb_deployment_target r"
  "rb_deployment_role (limit_facet_recall l r) = rb_deployment_role r"
  "rb_store_medium (limit_facet_recall l r) = rb_store_medium r"
  "rb_resource_snapshot (limit_facet_recall l r) = rb_resource_snapshot r"
  "rb_static_platform_manifest (limit_facet_recall l r) = rb_static_platform_manifest r"
  "rb_provider_model_context_limit (limit_facet_recall l r) = rb_provider_model_context_limit r"
  "rb_memory_core_budget (limit_facet_recall l r) = rb_memory_core_budget r"
  "rb_graph_expansion_budget (limit_facet_recall l r) = rb_graph_expansion_budget r"
  "rb_recall_delivery_budget (limit_facet_recall l r) = rb_recall_delivery_budget r"
  "rb_governed_state_budget (limit_facet_recall l r) = rb_governed_state_budget r"
  "rb_evidence_document_budget (limit_facet_recall l r) = rb_evidence_document_budget r"
  "rb_store_budget (limit_facet_recall l r) = rb_store_budget r"
  "rb_adapter_budget (limit_facet_recall l r) = rb_adapter_budget r"
  "rb_projection_source_budget (limit_facet_recall l r) = rb_projection_source_budget r"
  "rb_projection_render_budget (limit_facet_recall l r) = rb_projection_render_budget r"
  "rb_maintenance_budget (limit_facet_recall l r) = rb_maintenance_budget r"
  "rb_runtime_job_budget (limit_facet_recall l r) = rb_runtime_job_budget r"
  "rb_llm_gateway_budget (limit_facet_recall l r) = rb_llm_gateway_budget r"
  "rb_transcript_governance_budget (limit_facet_recall l r) = rb_transcript_governance_budget r"
  "rb_unavailable_reasons (limit_facet_recall l r) = rb_unavailable_reasons r"
  "rb_report_id (limit_recall_delivery l r) = rb_report_id r"
  "rb_profile (limit_recall_delivery l r) = rb_profile r"
  "rb_deployment_target (limit_recall_delivery l r) = rb_deployment_target r"
  "rb_deployment_role (limit_recall_delivery l r) = rb_deployment_role r"
  "rb_store_medium (limit_recall_delivery l r) = rb_store_medium r"
  "rb_resource_snapshot (limit_recall_delivery l r) = rb_resource_snapshot r"
  "rb_static_platform_manifest (limit_recall_delivery l r) = rb_static_platform_manifest r"
  "rb_provider_model_context_limit (limit_recall_delivery l r) = rb_provider_model_context_limit r"
  "rb_memory_core_budget (limit_recall_delivery l r) = rb_memory_core_budget r"
  "rb_graph_expansion_budget (limit_recall_delivery l r) = rb_graph_expansion_budget r"
  "rb_facet_recall_budget (limit_recall_delivery l r) = rb_facet_recall_budget r"
  "rb_governed_state_budget (limit_recall_delivery l r) = rb_governed_state_budget r"
  "rb_evidence_document_budget (limit_recall_delivery l r) = rb_evidence_document_budget r"
  "rb_store_budget (limit_recall_delivery l r) = rb_store_budget r"
  "rb_adapter_budget (limit_recall_delivery l r) = rb_adapter_budget r"
  "rb_projection_source_budget (limit_recall_delivery l r) = rb_projection_source_budget r"
  "rb_projection_render_budget (limit_recall_delivery l r) = rb_projection_render_budget r"
  "rb_maintenance_budget (limit_recall_delivery l r) = rb_maintenance_budget r"
  "rb_runtime_job_budget (limit_recall_delivery l r) = rb_runtime_job_budget r"
  "rb_llm_gateway_budget (limit_recall_delivery l r) = rb_llm_gateway_budget r"
  "rb_transcript_governance_budget (limit_recall_delivery l r) = rb_transcript_governance_budget r"
  "rb_unavailable_reasons (limit_recall_delivery l r) = rb_unavailable_reasons r"
  "rb_report_id (limit_transcript_governance l r) = rb_report_id r"
  "rb_profile (limit_transcript_governance l r) = rb_profile r"
  "rb_deployment_target (limit_transcript_governance l r) = rb_deployment_target r"
  "rb_deployment_role (limit_transcript_governance l r) = rb_deployment_role r"
  "rb_store_medium (limit_transcript_governance l r) = rb_store_medium r"
  "rb_resource_snapshot (limit_transcript_governance l r) = rb_resource_snapshot r"
  "rb_static_platform_manifest (limit_transcript_governance l r) = rb_static_platform_manifest r"
  "rb_provider_model_context_limit (limit_transcript_governance l r) = rb_provider_model_context_limit r"
  "rb_memory_core_budget (limit_transcript_governance l r) = rb_memory_core_budget r"
  "rb_graph_expansion_budget (limit_transcript_governance l r) = rb_graph_expansion_budget r"
  "rb_facet_recall_budget (limit_transcript_governance l r) = rb_facet_recall_budget r"
  "rb_recall_delivery_budget (limit_transcript_governance l r) = rb_recall_delivery_budget r"
  "rb_governed_state_budget (limit_transcript_governance l r) = rb_governed_state_budget r"
  "rb_evidence_document_budget (limit_transcript_governance l r) = rb_evidence_document_budget r"
  "rb_store_budget (limit_transcript_governance l r) = rb_store_budget r"
  "rb_adapter_budget (limit_transcript_governance l r) = rb_adapter_budget r"
  "rb_projection_source_budget (limit_transcript_governance l r) = rb_projection_source_budget r"
  "rb_projection_render_budget (limit_transcript_governance l r) = rb_projection_render_budget r"
  "rb_maintenance_budget (limit_transcript_governance l r) = rb_maintenance_budget r"
  "rb_runtime_job_budget (limit_transcript_governance l r) = rb_runtime_job_budget r"
  "rb_llm_gateway_budget (limit_transcript_governance l r) = rb_llm_gateway_budget r"
  "rb_unavailable_reasons (limit_transcript_governance l r) = rb_unavailable_reasons r"
  "rb_report_id (limit_store l r) = rb_report_id r"
  "rb_profile (limit_store l r) = rb_profile r"
  "rb_deployment_target (limit_store l r) = rb_deployment_target r"
  "rb_deployment_role (limit_store l r) = rb_deployment_role r"
  "rb_store_medium (limit_store l r) = rb_store_medium r"
  "rb_resource_snapshot (limit_store l r) = rb_resource_snapshot r"
  "rb_static_platform_manifest (limit_store l r) = rb_static_platform_manifest r"
  "rb_provider_model_context_limit (limit_store l r) = rb_provider_model_context_limit r"
  "rb_memory_core_budget (limit_store l r) = rb_memory_core_budget r"
  "rb_graph_expansion_budget (limit_store l r) = rb_graph_expansion_budget r"
  "rb_facet_recall_budget (limit_store l r) = rb_facet_recall_budget r"
  "rb_recall_delivery_budget (limit_store l r) = rb_recall_delivery_budget r"
  "rb_governed_state_budget (limit_store l r) = rb_governed_state_budget r"
  "rb_evidence_document_budget (limit_store l r) = rb_evidence_document_budget r"
  "rb_adapter_budget (limit_store l r) = rb_adapter_budget r"
  "rb_projection_source_budget (limit_store l r) = rb_projection_source_budget r"
  "rb_projection_render_budget (limit_store l r) = rb_projection_render_budget r"
  "rb_maintenance_budget (limit_store l r) = rb_maintenance_budget r"
  "rb_runtime_job_budget (limit_store l r) = rb_runtime_job_budget r"
  "rb_llm_gateway_budget (limit_store l r) = rb_llm_gateway_budget r"
  "rb_transcript_governance_budget (limit_store l r) = rb_transcript_governance_budget r"
  "rb_unavailable_reasons (limit_store l r) = rb_unavailable_reasons r"
  by (simp_all add: limit_defs split: option.splits)

lemma recompile_sel [simp]:
  "rb_evidence_document_budget (recompile_store_derived_budgets r) =
     compile_evidence_document_budget (rb_memory_core_budget r) (rb_runtime_job_budget r) (rb_store_budget r)"
  "rb_profile (recompile_store_derived_budgets r) = rb_profile r"
  "rb_deployment_target (recompile_store_derived_budgets r) = rb_deployment_target r"
  "rb_deployment_role (recompile_store_derived_budgets r) = rb_deployment_role r"
  "rb_store_medium (recompile_store_derived_budgets r) = rb_store_medium r"
  "rb_resource_snapshot (recompile_store_derived_budgets r) = rb_resource_snapshot r"
  "rb_static_platform_manifest (recompile_store_derived_budgets r) = rb_static_platform_manifest r"
  "rb_provider_model_context_limit (recompile_store_derived_budgets r) = rb_provider_model_context_limit r"
  "rb_memory_core_budget (recompile_store_derived_budgets r) = rb_memory_core_budget r"
  "rb_graph_expansion_budget (recompile_store_derived_budgets r) = rb_graph_expansion_budget r"
  "rb_facet_recall_budget (recompile_store_derived_budgets r) = rb_facet_recall_budget r"
  "rb_recall_delivery_budget (recompile_store_derived_budgets r) = rb_recall_delivery_budget r"
  "rb_governed_state_budget (recompile_store_derived_budgets r) = rb_governed_state_budget r"
  "rb_store_budget (recompile_store_derived_budgets r) = rb_store_budget r"
  "rb_adapter_budget (recompile_store_derived_budgets r) = rb_adapter_budget r"
  "rb_projection_source_budget (recompile_store_derived_budgets r) = rb_projection_source_budget r"
  "rb_projection_render_budget (recompile_store_derived_budgets r) = rb_projection_render_budget r"
  "rb_maintenance_budget (recompile_store_derived_budgets r) = rb_maintenance_budget r"
  "rb_runtime_job_budget (recompile_store_derived_budgets r) = rb_runtime_job_budget r"
  "rb_llm_gateway_budget (recompile_store_derived_budgets r) = rb_llm_gateway_budget r"
  "rb_transcript_governance_budget (recompile_store_derived_budgets r) = rb_transcript_governance_budget r"
  "rb_limited_by (recompile_store_derived_budgets r) = rb_limited_by r"
  "rb_unavailable_reasons (recompile_store_derived_budgets r) = rb_unavailable_reasons r"
  by (simp_all add: recompile_store_derived_budgets_def)

lemma sort_dedup_sel [simp]:
  "rb_limited_by (sort_dedup_limited_by r) = remdups_adj (sort (rb_limited_by r))"
  "rb_profile (sort_dedup_limited_by r) = rb_profile r"
  "rb_deployment_target (sort_dedup_limited_by r) = rb_deployment_target r"
  "rb_deployment_role (sort_dedup_limited_by r) = rb_deployment_role r"
  "rb_store_medium (sort_dedup_limited_by r) = rb_store_medium r"
  "rb_resource_snapshot (sort_dedup_limited_by r) = rb_resource_snapshot r"
  "rb_static_platform_manifest (sort_dedup_limited_by r) = rb_static_platform_manifest r"
  "rb_provider_model_context_limit (sort_dedup_limited_by r) = rb_provider_model_context_limit r"
  "rb_memory_core_budget (sort_dedup_limited_by r) = rb_memory_core_budget r"
  "rb_graph_expansion_budget (sort_dedup_limited_by r) = rb_graph_expansion_budget r"
  "rb_facet_recall_budget (sort_dedup_limited_by r) = rb_facet_recall_budget r"
  "rb_recall_delivery_budget (sort_dedup_limited_by r) = rb_recall_delivery_budget r"
  "rb_governed_state_budget (sort_dedup_limited_by r) = rb_governed_state_budget r"
  "rb_evidence_document_budget (sort_dedup_limited_by r) = rb_evidence_document_budget r"
  "rb_store_budget (sort_dedup_limited_by r) = rb_store_budget r"
  "rb_adapter_budget (sort_dedup_limited_by r) = rb_adapter_budget r"
  "rb_projection_source_budget (sort_dedup_limited_by r) = rb_projection_source_budget r"
  "rb_projection_render_budget (sort_dedup_limited_by r) = rb_projection_render_budget r"
  "rb_maintenance_budget (sort_dedup_limited_by r) = rb_maintenance_budget r"
  "rb_runtime_job_budget (sort_dedup_limited_by r) = rb_runtime_job_budget r"
  "rb_llm_gateway_budget (sort_dedup_limited_by r) = rb_llm_gateway_budget r"
  "rb_transcript_governance_budget (sort_dedup_limited_by r) = rb_transcript_governance_budget r"
  "rb_unavailable_reasons (sort_dedup_limited_by r) = rb_unavailable_reasons r"
  by (simp_all add: sort_dedup_limited_by_def)

lemma push_limited_by_sel [simp]:
  "rb_limited_by (push_limited_by r x) = rb_limited_by r @ [x]"
  "rb_profile (push_limited_by r x) = rb_profile r"
  "rb_deployment_target (push_limited_by r x) = rb_deployment_target r"
  "rb_deployment_role (push_limited_by r x) = rb_deployment_role r"
  "rb_store_medium (push_limited_by r x) = rb_store_medium r"
  "rb_resource_snapshot (push_limited_by r x) = rb_resource_snapshot r"
  "rb_static_platform_manifest (push_limited_by r x) = rb_static_platform_manifest r"
  "rb_provider_model_context_limit (push_limited_by r x) = rb_provider_model_context_limit r"
  "rb_memory_core_budget (push_limited_by r x) = rb_memory_core_budget r"
  "rb_graph_expansion_budget (push_limited_by r x) = rb_graph_expansion_budget r"
  "rb_facet_recall_budget (push_limited_by r x) = rb_facet_recall_budget r"
  "rb_recall_delivery_budget (push_limited_by r x) = rb_recall_delivery_budget r"
  "rb_governed_state_budget (push_limited_by r x) = rb_governed_state_budget r"
  "rb_evidence_document_budget (push_limited_by r x) = rb_evidence_document_budget r"
  "rb_store_budget (push_limited_by r x) = rb_store_budget r"
  "rb_adapter_budget (push_limited_by r x) = rb_adapter_budget r"
  "rb_projection_source_budget (push_limited_by r x) = rb_projection_source_budget r"
  "rb_projection_render_budget (push_limited_by r x) = rb_projection_render_budget r"
  "rb_maintenance_budget (push_limited_by r x) = rb_maintenance_budget r"
  "rb_runtime_job_budget (push_limited_by r x) = rb_runtime_job_budget r"
  "rb_llm_gateway_budget (push_limited_by r x) = rb_llm_gateway_budget r"
  "rb_transcript_governance_budget (push_limited_by r x) = rb_transcript_governance_budget r"
  "rb_unavailable_reasons (push_limited_by r x) = rb_unavailable_reasons r"
  by (simp_all add: push_limited_by_def)

lemma apply_limits_sel:
  fixes env r l
  defines "r' \<equiv> apply_nonproduction_runtime_budget_limits env r l"
  shows
    "rb_graph_expansion_budget r' = graph_narrow.narrow_opt (rb_graph_expansion_budget r) (nl_graph_expansion_budget l)"
    "rb_facet_recall_budget r' = facet_narrow.narrow_opt (rb_facet_recall_budget r) (nl_facet_recall_budget l)"
    "rb_recall_delivery_budget r' = delivery_narrow.narrow_opt (rb_recall_delivery_budget r) (nl_recall_delivery_budget l)"
    "rb_transcript_governance_budget r' = transcript_narrow.narrow_opt (rb_transcript_governance_budget r) (nl_transcript_governance_budget l)"
    "rb_store_budget r' = store_narrow.narrow_opt (rb_store_budget r) (nl_store_budget_limit l)"
    "rb_evidence_document_budget r' = compile_evidence_document_budget
       (rb_memory_core_budget r') (rb_runtime_job_budget r') (rb_store_budget r')"
    "rb_profile r' = rb_profile r"
    "rb_deployment_target r' = rb_deployment_target r"
    "rb_deployment_role r' = rb_deployment_role r"
    "rb_store_medium r' = rb_store_medium r"
    "rb_resource_snapshot r' = rb_resource_snapshot r"
    "rb_static_platform_manifest r' = rb_static_platform_manifest r"
    "rb_provider_model_context_limit r' = rb_provider_model_context_limit r"
    "rb_memory_core_budget r' = rb_memory_core_budget r"
    "rb_governed_state_budget r' = rb_governed_state_budget r"
    "rb_adapter_budget r' = rb_adapter_budget r"
    "rb_projection_source_budget r' = rb_projection_source_budget r"
    "rb_projection_render_budget r' = rb_projection_render_budget r"
    "rb_maintenance_budget r' = rb_maintenance_budget r"
    "rb_runtime_job_budget r' = rb_runtime_job_budget r"
    "rb_llm_gateway_budget r' = rb_llm_gateway_budget r"
    "rb_unavailable_reasons r' = rb_unavailable_reasons r"
  unfolding r'_def by (simp_all add: apply_nonproduction_runtime_budget_limits_def Let_def)

lemma store_narrow_changes:
  "min_store_budget x c = x \<Longrightarrow> within (sb_fields x) (sb_fields c)"
  using store_narrow.within_right [of x c] by simp

lemma apply_ceiling_sel:
  fixes env r c label
  defines "r' \<equiv> apply_store_budget_ceiling env r c label"
  shows
    "rb_store_budget r' = min_store_budget (rb_store_budget r) c"
    "rb_profile r' = rb_profile r"
    "rb_deployment_target r' = rb_deployment_target r"
    "rb_deployment_role r' = rb_deployment_role r"
    "rb_store_medium r' = rb_store_medium r"
    "rb_resource_snapshot r' = rb_resource_snapshot r"
    "rb_static_platform_manifest r' = rb_static_platform_manifest r"
    "rb_provider_model_context_limit r' = rb_provider_model_context_limit r"
    "rb_memory_core_budget r' = rb_memory_core_budget r"
    "rb_graph_expansion_budget r' = rb_graph_expansion_budget r"
    "rb_facet_recall_budget r' = rb_facet_recall_budget r"
    "rb_recall_delivery_budget r' = rb_recall_delivery_budget r"
    "rb_governed_state_budget r' = rb_governed_state_budget r"
    "rb_adapter_budget r' = rb_adapter_budget r"
    "rb_projection_source_budget r' = rb_projection_source_budget r"
    "rb_projection_render_budget r' = rb_projection_render_budget r"
    "rb_maintenance_budget r' = rb_maintenance_budget r"
    "rb_runtime_job_budget r' = rb_runtime_job_budget r"
    "rb_llm_gateway_budget r' = rb_llm_gateway_budget r"
    "rb_transcript_governance_budget r' = rb_transcript_governance_budget r"
    "rb_unavailable_reasons r' = rb_unavailable_reasons r"
  unfolding r'_def by (simp_all add: apply_store_budget_ceiling_def Let_def)

definition evidence_derived :: "runtime_budget_report \<Rightarrow> bool" where
  "evidence_derived r \<longleftrightarrow> rb_evidence_document_budget r = compile_evidence_document_budget
     (rb_memory_core_budget r) (rb_runtime_job_budget r) (rb_store_budget r)"

lemma evidence_derived_steps [intro]:
  "evidence_derived (compile_runtime_budget env inp)"
  "evidence_derived (apply_nonproduction_runtime_budget_limits env r l)"
  "evidence_derived r \<Longrightarrow> evidence_derived (apply_store_budget_ceiling env r c label)"
  unfolding evidence_derived_def
  by (rule compile_runtime_budget_sel, rule apply_limits_sel)
     (simp add: apply_store_budget_ceiling_def Let_def)

lemma identity_steps [intro]:
  "identity_covers_payload env (apply_nonproduction_runtime_budget_limits env r l)"
  "identity_covers_payload env r \<Longrightarrow> identity_covers_payload env (apply_store_budget_ceiling env r c label)"
  by (simp_all add: apply_nonproduction_runtime_budget_limits_def apply_store_budget_ceiling_def Let_def)

lemma limits_validate_Ok:
  "limits_validate l = Inr () \<longleftrightarrow>
     (\<forall>b. nl_graph_expansion_budget l = Some b \<longrightarrow> validate_graph_expansion_budget b = Inr ()) \<and>
     (\<forall>b. nl_facet_recall_budget l = Some b \<longrightarrow> validate_facet_recall_budget b = Inr ()) \<and>
     (\<forall>b. nl_recall_delivery_budget l = Some b \<longrightarrow> validate_recall_delivery_budget b = Inr ()) \<and>
     (\<forall>b. nl_transcript_governance_budget l = Some b \<longrightarrow> validate_transcript_governance_budget b = Inr ()) \<and>
     (\<forall>b. nl_store_budget_limit l = Some b \<longrightarrow>
        validate_store_budget b ''runtime_budget_nonproduction_limits'' = Inr ())"
  by (auto simp: limits_validate_def on_some_def result_simps split: option.splits)

lemma validate_store_stage:
  "validate_store_budget b stage = Inr () \<longleftrightarrow> validate_store_budget b stage' = Inr ()"
  by (simp add: validate_store_budget_def if_Err_Ok)

section \<open>Authority reports\<close>

lemma authority_report_identity: "identity_covers_payload env (compile_authority_report env pr m pl mode s ceil)"
  by (auto simp: compile_authority_report_def Let_def split: compile_mode.splits option.splits)

lemma authority_report_evidence: "evidence_derived (compile_authority_report env pr m pl mode s ceil)"
  by (auto simp: compile_authority_report_def Let_def split: compile_mode.splits option.splits)

lemma authority_report_snapshot:
  "rb_resource_snapshot (compile_authority_report env pr m pl mode s ceil) = s"
  by (simp add: compile_authority_report_def Let_def apply_ceiling_sel apply_limits_sel
      compile_runtime_budget_sel split: compile_mode.splits option.splits)

lemma authority_report_within_ceiling:
  "within (sb_fields (rb_store_budget (compile_authority_report env pr m pl mode s (Some c)))) (sb_fields c)"
  by (simp add: compile_authority_report_def Let_def apply_ceiling_sel store_narrow.within_right)

end
