(* ===== verification/Budget_Authority.thy ===== *)
theory Budget_Authority
  imports Budget_Limits
begin

text \<open>
  The runtime budget authority of \<^verbatim>\<open>core/src/budget.rs\<close>: it is created from a validated
  configuration and a first probe, caches a compiled report, refreshes it when either clock
  says so, and never issues a report above the store ceiling it was created with. A report
  is admissible when its identity covers its payload and its snapshot is current.

  Locks are not part of the state: \<open>current_report\<close> and \<open>refresh\<close> run under the refresh
  guard, so each is one atomic step here. The readings of the monotonic clock and the
  outcome of the probe are arguments of the step.
\<close>

section \<open>Validation\<close>

definition resource_snapshot_error :: "string \<Rightarrow> error" where
  "resource_snapshot_error msg = config_error ''runtime_budget_resource_snapshot'' msg"

definition target_accepts_source :: "target_feature \<Rightarrow> probe_source \<Rightarrow> bool" where
  "target_accepts_source t src \<longleftrightarrow>
     (t, src) \<in> set [(Esp_target, FirmwareManifest), (LinuxDevice, HostLinux), (DesktopMacos, HostMacos),
        (DesktopLinux, HostLinux), (DesktopWindows, HostWindows), (ServerLinux, HostLinux)]"

definition is_host_source :: "probe_source \<Rightarrow> bool" where
  "is_host_source src \<longleftrightarrow> src \<in> set [HostMacos, HostLinux, HostWindows, HostOther]"

definition validate_authority_configuration ::
  "bool \<Rightarrow> profile_id \<Rightarrow> static_platform_manifest \<Rightarrow> probe_registration \<Rightarrow> unit result" where
  "validate_authority_configuration replay_harness profile manifest reg =
     (let err = config_error ''runtime_budget_authority_config''; src = attested_source reg in
      if sm_profile manifest \<noteq> profile then Err (err ''manifest_profile_mismatch'')
      else if sm_deployment_target manifest \<noteq> profile_target profile
        then Err (err ''manifest_deployment_target_mismatch'')
      else if sm_deployment_role manifest \<noteq> profile_role profile
        then Err (err ''manifest_deployment_role_mismatch'')
      else if profile_role profile = DevFull \<and> \<not> replay_harness
        then Err (err ''dev_full_requires_nonproduction_replay_harness'')
      else if \<not> target_accepts_source (profile_target profile) src
        then Err (err (''deployment_target_source_mismatch:target='' @ target_as_str (profile_target profile)
               @ '':source='' @ probe_source_as_str src))
      else case (host_storage_observation reg, sm_store_medium manifest) of
        (None, VolatileMemory) \<Rightarrow>
          if src = FirmwareManifest then Ok () else Err (err ''store_medium_probe_registration_mismatch'')
      | (None, EmbeddedFlash) \<Rightarrow>
          if src = FirmwareManifest then Ok () else Err (err ''store_medium_probe_registration_mismatch'')
      | (Some Host_VolatileMemory, VolatileMemory) \<Rightarrow>
          if is_host_source src then Ok () else Err (err ''store_medium_probe_registration_mismatch'')
      | (Some Host_PersistentFilesystem, PersistentFilesystem) \<Rightarrow>
          if is_host_source src then Ok () else Err (err ''store_medium_probe_registration_mismatch'')
      | _ \<Rightarrow> Err (err ''store_medium_probe_registration_mismatch''))"

definition check_esp_heap :: "snapshot \<Rightarrow> unit result" where
  "check_esp_heap s =
     (if unavailable_reason s = None \<or> internal_heap_free_bytes s \<noteq> None
         \<or> internal_heap_minimum_free_bytes s \<noteq> None \<or> internal_heap_largest_block_bytes s \<noteq> None
      then (case (internal_heap_free_bytes s, internal_heap_minimum_free_bytes s,
                  internal_heap_largest_block_bytes s) of
              (Some free, Some minimum_free, Some largest_block) \<Rightarrow>
                if free < minimum_free \<or> free < largest_block
                then Err (resource_snapshot_error ''esp_internal_heap_relationship_invalid'') else Ok ()
            | _ \<Rightarrow> Err (resource_snapshot_error ''esp_internal_heap_facts_incomplete''))
      else Ok ())"

definition check_esp_psram :: "snapshot \<Rightarrow> unit result" where
  "check_esp_psram s =
     (if psram_total_bytes s \<noteq> None \<or> psram_free_bytes s \<noteq> None \<or> psram_largest_block_bytes s \<noteq> None
      then (case (psram_total_bytes s, psram_free_bytes s, psram_largest_block_bytes s) of
              (Some tot, Some free, Some largest_block) \<Rightarrow>
                if tot < free \<or> free < largest_block
                then Err (resource_snapshot_error ''esp_psram_relationship_invalid'') else Ok ()
            | _ \<Rightarrow> Err (resource_snapshot_error ''esp_psram_facts_incomplete''))
      else Ok ())"

definition check_storage_pair :: "snapshot \<Rightarrow> string \<Rightarrow> string \<Rightarrow> unit result" where
  "check_storage_pair s incomplete invalid =
     (if unavailable_reason s = None \<or> storage_total_bytes s \<noteq> None \<or> storage_available_bytes s \<noteq> None
      then (case (storage_total_bytes s, storage_available_bytes s) of
              (Some tot, Some available) \<Rightarrow>
                if tot < available then Err (resource_snapshot_error invalid) else Ok ()
            | _ \<Rightarrow> Err (resource_snapshot_error incomplete))
      else Ok ())"

definition validate_esp_resource_snapshot :: "snapshot \<Rightarrow> unit result" where
  "validate_esp_resource_snapshot s =
     (if memory_total_bytes s \<noteq> None \<or> memory_available_bytes s \<noteq> None
      then Err (resource_snapshot_error ''esp_snapshot_contains_host_memory'')
      else if unavailable_reason s \<noteq> None \<and> available_parallelism s \<noteq> None
      then Err (resource_snapshot_error ''esp_unavailable_snapshot_contains_cpu_fact'')
      else and_then (check_esp_heap s) (\<lambda>_. and_then (check_esp_psram s) (\<lambda>_.
           check_storage_pair s ''esp_storage_facts_incomplete'' ''esp_storage_relationship_invalid'')))"

definition validate_host_resource_snapshot :: "snapshot \<Rightarrow> store_medium \<Rightarrow> unit result" where
  "validate_host_resource_snapshot s medium =
     (if internal_heap_free_bytes s \<noteq> None \<or> internal_heap_minimum_free_bytes s \<noteq> None
         \<or> internal_heap_largest_block_bytes s \<noteq> None \<or> psram_total_bytes s \<noteq> None
         \<or> psram_free_bytes s \<noteq> None \<or> psram_largest_block_bytes s \<noteq> None
      then Err (resource_snapshot_error ''host_snapshot_contains_firmware_memory'')
      else and_then
        (case (memory_total_bytes s, memory_available_bytes s) of
           (Some tot, Some available) \<Rightarrow>
             if tot < available then Err (resource_snapshot_error ''host_memory_relationship_invalid'')
             else Ok ()
         | _ \<Rightarrow> Ok ())
        (\<lambda>_. if medium = PersistentFilesystem
             then check_storage_pair s ''host_storage_facts_incomplete'' ''host_storage_relationship_invalid''
             else Ok ()))"

definition validate_authority_snapshot ::
  "profile_id \<Rightarrow> probe_source \<Rightarrow> store_medium \<Rightarrow> snapshot \<Rightarrow> u64 \<Rightarrow> unit result" where
  "validate_authority_snapshot profile attested medium s now_secs =
     (if ttl_ms s = 0 then Err (resource_snapshot_error ''snapshot_ttl_must_be_nonzero'')
      else if now_secs < observed_at_unix_secs s
        then Err (resource_snapshot_error ''snapshot_observed_at_is_in_the_future'')
      else if stale s then Err (resource_snapshot_error ''probe_returned_stale_snapshot'')
      else if source s \<noteq> attested
        then Err (config_error ''runtime_budget_resource_source''
               (''snapshot_source_mismatch:expected='' @ probe_source_as_str attested
                @ '':actual='' @ probe_source_as_str (source s)))
      else if profile_target profile = Esp_target then validate_esp_resource_snapshot s
      else validate_host_resource_snapshot s medium)"

section \<open>Registrations\<close>

text \<open>
  \<open>compiled_source\<close> is the source the binary was compiled for. The default registration
  of an ESP profile is the firmware probe that always answers \<open>ProbeNotConfigured\<close>.
\<close>

definition default_probe_registration ::
  "probe_source \<Rightarrow> profile_id \<Rightarrow> static_platform_manifest \<Rightarrow> probe_registration result" where
  "default_probe_registration compiled_source profile manifest =
     (if profile_target profile = Esp_target then Ok registration_firmware
      else case sm_store_medium manifest of
        VolatileMemory \<Rightarrow> Ok (registration_host compiled_source (storage_observation None))
      | PersistentFilesystem \<Rightarrow> Err (config_error ''runtime_budget_authority_config''
            ''persistent_filesystem_requires_path_bound_host_probe'')
      | EmbeddedFlash \<Rightarrow> Err (config_error ''runtime_budget_authority_config''
            ''host_profile_cannot_use_embedded_flash''))"

definition host_storage_observation_for_medium :: "store_medium \<Rightarrow> host_storage_observation result" where
  "host_storage_observation_for_medium medium =
     (case medium of
        VolatileMemory \<Rightarrow> Ok Host_VolatileMemory
      | PersistentFilesystem \<Rightarrow> Ok Host_PersistentFilesystem
      | EmbeddedFlash \<Rightarrow> Err (config_error ''runtime_budget_authority_config''
            ''host_profile_cannot_use_embedded_flash''))"

section \<open>The authority\<close>

record authority =
  au_profile :: profile_id
  au_manifest :: static_platform_manifest
  au_provider_limit :: "provider_model_context_limit option"
  au_registration :: probe_registration
  au_mode :: compile_mode
  admission_store_ceiling :: store_runtime_budget
  au_cache :: snapshot_cache
  au_report :: runtime_budget_report

definition map_probe_error :: "'a result \<Rightarrow> 'a result" where
  "map_probe_error r = (case r of
     Inl e \<Rightarrow> Err (config_error ''runtime_budget_resource_probe'' (''probe_failed:'' @ display_error e))
   | Inr x \<Rightarrow> Ok x)"

definition new_with_mode ::
  "report_env \<Rightarrow> bool \<Rightarrow> profile_id \<Rightarrow> static_platform_manifest \<Rightarrow> provider_model_context_limit option \<Rightarrow>
   probe_registration \<Rightarrow> compile_mode \<Rightarrow> observation result \<Rightarrow> instant \<Rightarrow> u64 \<Rightarrow> authority result" where
  "new_with_mode env replay_harness profile manifest provider_limit reg mode probe tick now_secs =
     and_then (validate_authority_configuration replay_harness profile manifest reg) (\<lambda>_.
     and_then (map_probe_error (probe_snapshot reg probe)) (\<lambda>s.
     and_then (validate_authority_snapshot profile (attested_source reg) (sm_store_medium manifest) s now_secs) (\<lambda>_.
       let report = compile_authority_report env profile manifest provider_limit mode s None in
       Ok \<lparr> au_profile = profile, au_manifest = manifest, au_provider_limit = provider_limit,
            au_registration = reg, au_mode = mode,
            admission_store_ceiling = rb_store_budget report,
            au_cache = cache_new tick s, au_report = report \<rparr>)))"

definition compile_report :: "report_env \<Rightarrow> authority \<Rightarrow> snapshot \<Rightarrow> runtime_budget_report" where
  "compile_report env au s =
     compile_authority_report env (au_profile au) (au_manifest au) (au_provider_limit au) (au_mode au) s
       (Some (admission_store_ceiling au))"

definition validated_probe :: "authority \<Rightarrow> observation result \<Rightarrow> u64 \<Rightarrow> snapshot result" where
  "validated_probe au probe now_secs =
     and_then (probe_snapshot (au_registration au) probe) (\<lambda>s.
     and_then (validate_authority_snapshot (au_profile au) (attested_source (au_registration au))
                 (sm_store_medium (au_manifest au)) s now_secs) (\<lambda>_. Ok s))"

definition install_snapshot :: "report_env \<Rightarrow> authority \<Rightarrow> instant \<Rightarrow> snapshot \<Rightarrow> authority \<times> runtime_budget_report" where
  "install_snapshot env au tick s =
     (let report = compile_report env au s in
      (au\<lparr>au_cache := cache_replace (au_cache au) tick s, au_report := report\<rparr>, report))"

text \<open>
  \<open>tick1\<close> and \<open>tick2\<close> are the clock readings of the two checks of the cache, before and
  after the refresh guard is taken; \<open>tick3\<close> is the one that sets the next deadline.
\<close>

definition current_report ::
  "report_env \<Rightarrow> authority \<Rightarrow> u64 \<Rightarrow> instant \<Rightarrow> instant \<Rightarrow> instant \<Rightarrow> observation result \<Rightarrow>
   authority \<times> runtime_budget_report" where
  "current_report env au now_secs tick1 tick2 tick3 probe =
     (if \<not> requires_refresh (au_cache au) now_secs tick1 then (au, au_report au)
      else if \<not> requires_refresh (au_cache au) now_secs tick2 then (au, au_report au)
      else install_snapshot env au tick3
        (case validated_probe au probe now_secs of
           Inr s \<Rightarrow> s
         | Inl e \<Rightarrow> with_unavailable_detail
             (snapshot_unavailable now_secs (attested_source (au_registration au)) ProbeFailed)
             (''automatic_refresh_failed:'' @ display_error e)))"

definition refresh ::
  "report_env \<Rightarrow> authority \<Rightarrow> u64 \<Rightarrow> instant \<Rightarrow> observation result \<Rightarrow> authority \<times> runtime_budget_report result" where
  "refresh env au now_secs tick probe =
     (case map_probe_error (probe_snapshot (au_registration au) probe) of
        Inl e \<Rightarrow> (au, Err e)
      | Inr s \<Rightarrow>
          (case validate_authority_snapshot (au_profile au) (attested_source (au_registration au))
                  (sm_store_medium (au_manifest au)) s now_secs of
             Inl e \<Rightarrow> (au, Err e)
           | Inr _ \<Rightarrow> (let (au', report) = install_snapshot env au tick s in (au', Ok report))))"

section \<open>Admission\<close>

definition validate_for_admission :: "report_env \<Rightarrow> runtime_budget_report \<Rightarrow> u64 \<Rightarrow> unit result" where
  "validate_for_admission env report now_secs =
     (if rb_report_id (finalize_runtime_budget_report_id env report) \<noteq> rb_report_id report
      then Err (config_error ''runtime_budget_admission''
                  ''runtime budget report identity does not cover its payload'')
      else if stale (rb_resource_snapshot report) \<or> is_expired (rb_resource_snapshot report) now_secs
      then Err (Other (ReadmissionRequired StaleOrExpired) ''runtime_budget_admission'')
      else Ok ())"

section \<open>Values derived from a report\<close>

definition projection_render_chars_for_request ::
  "runtime_budget_report \<Rightarrow> usize \<Rightarrow> provider_model_context_limit option \<Rightarrow> usize" where
  "projection_render_chars_for_request report request_system_max_len provider_limit =
     (let limit = pr_system_block_max_chars (rb_projection_render_budget report);
          limit = (if 0 < request_system_max_len then min limit request_system_max_len else limit);
          limit = (case provider_limit of
                     None \<Rightarrow> limit
                   | Some pl \<Rightarrow> (case pl_max_prompt_chars pl of None \<Rightarrow> limit | Some m \<Rightarrow> min limit m))
      in max limit 1)"

record session_transcript_retention_policy =
  st_max_recent_turns :: usize

record session_summary_retention_policy =
  ss_refresh_after_turns :: usize

record plane_quota_policy =
  pq_plane :: string
  pq_max_records :: usize

record store_compaction_policy =
  cp_store_snapshot_max_bytes :: usize
  cp_compact_when_pressure :: bool

datatype receipt_retention_policy = PinnedUntilCapacity

datatype receipt_capacity_exhaustion = FailClosed

record mutation_operation_receipt_quota =
  mq_retention :: receipt_retention_policy
  mq_automatic_eviction :: bool
  mq_capacity_exhaustion :: receipt_capacity_exhaustion
  mq_durable_json_entries_per_operation :: usize
  mq_durable_events_per_operation :: usize

record runtime_retention_quota_report =
  rq_owner :: string
  rq_session_transcript :: session_transcript_retention_policy
  rq_session_summary :: session_summary_retention_policy
  rq_long_term_quota :: plane_quota_policy
  rq_archive_quota :: plane_quota_policy
  rq_procedural_quota :: plane_quota_policy
  rq_private_garden_quota :: plane_quota_policy
  rq_compaction :: store_compaction_policy
  rq_mutation_operation_receipts :: mutation_operation_receipt_quota
  rq_migration_import_pressure_report :: bool
  rq_host_direct_deletion_allowed :: "bool option"
  rq_fail_closed_repair :: bool

definition retention_quota_report :: "runtime_budget_report \<Rightarrow> runtime_retention_quota_report" where
  "retention_quota_report report =
     (let max_records = max (mc_profile_max_records (rb_memory_core_budget report)) 1;
          recent_turns = max (saturating_mul (ps_recent_messages_limit (rb_projection_source_budget report)) 2) 1
      in \<lparr> rq_owner = ''sdk.runtime'',
           rq_session_transcript = \<lparr> st_max_recent_turns = recent_turns \<rparr>,
           rq_session_summary = \<lparr> ss_refresh_after_turns =
             max (rj_maintenance_batch_max_items (rb_runtime_job_budget report)) 1 \<rparr>,
           rq_long_term_quota = \<lparr> pq_plane = ''long_term'', pq_max_records = max_records \<rparr>,
           rq_archive_quota = \<lparr> pq_plane = ''archive'', pq_max_records = max_records div 2 \<rparr>,
           rq_procedural_quota = \<lparr> pq_plane = ''procedural'',
             pq_max_records = max (sb_kv_max_entries (rb_store_budget report)) 1 \<rparr>,
           rq_private_garden_quota = \<lparr> pq_plane = ''private_garden'', pq_max_records = max_records div 4 \<rparr>,
           rq_compaction = \<lparr>
             cp_store_snapshot_max_bytes = sb_snapshot_max_bytes (rb_store_budget report),
             cp_compact_when_pressure = (rb_limited_by report \<noteq> []) \<rparr>,
           rq_mutation_operation_receipts = \<lparr>
             mq_retention = PinnedUntilCapacity,
             mq_automatic_eviction = False,
             mq_capacity_exhaustion = FailClosed,
             mq_durable_json_entries_per_operation = 2,
             mq_durable_events_per_operation = 2 \<rparr>,
           rq_migration_import_pressure_report = True,
           rq_host_direct_deletion_allowed = None,
           rq_fail_closed_repair = True \<rparr>)"

record transcript_query_budget =
  tq_result_page_size :: usize
  tq_query_max_bytes :: usize
  tq_query_max_chars :: usize
  tq_query_max_terms :: usize
  tq_candidate_hydration_limit :: usize
  tq_excerpt_max_chars :: usize
  tq_activity_bucket_limit :: usize
  tq_activity_total_span_max_secs :: u64

definition query_budget :: "transcript_governance_budget \<Rightarrow> transcript_query_budget" where
  "query_budget b = \<lparr>
     tq_result_page_size = max (tg_transcript_page_size b) 1,
     tq_query_max_bytes = 1024,
     tq_query_max_chars = 512,
     tq_query_max_terms = 24,
     tq_candidate_hydration_limit = max (saturating_mul (tg_transcript_page_size b) 32) 32,
     tq_excerpt_max_chars = 220,
     tq_activity_bucket_limit = 42,
     tq_activity_total_span_max_secs = 32 * 86400 \<rparr>"

section \<open>Public constructors\<close>

text \<open>
  Each takes the outcome of the first probe. The default registration of an ESP profile
  carries its own probe, which reports that none is configured.
\<close>

definition with_host_probe ::
  "report_env \<Rightarrow> bool \<Rightarrow> probe_source \<Rightarrow> profile_id \<Rightarrow> static_platform_manifest \<Rightarrow>
   provider_model_context_limit option \<Rightarrow> string option \<Rightarrow> observation result \<Rightarrow> instant \<Rightarrow> u64 \<Rightarrow>
   authority result" where
  "with_host_probe env harness compiled_source profile manifest provider_limit storage_path probe tick now_secs =
     new_with_mode env harness profile manifest provider_limit
       (registration_host compiled_source (storage_observation storage_path)) Production probe tick now_secs"

definition with_firmware_probe ::
  "report_env \<Rightarrow> bool \<Rightarrow> profile_id \<Rightarrow> static_platform_manifest \<Rightarrow>
   provider_model_context_limit option \<Rightarrow> observation result \<Rightarrow> instant \<Rightarrow> u64 \<Rightarrow> authority result" where
  "with_firmware_probe env harness profile manifest provider_limit probe tick now_secs =
     new_with_mode env harness profile manifest provider_limit registration_firmware Production probe tick now_secs"

definition with_default_probe_nonproduction ::
  "report_env \<Rightarrow> bool \<Rightarrow> probe_source \<Rightarrow> profile_id \<Rightarrow> static_platform_manifest \<Rightarrow>
   provider_model_context_limit option \<Rightarrow> nonproduction_limits \<Rightarrow> observation result \<Rightarrow> instant \<Rightarrow> u64 \<Rightarrow>
   authority result" where
  "with_default_probe_nonproduction env harness compiled_source profile manifest provider_limit limits
       host_observation tick now_secs =
     and_then (limits_validate limits) (\<lambda>_.
     and_then (default_probe_registration compiled_source profile manifest) (\<lambda>reg.
       new_with_mode env harness profile manifest provider_limit reg (Nonproduction limits)
         (if profile_target profile = Esp_target
          then Ok (observation_unavailable now_secs ProbeNotConfigured) else host_observation)
         tick now_secs))"

definition with_nonproduction_host_probe ::
  "report_env \<Rightarrow> bool \<Rightarrow> probe_source \<Rightarrow> profile_id \<Rightarrow> static_platform_manifest \<Rightarrow>
   provider_model_context_limit option \<Rightarrow> nonproduction_limits \<Rightarrow> observation result \<Rightarrow> instant \<Rightarrow> u64 \<Rightarrow>
   authority result" where
  "with_nonproduction_host_probe env harness compiled_source profile manifest provider_limit limits
       probe tick now_secs =
     and_then (limits_validate limits) (\<lambda>_.
     and_then (host_storage_observation_for_medium (sm_store_medium manifest)) (\<lambda>observed.
       new_with_mode env harness profile manifest provider_limit (registration_host compiled_source observed)
         (Nonproduction limits) probe tick now_secs))"

definition with_nonproduction_firmware_probe ::
  "report_env \<Rightarrow> bool \<Rightarrow> profile_id \<Rightarrow> static_platform_manifest \<Rightarrow>
   provider_model_context_limit option \<Rightarrow> nonproduction_limits \<Rightarrow> observation result \<Rightarrow> instant \<Rightarrow> u64 \<Rightarrow>
   authority result" where
  "with_nonproduction_firmware_probe env harness profile manifest provider_limit limits probe tick now_secs =
     and_then (limits_validate limits) (\<lambda>_.
       new_with_mode env harness profile manifest provider_limit registration_firmware
         (Nonproduction limits) probe tick now_secs)"

section \<open>Reachable authorities\<close>

text \<open>
  An authority is built by one of the public constructors and then serves reports; the
  relation also carries the reports it has issued so far.
\<close>

inductive authority_run ::
  "report_env \<Rightarrow> bool \<Rightarrow> probe_source \<Rightarrow> authority \<Rightarrow> runtime_budget_report set \<Rightarrow> bool"
  for env :: report_env and harness :: bool and compiled_source :: probe_source where
  host: "with_host_probe env harness compiled_source pr m pl path probe tick now = Inr au \<Longrightarrow>
     authority_run env harness compiled_source au {}"
| firmware: "with_firmware_probe env harness pr m pl probe tick now = Inr au \<Longrightarrow>
     authority_run env harness compiled_source au {}"
| default_nonproduction:
    "with_default_probe_nonproduction env harness compiled_source pr m pl limits probe tick now = Inr au \<Longrightarrow>
     authority_run env harness compiled_source au {}"
| host_nonproduction:
    "with_nonproduction_host_probe env harness compiled_source pr m pl limits probe tick now = Inr au \<Longrightarrow>
     authority_run env harness compiled_source au {}"
| firmware_nonproduction:
    "with_nonproduction_firmware_probe env harness pr m pl limits probe tick now = Inr au \<Longrightarrow>
     authority_run env harness compiled_source au {}"
| serve: "authority_run env harness compiled_source au issued \<Longrightarrow>
     current_report env au now t1 t2 t3 probe = (au', r) \<Longrightarrow>
     authority_run env harness compiled_source au' (insert r issued)"
| refreshed: "authority_run env harness compiled_source au issued \<Longrightarrow>
     refresh env au now tick probe = (au', Inr r) \<Longrightarrow>
     authority_run env harness compiled_source au' (insert r issued)"
| refresh_failed: "authority_run env harness compiled_source au issued \<Longrightarrow>
     refresh env au now tick probe = (au', Inl e) \<Longrightarrow>
     authority_run env harness compiled_source au' issued"

section \<open>Steps\<close>

lemma validate_snapshot_Ok:
  "validate_authority_snapshot pr src medium s now = Inr () \<Longrightarrow>
   0 < ttl_ms s \<and> observed_at_unix_secs s \<le> now \<and> \<not> stale s \<and> source s = src"
  by (auto simp: validate_authority_snapshot_def split: if_splits)

lemma new_with_mode_Ok:
  assumes "new_with_mode env harness pr m pl reg mode probe tick now = Inr au"
  shows "admission_store_ceiling au = rb_store_budget (au_report au)"
    and "au_report au = compile_authority_report env pr m pl mode (sc_snapshot (au_cache au)) None"
    and "au_mode au = mode"
  using assms by (auto simp: new_with_mode_def result_simps Let_def cache_new_def)

lemma install_snapshot_sel:
  assumes "install_snapshot env au tick s = (au', r)"
  shows "r = compile_report env au s" "au_report au' = r" "sc_snapshot (au_cache au') = s"
    "admission_store_ceiling au' = admission_store_ceiling au" "au_profile au' = au_profile au"
    "au_manifest au' = au_manifest au" "au_mode au' = au_mode au"
    "au_registration au' = au_registration au" "au_provider_limit au' = au_provider_limit au"
  using assms by (auto simp: install_snapshot_def cache_replace_def Let_def)

lemma compile_report_snapshot: "rb_resource_snapshot (compile_report env au s) = s"
  by (simp add: compile_report_def authority_report_snapshot)

section \<open>Validity and bounds of issued reports\<close>

definition budgets_valid :: "runtime_budget_report \<Rightarrow> bool" where
  "budgets_valid r \<longleftrightarrow>
     validate_graph_expansion_budget (rb_graph_expansion_budget r) = Inr () \<and>
     validate_facet_recall_budget (rb_facet_recall_budget r) = Inr () \<and>
     validate_recall_delivery_budget (rb_recall_delivery_budget r) = Inr () \<and>
     validate_transcript_governance_budget (rb_transcript_governance_budget r) = Inr () \<and>
     validate_store_budget (rb_store_budget r) ''runtime_budget_nonproduction_limits'' = Inr ()"

definition within_profile :: "runtime_budget_report \<Rightarrow> bool" where
  "within_profile r \<longleftrightarrow>
     (let c = profile_budget_ceiling (rb_profile r) in
       within (mc_fields (rb_memory_core_budget r)) (mc_fields (pc_memory_core_budget c)) \<and>
       within (ge_fields (rb_graph_expansion_budget r)) (ge_fields (pc_graph_expansion_budget c)) \<and>
       within (fr_fields (rb_facet_recall_budget r)) (fr_fields (pc_facet_recall_budget c)) \<and>
       within (rd_fields (rb_recall_delivery_budget r)) (rd_fields (pc_recall_delivery_budget c)) \<and>
       within (gs_fields (rb_governed_state_budget r)) (gs_fields (pc_governed_state_budget c)) \<and>
       within (sb_fields (rb_store_budget r)) (sb_fields (pc_store_budget c)) \<and>
       within (ad_fields (rb_adapter_budget r)) (ad_fields (pc_adapter_budget c)) \<and>
       within (ps_fields (rb_projection_source_budget r)) (ps_fields (pc_projection_source_budget c)) \<and>
       within (pr_fields (rb_projection_render_budget r)) (pr_fields (pc_projection_render_budget c)) \<and>
       within (mb_fields (rb_maintenance_budget r)) (mb_fields (pc_maintenance_budget c)) \<and>
       within (rj_fields (rb_runtime_job_budget r)) (rj_fields (pc_runtime_job_budget c)) \<and>
       within (lg_fields (rb_llm_gateway_budget r)) (lg_fields (pc_llm_gateway_budget c)) \<and>
       within (tg_fields (rb_transcript_governance_budget r)) (tg_fields (pc_transcript_governance_budget c)))"

definition mode_valid :: "compile_mode \<Rightarrow> bool" where
  "mode_valid mode \<longleftrightarrow> (case mode of Production \<Rightarrow> True | Nonproduction l \<Rightarrow> limits_validate l = Inr ())"

lemma compile_budgets_valid: "budgets_valid (compile_runtime_budget env inp)"
  by (simp add: budgets_valid_def compile_runtime_budget_sel compiled_graph_valid compiled_facet_valid
      compiled_delivery_valid compiled_transcript_valid compiled_store_valid scales_ge)

lemma limits_budgets_valid:
  assumes "budgets_valid r" "limits_validate l = Inr ()"
  shows "budgets_valid (apply_nonproduction_runtime_budget_limits env r l)"
  using assms unfolding budgets_valid_def limits_validate_Ok
  by (auto simp: apply_limits_sel intro!: graph_narrow.narrow_opt_valid facet_narrow.narrow_opt_valid
      delivery_narrow.narrow_opt_valid transcript_narrow.narrow_opt_valid store_narrow.narrow_opt_valid)

lemma ceiling_budgets_valid:
  assumes "budgets_valid r" "validate_store_budget c stage = Inr ()"
  shows "budgets_valid (apply_store_budget_ceiling env r c label)"
  using assms validate_store_stage [of c stage]
  unfolding budgets_valid_def by (auto simp: apply_ceiling_sel intro: store_narrow.keeps_valid)

lemma render_within:
  "p \<le> 100 \<Longrightarrow> within (pr_fields (compile_projection_render_budget (profile_budget_ceiling pr) p cap))
     (pr_fields (pc_projection_render_budget (profile_budget_ceiling pr)))"
  by (rule ceiling_of_spec [of pr])
     (auto simp: pr_fields_def compile_projection_render_budget_def Let_def projection_render_ceiling_def
        spec_meets_floors_def scale_usize_le min.coboundedI1 split: option.splits)

lemma gateway_within:
  assumes "p \<le> 100"
    and "within (pr_fields render) (pr_fields (pc_projection_render_budget (profile_budget_ceiling pr)))"
    and "within (ps_fields projection) (ps_fields (pc_projection_source_budget (profile_budget_ceiling pr)))"
    and "within (mb_fields maintenance) (mb_fields (pc_maintenance_budget (profile_budget_ceiling pr)))"
  shows "within (lg_fields (compile_llm_gateway_budget (profile_budget_ceiling pr) p render projection maintenance))
     (lg_fields (pc_llm_gateway_budget (profile_budget_ceiling pr)))"
proof (rule ceiling_of_spec [of pr])
  fix spec assume "profile_budget_ceiling pr = profile_budget spec" "spec_meets_floors spec"
  then show ?thesis
    using assms
    by (simp add: lg_fields_def pr_fields_def ps_fields_def mb_fields_def compile_llm_gateway_budget_def Let_def
        ceiling_defs spec_meets_floors_def scale_usize_le)
qed

lemma compile_within_profile: "within_profile (compile_runtime_budget env inp)"
  by (simp add: within_profile_def Let_def compile_runtime_budget_sel compile_within render_within gateway_within)

lemma limits_within_profile:
  "within_profile r \<Longrightarrow> within_profile (apply_nonproduction_runtime_budget_limits env r l)"
  unfolding within_profile_def Let_def
  by (auto simp: apply_limits_sel intro: within_trans [OF graph_narrow.narrow_opt_within]
      within_trans [OF facet_narrow.narrow_opt_within] within_trans [OF delivery_narrow.narrow_opt_within]
      within_trans [OF transcript_narrow.narrow_opt_within] within_trans [OF store_narrow.narrow_opt_within])

lemma ceiling_within_profile:
  "within_profile r \<Longrightarrow> within_profile (apply_store_budget_ceiling env r c label)"
  unfolding within_profile_def Let_def
  by (auto simp: apply_ceiling_sel intro: within_trans [OF store_narrow.within_left])

lemma authority_report_profile: "rb_profile (compile_authority_report env pr m pl mode s ceil) = pr"
  by (simp add: compile_authority_report_def Let_def apply_ceiling_sel apply_limits_sel
      compile_runtime_budget_sel split: compile_mode.splits option.splits)

lemma authority_report_within_profile: "within_profile (compile_authority_report env pr m pl mode s ceil)"
  by (auto simp: compile_authority_report_def Let_def compile_within_profile limits_within_profile
      ceiling_within_profile split: compile_mode.splits option.splits)

lemma authority_report_valid:
  assumes "mode_valid mode" and "\<And>c. ceil = Some c \<Longrightarrow> validate_store_budget c stage = Inr ()"
  shows "budgets_valid (compile_authority_report env pr m pl mode s ceil)"
  using assms
  by (auto simp: compile_authority_report_def Let_def mode_valid_def compile_budgets_valid limits_budgets_valid
      intro!: ceiling_budgets_valid split: compile_mode.splits option.splits)

text \<open>What every report issued by an authority satisfies, relative to its admission ceiling.\<close>

definition report_good :: "report_env \<Rightarrow> store_runtime_budget \<Rightarrow> runtime_budget_report \<Rightarrow> bool" where
  "report_good env ceiling r \<longleftrightarrow>
     identity_covers_payload env r \<and> evidence_derived r \<and> budgets_valid r \<and> within_profile r \<and>
     within (sb_fields (rb_store_budget r)) (sb_fields ceiling)"

definition authority_inv :: "report_env \<Rightarrow> authority \<Rightarrow> bool" where
  "authority_inv env au \<longleftrightarrow>
     mode_valid (au_mode au) \<and>
     rb_resource_snapshot (au_report au) = sc_snapshot (au_cache au) \<and>
     validate_store_budget (admission_store_ceiling au) ''runtime_budget_nonproduction_limits'' = Inr () \<and>
     report_good env (admission_store_ceiling au) (au_report au)"

lemma compile_report_good:
  assumes "authority_inv env au"
  shows "report_good env (admission_store_ceiling au) (compile_report env au s)"
  using assms
  by (auto simp: report_good_def authority_inv_def compile_report_def authority_report_identity
      authority_report_evidence authority_report_within_profile authority_report_within_ceiling
      intro!: authority_report_valid)

lemma install_snapshot_inv:
  assumes "install_snapshot env au tick s = (au', r)" "authority_inv env au"
  shows "authority_inv env au' \<and> report_good env (admission_store_ceiling au') r"
  using install_snapshot_sel [OF assms(1)] compile_report_good [OF assms(2), of s] assms(2)
  by (simp add: authority_inv_def compile_report_snapshot)

lemma current_report_inv:
  assumes "current_report env au now t1 t2 t3 probe = (au', r)" "authority_inv env au"
  shows "authority_inv env au' \<and> report_good env (admission_store_ceiling au') r"
  using assms install_snapshot_inv
  by (auto simp: current_report_def authority_inv_def split: if_splits)

lemma refresh_inv:
  assumes "refresh env au now tick probe = (au', res)" "authority_inv env au"
  shows "authority_inv env au' \<and> (\<forall>r. res = Inr r \<longrightarrow> report_good env (admission_store_ceiling au') r)"
  using assms install_snapshot_inv
  by (auto simp: refresh_def split: sum.splits prod.splits)

lemma new_with_mode_inv:
  assumes "new_with_mode env harness pr m pl reg mode probe tick now = Inr au" "mode_valid mode"
  shows "authority_inv env au"
proof -
  note r = new_with_mode_Ok(2) [OF assms(1)] and c = new_with_mode_Ok(1) [OF assms(1)]
  have "au_mode au = mode" by (rule new_with_mode_Ok [OF assms(1)])
  moreover have "budgets_valid (au_report au)"
    unfolding r by (rule authority_report_valid [OF assms(2)]) simp
  ultimately show ?thesis
    unfolding authority_inv_def report_good_def
    using assms(2) r c authority_report_identity authority_report_evidence authority_report_within_profile
      authority_report_snapshot [of env pr m pl mode "sc_snapshot (au_cache au)" None]
    by (auto simp: budgets_valid_def)
qed

lemma current_report_ceiling:
  "current_report env au now t1 t2 t3 probe = (au', r) \<Longrightarrow> admission_store_ceiling au' = admission_store_ceiling au"
  using install_snapshot_sel(4) by (fastforce simp: current_report_def split: if_splits)

lemma refresh_ceiling:
  "refresh env au now tick probe = (au', res) \<Longrightarrow> admission_store_ceiling au' = admission_store_ceiling au"
  using install_snapshot_sel(4) by (fastforce simp: refresh_def split: sum.splits prod.splits)

lemma authority_run_inv:
  "authority_run env harness src au issued \<Longrightarrow>
   authority_inv env au \<and> (\<forall>r \<in> issued. report_good env (admission_store_ceiling au) r)"
proof (induction rule: authority_run.induct)
  case (serve au issued now t1 t2 t3 probe au' r)
  then show ?case
    using current_report_inv [OF serve.hyps(2)] current_report_ceiling [OF serve.hyps(2)] by auto
next
  case (refreshed au issued now tick probe au' r)
  then show ?case using refresh_inv [OF refreshed.hyps(2)] refresh_ceiling [OF refreshed.hyps(2)] by auto
next
  case (refresh_failed au issued now tick probe au' e)
  then show ?case using refresh_inv [OF refresh_failed.hyps(2)] refresh_ceiling [OF refresh_failed.hyps(2)] by auto
qed (auto simp: with_host_probe_def with_firmware_probe_def with_default_probe_nonproduction_def
      with_nonproduction_host_probe_def with_nonproduction_firmware_probe_def result_simps mode_valid_def
      dest!: new_with_mode_inv)

lemma new_with_mode_ceiling:
  assumes "new_with_mode env harness pr m pl reg mode probe tick now = Inr au"
  shows "within (sb_fields (admission_store_ceiling au)) (sb_fields (pc_store_budget (profile_budget_ceiling pr)))"
  using authority_report_within_profile [of env pr m pl mode "sc_snapshot (au_cache au)" None]
  unfolding new_with_mode_Ok(1) [OF assms] new_with_mode_Ok(2) [OF assms]
  by (simp add: within_profile_def Let_def authority_report_profile)

lemma authority_run_ceiling:
  "authority_run env harness src au issued \<Longrightarrow>
   \<exists>pr. within (sb_fields (admission_store_ceiling au)) (sb_fields (pc_store_budget (profile_budget_ceiling pr)))"
proof (induction rule: authority_run.induct)
  case (serve au issued now t1 t2 t3 probe au' r)
  then show ?case using current_report_ceiling [OF serve.hyps(2)] by simp
next
  case (refreshed au issued now tick probe au' r)
  then show ?case using refresh_ceiling [OF refreshed.hyps(2)] by simp
next
  case (refresh_failed au issued now tick probe au' e)
  then show ?case using refresh_ceiling [OF refresh_failed.hyps(2)] by simp
qed (auto simp: with_host_probe_def with_firmware_probe_def with_default_probe_nonproduction_def
      with_nonproduction_host_probe_def with_nonproduction_firmware_probe_def result_simps
      dest!: new_with_mode_ceiling)

end
