(* ===== verification/Budget_Guarantees.thy ===== *)
theory Budget_Guarantees
  imports Budget_Authority
begin

text \<open>
  What the budget components guarantee together: bounds of compiled budgets, their
  monotonicity in the observed resources, the invariant of every report an authority
  issues, and admission of a report.
\<close>

section \<open>Scarcer resources\<close>

definition scarcer :: "snapshot \<Rightarrow> snapshot \<Rightarrow> bool" where
  "scarcer s t \<longleftrightarrow>
     pressure t \<le> pressure s \<and>
     rel_option (\<le>) (memory_available_bytes s) (memory_available_bytes t) \<and>
     rel_option (\<le>) (internal_heap_free_bytes s) (internal_heap_free_bytes t) \<and>
     rel_option (\<le>) (psram_free_bytes s) (psram_free_bytes t) \<and>
     rel_option (\<le>) (storage_available_bytes s) (storage_available_bytes t)"

definition report_within :: "runtime_budget_report \<Rightarrow> runtime_budget_report \<Rightarrow> bool" where
  "report_within r r' \<longleftrightarrow>
     within (mc_fields (rb_memory_core_budget r)) (mc_fields (rb_memory_core_budget r')) \<and>
     within (ge_fields (rb_graph_expansion_budget r)) (ge_fields (rb_graph_expansion_budget r')) \<and>
     within (fr_fields (rb_facet_recall_budget r)) (fr_fields (rb_facet_recall_budget r')) \<and>
     within (rd_fields (rb_recall_delivery_budget r)) (rd_fields (rb_recall_delivery_budget r')) \<and>
     within (gs_fields (rb_governed_state_budget r)) (gs_fields (rb_governed_state_budget r')) \<and>
     within (ed_fields (rb_evidence_document_budget r)) (ed_fields (rb_evidence_document_budget r')) \<and>
     within (sb_fields (rb_store_budget r)) (sb_fields (rb_store_budget r')) \<and>
     within (ad_fields (rb_adapter_budget r)) (ad_fields (rb_adapter_budget r')) \<and>
     within (ps_fields (rb_projection_source_budget r)) (ps_fields (rb_projection_source_budget r')) \<and>
     within (pr_fields (rb_projection_render_budget r)) (pr_fields (rb_projection_render_budget r')) \<and>
     within (mb_fields (rb_maintenance_budget r)) (mb_fields (rb_maintenance_budget r')) \<and>
     within (rj_fields (rb_runtime_job_budget r)) (rj_fields (rb_runtime_job_budget r')) \<and>
     within (lg_fields (rb_llm_gateway_budget r)) (lg_fields (rb_llm_gateway_budget r')) \<and>
     within (tg_fields (rb_transcript_governance_budget r)) (tg_fields (rb_transcript_governance_budget r'))"

text \<open>
  A host with eight gibibytes, half of them free, and a digest of 64 hexadecimal digits that
  counts its input modulo 65: like every digest of fixed length it has collisions, but none
  between inputs whose lengths differ by less than 65.
\<close>

definition sample_sha256 :: "bytes \<Rightarrow> string" where
  "sample_sha256 bs = (let n = length bs mod 65 in replicate n (CHR ''1'') @ replicate (64 - n) (CHR ''0''))"

lemma sample_sha256_length: "length (sample_sha256 bs) = 64"
proof -
  have "length bs mod 65 < 65" by simp
  then have "length bs mod 65 \<le> 64" by linarith
  then show ?thesis by (simp add: sample_sha256_def Let_def)
qed

lemma sample_sha256_eq: "sample_sha256 a = sample_sha256 b \<longleftrightarrow> length a mod 65 = length b mod 65"
proof
  have ones: "length (filter (\<lambda>c. c = CHR ''1'') (sample_sha256 x)) = length x mod 65" for x
    by (simp add: sample_sha256_def Let_def)
  show "sample_sha256 a = sample_sha256 b \<Longrightarrow> length a mod 65 = length b mod 65"
    using ones [of a] ones [of b] by simp
qed (simp add: sample_sha256_def)

lemma sample_sha256_inj_on: "length a mod 65 \<noteq> length b mod 65 \<Longrightarrow> inj_on sample_sha256 {a, b}"
  by (auto simp: inj_on_def sample_sha256_eq)

definition sample_env :: report_env where
  "sample_env = \<lparr> sha256_hex = sample_sha256, report_json = (\<lambda>r. concat (rb_limited_by r)) \<rparr>"

definition sample_observation :: "u64 option \<Rightarrow> observation" where
  "sample_observation free =
     host_probe 100 False (Some (8192 * 1024 * 1024), free) (None, None) (Some 4)"

definition sample_input :: "u64 option \<Rightarrow> runtime_budget_input" where
  "sample_input free = \<lparr> in_profile = ServerLinuxMemoryGateway,
     in_resource_snapshot = from_observation HostLinux (sample_observation free),
     in_static_platform_manifest = manifest_for_profile ServerLinuxMemoryGateway VolatileMemory,
     in_provider_model_context_limit = None \<rparr>"

definition sample_authority :: "authority result" where
  "sample_authority = with_host_probe sample_env False HostLinux ServerLinuxMemoryGateway
     (manifest_for_profile ServerLinuxMemoryGateway VolatileMemory) None None
     (Inr (sample_observation (Some (4096 * 1024 * 1024)))) 0 100"

lemma memory_scale_scarcer: "scarcer s t \<Longrightarrow> memory_scale s m \<le> memory_scale t m"
  by (auto simp: scarcer_def memory_scale_def option_rel_Some1 split: option.splits)

lemma storage_scale_scarcer: "scarcer s t \<Longrightarrow> storage_scale s m \<le> storage_scale t m"
  by (auto simp: scarcer_def storage_scale_def option_rel_Some1 split: option.splits)

lemma pressure_scale_antimono: "p \<le> q \<Longrightarrow> pressure_scale q \<le> pressure_scale p"
  by (cases p; cases q) (simp_all add: less_eq_pressure_level_def)

lemma scales_scarcer:
  assumes "scarcer s t"
  shows "pressure_scale (pressure s) \<le> pressure_scale (pressure t)"
    "source_scale_of s m \<le> source_scale_of t m" "store_scale_of s m \<le> store_scale_of t m"
proof -
  show p: "pressure_scale (pressure s) \<le> pressure_scale (pressure t)"
    using assms pressure_scale_antimono by (simp add: scarcer_def)
  show "source_scale_of s m \<le> source_scale_of t m" "store_scale_of s m \<le> store_scale_of t m"
    using p memory_scale_scarcer [OF assms, of m] storage_scale_scarcer [OF assms, of m]
    by (auto simp: source_scale_of_def store_scale_of_def intro: min.mono split: store_medium.splits)
qed

lemma render_mono:
  "p \<le> q \<Longrightarrow> within (pr_fields (compile_projection_render_budget c p cap))
     (pr_fields (compile_projection_render_budget c q cap))"
  by (auto simp: pr_fields_def compile_projection_render_budget_def Let_def split: option.splits
      intro: scale_le_max min.coboundedI1 [OF max.mono [OF scale_usize_mono order_refl]])

lemma gateway_mono:
  assumes "p \<le> q" "within (pr_fields r) (pr_fields r')" "within (ps_fields s) (ps_fields s')"
    "within (mb_fields m) (mb_fields m')"
  shows "within (lg_fields (compile_llm_gateway_budget c p r s m))
     (lg_fields (compile_llm_gateway_budget c q r' s' m'))"
  using assms
  by (simp add: lg_fields_def pr_fields_def ps_fields_def mb_fields_def compile_llm_gateway_budget_def
      Let_def scale_le_max)

lemma evidence_mono:
  assumes "within (mc_fields m) (mc_fields m')" "within (rj_fields j) (rj_fields j')"
    "within (sb_fields s) (sb_fields s')"
  shows "within (ed_fields (compile_evidence_document_budget m j s))
     (ed_fields (compile_evidence_document_budget m' j' s'))"
  using assms
  by (auto simp: ed_fields_def mc_fields_def rj_fields_def sb_fields_def compile_evidence_document_budget_def
      Let_def intro!: max.coboundedI1 min.mono div_le_mono)

section \<open>Properties\<close>

text \<open>
  C26. Whatever the profile, the snapshot, the manifest and the provider limit, every
  field of every component budget compiled from them is at most the field of the profile's
  ceiling; the graph, facet, delivery, transcript and store budgets pass the validators the
  code applies to explicit limits; and the report's identity covers its payload.
\<close>

theorem compile_runtime_budget_bounds:
  "within_profile (compile_runtime_budget env inp) \<and> budgets_valid (compile_runtime_budget env inp) \<and>
   identity_covers_payload env (compile_runtime_budget env inp)"
  by (simp add: compile_within_profile compile_budgets_valid)

text \<open>
  C25. With the same profile, manifest and provider limit, a snapshot with no less pressure
  and no more free memory or storage never compiles to a larger budget in any component,
  the derived evidence-document budget included.
\<close>

theorem compile_runtime_budget_monotone:
  assumes "scarcer s t"
  shows "report_within
     (compile_runtime_budget env \<lparr> in_profile = pr, in_resource_snapshot = s,
        in_static_platform_manifest = m, in_provider_model_context_limit = pl \<rparr>)
     (compile_runtime_budget env \<lparr> in_profile = pr, in_resource_snapshot = t,
        in_static_platform_manifest = m, in_provider_model_context_limit = pl \<rparr>)"
  using scales_scarcer [OF assms]
  by (simp add: report_within_def compile_runtime_budget_sel compile_mono render_mono gateway_mono
      evidence_mono render_provider_cap_of_def)

theorem compile_runtime_budget_monotone_witness:
  "scarcer (from_observation HostLinux (sample_observation (Some (512 * 1024 * 1024))))
     (from_observation HostLinux (sample_observation (Some (4096 * 1024 * 1024)))) \<and>
   report_within (compile_runtime_budget sample_env (sample_input (Some (512 * 1024 * 1024))))
     (compile_runtime_budget sample_env (sample_input (Some (4096 * 1024 * 1024))))"
proof -
  have "scarcer (from_observation HostLinux (sample_observation (Some (512 * 1024 * 1024))))
     (from_observation HostLinux (sample_observation (Some (4096 * 1024 * 1024))))"
    by (simp add: scarcer_def sample_observation_def host_probe_def pressure_from_resources_def
        from_observation_def observation.defs less_eq_pressure_level_def arith_defs Let_def)
  then show ?thesis
    using compile_runtime_budget_monotone
      [of _ _ sample_env ServerLinuxMemoryGateway "manifest_for_profile ServerLinuxMemoryGateway VolatileMemory" None]
    by (simp add: sample_input_def)
qed

text \<open>
  C23. Every report an authority ever issues, however it was constructed and whatever its
  probes answer and its clocks show, stays within the store ceiling the authority was
  admitted with and within the ceilings of its profile; its budgets pass the validators,
  its evidence-document budget is the one derived from its own store budget, and its
  identity covers its payload.
\<close>

theorem issued_reports_good:
  assumes "authority_run env harness src au issued" and "r \<in> issued"
  shows "within (sb_fields (rb_store_budget r)) (sb_fields (admission_store_ceiling au)) \<and>
         within_profile r \<and> budgets_valid r \<and> evidence_derived r \<and> identity_covers_payload env r"
  using authority_run_inv [OF assms(1)] assms(2) by (simp add: report_good_def)

lemma sample_authority_built: "\<exists>au. sample_authority = Inr au"
  by (simp add: sample_authority_def with_host_probe_def new_with_mode_def registration_host_def
      storage_observation_def validate_authority_configuration_def Let_def manifest_for_profile_def
      target_accepts_source_def is_host_source_def map_probe_error_def probe_snapshot_def
      validate_authority_snapshot_def sample_observation_def host_probe_def from_observation_def
      observation.defs validate_host_resource_snapshot_def)

lemma sample_run:
  obtains au r where "authority_run sample_env False HostLinux au {r}"
proof -
  obtain au where au: "sample_authority = Inr au" using sample_authority_built by blast
  then have "authority_run sample_env False HostLinux au {}"
    unfolding sample_authority_def by (rule authority_run.host)
  moreover obtain au' r where "current_report sample_env au 200 0 0 0 (Inl (Io [] [])) = (au', r)"
    by force
  ultimately have "authority_run sample_env False HostLinux au' {r}"
    by (rule authority_run.serve)
  then show ?thesis by (rule that)
qed

theorem issued_reports_good_witness:
  "\<exists>au r. authority_run sample_env False HostLinux au {r} \<and>
     within (sb_fields (rb_store_budget r)) (sb_fields (admission_store_ceiling au)) \<and> budgets_valid r"
proof -
  obtain au r where run: "authority_run sample_env False HostLinux au {r}" by (rule sample_run)
  then show ?thesis using issued_reports_good [OF run, of r] by blast
qed

text \<open>
  C24. A report just obtained from a reachable authority is admissible at that time, unless
  the probe answered with an observation that had already expired: a failing probe, or one
  whose answer is rejected, still yields an admissible (degraded) report.
\<close>

theorem current_report_admissible:
  assumes "authority_run env harness src au issued"
    and "\<forall>ob. probe = Inr ob \<longrightarrow> \<not> is_expired ob now"
  shows "validate_for_admission env (snd (current_report env au now t1 t2 t3 probe)) now = Inr ()"
proof -
  have inv: "authority_inv env au" using authority_run_inv [OF assms(1)] by simp
  obtain au' r where cr: "current_report env au now t1 t2 t3 probe = (au', r)" by force
  have good: "identity_covers_payload env r"
    using current_report_inv [OF cr inv] by (simp add: report_good_def)
  have "\<not> stale (rb_resource_snapshot r) \<and> \<not> is_expired (rb_resource_snapshot r) now"
  proof (cases "requires_refresh (au_cache au) now t1 \<and> requires_refresh (au_cache au) now t2")
    case False
    then show ?thesis
      using cr inv by (auto simp: current_report_def authority_inv_def requires_refresh_def split: if_splits)
  next
    case True
    show ?thesis
    proof (cases "validated_probe au probe now")
      case (Inr s)
      then have "r = compile_report env au s"
        using cr True by (auto simp: current_report_def dest: install_snapshot_sel)
      then show ?thesis
        using Inr assms(2)
        by (auto simp: compile_report_snapshot validated_probe_def result_simps is_expired_def
            dest!: validate_snapshot_Ok)
    next
      case (Inl e)
      then have "rb_resource_snapshot r = with_unavailable_detail
          (snapshot_unavailable now (attested_source (au_registration au)) ProbeFailed)
          (''automatic_refresh_failed:'' @ display_error e)"
        using cr True by (auto simp: current_report_def compile_report_snapshot dest!: install_snapshot_sel(1))
      then show ?thesis by (simp add: is_expired_def div_ceil_def)
    qed
  qed
  then show ?thesis
    using good cr by (simp add: validate_for_admission_def identity_covers_payload_def)
qed

theorem current_report_admissible_witness:
  "\<exists>au. authority_run sample_env False HostLinux au {} \<and>
     validate_for_admission sample_env
       (snd (current_report sample_env au 200 0 0 0 (Inl (Io ''timeout'' ''probe'')))) 200 = Inr ()"
proof -
  obtain au where au: "sample_authority = Inr au" using sample_authority_built by blast
  then have run: "authority_run sample_env False HostLinux au {}"
    unfolding sample_authority_def by (rule authority_run.host)
  then show ?thesis
    using current_report_admissible [OF run, of "Inl (Io ''timeout'' ''probe'')" 200] by auto
qed

text \<open>
  A refresh that fails, in the probe or in the validation of what it answered, leaves
  the authority and its report as they were.
\<close>

lemma refresh_error_keeps_authority:
  assumes "refresh env au now tick probe = (au', Inl e)"
  shows "au' = au"
  using assms by (auto simp: refresh_def split: sum.splits prod.splits)

lemma refresh_error_example:
  "\<exists>au. sample_authority = Inr au \<and>
     fst (refresh sample_env au 200 0 (Inl (Io ''timeout'' ''probe''))) = au"
proof -
  obtain au where au: "sample_authority = Inr au" using sample_authority_built by blast
  have "refresh sample_env au 200 0 (Inl (Io ''timeout'' ''probe'')) =
     (au, Inl (config_error ''runtime_budget_resource_probe''
        (''probe_failed:'' @ display_error (Io ''timeout'' ''probe''))))"
    by (simp add: refresh_def probe_snapshot_def map_probe_error_def)
  from au refresh_error_keeps_authority [OF this] this show ?thesis by auto
qed

text \<open>What the digest in the identity of a report is taken of.\<close>

definition identity_input :: "report_env \<Rightarrow> runtime_budget_report \<Rightarrow> bytes" where
  "identity_input env r = (let payload = report_json env (r\<lparr>rb_report_id := []\<rparr>) in
     ''beetle-memory:runtime-budget-report:v2'' @ le_bytes 8 (length payload) @ payload)"

lemma finalized_id: "rb_report_id (finalize_runtime_budget_report_id env r) = ''rtb-v2-'' @ sha256_hex env (identity_input env r)"
  by (simp add: finalize_runtime_budget_report_id_def identity_input_def Let_def)

lemma identity_input_inject:
  "identity_input env r = identity_input env r' \<longleftrightarrow>
   report_json env (r\<lparr>rb_report_id := []\<rparr>) = report_json env (r'\<lparr>rb_report_id := []\<rparr>)"
  by (auto simp: identity_input_def Let_def le_bytes_def)

lemma altered_identity:
  assumes "identity_covers_payload env r" and "rb_report_id r' = rb_report_id r"
    and "report_json env (r'\<lparr>rb_report_id := []\<rparr>) \<noteq> report_json env (r\<lparr>rb_report_id := []\<rparr>)"
    and "inj_on (sha256_hex env) {identity_input env r, identity_input env r'}"
  shows "rb_report_id (finalize_runtime_budget_report_id env r') \<noteq> rb_report_id r'"
proof
  assume "rb_report_id (finalize_runtime_budget_report_id env r') = rb_report_id r'"
  also have "\<dots> = rb_report_id (finalize_runtime_budget_report_id env r)"
    using assms(1,2) by (simp add: identity_covers_payload_def)
  finally have "sha256_hex env (identity_input env r') = sha256_hex env (identity_input env r)"
    by (simp add: finalized_id)
  then have "identity_input env r' = identity_input env r" using assms(4) by (auto dest: inj_onD)
  then show False using assms(3) by (simp add: identity_input_inject)
qed

text \<open>
  The evidence-document budget of every issued report fits its store budget: the
  documents of one transaction, each with its full envelope of entries, fit the entry
  limit; chunk, body and document sizes are nested; and a transaction's bytes are at most
  half a snapshot.
\<close>

lemma evidence_budget_fits_store:
  assumes "authority_run env harness src au issued" and "r \<in> issued"
  shows "let ed = rb_evidence_document_budget r; sb = rb_store_budget r in
     1 \<le> ed_max_documents_per_transaction ed \<and>
     ed_max_documents_per_transaction ed * EVIDENCE_DOCUMENT_KV_ENTRY_ENVELOPE_PER_DOCUMENT
       \<le> sb_kv_max_entries sb \<and>
     ed_max_chunk_bytes ed \<le> ed_max_document_body_bytes ed \<and>
     ed_max_document_body_bytes ed \<le> ed_max_document_bytes ed \<and>
     ed_max_document_bytes ed \<le> ed_max_total_bytes_per_transaction ed \<and>
     2 * ed_max_total_bytes_per_transaction ed \<le> sb_snapshot_max_bytes sb"
proof -
  have "evidence_derived r" "budgets_valid r"
    using authority_run_inv [OF assms(1)] assms(2) by (simp_all add: report_good_def)
  then have ed: "rb_evidence_document_budget r = compile_evidence_document_budget
      (rb_memory_core_budget r) (rb_runtime_job_budget r) (rb_store_budget r)"
    and kv: "EVIDENCE_DOCUMENT_KV_ENTRY_ENVELOPE_PER_DOCUMENT \<le> sb_kv_max_entries (rb_store_budget r)"
    by (simp_all add: evidence_derived_def budgets_valid_def validate_store_budget_def if_Err_Ok not_less)
  have "max (min a (k div e)) 1 * e \<le> k" if "e \<le> k" for a k e :: nat
  proof -
    have "min a (k div e) * e \<le> k div e * e" by (intro mult_le_mono1) simp
    also have "\<dots> \<le> k" by simp
    finally show ?thesis using that by (simp add: max_def)
  qed
  from this [OF kv] show ?thesis
    by (simp add: ed compile_evidence_document_budget_def Let_def min_le_iff_disj)
qed

lemma evidence_budget_fits_store_example:
  "\<exists>au r. authority_run sample_env False HostLinux au {r} \<and>
     ed_max_documents_per_transaction (rb_evidence_document_budget r) *
       EVIDENCE_DOCUMENT_KV_ENTRY_ENVELOPE_PER_DOCUMENT \<le> sb_kv_max_entries (rb_store_budget r)"
proof -
  obtain au r where run: "authority_run sample_env False HostLinux au {r}" by (rule sample_run)
  then show ?thesis using evidence_budget_fits_store [OF run, of r] by (auto simp: Let_def)
qed

text \<open>
  C28. A report compiled under replay limits stays within each limit that is set, and with
  valid limits all its budgets are valid again; without limits the component budgets are
  the production ones.
\<close>

theorem replay_limits_respected:
  assumes "compile_nonproduction_runtime_budget env inp limits = Inr r"
  shows "budgets_valid r \<and> report_within r (compile_runtime_budget env inp) \<and>
     (\<forall>b. nl_graph_expansion_budget limits = Some b \<longrightarrow> within (ge_fields (rb_graph_expansion_budget r)) (ge_fields b)) \<and>
     (\<forall>b. nl_facet_recall_budget limits = Some b \<longrightarrow> within (fr_fields (rb_facet_recall_budget r)) (fr_fields b)) \<and>
     (\<forall>b. nl_recall_delivery_budget limits = Some b \<longrightarrow> within (rd_fields (rb_recall_delivery_budget r)) (rd_fields b)) \<and>
     (\<forall>b. nl_transcript_governance_budget limits = Some b \<longrightarrow>
        within (tg_fields (rb_transcript_governance_budget r)) (tg_fields b)) \<and>
     (\<forall>b. nl_store_budget_limit limits = Some b \<longrightarrow> within (sb_fields (rb_store_budget r)) (sb_fields b))"
proof -
  have r: "r = apply_nonproduction_runtime_budget_limits env (compile_runtime_budget env inp) limits"
    and l: "limits_validate limits = Inr ()"
    using assms by (auto simp: compile_nonproduction_runtime_budget_def result_simps)
  have "report_within r (compile_runtime_budget env inp)"
    unfolding r report_within_def
    by (simp add: apply_limits_sel compile_runtime_budget_sel(21) graph_narrow.narrow_opt_within
        facet_narrow.narrow_opt_within delivery_narrow.narrow_opt_within transcript_narrow.narrow_opt_within
        store_narrow.narrow_opt_within evidence_mono)
  moreover have "budgets_valid r"
    unfolding r by (rule limits_budgets_valid [OF compile_budgets_valid l])
  ultimately show ?thesis
    using graph_narrow.within_right facet_narrow.within_right delivery_narrow.within_right
      transcript_narrow.within_right store_narrow.within_right by (simp add: r apply_limits_sel)
qed

definition sample_store_limit :: store_runtime_budget where
  "sample_store_limit = \<lparr> sb_metric_source_max_items = 1, sb_event_log_max_items = 10, sb_kv_max_entries = 200,
     sb_blob_max_bytes = 1000, sb_snapshot_max_bytes = 4000, sb_logical_namespace_max_bytes = 64,
     sb_logical_key_max_bytes = 64, sb_event_record_key_max_bytes = 64, sb_export_max_bytes = 1, sb_import_max_bytes = 1 \<rparr>"

theorem replay_limits_respected_witness:
  "\<exists>r. compile_nonproduction_runtime_budget sample_env (sample_input None)
         (limits_new\<lparr>nl_store_budget_limit := Some sample_store_limit\<rparr>) = Inr r \<and>
       within (sb_fields (rb_store_budget r)) (sb_fields sample_store_limit) \<and> budgets_valid r"
proof -
  let ?l = "limits_new\<lparr>nl_store_budget_limit := Some sample_store_limit\<rparr>"
  have "limits_validate ?l = Inr ()"
    by (simp add: limits_validate_Ok limits_new_def sample_store_limit_def validate_store_budget_def
        EVIDENCE_DOCUMENT_KV_ENTRY_ENVELOPE_PER_DOCUMENT_def MAX_EVIDENCE_DOCUMENT_FACET_LEXICAL_TERMS_def
        MAX_GOVERNED_EVIDENCE_DOCUMENT_CHUNKS_def)
  then obtain r where "compile_nonproduction_runtime_budget sample_env (sample_input None) ?l = Inr r"
    by (auto simp: compile_nonproduction_runtime_budget_def)
  with replay_limits_respected [OF this] show ?thesis by (auto simp: limits_new_def)
qed

lemma pressure_levels [simp]: "Normal \<le> p" "p \<le> Critical" "\<not> Critical \<le> Cautious" "Cautious \<le> Cautious"
  by (cases p; simp add: less_eq_pressure_level_def)+

lemma pressure_above_threshold:
  assumes "256 * 1024 * 1024 \<le> a"
  shows "pressure_from_resources (Some memory_tot) (Some a) =
     (if 0 < memory_tot \<and> saturating_mul a 100 div memory_tot < 5 then Critical
      else if 0 < memory_tot \<and> saturating_mul a 100 div memory_tot < 15 then Cautious else Normal)"
  using assms by (simp add: pressure_from_resources_def)

lemma saturating_mul_mono: "a \<le> b \<Longrightarrow> saturating_mul a n \<le> saturating_mul b n"
  unfolding saturating_mul_def by (intro min.mono mult_le_mono1 order_refl)

text \<open>
  C29. On a host that reports its memory, the pressure level is antitone in the free memory,
  that is less free memory is never reported as less pressure, exactly when the host has at
  most five gibibytes. On every larger host the absolute threshold of 256 MiB lies below five
  per cent of the memory and is looked at first, so that just below it the level drops from
  critical to cautious.
\<close>

theorem pressure_antitone_iff:
  "(\<forall>a b. a \<le> b \<and> b \<le> memory_tot \<longrightarrow>
      pressure_from_resources (Some memory_tot) (Some b) \<le> pressure_from_resources (Some memory_tot) (Some a)) \<longleftrightarrow>
   memory_tot \<le> 5 * 1024 * 1024 * 1024"
proof
  assume le: "memory_tot \<le> 5 * 1024 * 1024 * 1024"
  have "pressure_from_resources (Some memory_tot) (Some b) \<le> pressure_from_resources (Some memory_tot) (Some a)"
    if ab: "a \<le> b" for a b
  proof -
    have ratio: "saturating_mul a 100 div memory_tot \<le> saturating_mul b 100 div memory_tot"
      using saturating_mul_mono [OF ab] by (rule div_le_mono)
    have high: "5 \<le> saturating_mul b 100 div memory_tot" if "256 * 1024 * 1024 \<le> b" "0 < memory_tot"
    proof -
      have "5 * memory_tot \<le> saturating_mul (256 * 1024 * 1024) 100" using le by (simp add: arith_defs)
      also have "\<dots> \<le> saturating_mul b 100" by (rule saturating_mul_mono [OF that(1)])
      finally show ?thesis using that(2) by (simp add: less_eq_div_iff_mult_less_eq)
    qed
    consider "a < 64 * 1024 * 1024" | "64 * 1024 * 1024 \<le> a" "a < 256 * 1024 * 1024" | "256 * 1024 * 1024 \<le> a" by linarith
    then show ?thesis
    proof cases
      case 1
      then show ?thesis by (simp add: pressure_from_resources_def [of _ "Some a"])
    next
      case 2
      then have "pressure_from_resources (Some memory_tot) (Some a) = Cautious" by (simp add: pressure_from_resources_def)
      moreover have "pressure_from_resources (Some memory_tot) (Some b) \<le> Cautious"
        using high ab 2 by (cases "b < 256 * 1024 * 1024") (auto simp: pressure_from_resources_def)
      ultimately show ?thesis by simp
    next
      case 3
      then show ?thesis using ratio ab high pressure_above_threshold [of a] pressure_above_threshold [of b] by auto
    qed
  qed
  then show "\<forall>a b. a \<le> b \<and> b \<le> memory_tot \<longrightarrow>
      pressure_from_resources (Some memory_tot) (Some b) \<le> pressure_from_resources (Some memory_tot) (Some a)" by blast
next
  assume anti: "\<forall>a b. a \<le> b \<and> b \<le> memory_tot \<longrightarrow>
      pressure_from_resources (Some memory_tot) (Some b) \<le> pressure_from_resources (Some memory_tot) (Some a)"
  show "memory_tot \<le> 5 * 1024 * 1024 * 1024"
  proof (rule ccontr)
    assume big: "\<not> memory_tot \<le> 5 * 1024 * 1024 * 1024"
    then have "saturating_mul (256 * 1024 * 1024) 100 div memory_tot < 5" by (simp add: arith_defs div_less_iff_less_mult)
    then have "pressure_from_resources (Some memory_tot) (Some (256 * 1024 * 1024)) = Critical"
      using big by (simp add: pressure_above_threshold)
    moreover have "pressure_from_resources (Some memory_tot) (Some (256 * 1024 * 1024 - 1)) = Cautious"
      by (simp add: pressure_from_resources_def)
    ultimately show False using anti [rule_format, of "256 * 1024 * 1024 - 1" "256 * 1024 * 1024"] big by simp
  qed
qed

theorem pressure_antitone_iff_witness:
  "pressure_from_resources (Some (4 * 1024 * 1024 * 1024)) (Some (300 * 1024 * 1024)) \<le>
     pressure_from_resources (Some (4 * 1024 * 1024 * 1024)) (Some (200 * 1024 * 1024)) \<and>
   (\<exists>a b. a \<le> b \<and> b \<le> 8 * 1024 * 1024 * 1024 \<and>
      pressure_from_resources (Some (8 * 1024 * 1024 * 1024)) (Some a) <
        pressure_from_resources (Some (8 * 1024 * 1024 * 1024)) (Some b))"
proof
  have "(4 * 1024 * 1024 * 1024 :: nat) \<le> 5 * 1024 * 1024 * 1024" by simp
  from pressure_antitone_iff [THEN iffD2, OF this, rule_format, of "200 * 1024 * 1024" "300 * 1024 * 1024"]
  show "pressure_from_resources (Some (4 * 1024 * 1024 * 1024)) (Some (300 * 1024 * 1024)) \<le>
      pressure_from_resources (Some (4 * 1024 * 1024 * 1024)) (Some (200 * 1024 * 1024))" by simp
  have "\<not> (8 * 1024 * 1024 * 1024 :: nat) \<le> 5 * 1024 * 1024 * 1024" by simp
  then show "\<exists>a b. a \<le> b \<and> b \<le> 8 * 1024 * 1024 * 1024 \<and>
      pressure_from_resources (Some (8 * 1024 * 1024 * 1024)) (Some a) <
        pressure_from_resources (Some (8 * 1024 * 1024 * 1024)) (Some b)"
    unfolding pressure_antitone_iff [symmetric] by (auto simp: not_le)
qed

end
