(* ===== verification/BTree.thy ===== *)
theory BTree
  imports Rust_Prelude
begin

text \<open>
  \<open>BTreeMap\<close> and \<open>BTreeSet\<close> of the Rust standard library, as far as the sources use them:
  an association list with strictly increasing keys, so that iteration order is part of
  the model and two maps with the same entries are equal. The contract a client relies on
  is the locale \<open>ordered_map\<close>; the map type interprets it.
\<close>

section \<open>Strictly sorted association lists\<close>

abbreviation sorted_keys :: "('k::linorder \<times> 'v) list \<Rightarrow> bool" where
  "sorted_keys xs \<equiv> sorted_wrt (<) (map fst xs)"

fun al_insert :: "'k::linorder \<Rightarrow> 'v \<Rightarrow> ('k \<times> 'v) list \<Rightarrow> ('k \<times> 'v) list" where
  "al_insert k v [] = [(k, v)]"
| "al_insert k v ((k', v') # xs) =
     (if k < k' then (k, v) # (k', v') # xs
      else if k = k' then (k, v) # xs
      else (k', v') # al_insert k v xs)"

definition al_remove :: "'k \<Rightarrow> ('k \<times> 'v) list \<Rightarrow> ('k \<times> 'v) list" where
  "al_remove k xs = filter (\<lambda>e. fst e \<noteq> k) xs"

lemma al_insert_keys: "set (map fst (al_insert k v xs)) = insert k (set (map fst xs))"
  by (induction k v xs rule: al_insert.induct) auto

lemma al_insert_sorted: "sorted_keys xs \<Longrightarrow> sorted_keys (al_insert k v xs)"
proof (induction k v xs rule: al_insert.induct)
  case (2 k v k' v' xs)
  have "\<forall>x \<in> set (map fst (al_insert k v xs)). k' < x" if "k' < k"
    using 2 that by (simp only: al_insert_keys) auto
  then show ?case using 2 by auto
qed simp

lemma al_insert_lookup:
  "sorted_keys xs \<Longrightarrow> map_of (al_insert k v xs) = (map_of xs)(k \<mapsto> v)"
  by (induction k v xs rule: al_insert.induct) (auto simp: fun_eq_iff)

lemma sorted_keys_distinct: "sorted_keys xs \<Longrightarrow> distinct (map fst xs)"
  by (simp add: strict_sorted_iff)

lemma sorted_keys_filter: "sorted_keys xs \<Longrightarrow> sorted_keys (filter P xs)"
  by (induction xs) auto

lemma al_insert_length:
  "sorted_keys xs \<Longrightarrow>
   length (al_insert k v xs) = (if map_of xs k = None then Suc (length xs) else length xs)"
proof (induction k v xs rule: al_insert.induct)
  case (2 k v k' v' xs)
  have "map_of xs k = None" if "k < k'"
    using that 2(2) by (fastforce simp: map_of_eq_None_iff)
  then show ?case using 2 by auto
qed simp

lemma map_of_filter_key:
  assumes "distinct (map fst al)"
  shows "map_of (filter Q al) q = Option.bind (map_of al q) (\<lambda>w. if Q (q, w) then Some w else None)"
  using assms
proof (induction al)
  case (Cons e al)
  obtain q' w' where e: "e = (q', w')" by force
  have "map_of al q = None" if "q = q'"
    using Cons.prems e that by (simp add: map_of_eq_None_iff)
  then show ?case using Cons e by auto
qed simp

lemma map_of_nth_key:
  "distinct (map fst xs) \<Longrightarrow> i < length xs \<Longrightarrow> map_of xs (fst (xs ! i)) = Some (snd (xs ! i))"
  by (simp add: map_of_is_SomeI)

lemma distinct_keys_map_of:
  "distinct (map fst xs) \<Longrightarrow> xs = map (\<lambda>k. (k, the (map_of xs k))) (map fst xs)"
  by (rule nth_equalityI) (auto simp: map_of_nth_key)

lemma sorted_keys_ext:
  assumes "sorted_keys xs" "sorted_keys ys" "map_of xs = map_of ys"
  shows "xs = ys"
proof -
  have "set (map fst xs) = set (map fst ys)"
    using assms(3) by (metis dom_map_of_conv_image_fst set_map)
  then have "map fst xs = map fst ys"
    using assms(1,2) by (metis strict_sorted_equal)
  then show ?thesis
    using distinct_keys_map_of [OF sorted_keys_distinct [OF assms(1)]]
      distinct_keys_map_of [OF sorted_keys_distinct [OF assms(2)]] assms(3) by metis
qed

section \<open>The map type\<close>

typedef (overloaded) ('k::linorder, 'v) btree = "{xs :: ('k \<times> 'v) list. sorted_keys xs}"
  morphisms entries BTree
  by (rule exI [of _ "[]"]) simp

setup_lifting type_definition_btree

lift_definition btree_empty :: "('k::linorder, 'v) btree" is "[]" by simp

lift_definition btree_insert :: "'k::linorder \<Rightarrow> 'v \<Rightarrow> ('k, 'v) btree \<Rightarrow> ('k, 'v) btree"
  is al_insert by (rule al_insert_sorted)

lift_definition btree_remove :: "'k::linorder \<Rightarrow> ('k, 'v) btree \<Rightarrow> ('k, 'v) btree"
  is al_remove by (simp add: al_remove_def sorted_keys_filter)

lift_definition btree_retain :: "('k::linorder \<Rightarrow> 'v \<Rightarrow> bool) \<Rightarrow> ('k, 'v) btree \<Rightarrow> ('k, 'v) btree"
  is "\<lambda>P. filter (\<lambda>e. P (fst e) (snd e))" by (rule sorted_keys_filter)

definition btree_get :: "('k::linorder, 'v) btree \<Rightarrow> 'k \<Rightarrow> 'v option" where
  "btree_get m = map_of (entries m)"

definition btree_len :: "('k::linorder, 'v) btree \<Rightarrow> nat" where
  "btree_len m = length (entries m)"

definition btree_keys :: "('k::linorder, 'v) btree \<Rightarrow> 'k list" where
  "btree_keys m = map fst (entries m)"

definition btree_values :: "('k::linorder, 'v) btree \<Rightarrow> 'v list" where
  "btree_values m = map snd (entries m)"

definition btree_contains :: "('k::linorder, 'v) btree \<Rightarrow> 'k \<Rightarrow> bool" where
  "btree_contains m k \<longleftrightarrow> btree_get m k \<noteq> None"

definition btree_of_list :: "('k::linorder \<times> 'v) list \<Rightarrow> ('k, 'v) btree" where
  "btree_of_list xs = fold (\<lambda>(k, v). btree_insert k v) xs btree_empty"

instantiation btree :: (linorder, equal) equal
begin

definition equal_btree :: "('a, 'b) btree \<Rightarrow> ('a, 'b) btree \<Rightarrow> bool" where
  "equal_btree m n \<longleftrightarrow> entries m = entries n"

instance
  by standard (simp add: equal_btree_def entries_inject)

end

text \<open>A \<open>BTreeSet\<close> is a map to the unit type, as it is in the standard library.\<close>

type_synonym 'k btset = "('k, unit) btree"

abbreviation btset_insert :: "'k::linorder \<Rightarrow> 'k btset \<Rightarrow> 'k btset" where
  "btset_insert k \<equiv> btree_insert k ()"

definition btset_of_list :: "'k::linorder list \<Rightarrow> 'k btset" where
  "btset_of_list ks = fold btset_insert ks btree_empty"

section \<open>Laws\<close>

lemma entries_sorted: "sorted_keys (entries m)"
  using entries [of m] by simp

lemma entries_distinct: "distinct (map fst (entries m))"
  by (rule sorted_keys_distinct [OF entries_sorted])

lemma btree_ext: "btree_get m = btree_get n \<Longrightarrow> m = n"
  unfolding btree_get_def
  by (rule iffD1 [OF entries_inject]) (rule sorted_keys_ext [OF entries_sorted entries_sorted])

lemma get_empty [simp]: "btree_get btree_empty k = None"
  by (simp add: btree_get_def btree_empty.rep_eq)

lemma dom_get_empty [simp]: "dom (btree_get btree_empty) = {}"
  by (simp add: dom_def)

lemma get_insert [simp]: "btree_get (btree_insert k v m) = (btree_get m)(k \<mapsto> v)"
  by (simp add: btree_get_def btree_insert.rep_eq al_insert_lookup entries_sorted)

lemma get_remove [simp]: "btree_get (btree_remove k m) = (btree_get m)(k := None)"
  by (rule ext) (auto simp: btree_get_def btree_remove.rep_eq al_remove_def
      map_of_filter_key entries_distinct bind_eq_Some_conv split: option.splits)

lemma get_retain:
  "btree_get (btree_retain P m) k =
   (case btree_get m k of None \<Rightarrow> None | Some v \<Rightarrow> if P k v then Some v else None)"
  by (simp add: btree_get_def btree_retain.rep_eq map_of_filter_key entries_distinct
      split: option.splits Option.bind_splits)

lemma len_empty [simp]: "btree_len btree_empty = 0"
  by (simp add: btree_len_def btree_empty.rep_eq)

lemma len_insert [simp]:
  "btree_len (btree_insert k v m) = (if btree_get m k = None then Suc (btree_len m) else btree_len m)"
  by (simp add: btree_len_def btree_insert.rep_eq btree_get_def al_insert_length entries_sorted)

lemma set_entries: "set (entries m) = {(k, v). btree_get m k = Some v}"
  by (auto simp: btree_get_def map_of_eq_Some_iff [OF entries_distinct])

lemma set_keys: "set (btree_keys m) = dom (btree_get m)"
  unfolding btree_keys_def btree_get_def by (simp add: dom_map_of_conv_image_fst)

lemma keys_sorted: "sorted_wrt (<) (btree_keys m)"
  by (simp add: btree_keys_def entries_sorted)

lemma keys_distinct: "distinct (btree_keys m)"
  by (simp add: btree_keys_def entries_distinct)

lemma contains_dom: "btree_contains m k \<longleftrightarrow> k \<in> dom (btree_get m)"
  by (simp add: btree_contains_def domIff)

lemma finite_dom_get [simp]: "finite (dom (btree_get m))"
  by (simp flip: set_keys)

lemma len_card: "btree_len m = card (dom (btree_get m))"
  using distinct_card [OF keys_distinct, of m]
  by (simp add: set_keys) (simp add: btree_keys_def btree_len_def)

lemma len_remove [simp]:
  "btree_len (btree_remove k m) = (if btree_get m k = None then btree_len m else btree_len m - 1)"
  by (auto simp: len_card card_Diff_singleton_if domI)

lemma len_retain_le: "btree_len (btree_retain P m) \<le> btree_len m"
  by (simp add: btree_len_def btree_retain.rep_eq)

section \<open>The contract of an ordered map\<close>

text \<open>
  What the store relies on: a lookup after an insertion and after a removal. A write is an
  address with the new value, or with nothing for a removal; the client lemma says what a
  sequence of writes leaves.
\<close>

locale ordered_map =
  fixes lookup :: "'m \<Rightarrow> 'k \<Rightarrow> 'v option"
    and ins :: "'k \<Rightarrow> 'v \<Rightarrow> 'm \<Rightarrow> 'm"
    and del :: "'k \<Rightarrow> 'm \<Rightarrow> 'm"
  assumes lookup_ins: "lookup (ins k v m) = (lookup m)(k \<mapsto> v)"
    and lookup_del: "lookup (del k m) = (lookup m)(k := None)"
begin

lemma lookup_writes:
  "lookup (fold (\<lambda>w. case snd w of None \<Rightarrow> del (fst w) | Some v \<Rightarrow> ins (fst w) v) ws m) k =
   (case map_of (rev ws) k of None \<Rightarrow> lookup m k | Some v \<Rightarrow> v)"
proof (induction ws arbitrary: m)
  case (Cons w ws)
  show ?case
    by (simp add: Cons map_add_def lookup_ins lookup_del split: option.splits)
qed simp

lemma lookup_inserts: "lookup (fold (\<lambda>(k, v). ins k v) xs m) = lookup m ++ map_of (rev xs)"
  by (induction xs arbitrary: m) (auto simp: lookup_ins)

end

interpretation bt: ordered_map btree_get btree_insert btree_remove
  by unfold_locales simp_all

definition run_write :: "'k::linorder \<times> 'v option \<Rightarrow> ('k, 'v) btree \<Rightarrow> ('k, 'v) btree" where
  "run_write w = (case snd w of None \<Rightarrow> btree_remove (fst w) | Some v \<Rightarrow> btree_insert (fst w) v)"

lemma get_run_writes:
  "btree_get (fold run_write ws m) k = (case map_of (rev ws) k of None \<Rightarrow> btree_get m k | Some v \<Rightarrow> v)"
  unfolding run_write_def by (rule bt.lookup_writes)

lemma get_unwritten: "k \<notin> fst ` set ws \<Longrightarrow> btree_get (fold run_write ws m) k = btree_get m k"
  by (simp add: get_run_writes map_of_eq_None_iff [THEN iffD2])

lemma get_written:
  assumes "k \<in> fst ` set ws"
  shows "btree_get (fold run_write ws m) k = btree_get (fold run_write ws n) k"
proof -
  have "map_of (rev ws) k \<noteq> None" using assms by (simp add: map_of_eq_None_iff)
  then show ?thesis by (auto simp: get_run_writes)
qed

lemma get_of_list: "btree_get (btree_of_list xs) = map_of (rev xs)"
  unfolding btree_of_list_def by (simp add: bt.lookup_inserts fun_eq_iff map_add_def split: option.splits)

lemma dom_fold_btset_insert:
  "dom (btree_get (fold btset_insert ks m)) = set ks \<union> dom (btree_get m)"
  by (induction ks arbitrary: m) auto

lemma contains_fold_btset_insert [simp]:
  "btree_contains (fold btset_insert ks m) k \<longleftrightarrow> k \<in> set ks \<or> btree_contains m k"
  by (simp add: contains_dom dom_fold_btset_insert)

lemma contains_btset_insert [simp]: "btree_contains (btset_insert k m) j \<longleftrightarrow> j = k \<or> btree_contains m j"
  by (simp add: btree_contains_def)

lemma contains_empty [simp]: "\<not> btree_contains btree_empty k"
  by (simp add: btree_contains_def)

lemma contains_btset_of_list [simp]: "btree_contains (btset_of_list ks) k \<longleftrightarrow> k \<in> set ks"
  by (simp add: btset_of_list_def)

lemma sum_entries:
  "sum_list (map f (entries m)) = (\<Sum>k \<in> dom (btree_get m). f (k, the (btree_get m k)))"
proof -
  have "sum_list (map f (entries m)) = (\<Sum>e \<in> set (entries m). f e)"
    using entries_distinct [of m] by (simp add: sum_list_distinct_conv_sum_set distinct_map)
  also have "\<dots> = (\<Sum>k \<in> dom (btree_get m). f (k, the (btree_get m k)))"
    by (rule sum.reindex_cong [of "\<lambda>k. (k, the (btree_get m k))"])
      (auto simp: inj_on_def set_entries image_iff)
  finally show ?thesis .
qed

text \<open>
  Two maps, one a part of the other, and the same writes on both: what the writes add up
  to on the whole map is known from the part, as long as the part holds every written key
  of the whole map.
\<close>

lemma writes_sum:
  fixes m s :: "('k::linorder, 'v) btree" and f :: "'k \<times> 'v \<Rightarrow> nat"
  assumes sub: "btree_get s \<subseteq>\<^sub>m btree_get m"
    and covered: "fst ` set ws \<inter> dom (btree_get m) \<subseteq> dom (btree_get s)"
  defines "weight \<equiv> \<lambda>x :: ('k, 'v) btree. sum_list (map f (entries x))"
  shows "weight (fold run_write ws m) = weight m - weight s + weight (fold run_write ws s)"
proof -
  let ?m' = "fold run_write ws m" and ?s' = "fold run_write ws s"
  let ?g = "\<lambda>x k. f (k, the (btree_get x k))"
  have same: "btree_get s k = btree_get m k" if "k \<in> dom (btree_get s)" for k
    using sub that by (auto simp: map_le_def)
  have ds: "dom (btree_get s) \<subseteq> dom (btree_get m)"
    using sub by (rule map_le_implies_dom_le)
  have old: "btree_get ?m' k = btree_get m k" "k \<notin> dom (btree_get ?s')"
    if "k \<in> dom (btree_get m) - dom (btree_get s)" for k
  proof -
    have "k \<notin> fst ` set ws" using that covered by blast
    then show "btree_get ?m' k = btree_get m k" "k \<notin> dom (btree_get ?s')"
      using that by (simp_all add: get_unwritten domIff)
  qed
  have new: "btree_get ?m' k = btree_get ?s' k" if "k \<in> dom (btree_get ?s')" for k
  proof (cases "k \<in> fst ` set ws")
    case True
    then show ?thesis by (rule get_written)
  next
    case False
    then have "k \<in> dom (btree_get s)" using that by (simp add: get_unwritten domIff)
    then show ?thesis using False by (simp add: get_unwritten same)
  qed
  have "k \<in> dom (btree_get ?m') \<longleftrightarrow> k \<in> (dom (btree_get m) - dom (btree_get s)) \<union> dom (btree_get ?s')" for k
  proof (cases "k \<in> fst ` set ws")
    case True
    then have "k \<in> dom (btree_get ?m') \<longleftrightarrow> k \<in> dom (btree_get ?s')"
      using get_written [OF True, of m s] by (simp add: domIff)
    then show ?thesis using True covered by blast
  next
    case False
    then have "k \<in> dom (btree_get ?m') \<longleftrightarrow> k \<in> dom (btree_get m)"
      "k \<in> dom (btree_get ?s') \<longleftrightarrow> k \<in> dom (btree_get s)"
      by (simp_all add: get_unwritten domIff)
    then show ?thesis using ds by blast
  qed
  then have dm': "dom (btree_get ?m') = (dom (btree_get m) - dom (btree_get s)) \<union> dom (btree_get ?s')"
    by blast
  have disj: "(dom (btree_get m) - dom (btree_get s)) \<inter> dom (btree_get ?s') = {}"
    using old(2) by blast
  have "weight m = (\<Sum>k \<in> dom (btree_get m) - dom (btree_get s). ?g m k) + weight s"
    unfolding weight_def sum_entries using sum.subset_diff [OF ds, of "?g m"] same by simp
  moreover have "weight ?m' = (\<Sum>k \<in> dom (btree_get m) - dom (btree_get s). ?g m k) + weight ?s'"
    unfolding weight_def sum_entries dm' using disj old new by (simp add: sum.union_disjoint)
  ultimately show ?thesis by simp
qed

lemma writes_weight_le:
  fixes m s :: "('k::linorder, 'v) btree" and f :: "'k \<times> 'v \<Rightarrow> nat"
  assumes "btree_get s \<subseteq>\<^sub>m btree_get m"
  shows "sum_list (map f (entries s)) \<le> sum_list (map f (entries m))"
proof -
  have "(\<Sum>k \<in> dom (btree_get s). f (k, the (btree_get s k))) = (\<Sum>k \<in> dom (btree_get s). f (k, the (btree_get m k)))"
    using assms by (simp add: map_le_def)
  then show ?thesis
    unfolding sum_entries using map_le_implies_dom_le [OF assms] by (simp add: sum_mono2)
qed

lemma len_weight: "btree_len m = sum_list (map (\<lambda>_. 1) (entries m))"
  by (simp add: btree_len_def sum_list_triv)

end
