(* ===== verification/Store_Config.thy ===== *)
theory Store_Config
  imports Budget_Guarantees BTree
begin

text \<open>
  Store configuration of \<^verbatim>\<open>sdk/src/store_internal/config.rs\<close>: backends, the capacity a
  store is opened with, limits on keys and paths, which backend a profile may use, and how
  the runtime budget authority of a store is opened.

  The file system is outside the model: whether a path is absolute, the working directory
  and the existence of a path are fields of \<open>path_env\<close>; a failing query
  carries the text of the operating-system error.
\<close>

section \<open>Capacity\<close>

datatype store_backend_kind = InMemory | File | Sqlite | Embedded

fun backend_as_str :: "store_backend_kind \<Rightarrow> string" where
  "backend_as_str InMemory = ''in_memory''"
| "backend_as_str File = ''file''"
| "backend_as_str Sqlite = ''sqlite''"
| "backend_as_str Embedded = ''embedded''"

datatype store_repair_policy = ReportOnly | RepairSafe

record store_capacity_budget =
  cap_metric_source_max_items :: usize
  cap_event_log_max_items :: usize
  cap_kv_max_entries :: usize
  cap_blob_max_bytes :: usize
  cap_snapshot_max_bytes :: usize
  cap_logical_namespace_max_bytes :: usize
  cap_logical_key_max_bytes :: usize
  cap_event_record_key_max_bytes :: usize
  cap_export_max_bytes :: usize
  cap_import_max_bytes :: usize

definition from_runtime_budget :: "store_runtime_budget \<Rightarrow> store_capacity_budget" where
  "from_runtime_budget b = \<lparr>
     cap_metric_source_max_items = sb_metric_source_max_items b,
     cap_event_log_max_items = sb_event_log_max_items b,
     cap_kv_max_entries = sb_kv_max_entries b,
     cap_blob_max_bytes = sb_blob_max_bytes b,
     cap_snapshot_max_bytes = sb_snapshot_max_bytes b,
     cap_logical_namespace_max_bytes = sb_logical_namespace_max_bytes b,
     cap_logical_key_max_bytes = sb_logical_key_max_bytes b,
     cap_event_record_key_max_bytes = sb_event_record_key_max_bytes b,
     cap_export_max_bytes = sb_export_max_bytes b,
     cap_import_max_bytes = sb_import_max_bytes b \<rparr>"

definition into_runtime_budget :: "store_capacity_budget \<Rightarrow> store_runtime_budget" where
  "into_runtime_budget c = \<lparr>
     sb_metric_source_max_items = cap_metric_source_max_items c,
     sb_event_log_max_items = cap_event_log_max_items c,
     sb_kv_max_entries = cap_kv_max_entries c,
     sb_blob_max_bytes = cap_blob_max_bytes c,
     sb_snapshot_max_bytes = cap_snapshot_max_bytes c,
     sb_logical_namespace_max_bytes = cap_logical_namespace_max_bytes c,
     sb_logical_key_max_bytes = cap_logical_key_max_bytes c,
     sb_event_record_key_max_bytes = cap_event_record_key_max_bytes c,
     sb_export_max_bytes = cap_export_max_bytes c,
     sb_import_max_bytes = cap_import_max_bytes c \<rparr>"

definition admits_runtime_budget :: "store_capacity_budget \<Rightarrow> store_runtime_budget \<Rightarrow> bool" where
  "admits_runtime_budget c b \<longleftrightarrow>
     sb_metric_source_max_items b \<le> cap_metric_source_max_items c \<and>
     sb_event_log_max_items b \<le> cap_event_log_max_items c \<and>
     sb_kv_max_entries b \<le> cap_kv_max_entries c \<and>
     sb_blob_max_bytes b \<le> cap_blob_max_bytes c \<and>
     sb_snapshot_max_bytes b \<le> cap_snapshot_max_bytes c \<and>
     sb_logical_namespace_max_bytes b \<le> cap_logical_namespace_max_bytes c \<and>
     sb_logical_key_max_bytes b \<le> cap_logical_key_max_bytes c \<and>
     sb_event_record_key_max_bytes b \<le> cap_event_record_key_max_bytes c \<and>
     sb_export_max_bytes b \<le> cap_export_max_bytes c \<and>
     sb_import_max_bytes b \<le> cap_import_max_bytes c"

definition capacity_full :: store_capacity_budget where
  "capacity_full = \<lparr>
     cap_metric_source_max_items = 8,
     cap_event_log_max_items = 20000,
     cap_kv_max_entries = 20000,
     cap_blob_max_bytes = 64 * 1024 * 1024,
     cap_snapshot_max_bytes = 32 * 1024 * 1024,
     cap_logical_namespace_max_bytes = 128,
     cap_logical_key_max_bytes = 8192,
     cap_event_record_key_max_bytes = 8192,
     cap_export_max_bytes = 32 * 1024 * 1024,
     cap_import_max_bytes = 32 * 1024 * 1024 \<rparr>"

definition capacity_embedded_standalone :: store_capacity_budget where
  "capacity_embedded_standalone = \<lparr>
     cap_metric_source_max_items = 1,
     cap_event_log_max_items = 2048,
     cap_kv_max_entries = 4096,
     cap_blob_max_bytes = 4 * 1024 * 1024,
     cap_snapshot_max_bytes = 1024 * 1024,
     cap_logical_namespace_max_bytes = 96,
     cap_logical_key_max_bytes = 1024,
     cap_event_record_key_max_bytes = 1024,
     cap_export_max_bytes = 1024 * 1024,
     cap_import_max_bytes = 1024 * 1024 \<rparr>"

definition capacity_embedded_sdk :: store_capacity_budget where
  "capacity_embedded_sdk = \<lparr>
     cap_metric_source_max_items = 1,
     cap_event_log_max_items = 256,
     cap_kv_max_entries = 512,
     cap_blob_max_bytes = 1024 * 1024,
     cap_snapshot_max_bytes = 256 * 1024,
     cap_logical_namespace_max_bytes = 96,
     cap_logical_key_max_bytes = 512,
     cap_event_record_key_max_bytes = 512,
     cap_export_max_bytes = 256 * 1024,
     cap_import_max_bytes = 256 * 1024 \<rparr>"

definition store_budget_error :: "string \<Rightarrow> error" where
  "store_budget_error msg = config_error ''store_budget_exceeded'' msg"

definition enforce_logical_key_budget ::
  "store_capacity_budget \<Rightarrow> string \<Rightarrow> string \<Rightarrow> string \<Rightarrow> unit result" where
  "enforce_logical_key_budget capacity namespace key label =
     (if cap_logical_namespace_max_bytes capacity < length namespace
      then Err (store_budget_error (label @ '' namespace bytes '' @ dec (length namespace) @ '' exceed ''
                  @ dec (cap_logical_namespace_max_bytes capacity)))
      else if cap_logical_key_max_bytes capacity < length key
      then Err (store_budget_error (label @ '' logical key bytes '' @ dec (length key) @ '' exceed ''
                  @ dec (cap_logical_key_max_bytes capacity)))
      else Ok ())"

section \<open>Paths\<close>

record store_path_budget =
  max_file_name_bytes :: usize
  max_directory_name_bytes :: usize
  max_relative_path_bytes :: usize
  physical_key_digest_hex_chars :: usize

definition path_esp_compact :: store_path_budget where
  "path_esp_compact = \<lparr> max_file_name_bytes = 32, max_directory_name_bytes = 48,
     max_relative_path_bytes = 160, physical_key_digest_hex_chars = 24 \<rparr>"

definition path_linux_device :: store_path_budget where
  "path_linux_device = \<lparr> max_file_name_bytes = 64, max_directory_name_bytes = 64,
     max_relative_path_bytes = 384, physical_key_digest_hex_chars = 24 \<rparr>"

definition path_desktop_macos :: store_path_budget where
  "path_desktop_macos = \<lparr> max_file_name_bytes = 96, max_directory_name_bytes = 96,
     max_relative_path_bytes = 512, physical_key_digest_hex_chars = 24 \<rparr>"

definition path_desktop_linux :: store_path_budget where
  "path_desktop_linux = \<lparr> max_file_name_bytes = 128, max_directory_name_bytes = 128,
     max_relative_path_bytes = 1024, physical_key_digest_hex_chars = 24 \<rparr>"

definition path_desktop_windows :: store_path_budget where
  "path_desktop_windows = \<lparr> max_file_name_bytes = 64, max_directory_name_bytes = 64,
     max_relative_path_bytes = 240, physical_key_digest_hex_chars = 24 \<rparr>"

definition path_server_linux :: store_path_budget where
  "path_server_linux = \<lparr> max_file_name_bytes = 128, max_directory_name_bytes = 128,
     max_relative_path_bytes = 1024, physical_key_digest_hex_chars = 24 \<rparr>"

fun default_path_budget :: "profile_id \<Rightarrow> store_path_budget" where
  "default_path_budget EspStandaloneMemory = path_esp_compact"
| "default_path_budget EspEmbeddedSdk = path_esp_compact"
| "default_path_budget LinuxDeviceStandaloneMemory = path_linux_device"
| "default_path_budget DesktopMacosStandaloneMemory = path_desktop_macos"
| "default_path_budget DesktopMacosEmbeddedSdk = path_desktop_macos"
| "default_path_budget DesktopMacosDevFull = path_desktop_macos"
| "default_path_budget DesktopLinuxEmbeddedSdk = path_desktop_linux"
| "default_path_budget DesktopWindowsEmbeddedSdk = path_desktop_windows"
| "default_path_budget DesktopWindowsDevFull = path_desktop_windows"
| "default_path_budget ServerLinuxMemoryGateway = path_server_linux"
| "default_path_budget ServerLinuxDevFull = path_server_linux"

section \<open>Events\<close>

text \<open>\<^verbatim>\<open>sdk/src/store_internal/event.rs\<close>\<close>

datatype store_event_kind =
    MemoryWrite | MemoryMerge | MemoryControl | MemoryDelete | MemoryPolicy | MemoryMaintenance
  | MemoryProjection | RuntimeLifecycle | OperatorAction

fun event_kind_as_str :: "store_event_kind \<Rightarrow> string" where
  "event_kind_as_str MemoryWrite = ''memory.write''"
| "event_kind_as_str MemoryMerge = ''memory.merge''"
| "event_kind_as_str MemoryControl = ''memory.control''"
| "event_kind_as_str MemoryDelete = ''memory.delete''"
| "event_kind_as_str MemoryPolicy = ''memory.policy''"
| "event_kind_as_str MemoryMaintenance = ''memory.maintenance''"
| "event_kind_as_str MemoryProjection = ''memory.projection''"
| "event_kind_as_str RuntimeLifecycle = ''runtime.lifecycle''"
| "event_kind_as_str OperatorAction = ''operator.action''"

datatype physical_owning_scope = Subject_scope string | SharedProgram

record event_scope =
  es_agent_id :: string
  es_owner_id :: string
  es_channel :: string
  es_chat_id :: string
  es_memory_space_id :: string
  es_subject_id :: string
  es_physical_owning_scope :: physical_owning_scope
  es_conversation_id :: "string option"

definition event_scope_new :: "string \<Rightarrow> string \<Rightarrow> string \<Rightarrow> string \<Rightarrow> event_scope" where
  "event_scope_new agent_id owner_id channel chat_id =
     \<lparr> es_agent_id = agent_id, es_owner_id = owner_id, es_channel = channel, es_chat_id = chat_id,
       es_memory_space_id = owner_id, es_subject_id = owner_id,
       es_physical_owning_scope = Subject_scope owner_id, es_conversation_id = None \<rparr>"

definition event_scope_system :: "string \<Rightarrow> event_scope" where
  "event_scope_system operation =
     \<lparr> es_agent_id = ''system'', es_owner_id = ''system'', es_channel = ''runtime'', es_chat_id = operation,
       es_memory_space_id = ''system'', es_subject_id = ''system'',
       es_physical_owning_scope = Subject_scope ''system'', es_conversation_id = None \<rparr>"

definition with_memory_space :: "event_scope \<Rightarrow> string \<Rightarrow> event_scope" where
  "with_memory_space s space = s\<lparr>es_memory_space_id := space\<rparr>"

definition with_subject :: "event_scope \<Rightarrow> string \<Rightarrow> event_scope" where
  "with_subject s subject =
     s\<lparr>es_subject_id := subject, es_physical_owning_scope := Subject_scope subject\<rparr>"

definition with_shared_program :: "event_scope \<Rightarrow> event_scope" where
  "with_shared_program s = s\<lparr>es_physical_owning_scope := SharedProgram\<rparr>"

definition with_conversation :: "event_scope \<Rightarrow> string \<Rightarrow> event_scope" where
  "with_conversation s conversation = s\<lparr>es_conversation_id := Some conversation\<rparr>"

definition STORE_SCHEMA_VERSION :: u32 where "STORE_SCHEMA_VERSION = 17"

record store_event =
  event_id :: string
  event_kind :: store_event_kind
  event_kind_name :: string
  event_scope_of :: event_scope
  event_plane :: string
  event_record_key :: string
  event_content_hash :: string
  event_schema_version :: u32
  event_timestamp_unix_secs :: u64
  event_payload :: "(string, string) btree"

definition store_event_new :: "string \<Rightarrow> store_event_kind \<Rightarrow> event_scope \<Rightarrow> u64 \<Rightarrow> store_event" where
  "store_event_new eid kind scope timestamp =
     \<lparr> event_id = eid, event_kind = kind, event_kind_name = event_kind_as_str kind, event_scope_of = scope,
       event_plane = [], event_record_key = [], event_content_hash = [],
       event_schema_version = STORE_SCHEMA_VERSION, event_timestamp_unix_secs = timestamp,
       event_payload = btree_empty \<rparr>"

definition validate_current_schema :: "store_event \<Rightarrow> string \<Rightarrow> unit result" where
  "validate_current_schema ev stage =
     (if event_schema_version ev \<noteq> STORE_SCHEMA_VERSION
      then Err (config_error stage (''unsupported event schema version '' @ dec (event_schema_version ev)))
      else if trim (event_id ev) = [] \<or> event_kind_name ev \<noteq> event_kind_as_str (event_kind ev)
           \<or> trim (es_memory_space_id (event_scope_of ev)) = [] \<or> trim (es_subject_id (event_scope_of ev)) = []
      then Err (config_error stage ''event identity, kind, memory space, and subject must be canonical'')
      else Ok ())"

definition enforce_event_key_budget :: "store_capacity_budget \<Rightarrow> store_event \<Rightarrow> string \<Rightarrow> unit result" where
  "enforce_event_key_budget capacity ev label =
     (if cap_event_record_key_max_bytes capacity < length (event_record_key ev)
      then Err (store_budget_error (label @ '' event record key bytes '' @ dec (length (event_record_key ev))
                  @ '' exceed '' @ dec (cap_event_record_key_max_bytes capacity)))
      else Ok ())"

section \<open>Backend configuration\<close>

datatype memory_system_kind = Standalone | SdkEmbedded

fun profile_memory_system_kind :: "profile_id \<Rightarrow> memory_system_kind" where
  "profile_memory_system_kind EspEmbeddedSdk = SdkEmbedded"
| "profile_memory_system_kind DesktopMacosEmbeddedSdk = SdkEmbedded"
| "profile_memory_system_kind DesktopLinuxEmbeddedSdk = SdkEmbedded"
| "profile_memory_system_kind DesktopWindowsEmbeddedSdk = SdkEmbedded"
| "profile_memory_system_kind EspStandaloneMemory = Standalone"
| "profile_memory_system_kind LinuxDeviceStandaloneMemory = Standalone"
| "profile_memory_system_kind DesktopMacosStandaloneMemory = Standalone"
| "profile_memory_system_kind DesktopMacosDevFull = Standalone"
| "profile_memory_system_kind DesktopWindowsDevFull = Standalone"
| "profile_memory_system_kind ServerLinuxMemoryGateway = Standalone"
| "profile_memory_system_kind ServerLinuxDevFull = Standalone"

definition profile_is_esp :: "profile_id \<Rightarrow> bool" where
  "profile_is_esp p \<longleftrightarrow> p \<in> set [EspStandaloneMemory, EspEmbeddedSdk]"

definition validate_backend_profile :: "store_backend_kind \<Rightarrow> profile_id \<Rightarrow> unit result" where
  "validate_backend_profile backend profile =
     (if profile_is_esp profile then
        (case backend of
           Sqlite \<Rightarrow> Err (config_error ''store_backend_config'' ''target-esp profiles must not use sqlite store'')
         | File \<Rightarrow> Err (config_error ''store_backend_config''
             ''target-esp profiles must use embedded or in-memory store'')
         | InMemory \<Rightarrow> Ok ()
         | Embedded \<Rightarrow> Ok ())
      else Ok ())"

record path_env =
  is_absolute :: "string \<Rightarrow> bool"
  current_dir_join :: "string \<Rightarrow> string + string"
  try_exists :: "string \<Rightarrow> string + bool"
  parent_path :: "string \<Rightarrow> string option"

definition validate_data_path :: "path_env \<Rightarrow> store_backend_kind \<Rightarrow> string option \<Rightarrow> unit result" where
  "validate_data_path pe backend data_path =
     (case data_path of
        Some path \<Rightarrow>
          if (backend = File \<or> backend = Sqlite) \<and> \<not> is_absolute pe path
          then Err (config_error ''store_backend_config'' ''persistent store data_path must be absolute'')
          else Ok ()
      | None \<Rightarrow> Ok ())"

record store_backend_config =
  bc_backend :: store_backend_kind
  bc_profile :: profile_id
  bc_memory_system_kind :: memory_system_kind
  bc_event_scope :: event_scope
  bc_data_path :: "string option"
  bc_path_budget :: store_path_budget
  bc_repair_policy :: store_repair_policy
  bc_fsync :: bool
  bc_lock_timeout_secs :: nat
  bc_schema_id :: string
  bc_nonproduction_limits :: nonproduction_limits

fun memory_system_kind_as_str :: "memory_system_kind \<Rightarrow> string" where
  "memory_system_kind_as_str Standalone = ''standalone''"
| "memory_system_kind_as_str SdkEmbedded = ''sdk_embedded''"

definition STORE_SCHEMA_ID :: string where "STORE_SCHEMA_ID = ''beetle_memory_store_schema_v17''"

definition backend_config_new ::
  "path_env \<Rightarrow> store_backend_kind \<Rightarrow> profile_id \<Rightarrow> string option \<Rightarrow> store_backend_config result" where
  "backend_config_new pe backend profile data_path =
     and_then (validate_backend_profile backend profile) (\<lambda>_.
     and_then (validate_data_path pe backend data_path) (\<lambda>_.
       let kind = profile_memory_system_kind profile in
       Ok \<lparr> bc_backend = backend, bc_profile = profile, bc_memory_system_kind = kind,
            bc_event_scope = event_scope_system (memory_system_kind_as_str kind),
            bc_data_path = data_path, bc_path_budget = default_path_budget profile,
            bc_repair_policy = ReportOnly, bc_fsync = True, bc_lock_timeout_secs = 5,
            bc_schema_id = STORE_SCHEMA_ID, bc_nonproduction_limits = limits_new \<rparr>))"

definition config_for_backend ::
  "path_env \<Rightarrow> store_backend_kind \<Rightarrow> string option \<Rightarrow> profile_id \<Rightarrow> store_backend_config result" where
  "config_for_backend pe backend data_path profile =
     (case (backend, data_path) of
        (InMemory, None) \<Rightarrow> backend_config_new pe InMemory profile None
      | (File, Some path) \<Rightarrow> backend_config_new pe File profile (Some path)
      | (Sqlite, Some path) \<Rightarrow> backend_config_new pe Sqlite profile (Some path)
      | (Embedded, None) \<Rightarrow> backend_config_new pe Embedded profile None
      | (_, Some _) \<Rightarrow> Err (config_error ''store_backend_config'' ''backend_rejects_data_path'')
      | (_, None) \<Rightarrow> Err (config_error ''store_backend_config'' ''persistent_backend_requires_data_path''))"

fun runtime_store_medium :: "store_backend_kind \<Rightarrow> store_medium" where
  "runtime_store_medium InMemory = VolatileMemory"
| "runtime_store_medium File = PersistentFilesystem"
| "runtime_store_medium Sqlite = PersistentFilesystem"
| "runtime_store_medium Embedded = EmbeddedFlash"

section \<open>Opening the budget authority of a store\<close>

text \<open>
  \<open>nearest_existing_ancestor\<close> walks up from the path until one exists. Popping a
  component shortens a path, so its length bounds the number of steps; \<open>pop\<close> fails when
  there is no parent, which is also how a path environment that does not shorten is read.
\<close>

function nearest_existing_from :: "path_env \<Rightarrow> string \<Rightarrow> string result" where
  "nearest_existing_from pe candidate =
     (case try_exists pe candidate of
        Inl e \<Rightarrow> Err (config_error ''runtime_resource_probe_config''
            (''persistent_filesystem_path_observation_failed:'' @ candidate @ '':'' @ e))
      | Inr True \<Rightarrow> Ok candidate
      | Inr False \<Rightarrow>
          (case parent_path pe candidate of
             Some p \<Rightarrow>
               if length p < length candidate then nearest_existing_from pe p
               else Err (config_error ''runtime_resource_probe_config''
                           ''persistent_filesystem_has_no_existing_ancestor'')
           | None \<Rightarrow> Err (config_error ''runtime_resource_probe_config''
                       ''persistent_filesystem_has_no_existing_ancestor'')))"
  by pat_completeness auto
termination
  by (relation "measure (\<lambda>(pe, candidate). length candidate)") auto

definition nearest_existing_ancestor :: "path_env \<Rightarrow> string \<Rightarrow> string result" where
  "nearest_existing_ancestor pe data_path =
     (if is_absolute pe data_path then nearest_existing_from pe data_path
      else case current_dir_join pe data_path of
             Inl e \<Rightarrow> Err (config_error ''runtime_resource_probe_config''
                 (''persistent_filesystem_current_dir_unavailable:'' @ e))
           | Inr candidate \<Rightarrow> nearest_existing_from pe candidate)"

definition for_persistent_filesystem :: "path_env \<Rightarrow> string \<Rightarrow> string option result" where
  "for_persistent_filesystem pe data_path =
     (if data_path = [] then Err (config_error ''runtime_resource_probe_config''
          ''persistent_filesystem_path_is_empty'')
      else and_then (nearest_existing_ancestor pe data_path) (\<lambda>p. Ok (Some p)))"

definition host_resource_probe :: "path_env \<Rightarrow> store_backend_config \<Rightarrow> string option result" where
  "host_resource_probe pe config =
     (case runtime_store_medium (bc_backend config) of
        VolatileMemory \<Rightarrow> Ok None
      | PersistentFilesystem \<Rightarrow>
          and_then (ok_or (config_error ''runtime_budget_authority_config''
                             ''persistent_store_requires_data_path'') (bc_data_path config))
            (for_persistent_filesystem pe)
      | EmbeddedFlash \<Rightarrow> Err (config_error ''runtime_budget_authority_config''
            ''host_profile_cannot_use_embedded_flash''))"

text \<open>
  \<open>firmware_probe\<close> is the outcome of the probe the caller registered, if any;
  \<open>host_observation\<close> is what the host probe bound to a path (or to none) observes.
\<close>

definition open_runtime_budget_authority ::
  "report_env \<Rightarrow> bool \<Rightarrow> probe_source \<Rightarrow> path_env \<Rightarrow> store_backend_config \<Rightarrow>
   observation result option \<Rightarrow> (string option \<Rightarrow> observation) \<Rightarrow> instant \<Rightarrow> u64 \<Rightarrow> authority result" where
  "open_runtime_budget_authority env harness compiled_source pe config firmware_probe host_observation tick now_secs =
     (let profile = bc_profile config;
          manifest = manifest_for_profile profile (runtime_store_medium (bc_backend config));
          unavailable = Ok (observation_unavailable now_secs ProbeNotConfigured);
          limits = bc_nonproduction_limits config
      in if harness then
           if profile_target profile = Esp_target then
             with_nonproduction_firmware_probe env harness profile manifest None limits
               (case firmware_probe of Some p \<Rightarrow> p | None \<Rightarrow> unavailable) tick now_secs
           else
             and_then (host_resource_probe pe config) (\<lambda>path.
               with_nonproduction_host_probe env harness compiled_source profile manifest None limits
                 (case firmware_probe of Some p \<Rightarrow> p | None \<Rightarrow> Ok (host_observation path)) tick now_secs)
         else if profile_target profile \<noteq> Esp_target \<and> firmware_probe \<noteq> None then
           Err (config_error ''runtime_budget_authority_config'' ''firmware_probe_requires_esp_profile'')
         else if profile_target profile = Esp_target then
           with_firmware_probe env harness profile manifest None
             (case firmware_probe of Some p \<Rightarrow> p | None \<Rightarrow> unavailable) tick now_secs
         else
           and_then (host_resource_probe pe config) (\<lambda>path.
             with_host_probe env harness compiled_source profile manifest None path
               (Ok (host_observation path)) tick now_secs))"

definition resolve_store_capacity :: "authority \<Rightarrow> store_capacity_budget result" where
  "resolve_store_capacity au = Ok (from_runtime_budget (admission_store_ceiling au))"

section \<open>Lemmas\<close>

lemma into_from_runtime_budget [simp]: "into_runtime_budget (from_runtime_budget b) = b"
  by (simp add: into_runtime_budget_def from_runtime_budget_def)

lemma from_into_runtime_budget [simp]: "from_runtime_budget (into_runtime_budget c) = c"
  by (simp add: into_runtime_budget_def from_runtime_budget_def)

lemma from_runtime_budget_inject [simp]: "from_runtime_budget a = from_runtime_budget b \<longleftrightarrow> a = b"
  by (metis into_from_runtime_budget)

lemma admits_iff_within: "admits_runtime_budget (from_runtime_budget c) b \<longleftrightarrow> within (sb_fields b) (sb_fields c)"
  by (simp add: admits_runtime_budget_def from_runtime_budget_def sb_fields_def)

lemma opened_authority_run:
  assumes "open_runtime_budget_authority env harness src pe config fp ho tick now = Inr au"
  shows "authority_run env harness src au {}"
  using assms
  by (auto simp: open_runtime_budget_authority_def Let_def result_simps split: if_splits
      intro: authority_run.intros)

lemma key_budget_Ok:
  "enforce_logical_key_budget c ns k label = Inr u \<longleftrightarrow>
     length ns \<le> cap_logical_namespace_max_bytes c \<and> length k \<le> cap_logical_key_max_bytes c"
  by (simp add: enforce_logical_key_budget_def not_less)

end
