(* ===== verification/Read_Session.thy ===== *)
theory Read_Session
  imports Store_Config
begin

text \<open>
  Bounded reads of \<^verbatim>\<open>sdk/src/store_internal/transaction.rs\<close>: the receipt over what was
  read, the state of an immutable read session (budgets, duplicate detection, poisoning,
  catalog batches), and the one-shot bounded read of known keys.

  JSON values are a type variable. Serialisation and SHA-256 are library code and fields of
  \<open>store_env\<close>; a failing serialisation carries the serialiser's message. A hasher that is
  still being fed is the list of the bytes fed to it.
\<close>

type_synonym address = "string \<times> string"

record 'v store_env =
  se_json_bytes :: "'v \<Rightarrow> string + bytes"
  se_event_json :: "store_event \<Rightarrow> string + bytes"
  se_sha256_hex :: "bytes \<Rightarrow> string"
  se_default_hash :: "bytes \<Rightarrow> u64"

section \<open>Receipts\<close>

record 'v json_read =
  jr_namespace :: string
  jr_key :: string
  jr_value :: "'v option"

record blob_read =
  br_namespace :: string
  br_key :: string
  br_value :: "bytes option"

record read_receipt =
  rr_state_digest :: string
  rr_json_doc_count :: usize
  rr_blob_count :: usize
  rr_event_count :: usize
  rr_entry_count :: usize
  rr_json_bytes :: usize
  rr_blob_bytes :: usize

definition receipt_default :: read_receipt where
  "receipt_default = \<lparr> rr_state_digest = [], rr_json_doc_count = 0, rr_blob_count = 0, rr_event_count = 0,
     rr_entry_count = 0, rr_json_bytes = 0, rr_blob_bytes = 0 \<rparr>"

definition be_bytes :: "nat \<Rightarrow> nat \<Rightarrow> bytes" where
  "be_bytes n v = rev (le_bytes n v)"

definition update_read_digest :: "bytes \<Rightarrow> bytes \<Rightarrow> bytes" where
  "update_read_digest hasher bs = hasher @ be_bytes 8 (length bs) @ bs"

definition to_vec :: "'v store_env \<Rightarrow> 'v \<Rightarrow> bytes result" where
  "to_vec env v = (case se_json_bytes env v of
     Inl msg \<Rightarrow> Err (config_error ''store_consistent_read'' msg) | Inr bs \<Rightarrow> Ok bs)"

definition event_to_vec :: "'v store_env \<Rightarrow> store_event \<Rightarrow> bytes result" where
  "event_to_vec env ev = (case se_event_json env ev of
     Inl msg \<Rightarrow> Err (config_error ''store_consistent_read'' msg) | Inr bs \<Rightarrow> Ok bs)"

definition serialized_json_len :: "'v store_env \<Rightarrow> 'v \<Rightarrow> usize result" where
  "serialized_json_len env v = and_then (to_vec env v) (\<lambda>bs. Ok (min (length bs) usize_max))"

definition serialized_event_len :: "'v store_env \<Rightarrow> store_event \<Rightarrow> usize result" where
  "serialized_event_len env ev = and_then (event_to_vec env ev) (\<lambda>bs. Ok (min (length bs) usize_max))"

definition feed_json_read :: "'v store_env \<Rightarrow> 'v json_read \<Rightarrow> bytes \<Rightarrow> bytes result" where
  "feed_json_read env r hasher =
     (let h = update_read_digest (update_read_digest (hasher @ ''json'') (jr_namespace r)) (jr_key r)
      in case jr_value r of
           None \<Rightarrow> Ok (h @ [char_of (0 :: nat)])
         | Some v \<Rightarrow> and_then (to_vec env v) (\<lambda>bs. Ok (update_read_digest (h @ [char_of (1 :: nat)]) bs)))"

definition feed_blob_read :: "blob_read \<Rightarrow> bytes \<Rightarrow> bytes result" where
  "feed_blob_read r hasher =
     (let h = update_read_digest (update_read_digest (hasher @ ''blob'') (br_namespace r)) (br_key r)
      in case br_value r of
           None \<Rightarrow> Ok (h @ [char_of (0 :: nat)])
         | Some v \<Rightarrow> Ok (update_read_digest (h @ [char_of (1 :: nat)]) v))"

definition feed_event :: "'v store_env \<Rightarrow> store_event \<Rightarrow> bytes \<Rightarrow> bytes result" where
  "feed_event env ev hasher =
     and_then (event_to_vec env ev) (\<lambda>bs. Ok (update_read_digest (hasher @ ''event'') bs))"

definition add_json_len :: "'v store_env \<Rightarrow> 'v json_read \<Rightarrow> usize \<Rightarrow> usize result" where
  "add_json_len env r tot =
     (case jr_value r of
        None \<Rightarrow> Ok tot
      | Some v \<Rightarrow> and_then (serialized_json_len env v) (\<lambda>n.
          ok_or (config_error ''store_consistent_read'' ''read receipt JSON byte count overflow'')
            (checked_add tot n)))"

definition add_blob_len :: "blob_read \<Rightarrow> usize \<Rightarrow> usize result" where
  "add_blob_len r tot =
     (case br_value r of
        None \<Rightarrow> Ok tot
      | Some v \<Rightarrow> ok_or (config_error ''store_consistent_read'' ''read receipt blob byte count overflow'')
          (checked_add tot (length v)))"

definition known_key_read_receipt ::
  "'v store_env \<Rightarrow> 'v json_read list \<Rightarrow> blob_read list \<Rightarrow> store_event list \<Rightarrow> read_receipt result" where
  "known_key_read_receipt env json blobs events =
     and_then (try_fold (feed_json_read env) json
        (''beetle_memory_bounded_known_key_read_v1'' @ be_bytes 8 (length json))) (\<lambda>h.
     and_then (try_fold feed_blob_read blobs (h @ be_bytes 8 (length blobs))) (\<lambda>h.
     and_then (try_fold (feed_event env) events (h @ be_bytes 8 (length events))) (\<lambda>h.
     and_then (ok_or (config_error ''store_consistent_read'' ''read receipt entry count overflow'')
        (checked_add (length json) (length blobs))) (\<lambda>entry_count.
     and_then (try_fold (add_json_len env) json 0) (\<lambda>json_bytes.
     and_then (try_fold add_blob_len blobs 0) (\<lambda>blob_bytes.
       Ok \<lparr> rr_state_digest = se_sha256_hex env h,
            rr_json_doc_count = length (filter (\<lambda>r. jr_value r \<noteq> None) json),
            rr_blob_count = length (filter (\<lambda>r. br_value r \<noteq> None) blobs),
            rr_event_count = length events,
            rr_entry_count = entry_count,
            rr_json_bytes = json_bytes,
            rr_blob_bytes = blob_bytes \<rparr>))))))"

definition immutable_read_session_receipt ::
  "'v store_env \<Rightarrow> 'v json_read list \<Rightarrow> blob_read list \<Rightarrow> usize \<Rightarrow> usize \<Rightarrow> read_receipt result" where
  "immutable_read_session_receipt env json blobs json_bytes blob_bytes =
     and_then (known_key_read_receipt env json blobs []) (\<lambda>receipt.
     let digest = se_sha256_hex env
           (update_read_digest ''beetle_memory_immutable_read_session_v1'' (rr_state_digest receipt))
     in and_then (ok_or (config_error ''store_immutable_read_session'' ''read receipt entry count overflow'')
          (checked_add (length json) (length blobs))) (\<lambda>entry_count.
        Ok (receipt\<lparr>rr_state_digest := digest, rr_entry_count := entry_count,
              rr_json_bytes := json_bytes, rr_blob_bytes := blob_bytes\<rparr>)))"

section \<open>Session state\<close>

record 'v read_session =
  ss_capacity :: store_capacity_budget
  ss_poisoned :: bool
  ss_json_reads :: "'v json_read list"
  ss_blob_reads :: "blob_read list"
  ss_seen_json :: "address btset"
  ss_seen_blobs :: "address btset"
  ss_json_bytes :: usize
  ss_blob_bytes :: usize
  ss_catalog_digest :: "bytes option"
  ss_catalog_receipt :: read_receipt
  ss_catalog_checkpoints :: usize

definition session_new :: "store_capacity_budget \<Rightarrow> 'v read_session" where
  "session_new capacity =
     \<lparr> ss_capacity = capacity, ss_poisoned = False, ss_json_reads = [], ss_blob_reads = [],
       ss_seen_json = btree_empty, ss_seen_blobs = btree_empty, ss_json_bytes = 0, ss_blob_bytes = 0,
       ss_catalog_digest = None, ss_catalog_receipt = receipt_default, ss_catalog_checkpoints = 0 \<rparr>"

definition session_fail :: "'v read_session \<Rightarrow> error \<Rightarrow> 'v read_session \<times> 'a result" where
  "session_fail s e = (s\<lparr>ss_poisoned := True\<rparr>, Err e)"

definition immutable_read_session_poisoned_error :: error where
  "immutable_read_session_poisoned_error =
     config_error ''store_immutable_read_session_poisoned''
       ''immutable read session failed earlier and cannot resume or emit a receipt''"

definition validate_immutable_read_session_capacity ::
  "store_capacity_budget \<Rightarrow> store_capacity_budget \<Rightarrow> unit result" where
  "validate_immutable_read_session_capacity engine requested =
     (if admits_runtime_budget engine (into_runtime_budget requested) then Ok ()
      else Err (config_error ''store_immutable_read_session_admission''
                  ''requested immutable read capacity exceeds the engine capacity''))"

definition begin_catalog_scan :: "'v read_session \<Rightarrow> 'v read_session \<times> unit result" where
  "begin_catalog_scan s =
     (if ss_poisoned s \<or> ss_catalog_digest s \<noteq> None \<or> ss_json_reads s \<noteq> [] \<or> ss_blob_reads s \<noteq> []
      then (s, Err (config_error ''store_catalog_read_session''
                      ''catalog mode must begin before the first read''))
      else (s\<lparr>ss_catalog_digest := Some ''beetle_memory_immutable_catalog_read_session_v1''\<rparr>, Ok ()))"

definition catalog_add :: "usize \<Rightarrow> usize \<Rightarrow> string \<Rightarrow> usize result" where
  "catalog_add l r field = ok_or (config_error ''store_catalog_read_session'' field) (checked_add l r)"

definition add_receipt_counts :: "read_receipt \<Rightarrow> read_receipt \<Rightarrow> read_receipt result" where
  "add_receipt_counts a b =
     and_then (catalog_add (rr_json_doc_count a) (rr_json_doc_count b) ''JSON count overflow'') (\<lambda>json_docs.
     and_then (catalog_add (rr_blob_count a) (rr_blob_count b) ''blob count overflow'') (\<lambda>blobs.
     and_then (catalog_add (rr_entry_count a) (rr_entry_count b) ''entry count overflow'') (\<lambda>entries.
     and_then (catalog_add (rr_json_bytes a) (rr_json_bytes b) ''JSON byte count overflow'') (\<lambda>json_bytes.
     and_then (catalog_add (rr_blob_bytes a) (rr_blob_bytes b) ''blob byte count overflow'') (\<lambda>blob_bytes.
       Ok \<lparr> rr_state_digest = [], rr_json_doc_count = json_docs, rr_blob_count = blobs, rr_event_count = 0,
            rr_entry_count = entries, rr_json_bytes = json_bytes, rr_blob_bytes = blob_bytes \<rparr>)))))"

definition checkpoint_catalog_batch ::
  "'v store_env \<Rightarrow> 'v read_session \<Rightarrow> 'v read_session \<times> read_receipt result" where
  "checkpoint_catalog_batch env s =
     (case ss_catalog_digest s of
        None \<Rightarrow> (s, Err (config_error ''store_catalog_read_session''
                  ''catalog checkpoint requires an active healthy catalog session''))
      | Some digest \<Rightarrow>
          if ss_poisoned s then (s, Err (config_error ''store_catalog_read_session''
                  ''catalog checkpoint requires an active healthy catalog session''))
          else case immutable_read_session_receipt env (ss_json_reads s) (ss_blob_reads s)
                      (ss_json_bytes s) (ss_blob_bytes s) of
            Inl e \<Rightarrow> session_fail s e
          | Inr batch \<Rightarrow>
              if rr_entry_count batch = 0 then (s, Ok batch)
              else if cap_kv_max_entries (ss_capacity s) \<le> ss_catalog_checkpoints s
              then session_fail s (config_error ''store_consistent_read_budget_exceeded''
                     ''catalog batch count exceeds the Store entry ceiling'')
              else case and_then (add_receipt_counts (ss_catalog_receipt s) batch) (\<lambda>next_receipt.
                     and_then (catalog_add (ss_catalog_checkpoints s) 1 ''catalog checkpoint count overflow'')
                       (\<lambda>n. Ok (next_receipt, n))) of
                Inl e \<Rightarrow> session_fail s e
              | Inr (next_receipt, next_checkpoints) \<Rightarrow>
                  (s\<lparr>ss_catalog_digest := Some (update_read_digest digest (rr_state_digest batch)),
                     ss_catalog_receipt := next_receipt, ss_catalog_checkpoints := next_checkpoints,
                     ss_json_reads := [], ss_blob_reads := [], ss_seen_json := btree_empty,
                     ss_seen_blobs := btree_empty, ss_json_bytes := 0, ss_blob_bytes := 0\<rparr>, Ok batch))"

definition enforce_entry_ceiling_with_one_more :: "'v read_session \<Rightarrow> unit result" where
  "enforce_entry_ceiling_with_one_more s =
     and_then (ok_or (config_error ''store_consistent_read_budget_exceeded'' ''immutable read entry count overflow'')
        (case checked_add (btree_len (ss_seen_json s)) (btree_len (ss_seen_blobs s)) of
           None \<Rightarrow> None | Some count \<Rightarrow> checked_add count 1)) (\<lambda>entries.
     if cap_kv_max_entries (ss_capacity s) < entries
     then Err (config_error ''store_consistent_read_budget_exceeded''
                 (''requested entries '' @ dec entries @ '' exceed '' @ dec (cap_kv_max_entries (ss_capacity s))))
     else Ok ())"

text \<open>The closure of \<open>record_json\<close>: the session it would leave, or the error that poisons it.\<close>

definition try_record_json ::
  "'v store_env \<Rightarrow> 'v read_session \<Rightarrow> string \<Rightarrow> string \<Rightarrow> 'v option \<Rightarrow> ('v read_session \<times> 'v json_read) result" where
  "try_record_json env s namespace key v =
     and_then (enforce_logical_key_budget (ss_capacity s) namespace key ''store_immutable_read_session'') (\<lambda>_.
     and_then (ensure (\<not> btree_contains (ss_seen_json s) (namespace, key))
        (config_error ''store_immutable_read_session''
          (''duplicate JSON address '' @ namespace @ ''/'' @ key @ '' across one read session''))) (\<lambda>_.
     and_then (enforce_entry_ceiling_with_one_more s) (\<lambda>_.
     and_then (case v of
          None \<Rightarrow> Ok (ss_json_bytes s)
        | Some x \<Rightarrow> and_then (serialized_json_len env x) (\<lambda>n.
            ok_or (config_error ''store_immutable_read_session'' ''JSON byte count overflow'')
              (checked_add (ss_json_bytes s) n))) (\<lambda>next_json_bytes.
     and_then (ensure (next_json_bytes \<le> cap_snapshot_max_bytes (ss_capacity s))
        (config_error ''store_consistent_read_budget_exceeded''
          (''JSON bytes '' @ dec next_json_bytes @ '' exceed '' @ dec (cap_snapshot_max_bytes (ss_capacity s))))) (\<lambda>_.
       let r = \<lparr> jr_namespace = namespace, jr_key = key, jr_value = v \<rparr> in
       Ok (s\<lparr>ss_seen_json := btset_insert (namespace, key) (ss_seen_json s),
             ss_json_bytes := next_json_bytes, ss_json_reads := ss_json_reads s @ [r]\<rparr>, r))))))"

definition record_json ::
  "'v store_env \<Rightarrow> 'v read_session \<Rightarrow> string \<Rightarrow> string \<Rightarrow> 'v option \<Rightarrow> 'v read_session \<times> 'v json_read result" where
  "record_json env s namespace key v =
     (if ss_poisoned s then (s, Err immutable_read_session_poisoned_error)
      else case try_record_json env s namespace key v of
             Inl e \<Rightarrow> session_fail s e
           | Inr (s', r) \<Rightarrow> (s', Ok r))"

definition try_record_blob ::
  "'v read_session \<Rightarrow> string \<Rightarrow> string \<Rightarrow> bytes option \<Rightarrow> ('v read_session \<times> blob_read) result" where
  "try_record_blob s namespace key v =
     and_then (enforce_logical_key_budget (ss_capacity s) namespace key ''store_immutable_read_session'') (\<lambda>_.
     and_then (ensure (\<not> btree_contains (ss_seen_blobs s) (namespace, key))
        (config_error ''store_immutable_read_session''
          (''duplicate blob address '' @ namespace @ ''/'' @ key @ '' across one read session''))) (\<lambda>_.
     and_then (enforce_entry_ceiling_with_one_more s) (\<lambda>_.
     and_then (case v of
          None \<Rightarrow> Ok (ss_blob_bytes s)
        | Some x \<Rightarrow>
            ok_or (config_error ''store_immutable_read_session'' ''blob byte count overflow'')
              (checked_add (ss_blob_bytes s) (length x))) (\<lambda>next_blob_bytes.
     and_then (ensure (next_blob_bytes \<le> cap_blob_max_bytes (ss_capacity s))
        (config_error ''store_consistent_read_budget_exceeded''
          (''blob bytes '' @ dec next_blob_bytes @ '' exceed '' @ dec (cap_blob_max_bytes (ss_capacity s))))) (\<lambda>_.
       let r = \<lparr> br_namespace = namespace, br_key = key, br_value = v \<rparr> in
       Ok (s\<lparr>ss_seen_blobs := btset_insert (namespace, key) (ss_seen_blobs s),
             ss_blob_bytes := next_blob_bytes, ss_blob_reads := ss_blob_reads s @ [r]\<rparr>, r))))))"

definition record_blob ::
  "'v read_session \<Rightarrow> string \<Rightarrow> string \<Rightarrow> bytes option \<Rightarrow> 'v read_session \<times> blob_read result" where
  "record_blob s namespace key v =
     (if ss_poisoned s then (s, Err immutable_read_session_poisoned_error)
      else case try_record_blob s namespace key v of
             Inl e \<Rightarrow> session_fail s e
           | Inr (s', r) \<Rightarrow> (s', Ok r))"

definition session_receipt :: "'v store_env \<Rightarrow> 'v read_session \<Rightarrow> read_receipt result" where
  "session_receipt env s =
     (if ss_poisoned s then Err immutable_read_session_poisoned_error
      else case ss_catalog_digest s of
        Some digest \<Rightarrow>
          and_then (immutable_read_session_receipt env (ss_json_reads s) (ss_blob_reads s)
                      (ss_json_bytes s) (ss_blob_bytes s)) (\<lambda>current.
          let digest = (if rr_entry_count current \<noteq> 0
                        then update_read_digest digest (rr_state_digest current) else digest)
          in and_then (add_receipt_counts (ss_catalog_receipt s) current) (\<lambda>counts.
               Ok (counts\<lparr>rr_state_digest := se_sha256_hex env digest\<rparr>)))
      | None \<Rightarrow> immutable_read_session_receipt env (ss_json_reads s) (ss_blob_reads s)
                  (ss_json_bytes s) (ss_blob_bytes s))"

definition remaining_json_bytes :: "'v read_session \<Rightarrow> usize" where
  "remaining_json_bytes s = saturating_sub (cap_snapshot_max_bytes (ss_capacity s)) (ss_json_bytes s)"

definition remaining_blob_bytes :: "'v read_session \<Rightarrow> usize" where
  "remaining_blob_bytes s = saturating_sub (cap_blob_max_bytes (ss_capacity s)) (ss_blob_bytes s)"

section \<open>One-shot bounded read\<close>

record 'v known_key_read_result =
  kr_json :: "'v json_read list"
  kr_blobs :: "blob_read list"
  kr_events :: "store_event list"
  kr_receipt :: read_receipt

definition reject_duplicate_known_keys :: "address list \<Rightarrow> string \<Rightarrow> unit result" where
  "reject_duplicate_known_keys keys kind =
     and_then (try_fold (\<lambda>(namespace, key) unique.
        if btree_contains unique (namespace, key)
        then Err (config_error ''store_consistent_read''
               (''duplicate '' @ kind @ '' address '' @ namespace @ ''/'' @ key))
        else Ok (btset_insert (namespace, key) unique)) keys btree_empty) (\<lambda>_. Ok ())"

definition read_known_json ::
  "'v store_env \<Rightarrow> store_capacity_budget \<Rightarrow> (address, 'v) btree \<Rightarrow> address \<Rightarrow>
   usize \<times> 'v json_read list \<Rightarrow> (usize \<times> 'v json_read list) result" where
  "read_known_json env capacity json = (\<lambda>(namespace, key) (json_bytes, reads).
     and_then (enforce_logical_key_budget capacity namespace key ''store_consistent_read'') (\<lambda>_.
     let v = btree_get json (namespace, key) in
     and_then (case v of
          None \<Rightarrow> Ok json_bytes
        | Some x \<Rightarrow> and_then (serialized_json_len env x) (\<lambda>n.
            let b = saturating_add json_bytes n in
            if cap_snapshot_max_bytes capacity < b
            then Err (config_error ''store_consistent_read_budget_exceeded''
                   (''json bytes '' @ dec b @ '' exceed '' @ dec (cap_snapshot_max_bytes capacity)))
            else Ok b)) (\<lambda>b.
       Ok (b, reads @ [\<lparr> jr_namespace = namespace, jr_key = key, jr_value = v \<rparr>]))))"

definition read_known_blob ::
  "store_capacity_budget \<Rightarrow> (address, bytes) btree \<Rightarrow> address \<Rightarrow>
   usize \<times> blob_read list \<Rightarrow> (usize \<times> blob_read list) result" where
  "read_known_blob capacity blobs = (\<lambda>(namespace, key) (blob_bytes, reads).
     and_then (enforce_logical_key_budget capacity namespace key ''store_consistent_read'') (\<lambda>_.
     let v = btree_get blobs (namespace, key) in
     and_then (case v of
          None \<Rightarrow> Ok blob_bytes
        | Some x \<Rightarrow>
            let b = saturating_add blob_bytes (length x) in
            if cap_blob_max_bytes capacity < b
            then Err (config_error ''store_consistent_read_budget_exceeded''
                   (''blob bytes '' @ dec b @ '' exceed '' @ dec (cap_blob_max_bytes capacity)))
            else Ok b) (\<lambda>b.
       Ok (b, reads @ [\<lparr> br_namespace = namespace, br_key = key, br_value = v \<rparr>]))))"

definition count_event_bytes ::
  "'v store_env \<Rightarrow> store_capacity_budget \<Rightarrow> store_event \<Rightarrow> usize \<Rightarrow> usize result" where
  "count_event_bytes env capacity ev tot =
     and_then (serialized_event_len env ev) (\<lambda>n.
       let t = saturating_add tot n in
       if cap_snapshot_max_bytes capacity < t
       then Err (config_error ''store_consistent_read_budget_exceeded''
              (''json and event bytes '' @ dec t @ '' exceed '' @ dec (cap_snapshot_max_bytes capacity)))
       else Ok t)"

definition read_bounded_known_keys_from_parts ::
  "'v store_env \<Rightarrow> address list \<Rightarrow> address list \<Rightarrow> bool \<Rightarrow> store_capacity_budget \<Rightarrow>
   (address, 'v) btree \<Rightarrow> (address, bytes) btree \<Rightarrow> store_event list \<Rightarrow> 'v known_key_read_result result" where
  "read_bounded_known_keys_from_parts env json_keys blob_keys include_events capacity json blobs all_events =
     (let requested_entries = saturating_add (length json_keys) (length blob_keys) in
      if cap_kv_max_entries capacity < requested_entries
      then Err (config_error ''store_consistent_read_budget_exceeded''
             (''requested entries '' @ dec requested_entries @ '' exceed '' @ dec (cap_kv_max_entries capacity)))
      else
     and_then (reject_duplicate_known_keys json_keys ''json'') (\<lambda>_.
     and_then (reject_duplicate_known_keys blob_keys ''blob'') (\<lambda>_.
     and_then (try_fold (read_known_json env capacity json) json_keys (0, [])) (\<lambda>(json_bytes, json_reads).
     and_then (try_fold (read_known_blob capacity blobs) blob_keys (0, [])) (\<lambda>(blob_bytes, blob_reads).
     and_then (if include_events then
          if cap_event_log_max_items capacity < length all_events
          then Err (config_error ''store_consistent_read_budget_exceeded''
                 (''event items '' @ dec (length all_events) @ '' exceed ''
                  @ dec (cap_event_log_max_items capacity)))
          else and_then (try_fold (count_event_bytes env capacity) all_events json_bytes) (\<lambda>_. Ok all_events)
        else Ok []) (\<lambda>events.
     and_then (known_key_read_receipt env json_reads blob_reads events) (\<lambda>receipt.
       Ok \<lparr> kr_json = json_reads, kr_blobs = blob_reads, kr_events = events, kr_receipt = receipt \<rparr>)))))))"

section \<open>Invariant of a session\<close>

definition jr_address :: "'v json_read \<Rightarrow> address" where
  "jr_address r = (jr_namespace r, jr_key r)"

definition br_address :: "blob_read \<Rightarrow> address" where
  "br_address r = (br_namespace r, br_key r)"

definition json_read_len :: "'v store_env \<Rightarrow> 'v json_read \<Rightarrow> nat" where
  "json_read_len env r = (case jr_value r of None \<Rightarrow> 0 | Some v \<Rightarrow>
     (case serialized_json_len env v of Inl _ \<Rightarrow> 0 | Inr n \<Rightarrow> n))"

definition blob_read_len :: "blob_read \<Rightarrow> nat" where
  "blob_read_len r = (case br_value r of None \<Rightarrow> 0 | Some v \<Rightarrow> length v)"

definition session_inv :: "'v store_env \<Rightarrow> 'v read_session \<Rightarrow> bool" where
  "session_inv env s \<longleftrightarrow>
     distinct (map jr_address (ss_json_reads s)) \<and>
     distinct (map br_address (ss_blob_reads s)) \<and>
     dom (btree_get (ss_seen_json s)) = set (map jr_address (ss_json_reads s)) \<and>
     dom (btree_get (ss_seen_blobs s)) = set (map br_address (ss_blob_reads s)) \<and>
     ss_json_bytes s = sum_list (map (json_read_len env) (ss_json_reads s)) \<and>
     ss_blob_bytes s = sum_list (map blob_read_len (ss_blob_reads s)) \<and>
     ss_json_bytes s \<le> cap_snapshot_max_bytes (ss_capacity s) \<and>
     ss_blob_bytes s \<le> cap_blob_max_bytes (ss_capacity s) \<and>
     length (ss_json_reads s) + length (ss_blob_reads s) \<le> cap_kv_max_entries (ss_capacity s) \<and>
     ss_catalog_checkpoints s \<le> cap_kv_max_entries (ss_capacity s)"

text \<open>One call on a session, with the value the store holds at the address that is read.\<close>

datatype 'v session_call =
    BeginCatalog
  | Checkpoint
  | ReadJson string string "'v option"
  | ReadBlob string string "bytes option"

fun session_step :: "'v store_env \<Rightarrow> 'v read_session \<Rightarrow> 'v session_call \<Rightarrow> 'v read_session" where
  "session_step env s BeginCatalog = fst (begin_catalog_scan s)"
| "session_step env s Checkpoint = fst (checkpoint_catalog_batch env s)"
| "session_step env s (ReadJson ns k v) = fst (record_json env s ns k v)"
| "session_step env s (ReadBlob ns k v) = fst (record_blob s ns k v)"

lemma session_inv_new: "session_inv env (session_new capacity)"
  by (simp add: session_inv_def session_new_def fun_eq_iff dom_def)

lemma session_inv_poison [simp]: "session_inv env (s\<lparr>ss_poisoned := b\<rparr>) = session_inv env s"
  by (simp add: session_inv_def)

lemma seen_len:
  assumes "session_inv env s"
  shows "btree_len (ss_seen_json s) = length (ss_json_reads s)"
    "btree_len (ss_seen_blobs s) = length (ss_blob_reads s)"
  using assms unfolding session_inv_def len_card by (metis distinct_card length_map)+

lemma entry_ceiling_Ok:
  assumes "session_inv env s" "enforce_entry_ceiling_with_one_more s = Inr u"
  shows "length (ss_json_reads s) + length (ss_blob_reads s) + 1 \<le> cap_kv_max_entries (ss_capacity s)"
  using assms(2) seen_len [OF assms(1)]
  by (auto simp: enforce_entry_ceiling_with_one_more_def result_simps not_less split: option.splits if_splits)

lemma try_record_json_inv:
  assumes "session_inv env s" "try_record_json env s ns k v = Inr (s', r)"
  shows "session_inv env s'" "r = \<lparr> jr_namespace = ns, jr_key = k, jr_value = v \<rparr>"
    "ss_json_reads s' = ss_json_reads s @ [r]" "ss_capacity s' = ss_capacity s"
    "ss_poisoned s' = ss_poisoned s"
proof -
  from assms(2) obtain n where
    new: "\<not> btree_contains (ss_seen_json s) (ns, k)" and
    room: "enforce_entry_ceiling_with_one_more s = Inr ()" and
    n: "(case v of None \<Rightarrow> Inr (ss_json_bytes s) | Some x \<Rightarrow> and_then (serialized_json_len env x) (\<lambda>m.
            ok_or (config_error ''store_immutable_read_session'' ''JSON byte count overflow'')
              (checked_add (ss_json_bytes s) m))) = Inr n" and
    fits: "n \<le> cap_snapshot_max_bytes (ss_capacity s)" and
    r: "r = \<lparr> jr_namespace = ns, jr_key = k, jr_value = v \<rparr>" and
    s': "s' = s\<lparr>ss_seen_json := btset_insert (ns, k) (ss_seen_json s),
             ss_json_bytes := n, ss_json_reads := ss_json_reads s @ [r]\<rparr>"
    by (auto simp: try_record_json_def result_simps Let_def)
  have "n = ss_json_bytes s + json_read_len env r"
    using n by (auto simp: r json_read_len_def result_simps split: option.splits)
  moreover have "(ns, k) \<notin> set (map jr_address (ss_json_reads s))"
    using assms(1) new by (auto simp: session_inv_def contains_dom)
  ultimately show "session_inv env s'"
    using assms(1) entry_ceiling_Ok [OF assms(1) room] fits
    by (auto simp: session_inv_def s' r jr_address_def)
  show "r = \<lparr> jr_namespace = ns, jr_key = k, jr_value = v \<rparr>" by (rule r)
  show "ss_json_reads s' = ss_json_reads s @ [r]" "ss_capacity s' = ss_capacity s"
    "ss_poisoned s' = ss_poisoned s" by (simp_all add: s')
qed

lemma try_record_blob_inv:
  assumes "session_inv env s" "try_record_blob s ns k v = Inr (s', r)"
  shows "session_inv env s'" "r = \<lparr> br_namespace = ns, br_key = k, br_value = v \<rparr>"
    "ss_blob_reads s' = ss_blob_reads s @ [r]" "ss_capacity s' = ss_capacity s"
    "ss_poisoned s' = ss_poisoned s"
proof -
  from assms(2) obtain n where
    new: "\<not> btree_contains (ss_seen_blobs s) (ns, k)" and
    room: "enforce_entry_ceiling_with_one_more s = Inr ()" and
    n: "(case v of None \<Rightarrow> Inr (ss_blob_bytes s) | Some x \<Rightarrow>
            ok_or (config_error ''store_immutable_read_session'' ''blob byte count overflow'')
              (checked_add (ss_blob_bytes s) (length x))) = Inr n" and
    fits: "n \<le> cap_blob_max_bytes (ss_capacity s)" and
    r: "r = \<lparr> br_namespace = ns, br_key = k, br_value = v \<rparr>" and
    s': "s' = s\<lparr>ss_seen_blobs := btset_insert (ns, k) (ss_seen_blobs s),
             ss_blob_bytes := n, ss_blob_reads := ss_blob_reads s @ [r]\<rparr>"
    by (auto simp: try_record_blob_def result_simps Let_def)
  have "n = ss_blob_bytes s + blob_read_len r"
    using n by (auto simp: r blob_read_len_def split: option.splits)
  moreover have "(ns, k) \<notin> set (map br_address (ss_blob_reads s))"
    using assms(1) new by (auto simp: session_inv_def contains_dom)
  ultimately show "session_inv env s'"
    using assms(1) entry_ceiling_Ok [OF assms(1) room] fits
    by (auto simp: session_inv_def s' r br_address_def)
  show "r = \<lparr> br_namespace = ns, br_key = k, br_value = v \<rparr>" by (rule r)
  show "ss_blob_reads s' = ss_blob_reads s @ [r]" "ss_capacity s' = ss_capacity s"
    "ss_poisoned s' = ss_poisoned s" by (simp_all add: s')
qed

lemma checkpoint_inv:
  assumes "session_inv env s"
  shows "session_inv env (fst (checkpoint_catalog_batch env s))"
  using assms
  by (auto simp: checkpoint_catalog_batch_def session_fail_def session_inv_def catalog_add_def result_simps
      split: option.splits sum.splits)

lemma session_step_inv: "session_inv env s \<Longrightarrow> session_inv env (session_step env s c)"
proof (cases c)
  case BeginCatalog
  then show "session_inv env s \<Longrightarrow> ?thesis"
    by (auto simp: begin_catalog_scan_def session_inv_def)
next
  case Checkpoint
  then show "session_inv env s \<Longrightarrow> ?thesis" by (simp add: checkpoint_inv)
next
  case (ReadJson ns k v)
  then show "session_inv env s \<Longrightarrow> ?thesis"
    by (auto simp: record_json_def session_fail_def try_record_json_inv split: sum.splits)
next
  case (ReadBlob ns k v)
  then show "session_inv env s \<Longrightarrow> ?thesis"
    by (auto simp: record_blob_def session_fail_def try_record_blob_inv split: sum.splits)
qed

end
