(* ===== verification/Store_Transaction.thy ===== *)
theory Store_Transaction
  imports Read_Session
begin

text \<open>
  Store transactions of \<^verbatim>\<open>sdk/src/store_internal/transaction.rs\<close> and
  \<^verbatim>\<open>mutation.rs\<close>: requests and their read sets, admissions and the engine fence, the
  closure of the read set over owner dependencies, and \<open>apply_transaction\<close>, which turns a
  request into a plan or an error without touching the store.

  The validators of other subsystems that \<open>apply_transaction\<close> consults (lifecycle of
  runtime skills, subject soul, procedural feedback, governed post-images) are the fields of
  \<open>tx_hooks\<close>; every statement holds for all of them. Sealed authorisation tokens are the
  type variable \<open>'a\<close>, the opaque parts of a decoded procedural job the
  type variable \<open>'j\<close>.
\<close>

section \<open>Requests\<close>

datatype 'v json_precondition =
    Absent (jp_namespace: string) (jp_key: string)
  | Exact (jp_namespace: string) (jp_key: string) 'v

datatype blob_precondition =
    BlobAbsent (bp_namespace: string) (bp_key: string)
  | ExactDigest (bp_namespace: string) (bp_key: string) string

datatype 'v store_mutation =
    StorePutJson string string 'v store_event_kind string string
  | StoreDeleteJson string string store_event_kind string string
  | StorePutBlob string string bytes store_event_kind string string
  | StoreDeleteBlob string string store_event_kind string string
  | StoreAppendEvent store_event

record 'v mutation_batch =
  ba_transaction_id :: string
  ba_operation :: string
  ba_scope :: event_scope
  ba_mutations :: "'v store_mutation list"

record event_template =
  ct_event_id :: string
  ct_kind :: store_event_kind
  ct_scope :: event_scope
  ct_plane :: string
  ct_record_key :: string
  ct_timestamp_unix_secs :: u64
  ct_payload :: "(string, string) btree"

datatype 'v engine_mutation =
    PutJson string string 'v
  | DeleteJson string string
  | DeleteJsonIfPresent string string event_template
  | PutBlob string string bytes
  | DeleteBlob string string
  | DeleteBlobIfPresent string string event_template
  | AppendEvent store_event

record read_set =
  rs_json :: "address btset"
  rs_json_prefixes :: "address btset"
  rs_blobs :: "address btset"

definition read_set_empty :: read_set where
  "read_set_empty = \<lparr> rs_json = btree_empty, rs_json_prefixes = btree_empty, rs_blobs = btree_empty \<rparr>"

fun read_set_add_mutation :: "'v engine_mutation \<Rightarrow> read_set \<Rightarrow> read_set" where
  "read_set_add_mutation (PutJson ns k _) rs = rs\<lparr>rs_json := btset_insert (ns, k) (rs_json rs)\<rparr>"
| "read_set_add_mutation (DeleteJson ns k) rs = rs\<lparr>rs_json := btset_insert (ns, k) (rs_json rs)\<rparr>"
| "read_set_add_mutation (DeleteJsonIfPresent ns k _) rs = rs\<lparr>rs_json := btset_insert (ns, k) (rs_json rs)\<rparr>"
| "read_set_add_mutation (PutBlob ns k _) rs = rs\<lparr>rs_blobs := btset_insert (ns, k) (rs_blobs rs)\<rparr>"
| "read_set_add_mutation (DeleteBlob ns k) rs = rs\<lparr>rs_blobs := btset_insert (ns, k) (rs_blobs rs)\<rparr>"
| "read_set_add_mutation (DeleteBlobIfPresent ns k _) rs = rs\<lparr>rs_blobs := btset_insert (ns, k) (rs_blobs rs)\<rparr>"
| "read_set_add_mutation (AppendEvent _) rs = rs"

definition read_set_from_request_parts :: "'v json_precondition list \<Rightarrow> 'v engine_mutation list \<Rightarrow> read_set" where
  "read_set_from_request_parts preconditions mutations =
     fold read_set_add_mutation mutations
       (fold (\<lambda>p rs. rs\<lparr>rs_json := btset_insert (jp_namespace p, jp_key p) (rs_json rs)\<rparr>) preconditions
          read_set_empty)"

record agent_tool_experience_budget =
  ab_max_owners_per_subject :: usize
  ab_max_revisions_per_owner :: usize
  ab_max_evidence_refs_per_owner :: usize

record ('v, 'a) transaction_request =
  tr_transaction_id :: string
  tr_preconditions :: "'v json_precondition list"
  tr_blob_preconditions :: "blob_precondition list"
  tr_mutations :: "'v engine_mutation list"
  tr_governed_batch :: "'v mutation_batch option"
  tr_graph_repair_authority :: bool
  tr_long_term_control_authority :: "'a option"
  tr_procedural_authority_initialization :: bool
  tr_procedural_mutation_authority :: "'a option"
  tr_procedural_intake_authority :: "'a option"
  tr_long_term_retention_limit :: "usize option"
  tr_runtime_skill_owner_limit :: "usize option"
  tr_agent_tool_experience_budget :: "agent_tool_experience_budget option"
  tr_read_set :: read_set

definition request_new ::
  "string \<Rightarrow> 'v json_precondition list \<Rightarrow> 'v engine_mutation list \<Rightarrow> 'v mutation_batch option \<Rightarrow>
   ('v, 'a) transaction_request" where
  "request_new transaction_id preconditions mutations batch =
     \<lparr> tr_transaction_id = transaction_id, tr_preconditions = preconditions, tr_blob_preconditions = [],
       tr_mutations = mutations, tr_governed_batch = batch, tr_graph_repair_authority = False,
       tr_long_term_control_authority = None, tr_procedural_authority_initialization = False,
       tr_procedural_mutation_authority = None, tr_procedural_intake_authority = None,
       tr_long_term_retention_limit = None, tr_runtime_skill_owner_limit = None,
       tr_agent_tool_experience_budget = None,
       tr_read_set = read_set_from_request_parts preconditions mutations \<rparr>"

definition with_blob_preconditions ::
  "blob_precondition list \<Rightarrow> ('v, 'a) transaction_request \<Rightarrow> ('v, 'a) transaction_request" where
  "with_blob_preconditions preconditions req =
     req\<lparr>tr_read_set := (tr_read_set req)\<lparr>rs_blobs :=
            fold (\<lambda>p. btset_insert (bp_namespace p, bp_key p)) preconditions (rs_blobs (tr_read_set req))\<rparr>,
         tr_blob_preconditions := tr_blob_preconditions req @ preconditions\<rparr>"

definition include_governed_json_reads ::
  "address list \<Rightarrow> ('v, 'a) transaction_request \<Rightarrow> ('v, 'a) transaction_request" where
  "include_governed_json_reads addresses req =
     req\<lparr>tr_read_set := (tr_read_set req)\<lparr>rs_json :=
        fold btset_insert addresses (rs_json (tr_read_set req))\<rparr>\<rparr>"

definition include_governed_json_prefix_reads ::
  "address list \<Rightarrow> ('v, 'a) transaction_request \<Rightarrow> ('v, 'a) transaction_request" where
  "include_governed_json_prefix_reads prefixes req =
     req\<lparr>tr_read_set := (tr_read_set req)\<lparr>rs_json_prefixes :=
        fold btset_insert prefixes (rs_json_prefixes (tr_read_set req))\<rparr>\<rparr>"

definition with_procedural_authority_initialization ::
  "('v, 'a) transaction_request \<Rightarrow> ('v, 'a) transaction_request" where
  "with_procedural_authority_initialization req = req\<lparr>tr_procedural_authority_initialization := True\<rparr>"

definition authorize_procedural_mutation :: "'a \<Rightarrow> ('v, 'a) transaction_request \<Rightarrow> ('v, 'a) transaction_request" where
  "authorize_procedural_mutation a req = req\<lparr>tr_procedural_mutation_authority := Some a\<rparr>"

definition authorize_procedural_intake :: "'a \<Rightarrow> ('v, 'a) transaction_request \<Rightarrow> ('v, 'a) transaction_request" where
  "authorize_procedural_intake a req = req\<lparr>tr_procedural_intake_authority := Some a\<rparr>"

definition authorize_long_term_control :: "'a \<Rightarrow> ('v, 'a) transaction_request \<Rightarrow> ('v, 'a) transaction_request" where
  "authorize_long_term_control a req = req\<lparr>tr_long_term_control_authority := Some a\<rparr>"

definition authorize_graph_repair :: "('v, 'a) transaction_request \<Rightarrow> ('v, 'a) transaction_request" where
  "authorize_graph_repair req = req\<lparr>tr_graph_repair_authority := True\<rparr>"

definition merge_json_preconditions ::
  "'v json_precondition list \<Rightarrow> 'v json_precondition list \<Rightarrow> 'v json_precondition list result" where
  "merge_json_preconditions target incoming =
     and_then (try_fold (\<lambda>p by_address.
        let a = (jp_namespace p, jp_key p) in
        case btree_get by_address a of
          Some existing \<Rightarrow>
            if existing \<noteq> p
            then Err (config_error ''memory_write_transaction_precondition_conflict''
                   (''conflicting JSON preconditions for namespace '' @ fst a @ '', key '' @ snd a))
            else Ok by_address
        | None \<Rightarrow> Ok (btree_insert a p by_address)) (target @ incoming) btree_empty) (\<lambda>m.
     Ok (btree_values m))"

section \<open>Admission\<close>

text \<open>
  \<open>am_authority\<close> is the identity of the store's admission authority (the pointer the source
  compares); \<open>am_runtime_budget\<close> tells whether the admission is tied to a runtime budget
  authority, whose current state the fence reads and may refresh.
\<close>

record transaction_admission =
  am_authority :: nat
  am_runtime_budget :: bool
  am_report_id :: string
  am_operation_capacity :: store_capacity_budget
  am_resource_snapshot :: "snapshot option"

definition admission_from_runtime_budget ::
  "report_env \<Rightarrow> runtime_budget_report \<Rightarrow> nat \<Rightarrow> u64 \<Rightarrow> transaction_admission result" where
  "admission_from_runtime_budget env report auth now_secs =
     and_then (validate_for_admission env report now_secs) (\<lambda>_.
     if trim (rb_report_id report) = []
     then Err (config_error ''memory_write_transaction_resource_admission''
            ''runtime budget admission report id is required'')
     else Ok \<lparr> am_authority = auth, am_runtime_budget = True, am_report_id = rb_report_id report,
            am_operation_capacity = from_runtime_budget (rb_store_budget report),
            am_resource_snapshot = Some (rb_resource_snapshot report) \<rparr>)"

definition admission_for_nonproduction_harness :: "store_capacity_budget \<Rightarrow> nat \<Rightarrow> transaction_admission" where
  "admission_for_nonproduction_harness capacity auth =
     \<lparr> am_authority = auth, am_runtime_budget = False, am_report_id = ''nonproduction-replay-harness'',
       am_operation_capacity = capacity, am_resource_snapshot = None \<rparr>"

text \<open>What the fence reads from outside: the wall clock, the monotonic clock, and the probe.\<close>

record fence_inputs =
  fi_now_secs :: u64
  fi_tick1 :: instant
  fi_tick2 :: instant
  fi_tick3 :: instant
  fi_probe :: "observation result"

definition fence_stage :: string where
  "fence_stage = ''memory_write_transaction_resource_admission''"

definition fence_capacity :: "transaction_admission \<Rightarrow> store_capacity_budget \<Rightarrow> unit result" where
  "fence_capacity adm engine_capacity =
     (if admits_runtime_budget engine_capacity (into_runtime_budget (am_operation_capacity adm)) then Ok ()
      else Err (config_error fence_stage ''transaction admission exceeds the backend open capacity''))"

definition validate_inside_engine_fence ::
  "report_env \<Rightarrow> transaction_admission \<Rightarrow> store_capacity_budget \<Rightarrow> nat \<Rightarrow> fence_inputs \<Rightarrow> authority \<Rightarrow>
   authority \<times> unit result" where
  "validate_inside_engine_fence env adm engine_capacity auth inputs au =
     (let now_secs = fi_now_secs inputs in
      if am_authority adm \<noteq> auth
      then (au, Err (config_error fence_stage
              ''transaction admission was issued by a different store authority''))
      else if (case am_resource_snapshot adm of None \<Rightarrow> False | Some s \<Rightarrow> stale s \<or> is_expired s now_secs)
      then (au, Err (Other (ReadmissionRequired StaleOrExpired) fence_stage))
      else if am_runtime_budget adm then
        let (au', current) = current_report env au now_secs (fi_tick1 inputs) (fi_tick2 inputs) (fi_tick3 inputs)
                               (fi_probe inputs)
        in (au', and_then (validate_for_admission env current now_secs) (\<lambda>_.
             and_then (ensure (rb_report_id current = am_report_id adm
                  \<and> from_runtime_budget (rb_store_budget current) = am_operation_capacity adm)
                (Other (ReadmissionRequired Superseded) fence_stage)) (\<lambda>_.
             fence_capacity adm engine_capacity)))
      else (au, fence_capacity adm engine_capacity))"

section \<open>Transaction state\<close>

record 'v tx_state =
  ts_json :: "(address, 'v) btree"
  ts_blobs :: "(address, bytes) btree"
  ts_events :: "store_event list"

record backend_usage =
  us_kv_entries :: usize
  us_blob_bytes :: usize
  us_event_count :: usize

record 'v tx_context =
  cx_touched :: "'v tx_state"
  cx_usage :: backend_usage
  cx_existing_event_ids :: "string btset"

record mutation_budget_report =
  br_admission_report_id :: string
  br_required_events :: usize
  br_remaining_events :: usize
  br_required_kv_entries :: usize
  br_remaining_kv_entries :: usize
  br_required_blob_bytes :: usize
  br_remaining_blob_bytes :: usize

record transaction_report =
  tp_transaction_id :: string
  tp_changed_json :: usize
  tp_changed_blobs :: usize
  tp_appended_events :: usize
  tp_event_ids :: "string list"
  tp_budget_report :: mutation_budget_report

record ('v, 'a) transaction_plan =
  pn_effective_request :: "('v, 'a) transaction_request"
  pn_next_touched :: "'v tx_state"
  pn_report :: transaction_report

record ledger_view =
  lv_root_key :: "string result"
  lv_validity_epoch :: nat

record root_view =
  rv_permits_learning_reads :: "bool result"
  rv_validity_epoch :: nat

text \<open>
  A decoded \<^verbatim>\<open>ProceduralFeedbackJobV2\<close> as far as the transaction layer inspects it; the
  checkpoint, its authority and the remaining fields are compared for equality only.
\<close>

record 'j job_view =
  jv_reconciles :: bool
  jv_checkpoint :: "'j option"
  jv_checkpoint_authority :: "'j option"
  jv_succeeded :: bool
  jv_rest :: 'j

record ('v, 'a, 'j) tx_hooks =
  h_store_env :: "'v store_env"
  h_long_term_dependencies :: "string \<Rightarrow> 'v \<Rightarrow> address list result"
  h_soul_dependencies :: "string \<Rightarrow> 'v \<Rightarrow> address list \<times> unit result"
  h_procedural_dependencies :: "string \<Rightarrow> 'v \<Rightarrow> address list result"
  h_runtime_skill_transitions :: "'v tx_state \<Rightarrow> 'v tx_state \<Rightarrow> address btset \<Rightarrow> unit result"
  h_soul_source_transition :: "'v tx_state \<Rightarrow> 'v tx_state \<Rightarrow> unit result"
  h_source_dependents :: "'v tx_state \<Rightarrow> 'v tx_state \<Rightarrow> string \<Rightarrow> 'v json_precondition list \<Rightarrow> string btset result"
  h_transcript_control :: "'v tx_state \<Rightarrow> 'v tx_state \<Rightarrow> string \<Rightarrow> 'v json_precondition list \<Rightarrow> string btset result"
  h_runtime_skill_control ::
    "'v tx_state \<Rightarrow> 'v tx_state \<Rightarrow> string \<Rightarrow> 'v json_precondition list \<Rightarrow> 'a option \<Rightarrow> string btset result"
  h_decode_job :: "'v \<Rightarrow> 'j job_view option"
  h_reconciliation_checkpoint :: "'j job_view \<Rightarrow> 'v tx_state \<Rightarrow> unit result"
  h_permits_mutation :: "'a \<Rightarrow> 'v engine_mutation \<Rightarrow> (address, 'v) btree \<Rightarrow> bool"
  h_permits_root_transition ::
    "'v engine_mutation \<Rightarrow> 'v tx_state \<Rightarrow> 'v tx_state \<Rightarrow> 'v json_precondition list \<Rightarrow> bool result"
  h_selection_image :: "(address, 'v) btree \<Rightarrow> unit result"
  h_new_intakes :: "(address, 'v) btree \<Rightarrow> (address, 'v) btree \<Rightarrow> 'a option \<Rightarrow> unit result"
  h_decode_ledger :: "'v \<Rightarrow> ledger_view option"
  h_decode_root :: "'v \<Rightarrow> root_view option"
  h_explicit_control_revision :: "'v \<Rightarrow> string + bool"
  h_authorizes_revision :: "'a \<Rightarrow> 'v \<Rightarrow> bool"
  h_governed_post_image ::
    "'v mutation_batch \<Rightarrow> 'v tx_state \<Rightarrow> 'v tx_state \<Rightarrow> ('v, 'a) transaction_request \<Rightarrow>
     store_capacity_budget \<Rightarrow> unit result"

section \<open>Closure of the read set\<close>

text \<open>The loop that emits addresses: one address is added to the pending set, or refused.\<close>

definition emit_address ::
  "store_capacity_budget \<Rightarrow> address btset \<Rightarrow> address \<Rightarrow> address btset \<Rightarrow> address btset result" where
  "emit_address capacity visited a pending =
     (if \<not> btree_contains visited a \<and> \<not> btree_contains pending a then
        if cap_kv_max_entries capacity \<le> saturating_add (btree_len visited) (btree_len pending)
        then Err (store_budget_error ''Soul dependency read-set exceeds address budget'')
        else and_then (enforce_logical_key_budget capacity (fst a) (snd a) ''memory_write_transaction'')
               (\<lambda>_. Ok (btset_insert a pending))
      else Ok pending)"

definition enqueue_dependencies ::
  "('v, 'a, 'j) tx_hooks \<Rightarrow> store_capacity_budget \<Rightarrow> address btset \<Rightarrow> string \<Rightarrow> 'v \<Rightarrow> address btset \<Rightarrow>
   address btset result" where
  "enqueue_dependencies h capacity visited namespace v pending =
     and_then (serialized_json_len (h_store_env h) v) (\<lambda>n.
     if cap_snapshot_max_bytes capacity < n
     then Err (store_budget_error ''Soul dependency document exceeds byte budget'')
     else
     and_then (h_long_term_dependencies h namespace v) (\<lambda>as.
     and_then (try_fold (emit_address capacity visited) as pending) (\<lambda>pending.
     let (emitted, res) = h_soul_dependencies h namespace v in
     and_then (try_fold (emit_address capacity visited) emitted pending) (\<lambda>pending.
     and_then res (\<lambda>_.
     and_then (h_procedural_dependencies h namespace v) (\<lambda>as.
       try_fold (emit_address capacity visited) as pending))))))"

definition sum_json_len :: "'v store_env \<Rightarrow> string \<Rightarrow> (address, 'v) btree \<Rightarrow> usize result" where
  "sum_json_len env msg json =
     try_fold (\<lambda>v tot. and_then (serialized_json_len env v) (\<lambda>n.
        ok_or (store_budget_error msg) (checked_add tot n))) (btree_values json) 0"

fun pop_first :: "address btset \<Rightarrow> (address \<times> address btset) option" where
  "pop_first m = (case entries m of [] \<Rightarrow> None | (a, _) # _ \<Rightarrow> Some (a, btree_remove a m))"

declare pop_first.simps [simp del]

lemma pop_first_len: "pop_first m = Some (a, m') \<Longrightarrow> btree_len m' < btree_len m"
proof -
  assume "pop_first m = Some (a, m')"
  then obtain es where m': "m' = btree_remove a m" and es: "entries m = (a, ()) # es"
    by (auto simp: pop_first.simps split: list.splits prod.splits)
  then have "btree_get m a = Some ()" by (simp add: btree_get_def)
  moreover have "0 < btree_len m" using es by (simp add: btree_len_def)
  ultimately show ?thesis by (simp add: m')
qed

text \<open>
  The work list: visit the smallest pending address, read it, and enqueue what it depends
  on. The set of visited addresses grows with every read and is bounded by the entry limit,
  so the loop ends.
\<close>

function dependency_loop ::
  "('v, 'a, 'j) tx_hooks \<Rightarrow> store_capacity_budget \<Rightarrow> (string \<Rightarrow> string \<Rightarrow> usize \<Rightarrow> 'v option result) \<Rightarrow>
   address btset \<Rightarrow> address btset \<Rightarrow> usize \<Rightarrow> (address, 'v) btree \<Rightarrow> (address, 'v) btree result" where
  "dependency_loop h capacity read_json visited pending byte_count json =
     (case pop_first pending of
        None \<Rightarrow> Ok json
      | Some (a, pending') \<Rightarrow>
          if btree_contains visited a then dependency_loop h capacity read_json visited pending' byte_count json
          else let visited' = btset_insert a visited in
          if cap_kv_max_entries capacity < btree_len visited' \<or> cap_snapshot_max_bytes capacity < byte_count
          then Err (store_budget_error ''Soul dependency read-set exceeds operation budget'')
          else case enforce_logical_key_budget capacity (fst a) (snd a) ''memory_write_transaction'' of
            Inl e \<Rightarrow> Err e
          | Inr _ \<Rightarrow>
          (case read_json (fst a) (snd a) (cap_snapshot_max_bytes capacity - byte_count) of
             Inl e \<Rightarrow> Err e
           | Inr None \<Rightarrow> dependency_loop h capacity read_json visited' pending' byte_count json
           | Inr (Some v) \<Rightarrow>
               (case and_then (serialized_json_len (h_store_env h) v) (\<lambda>n.
                       ok_or (store_budget_error ''Soul dependency read bytes overflow'') (checked_add byte_count n)) of
                  Inl e \<Rightarrow> Err e
                | Inr byte_count' \<Rightarrow>
                    if cap_snapshot_max_bytes capacity < byte_count'
                    then Err (store_budget_error ''Soul dependency read-set exceeds byte budget'')
                    else case enqueue_dependencies h capacity visited' (fst a) v pending' of
                      Inl e \<Rightarrow> Err e
                    | Inr pending'' \<Rightarrow> dependency_loop h capacity read_json visited' pending'' byte_count'
                        (btree_insert a v json))))"
  by pat_completeness auto
termination
proof (relation "measures [\<lambda>(h, capacity, rd, visited, pending, b, json).
          Suc (cap_kv_max_entries capacity) - btree_len visited,
        \<lambda>(h, capacity, rd, visited, pending, b, json). btree_len pending]", goal_cases)
  case 1
  show ?case by simp
next
  case (2 h capacity read_json visited pending byte_count json x y z)
  then show ?case by (auto dest: pop_first_len)
next
  case (3 h capacity read_json visited pending byte_count json)
  then show ?case by (auto simp: btree_contains_def)
next
  case (4 h capacity read_json visited pending byte_count json)
  then show ?case by (auto simp: btree_contains_def)
qed

definition expand_owner_transaction_dependencies ::
  "('v, 'a, 'j) tx_hooks \<Rightarrow> ('v, 'a) transaction_request \<Rightarrow> store_capacity_budget \<Rightarrow> 'v tx_state \<Rightarrow>
   (string \<Rightarrow> string \<Rightarrow> usize \<Rightarrow> 'v option result) \<Rightarrow> 'v tx_state result" where
  "expand_owner_transaction_dependencies h req capacity touched read_json =
     (let visited = fold btset_insert (btree_keys (ts_json touched)) (rs_json (tr_read_set req)) in
      and_then (sum_json_len (h_store_env h) ''Soul dependency read bytes overflow'' (ts_json touched)) (\<lambda>byte_count.
      if cap_kv_max_entries capacity < btree_len visited \<or> cap_snapshot_max_bytes capacity < byte_count
      then Err (store_budget_error ''initial transaction read-set exceeds operation budget'')
      else
      and_then (try_fold (\<lambda>((namespace, _), v). enqueue_dependencies h capacity visited namespace v)
                  (entries (ts_json touched)) btree_empty) (\<lambda>pending.
      and_then (try_fold (\<lambda>m p. case m of
                    PutJson namespace _ v \<Rightarrow> enqueue_dependencies h capacity visited namespace v p
                  | _ \<Rightarrow> Ok p) (tr_mutations req) pending) (\<lambda>pending.
      and_then (dependency_loop h capacity read_json visited pending byte_count (ts_json touched)) (\<lambda>json.
        Ok (touched\<lparr>ts_json := json\<rparr>))))))"

end
