(* ===== verification/Store_Apply.thy ===== *)
theory Store_Apply
  imports Store_Transaction
begin

text \<open>
  \<open>apply_transaction\<close> of \<^verbatim>\<open>sdk/src/store_internal/transaction.rs\<close>: conditional deletes are
  turned into primitive ones, preconditions are compared with the state read under the
  lock, the mutations are executed on a copy, the subsystem validators and the authority
  rules inspect the copy, and the budgets of the admission are enforced. Nothing is
  written: the result is a plan or an error.
\<close>

section \<open>Conditional mutations\<close>

fun hex_digit :: "nat \<Rightarrow> char" where
  "hex_digit n = (if n < 10 then char_of (48 + n) else char_of (87 + n))"

definition hex16 :: "u64 \<Rightarrow> string" where
  "hex16 n = map (\<lambda>i. hex_digit (n div 16 ^ (15 - i) mod 16)) [0..<16]"

definition content_hash_from_bytes :: "'v store_env \<Rightarrow> bytes \<Rightarrow> string" where
  "content_hash_from_bytes env bs = hex16 (se_default_hash env bs)"

definition materialize_bytes :: "'v store_env \<Rightarrow> event_template \<Rightarrow> bytes \<Rightarrow> store_event" where
  "materialize_bytes env t before_image =
     (store_event_new (ct_event_id t) (ct_kind t) (ct_scope t) (ct_timestamp_unix_secs t))
       \<lparr>event_plane := ct_plane t, event_record_key := ct_record_key t,
        event_content_hash := content_hash_from_bytes env before_image, event_payload := ct_payload t\<rparr>"

definition materialize_json :: "'v store_env \<Rightarrow> event_template \<Rightarrow> 'v \<Rightarrow> store_event result" where
  "materialize_json env t before_image =
     (case se_json_bytes env before_image of
        Inl msg \<Rightarrow> Err (config_error ''memory_write_transaction'' msg)
      | Inr bs \<Rightarrow> Ok (materialize_bytes env t bs))"

fun materialize_mutation ::
  "'v store_env \<Rightarrow> 'v tx_state \<Rightarrow> 'v engine_mutation \<Rightarrow> 'v engine_mutation list result" where
  "materialize_mutation env current (DeleteJsonIfPresent namespace key t) =
     (case btree_get (ts_json current) (namespace, key) of
        None \<Rightarrow> Ok []
      | Some before_image \<Rightarrow> and_then (materialize_json env t before_image) (\<lambda>ev.
          Ok [DeleteJson namespace key, AppendEvent ev]))"
| "materialize_mutation env current (DeleteBlobIfPresent namespace key t) =
     (case btree_get (ts_blobs current) (namespace, key) of
        None \<Rightarrow> Ok []
      | Some before_image \<Rightarrow> Ok [DeleteBlob namespace key, AppendEvent (materialize_bytes env t before_image)])"
| "materialize_mutation env current m = Ok [m]"

definition materialize_conditional_mutations ::
  "'v store_env \<Rightarrow> ('v, 'a) transaction_request \<Rightarrow> 'v tx_state \<Rightarrow> ('v, 'a) transaction_request result" where
  "materialize_conditional_mutations env req current =
     and_then (collect_results (materialize_mutation env current) (tr_mutations req)) (\<lambda>mss.
       Ok (req\<lparr>tr_mutations := concat mss\<rparr>))"

fun mutation_event_id :: "'v engine_mutation \<Rightarrow> string option" where
  "mutation_event_id (AppendEvent ev) = Some (event_id ev)"
| "mutation_event_id (DeleteJsonIfPresent _ _ t) = Some (ct_event_id t)"
| "mutation_event_id (DeleteBlobIfPresent _ _ t) = Some (ct_event_id t)"
| "mutation_event_id _ = None"

section \<open>Preconditions\<close>

definition preflight_stage :: string where
  "preflight_stage = ''memory_write_transaction_preflight_failed''"

definition slash_path :: "string \<Rightarrow> string \<Rightarrow> string" where
  "slash_path namespace key = namespace @ ''/'' @ key"

fun expected_json :: "'v json_precondition \<Rightarrow> 'v option" where
  "expected_json (Absent _ _) = None"
| "expected_json (Exact _ _ v) = Some v"

definition validate_precondition ::
  "store_capacity_budget \<Rightarrow> (address, 'v) btree \<Rightarrow> 'v json_precondition \<Rightarrow> address btset \<Rightarrow> address btset result" where
  "validate_precondition capacity json p addresses =
     (let namespace = jp_namespace p; key = jp_key p in
      and_then (enforce_logical_key_budget capacity namespace key ''memory_write_transaction'') (\<lambda>_.
      if btree_contains addresses (namespace, key)
      then Err (config_error preflight_stage (''duplicate precondition for '' @ slash_path namespace key))
      else if btree_get json (namespace, key) \<noteq> expected_json p
      then Err (conflict_error ''memory_write_transaction_precondition_failed''
             (''json precondition failed for '' @ slash_path namespace key))
      else Ok (btset_insert (namespace, key) addresses)))"

definition validate_preconditions ::
  "store_capacity_budget \<Rightarrow> 'v json_precondition list \<Rightarrow> (address, 'v) btree \<Rightarrow> unit result" where
  "validate_preconditions capacity preconditions json =
     and_then (try_fold (validate_precondition capacity json) preconditions btree_empty) (\<lambda>_. Ok ())"

definition lower_hex :: "char \<Rightarrow> bool" where
  "lower_hex c \<longleftrightarrow> (CHR ''0'' \<le> c \<and> c \<le> CHR ''9'') \<or> (CHR ''a'' \<le> c \<and> c \<le> CHR ''f'')"

definition canonical_digest :: "string \<Rightarrow> bool" where
  "canonical_digest d = (case strip_prefix ''sha256:'' d of
     None \<Rightarrow> False | Some hex \<Rightarrow> length hex = 64 \<and> list_all lower_hex hex)"

fun expected_digest :: "blob_precondition \<Rightarrow> string option" where
  "expected_digest (BlobAbsent _ _) = None"
| "expected_digest (ExactDigest _ _ d) = Some d"

definition blob_digest :: "'v store_env \<Rightarrow> bytes \<Rightarrow> string" where
  "blob_digest env bs = ''sha256:'' @ se_sha256_hex env bs"

definition validate_blob_precondition ::
  "'v store_env \<Rightarrow> store_capacity_budget \<Rightarrow> (address, bytes) btree \<Rightarrow> blob_precondition \<Rightarrow> address btset \<Rightarrow>
   address btset result" where
  "validate_blob_precondition env capacity blobs p addresses =
     (let namespace = bp_namespace p; key = bp_key p in
      if (case expected_digest p of None \<Rightarrow> False | Some d \<Rightarrow> \<not> canonical_digest d)
      then Err (config_error preflight_stage (''non-canonical blob digest for '' @ slash_path namespace key))
      else and_then (enforce_logical_key_budget capacity namespace key ''memory_write_transaction'') (\<lambda>_.
      if btree_contains addresses (namespace, key)
      then Err (config_error preflight_stage (''duplicate blob precondition for '' @ slash_path namespace key))
      else if map_option (blob_digest env) (btree_get blobs (namespace, key)) \<noteq> expected_digest p
      then Err (conflict_error ''memory_write_transaction_precondition_failed''
             (''blob precondition failed for '' @ slash_path namespace key))
      else Ok (btset_insert (namespace, key) addresses)))"

definition validate_blob_preconditions ::
  "'v store_env \<Rightarrow> store_capacity_budget \<Rightarrow> blob_precondition list \<Rightarrow> (address, bytes) btree \<Rightarrow> unit result" where
  "validate_blob_preconditions env capacity preconditions blobs =
     and_then (try_fold (validate_blob_precondition env capacity blobs) preconditions btree_empty) (\<lambda>_. Ok ())"

section \<open>Execution on a copy\<close>

record 'v apply_state =
  ap_next :: "'v tx_state"
  ap_changed_json :: "address btset"
  ap_changed_blobs :: "address btset"
  ap_event_ids :: "string list"
  ap_known_event_ids :: "string btset"
  ap_mutated_json :: "address btset"
  ap_mutated_blobs :: "address btset"

definition apply_start :: "'v tx_context \<Rightarrow> 'v apply_state" where
  "apply_start context =
     \<lparr> ap_next = cx_touched context, ap_changed_json = btree_empty, ap_changed_blobs = btree_empty,
       ap_event_ids = [], ap_known_event_ids = cx_existing_event_ids context,
       ap_mutated_json = btree_empty, ap_mutated_blobs = btree_empty \<rparr>"

definition reject_duplicate_mutation :: "address btset \<Rightarrow> string \<Rightarrow> string \<Rightarrow> address btset result" where
  "reject_duplicate_mutation addresses namespace key =
     (if btree_contains addresses (namespace, key)
      then Err (config_error preflight_stage (''duplicate mutation for '' @ slash_path namespace key))
      else Ok (btset_insert (namespace, key) addresses))"

abbreviation with_json :: "((address, 'v) btree \<Rightarrow> (address, 'v) btree) \<Rightarrow> 'v tx_state \<Rightarrow> 'v tx_state" where
  "with_json f t \<equiv> t\<lparr>ts_json := f (ts_json t)\<rparr>"

abbreviation with_blobs :: "((address, bytes) btree \<Rightarrow> (address, bytes) btree) \<Rightarrow> 'v tx_state \<Rightarrow> 'v tx_state" where
  "with_blobs f t \<equiv> t\<lparr>ts_blobs := f (ts_blobs t)\<rparr>"

fun apply_mutation ::
  "store_capacity_budget \<Rightarrow> 'v engine_mutation \<Rightarrow> 'v apply_state \<Rightarrow> 'v apply_state result" where
  "apply_mutation capacity (PutJson namespace key v) s =
     and_then (enforce_logical_key_budget capacity namespace key ''memory_write_transaction'') (\<lambda>_.
     and_then (reject_duplicate_mutation (ap_mutated_json s) namespace key) (\<lambda>mutated.
     Ok (s\<lparr>ap_mutated_json := mutated, ap_next := with_json (btree_insert (namespace, key) v) (ap_next s),
           ap_changed_json := btset_insert (namespace, key) (ap_changed_json s)\<rparr>)))"
| "apply_mutation capacity (DeleteJson namespace key) s =
     and_then (enforce_logical_key_budget capacity namespace key ''memory_write_transaction'') (\<lambda>_.
     and_then (reject_duplicate_mutation (ap_mutated_json s) namespace key) (\<lambda>mutated.
     Ok (s\<lparr>ap_mutated_json := mutated, ap_next := with_json (btree_remove (namespace, key)) (ap_next s),
           ap_changed_json := (if btree_contains (ts_json (ap_next s)) (namespace, key)
             then btset_insert (namespace, key) (ap_changed_json s) else ap_changed_json s)\<rparr>)))"
| "apply_mutation capacity (DeleteJsonIfPresent _ _ _) s =
     Err (config_error preflight_stage ''conditional mutation reached the primitive transaction executor'')"
| "apply_mutation capacity (DeleteBlobIfPresent _ _ _) s =
     Err (config_error preflight_stage ''conditional mutation reached the primitive transaction executor'')"
| "apply_mutation capacity (PutBlob namespace key v) s =
     and_then (enforce_logical_key_budget capacity namespace key ''memory_write_transaction'') (\<lambda>_.
     and_then (reject_duplicate_mutation (ap_mutated_blobs s) namespace key) (\<lambda>mutated.
     Ok (s\<lparr>ap_mutated_blobs := mutated, ap_next := with_blobs (btree_insert (namespace, key) v) (ap_next s),
           ap_changed_blobs := btset_insert (namespace, key) (ap_changed_blobs s)\<rparr>)))"
| "apply_mutation capacity (DeleteBlob namespace key) s =
     and_then (enforce_logical_key_budget capacity namespace key ''memory_write_transaction'') (\<lambda>_.
     and_then (reject_duplicate_mutation (ap_mutated_blobs s) namespace key) (\<lambda>mutated.
     Ok (s\<lparr>ap_mutated_blobs := mutated, ap_next := with_blobs (btree_remove (namespace, key)) (ap_next s),
           ap_changed_blobs := (if btree_contains (ts_blobs (ap_next s)) (namespace, key)
             then btset_insert (namespace, key) (ap_changed_blobs s) else ap_changed_blobs s)\<rparr>)))"
| "apply_mutation capacity (AppendEvent ev) s =
     and_then (enforce_event_key_budget capacity ev ''memory_write_transaction'') (\<lambda>_.
     if btree_contains (ap_known_event_ids s) (event_id ev)
     then Err (config_error ''store_event_log'' (''duplicate event id '' @ event_id ev))
     else Ok (s\<lparr>ap_known_event_ids := btset_insert (event_id ev) (ap_known_event_ids s),
                ap_event_ids := ap_event_ids s @ [event_id ev],
                ap_next := (ap_next s)\<lparr>ts_events := ts_events (ap_next s) @ [ev]\<rparr>\<rparr>))"

section \<open>Subsystem validators\<close>

definition PROCEDURAL_FEEDBACK_JOB_NAMESPACE :: string where
  "PROCEDURAL_FEEDBACK_JOB_NAMESPACE = ''procedural_feedback_jobs''"

definition PROCEDURAL_PRODUCER_BINDING_NAMESPACE :: string where
  "PROCEDURAL_PRODUCER_BINDING_NAMESPACE = ''procedural_producer_bindings''"

definition PROCEDURAL_PRODUCER_HEAD_NAMESPACE :: string where
  "PROCEDURAL_PRODUCER_HEAD_NAMESPACE = ''procedural_producer_heads''"

definition PROCEDURAL_SUBJECT_VALIDITY_NAMESPACE :: string where
  "PROCEDURAL_SUBJECT_VALIDITY_NAMESPACE = ''procedural_subject_validity_roots''"

definition PROCEDURAL_SUBJECT_INITIALIZATION_NAMESPACE :: string where
  "PROCEDURAL_SUBJECT_INITIALIZATION_NAMESPACE = ''procedural_subject_initializations''"

definition SELECTION_NAMESPACE :: string where
  "SELECTION_NAMESPACE = ''procedural_selection_authorities_private''"

definition APPLICATION_LEDGER_NAMESPACE :: string where
  "APPLICATION_LEDGER_NAMESPACE = ''procedural_feedback_application_ledgers''"

definition AGENT_TOOL_EXPERIENCE_MATERIAL_NAMESPACE :: string where
  "AGENT_TOOL_EXPERIENCE_MATERIAL_NAMESPACE = ''agent_tool_experience_revision_materials''"

definition AGENT_TOOL_EXPERIENCE_HEAD_NAMESPACE :: string where
  "AGENT_TOOL_EXPERIENCE_HEAD_NAMESPACE = ''agent_tool_experience_owner_heads''"

definition AGENT_TOOL_EXPERIENCE_SCOPE_MANIFEST_NAMESPACE :: string where
  "AGENT_TOOL_EXPERIENCE_SCOPE_MANIFEST_NAMESPACE = ''agent_tool_experience_scope_manifests''"

definition LONG_TERM_CONTROL_REVISION_NAMESPACE :: string where
  "LONG_TERM_CONTROL_REVISION_NAMESPACE = ''long_term_control_revision''"

text \<open>The lifecycle validators; the result is the set of source fences.\<close>

definition validate_transitions ::
  "('v, 'a, 'j) tx_hooks \<Rightarrow> ('v, 'a) transaction_request \<Rightarrow> 'v json_precondition list \<Rightarrow> 'v tx_state \<Rightarrow>
   'v tx_state \<Rightarrow> address btset \<Rightarrow> string btset result" where
  "validate_transitions h req preconditions current next_state changed =
     and_then (h_runtime_skill_transitions h current next_state changed) (\<lambda>_.
     and_then (h_soul_source_transition h current next_state) (\<lambda>_.
     and_then (h_source_dependents h current next_state (tr_transaction_id req) preconditions) (\<lambda>f1.
     and_then (h_transcript_control h current next_state (tr_transaction_id req) preconditions) (\<lambda>f2.
     and_then (h_runtime_skill_control h current next_state (tr_transaction_id req) preconditions
                 (tr_procedural_mutation_authority req)) (\<lambda>f3.
     Ok (fold btset_insert (btree_keys f3) (fold btset_insert (btree_keys f2) f1)))))))"

definition authority_permits ::
  "('v, 'a, 'j) tx_hooks \<Rightarrow> ('v, 'a) transaction_request \<Rightarrow> 'v engine_mutation \<Rightarrow> 'v tx_state \<Rightarrow> bool" where
  "authority_permits h req m current =
     (case tr_procedural_mutation_authority req of
        None \<Rightarrow> False | Some a \<Rightarrow> h_permits_mutation h a m (ts_json current))"

definition publishes_progress :: "'j job_view option \<Rightarrow> 'j job_view \<Rightarrow> bool" where
  "publishes_progress before_job after_job \<longleftrightarrow>
     Option.bind before_job jv_checkpoint \<noteq> jv_checkpoint after_job
     \<or> Option.bind before_job jv_checkpoint_authority \<noteq> jv_checkpoint_authority after_job
     \<or> (jv_succeeded after_job \<and> before_job \<noteq> Some after_job)"

text \<open>A durable reconciliation job publishes progress only under its governed transaction.\<close>

definition check_reconciliation_job ::
  "('v, 'a, 'j) tx_hooks \<Rightarrow> ('v, 'a) transaction_request \<Rightarrow> 'v tx_state \<Rightarrow> 'v tx_state \<Rightarrow> 'v engine_mutation \<Rightarrow>
   unit result" where
  "check_reconciliation_job h req current next_state m =
     (case m of
        PutJson namespace key v \<Rightarrow>
          if namespace \<noteq> PROCEDURAL_FEEDBACK_JOB_NAMESPACE then Ok ()
          else and_then (ok_or (config_error ''procedural_reconciliation_authority'' ''invalid durable work'')
                  (h_decode_job h v)) (\<lambda>after_job.
          if \<not> jv_reconciles after_job then Ok ()
          else and_then (case btree_get (ts_json current) (namespace, key) of
                    None \<Rightarrow> Ok None
                  | Some w \<Rightarrow> and_then (ok_or (config_error ''procedural_reconciliation_authority''
                        ''invalid previous durable work'') (h_decode_job h w)) (\<lambda>j. Ok (Some j))) (\<lambda>before_job.
          and_then (case before_job of
                      None \<Rightarrow> Ok () | Some j \<Rightarrow> h_reconciliation_checkpoint h j current) (\<lambda>_.
          and_then (h_reconciliation_checkpoint h after_job next_state) (\<lambda>_.
          if publishes_progress before_job after_job \<and> \<not> authority_permits h req m current
          then Err (config_error ''procedural_reconciliation_authority''
                 ''checkpoint publication requires its exact governed page transaction'')
          else Ok ()))))
      | _ \<Rightarrow> Ok ())"

definition producer_namespace :: "string \<Rightarrow> bool" where
  "producer_namespace namespace \<longleftrightarrow>
     namespace = PROCEDURAL_PRODUCER_BINDING_NAMESPACE \<or> namespace = PROCEDURAL_PRODUCER_HEAD_NAMESPACE \<or>
     namespace = PROCEDURAL_SUBJECT_VALIDITY_NAMESPACE \<or> namespace = PROCEDURAL_SUBJECT_INITIALIZATION_NAMESPACE"

fun json_target :: "'v engine_mutation \<Rightarrow> string option" where
  "json_target (PutJson namespace _ _) = Some namespace"
| "json_target (DeleteJson namespace _) = Some namespace"
| "json_target _ = None"

fun fenced_put :: "string btset \<Rightarrow> 'v engine_mutation \<Rightarrow> bool" where
  "fenced_put fences (PutJson namespace key _) \<longleftrightarrow>
     namespace = PROCEDURAL_SUBJECT_VALIDITY_NAMESPACE \<and> btree_contains fences key"
| "fenced_put fences _ \<longleftrightarrow> False"

definition check_producer_authority ::
  "('v, 'a, 'j) tx_hooks \<Rightarrow> ('v, 'a) transaction_request \<Rightarrow> 'v json_precondition list \<Rightarrow> string btset \<Rightarrow>
   'v tx_state \<Rightarrow> 'v tx_state \<Rightarrow> 'v engine_mutation \<Rightarrow> unit result" where
  "check_producer_authority h req preconditions fences current next_state m =
     (if (case json_target m of None \<Rightarrow> False | Some namespace \<Rightarrow> producer_namespace namespace)
         \<and> \<not> authority_permits h req m current \<and> \<not> fenced_put fences m
      then and_then (h_permits_root_transition h m current next_state preconditions) (\<lambda>permitted.
             if permitted then Ok ()
             else Err (config_error ''procedural_producer_authority''
                    ''producer changes require the sealed control transaction''))
      else Ok ())"

section \<open>Signing authority, ledgers, method closure\<close>

definition selection_stage :: string where
  "selection_stage = ''procedural_selection_authority''"

definition requires_absent :: "'v json_precondition list \<Rightarrow> address \<Rightarrow> bool" where
  "requires_absent preconditions a \<longleftrightarrow> Absent (fst a) (snd a) \<in> set preconditions"

definition requires_exact :: "'v json_precondition list \<Rightarrow> address \<Rightarrow> 'v \<Rightarrow> bool" where
  "requires_exact preconditions a v \<longleftrightarrow> Exact (fst a) (snd a) v \<in> set preconditions"

definition check_selection_entry ::
  "('v, 'a) transaction_request \<Rightarrow> 'v tx_state \<Rightarrow> address \<times> 'v \<Rightarrow> unit result" where
  "check_selection_entry req current e =
     (if fst (fst e) = SELECTION_NAMESPACE
         \<and> btree_get (ts_json current) (fst e) \<noteq> Some (snd e)
         \<and> (\<not> tr_procedural_authority_initialization req \<or> btree_contains (ts_json current) (fst e)
             \<or> \<not> requires_absent (tr_preconditions req) (fst e))
      then Err (config_error selection_stage
             ''authority can only be created by Store preparation with absent CAS'')
      else Ok ())"

definition check_selection_authority ::
  "('v, 'a) transaction_request \<Rightarrow> 'v engine_mutation list \<Rightarrow> 'v tx_state \<Rightarrow> 'v tx_state \<Rightarrow> unit result" where
  "check_selection_authority req mutations current next_state =
     and_then (ensure (tr_procedural_authority_initialization req
          \<or> \<not> list_ex (\<lambda>m. json_target m = Some SELECTION_NAMESPACE) mutations)
        (config_error selection_stage ''ordinary transactions cannot mutate signing authority'')) (\<lambda>_.
     and_then (for_each (check_selection_entry req current) (entries (ts_json next_state))) (\<lambda>_.
     ensure (\<not> list_ex (\<lambda>a. fst a = SELECTION_NAMESPACE \<and> \<not> btree_contains (ts_json next_state) a)
               (btree_keys (ts_json current)))
       (config_error selection_stage ''authority cannot be deleted within a Store incarnation'')))"

definition ledger_stage :: string where
  "ledger_stage = ''procedural_feedback_application_ledger''"

definition check_ledger_kept :: "'v tx_state \<Rightarrow> address \<times> 'v \<Rightarrow> unit result" where
  "check_ledger_kept next_state e =
     (if fst (fst e) = APPLICATION_LEDGER_NAMESPACE \<and> btree_get (ts_json next_state) (fst e) \<noteq> Some (snd e)
      then Err (config_error ledger_stage ''committed application ledgers cannot be replaced or deleted'')
      else Ok ())"

definition check_new_ledger ::
  "('v, 'a, 'j) tx_hooks \<Rightarrow> ('v, 'a) transaction_request \<Rightarrow> 'v tx_state \<Rightarrow> 'v tx_state \<Rightarrow> address \<times> 'v \<Rightarrow>
   unit result" where
  "check_new_ledger h req current next_state e =
     (if \<not> requires_absent (tr_preconditions req) (fst e)
      then Err (config_error ledger_stage ''application ledger creation requires absent CAS'')
      else
      and_then (ok_or (config_error ledger_stage ''invalid application ledger'') (h_decode_ledger h (snd e))) (\<lambda>ledger.
      and_then (lv_root_key ledger) (\<lambda>root_key.
      let root_address = (PROCEDURAL_SUBJECT_VALIDITY_NAMESPACE, root_key) in
      and_then (ok_or (config_error ledger_stage ''application validity root is missing'')
         (btree_get (ts_json current) root_address)) (\<lambda>root_value.
      and_then (ok_or (config_error ledger_stage ''invalid application validity root'')
         (h_decode_root h root_value)) (\<lambda>root.
      and_then (rv_permits_learning_reads root) (\<lambda>permitted.
      if \<not> permitted \<or> lv_validity_epoch ledger \<noteq> rv_validity_epoch root
         \<or> btree_get (ts_json next_state) root_address \<noteq> Some root_value
         \<or> \<not> requires_exact (tr_preconditions req) root_address root_value
      then Err (conflict_error ledger_stage ''application requires the exact ready validity epoch'')
      else Ok ()))))))"

definition check_ledgers ::
  "('v, 'a, 'j) tx_hooks \<Rightarrow> ('v, 'a) transaction_request \<Rightarrow> 'v tx_state \<Rightarrow> 'v tx_state \<Rightarrow> unit result" where
  "check_ledgers h req current next_state =
     and_then (for_each (check_ledger_kept next_state) (entries (ts_json current))) (\<lambda>_.
     for_each (check_new_ledger h req current next_state)
       (filter (\<lambda>e. fst (fst e) = APPLICATION_LEDGER_NAMESPACE \<and> \<not> btree_contains (ts_json current) (fst e))
          (entries (ts_json next_state))))"

definition is_method_namespace :: "string \<Rightarrow> bool" where
  "is_method_namespace namespace \<longleftrightarrow>
     namespace = AGENT_TOOL_EXPERIENCE_MATERIAL_NAMESPACE \<or> namespace = AGENT_TOOL_EXPERIENCE_HEAD_NAMESPACE \<or>
     namespace = AGENT_TOOL_EXPERIENCE_SCOPE_MANIFEST_NAMESPACE \<or> namespace = APPLICATION_LEDGER_NAMESPACE"

fun actual_method :: "'v engine_mutation \<Rightarrow> (address \<times> 'v option) option" where
  "actual_method (PutJson namespace key v) =
     (if is_method_namespace namespace then Some ((namespace, key), Some v) else None)"
| "actual_method (DeleteJson namespace key) =
     (if is_method_namespace namespace then Some ((namespace, key), None) else None)"
| "actual_method (DeleteJsonIfPresent namespace key _) =
     (if is_method_namespace namespace then Some ((namespace, key), None) else None)"
| "actual_method _ = None"

fun declared_method :: "'v store_mutation \<Rightarrow> (address \<times> 'v option) option" where
  "declared_method (StorePutJson namespace key v _ _ _) =
     (if is_method_namespace namespace then Some ((namespace, key), Some v) else None)"
| "declared_method (StoreDeleteJson namespace key _ _ _) =
     (if is_method_namespace namespace then Some ((namespace, key), None) else None)"
| "declared_method _ = None"

definition actual_methods :: "('v, 'a) transaction_request \<Rightarrow> (address, 'v option) btree" where
  "actual_methods effective = btree_of_list (List.map_filter actual_method (tr_mutations effective))"

definition declared_methods :: "('v, 'a) transaction_request \<Rightarrow> (address, 'v option) btree" where
  "declared_methods effective =
     btree_of_list (List.map_filter declared_method
       (case tr_governed_batch effective of None \<Rightarrow> [] | Some batch \<Rightarrow> ba_mutations batch))"

definition check_method_closure :: "('v, 'a) transaction_request \<Rightarrow> unit result" where
  "check_method_closure effective =
     (let actual = actual_methods effective; declared = declared_methods effective in
      if (btree_len actual \<noteq> 0 \<or> btree_len declared \<noteq> 0)
         \<and> (actual \<noteq> declared
             \<or> (case tr_governed_batch effective of
                  None \<Rightarrow> True | Some batch \<Rightarrow> ba_transaction_id batch \<noteq> tr_transaction_id effective))
      then Err (config_error ''method_transaction_authority''
             ''method owners require their exact governed transaction closure'')
      else Ok ())"

fun check_control_revision ::
  "('v, 'a, 'j) tx_hooks \<Rightarrow> ('v, 'a) transaction_request \<Rightarrow> 'v tx_state \<Rightarrow> 'v store_mutation \<Rightarrow> unit result" where
  "check_control_revision h req current (StorePutJson namespace key v _ _ _) =
     (if namespace = LONG_TERM_CONTROL_REVISION_NAMESPACE
         \<and> btree_get (ts_json current) (namespace, key) \<noteq> Some v
      then case h_explicit_control_revision h v of
             Inl msg \<Rightarrow> Err (config_error ''long_term_control_authority'' msg)
           | Inr explicit \<Rightarrow>
               if explicit \<and> (case tr_long_term_control_authority req of
                                None \<Rightarrow> True | Some a \<Rightarrow> \<not> h_authorizes_revision h a v)
               then Err (config_error ''long_term_control_authority''
                      ''explicit transition lacks exact runtime control authority'')
               else Ok ()
      else Ok ())"
| "check_control_revision h req current _ = Ok ()"

definition check_governed_batch ::
  "('v, 'a, 'j) tx_hooks \<Rightarrow> ('v, 'a) transaction_request \<Rightarrow> store_capacity_budget \<Rightarrow> 'v mutation_batch option \<Rightarrow>
   'v tx_state \<Rightarrow> 'v tx_state \<Rightarrow> unit result" where
  "check_governed_batch h req capacity batch current next_state =
     (case batch of
        None \<Rightarrow> Ok ()
      | Some b \<Rightarrow>
          and_then (for_each (check_control_revision h req current) (ba_mutations b)) (\<lambda>_.
            h_governed_post_image h b current next_state req capacity))"

section \<open>The transaction\<close>

definition blob_bytes_of :: "(address, bytes) btree \<Rightarrow> usize" where
  "blob_bytes_of m = sum_list (map length (btree_values m))"

definition touched_entries :: "'v tx_state \<Rightarrow> usize" where
  "touched_entries t = saturating_add (btree_len (ts_json t)) (btree_len (ts_blobs t))"

definition backend_budget_report ::
  "transaction_admission \<Rightarrow> backend_usage \<Rightarrow> usize \<Rightarrow> usize \<Rightarrow> usize \<Rightarrow> mutation_budget_report" where
  "backend_budget_report adm current next_kv_entries next_blob_bytes next_event_count =
     (let capacity = am_operation_capacity adm in
      \<lparr> br_admission_report_id = am_report_id adm,
        br_required_events = saturating_sub next_event_count (us_event_count current),
        br_remaining_events = saturating_sub (cap_event_log_max_items capacity) next_event_count,
        br_required_kv_entries = saturating_sub next_kv_entries (us_kv_entries current),
        br_remaining_kv_entries = saturating_sub (cap_kv_max_entries capacity) next_kv_entries,
        br_required_blob_bytes = saturating_sub next_blob_bytes (us_blob_bytes current),
        br_remaining_blob_bytes = saturating_sub (cap_blob_max_bytes capacity) next_blob_bytes \<rparr>)"

definition check_budgets ::
  "transaction_admission \<Rightarrow> 'v tx_context \<Rightarrow> 'v apply_state \<Rightarrow> mutation_budget_report result" where
  "check_budgets adm context s =
     (let capacity = am_operation_capacity adm; usage = cx_usage context; current = cx_touched context;
          kv_entries = saturating_add (saturating_sub (us_kv_entries usage) (touched_entries current))
                         (touched_entries (ap_next s));
          blob_bytes = saturating_add (saturating_sub (us_blob_bytes usage) (blob_bytes_of (ts_blobs current)))
                         (blob_bytes_of (ts_blobs (ap_next s)));
          next_event_count = saturating_add (us_event_count usage) (length (ap_event_ids s))
      in if cap_kv_max_entries capacity < kv_entries
         then Err (store_budget_error (''kv entries '' @ dec kv_entries @ '' exceed '' @ dec (cap_kv_max_entries capacity)))
         else if cap_blob_max_bytes capacity < blob_bytes
         then Err (store_budget_error (''blob bytes '' @ dec blob_bytes @ '' exceed '' @ dec (cap_blob_max_bytes capacity)))
         else if cap_event_log_max_items capacity < next_event_count
         then Err (store_budget_error (''event log items '' @ dec next_event_count @ '' exceed ''
                @ dec (cap_event_log_max_items capacity)))
         else Ok (backend_budget_report adm usage kv_entries blob_bytes next_event_count))"

definition check_read_set_size ::
  "'v store_env \<Rightarrow> store_capacity_budget \<Rightarrow> (address, 'v) btree \<Rightarrow> unit result" where
  "check_read_set_size env capacity json =
     and_then (sum_json_len env ''transaction JSON read-set byte count overflow'' json) (\<lambda>json_bytes.
     if cap_kv_max_entries capacity < btree_len json \<or> cap_snapshot_max_bytes capacity < json_bytes
     then Err (store_budget_error ''transaction JSON read-set exceeds the pinned operation budget'')
     else Ok ())"

definition validate_next_image ::
  "('v, 'a, 'j) tx_hooks \<Rightarrow> transaction_admission \<Rightarrow> ('v, 'a) transaction_request \<Rightarrow> ('v, 'a) transaction_request \<Rightarrow>
   'v tx_state \<Rightarrow> 'v apply_state \<Rightarrow> unit result" where
  "validate_next_image h adm req effective current s =
     and_then (validate_transitions h req (tr_preconditions effective) current (ap_next s) (ap_changed_json s)) (\<lambda>fences.
     and_then (for_each (\<lambda>m.
          and_then (check_reconciliation_job h req current (ap_next s) m) (\<lambda>_.
          check_producer_authority h req (tr_preconditions effective) fences current (ap_next s) m))
        (tr_mutations effective)) (\<lambda>_.
     and_then (check_selection_authority req (tr_mutations effective) current (ap_next s)) (\<lambda>_.
     and_then (h_selection_image h (ts_json (ap_next s))) (\<lambda>_.
     and_then (h_new_intakes h (ts_json current) (ts_json (ap_next s)) (tr_procedural_intake_authority req)) (\<lambda>_.
     and_then (check_ledgers h req current (ap_next s)) (\<lambda>_.
     and_then (check_method_closure effective) (\<lambda>_.
       check_governed_batch h req (am_operation_capacity adm) (tr_governed_batch effective) current (ap_next s))))))))"

definition apply_transaction ::
  "('v, 'a, 'j) tx_hooks \<Rightarrow> transaction_admission \<Rightarrow> ('v, 'a) transaction_request \<Rightarrow> 'v tx_context \<Rightarrow>
   ('v, 'a) transaction_plan result" where
  "apply_transaction h adm req context =
     (let env = h_store_env h; capacity = am_operation_capacity adm; current = cx_touched context in
      if trim (tr_transaction_id req) = []
      then Err (config_error preflight_stage ''transaction_id is required'')
      else
      and_then (check_read_set_size env capacity (ts_json current)) (\<lambda>_.
      and_then (materialize_conditional_mutations env req current) (\<lambda>effective.
      and_then (validate_preconditions capacity (tr_preconditions effective) (ts_json current)) (\<lambda>_.
      and_then (validate_blob_preconditions env capacity (tr_blob_preconditions effective) (ts_blobs current)) (\<lambda>_.
      and_then (try_fold (apply_mutation capacity) (tr_mutations effective) (apply_start context)) (\<lambda>s.
      and_then (validate_next_image h adm req effective current s) (\<lambda>_.
      and_then (check_budgets adm context s) (\<lambda>budget_report.
      Ok \<lparr> pn_effective_request = effective,
           pn_next_touched = ap_next s,
           pn_report = \<lparr> tp_transaction_id = tr_transaction_id req,
             tp_changed_json = btree_len (ap_changed_json s),
             tp_changed_blobs = btree_len (ap_changed_blobs s),
             tp_appended_events = length (ap_event_ids s),
             tp_event_ids = ap_event_ids s,
             tp_budget_report = budget_report \<rparr> \<rparr>))))))))"

end
