(* ===== verification/In_Memory.thy ===== *)
theory In_Memory
  imports Store_Apply
begin

text \<open>
  The in-memory store engine of \<^verbatim>\<open>sdk/src/store_internal/in_memory.rs\<close>. The mutex makes every
  operation atomic, so an operation is a function from the engine to the engine it leaves
  and its result. A commit passes the fence, reads the addresses of the request and their
  dependencies, plans, and then writes the effective mutations; the writing loop can stop in
  the middle, and the model keeps what it wrote until then.
\<close>

section \<open>State\<close>

record 'v mem_state =
  ms_json :: "(address, 'v) btree"
  ms_blobs :: "(address, bytes) btree"
  ms_events :: "store_event list"
  ms_event_ids :: "string btset"

record 'v mem_engine =
  en_capacity :: store_capacity_budget
  en_admission_authority :: nat
  en_state :: "'v mem_state"

definition mem_state_default :: "'v mem_state" where
  "mem_state_default = \<lparr> ms_json = btree_empty, ms_blobs = btree_empty, ms_events = [], ms_event_ids = btree_empty \<rparr>"

definition new_with_admission_authority :: "store_capacity_budget \<Rightarrow> nat \<Rightarrow> 'v mem_engine" where
  "new_with_admission_authority capacity auth =
     \<lparr> en_capacity = capacity, en_admission_authority = auth, en_state = mem_state_default \<rparr>"

section \<open>Commit\<close>

fun apply_primitive :: "'v engine_mutation \<Rightarrow> 'v mem_state \<Rightarrow> 'v mem_state result" where
  "apply_primitive (PutJson namespace key v) st =
     Ok (st\<lparr>ms_json := btree_insert (namespace, key) v (ms_json st)\<rparr>)"
| "apply_primitive (DeleteJson namespace key) st = Ok (st\<lparr>ms_json := btree_remove (namespace, key) (ms_json st)\<rparr>)"
| "apply_primitive (PutBlob namespace key v) st =
     Ok (st\<lparr>ms_blobs := btree_insert (namespace, key) v (ms_blobs st)\<rparr>)"
| "apply_primitive (DeleteBlob namespace key) st = Ok (st\<lparr>ms_blobs := btree_remove (namespace, key) (ms_blobs st)\<rparr>)"
| "apply_primitive (AppendEvent ev) st =
     Ok (st\<lparr>ms_event_ids := btset_insert (event_id ev) (ms_event_ids st), ms_events := ms_events st @ [ev]\<rparr>)"
| "apply_primitive (DeleteJsonIfPresent _ _ _) st =
     Err (config_error ''memory_write_transaction'' ''conditional mutation reached in-memory primitive execution'')"
| "apply_primitive (DeleteBlobIfPresent _ _ _) st =
     Err (config_error ''memory_write_transaction'' ''conditional mutation reached in-memory primitive execution'')"

fun apply_in_memory_transaction_plan ::
  "'v engine_mutation list \<Rightarrow> 'v mem_state \<Rightarrow> 'v mem_state \<times> unit result" where
  "apply_in_memory_transaction_plan [] st = (st, Ok ())"
| "apply_in_memory_transaction_plan (m # ms) st =
     (case apply_primitive m st of
        Inl e \<Rightarrow> (st, Err e)
      | Inr st' \<Rightarrow> apply_in_memory_transaction_plan ms st')"

definition select_addresses :: "'k::linorder btset \<Rightarrow> ('k, 'b) btree \<Rightarrow> ('k, 'b) btree" where
  "select_addresses as m =
     btree_of_list (List.map_filter (\<lambda>a. map_option (Pair a) (btree_get m a)) (btree_keys as))"

definition add_prefix :: "(address, 'b) btree \<Rightarrow> address \<Rightarrow> (address, 'b) btree \<Rightarrow> (address, 'b) btree" where
  "add_prefix m p sel =
     fold (\<lambda>(a, v). btree_insert a v)
       (filter (\<lambda>e. fst (fst e) = fst p \<and> starts_with (snd (fst e)) (snd p)) (entries m)) sel"

definition touched_state :: "read_set \<Rightarrow> 'v mem_state \<Rightarrow> 'v tx_state" where
  "touched_state rs st =
     \<lparr> ts_json = fold (add_prefix (ms_json st)) (btree_keys (rs_json_prefixes rs))
                  (select_addresses (rs_json rs) (ms_json st)),
       ts_blobs = select_addresses (rs_blobs rs) (ms_blobs st), ts_events = [] \<rparr>"

definition existing_event_ids :: "('v, 'a) transaction_request \<Rightarrow> 'v mem_state \<Rightarrow> string btset" where
  "existing_event_ids req st =
     btset_of_list (filter (btree_contains (ms_event_ids st)) (List.map_filter mutation_event_id (tr_mutations req)))"

definition usage_of :: "'v mem_state \<Rightarrow> backend_usage" where
  "usage_of st =
     \<lparr> us_kv_entries = saturating_add (btree_len (ms_json st)) (btree_len (ms_blobs st)),
       us_blob_bytes = blob_bytes_of (ms_blobs st), us_event_count = length (ms_events st) \<rparr>"

definition plan_commit ::
  "('v, 'a, 'j) tx_hooks \<Rightarrow> transaction_admission \<Rightarrow> ('v, 'a) transaction_request \<Rightarrow> 'v mem_state \<Rightarrow>
   ('v, 'a) transaction_plan result" where
  "plan_commit h adm req st =
     and_then (expand_owner_transaction_dependencies h req (am_operation_capacity adm)
          (touched_state (tr_read_set req) st)
          (\<lambda>namespace key _. Ok (btree_get (ms_json st) (namespace, key)))) (\<lambda>touched.
     apply_transaction h adm req
       \<lparr> cx_touched = touched, cx_usage = usage_of st, cx_existing_event_ids = existing_event_ids req st \<rparr>)"

definition commit_transaction_admitted ::
  "report_env \<Rightarrow> ('v, 'a, 'j) tx_hooks \<Rightarrow> fence_inputs \<Rightarrow> ('v, 'a) transaction_request \<Rightarrow> transaction_admission \<Rightarrow>
   authority \<times> 'v mem_engine \<Rightarrow> (authority \<times> 'v mem_engine) \<times> transaction_report result" where
  "commit_transaction_admitted renv h inputs req adm =
     (\<lambda>(au, en).
        case validate_inside_engine_fence renv adm (en_capacity en) (en_admission_authority en) inputs au of
          (au', Inl e) \<Rightarrow> ((au', en), Err e)
        | (au', Inr _) \<Rightarrow>
            (case plan_commit h adm req (en_state en) of
               Inl e \<Rightarrow> ((au', en), Err e)
             | Inr plan \<Rightarrow>
                 (case apply_in_memory_transaction_plan (tr_mutations (pn_effective_request plan)) (en_state en) of
                    (st, Inl e) \<Rightarrow> ((au', en\<lparr>en_state := st\<rparr>), Err e)
                  | (st, Inr _) \<Rightarrow> ((au', en\<lparr>en_state := st\<rparr>), Ok (pn_report plan)))))"

section \<open>Reads\<close>

definition get_json_value :: "'v mem_engine \<Rightarrow> string \<Rightarrow> string \<Rightarrow> 'v option result" where
  "get_json_value en namespace key =
     and_then (enforce_logical_key_budget (en_capacity en) namespace key ''in_memory_json_read'') (\<lambda>_.
       Ok (btree_get (ms_json (en_state en)) (namespace, key)))"

definition get_blob :: "'v mem_engine \<Rightarrow> string \<Rightarrow> string \<Rightarrow> bytes option result" where
  "get_blob en namespace key =
     and_then (enforce_logical_key_budget (en_capacity en) namespace key ''in_memory_blob_read'') (\<lambda>_.
       Ok (btree_get (ms_blobs (en_state en)) (namespace, key)))"

definition keys_in_namespace :: "string \<Rightarrow> (address, 'b) btree \<Rightarrow> string list" where
  "keys_in_namespace namespace m = sort (map snd (filter (\<lambda>a. fst a = namespace) (btree_keys m)))"

definition list_json_keys :: "'v mem_engine \<Rightarrow> string \<Rightarrow> string list result" where
  "list_json_keys en namespace =
     and_then (enforce_logical_key_budget (en_capacity en) namespace [] ''in_memory_json_list'') (\<lambda>_.
       Ok (keys_in_namespace namespace (ms_json (en_state en))))"

definition list_blob_keys :: "'v mem_engine \<Rightarrow> string \<Rightarrow> string list result" where
  "list_blob_keys en namespace =
     and_then (enforce_logical_key_budget (en_capacity en) namespace [] ''in_memory_blob_list'') (\<lambda>_.
       Ok (keys_in_namespace namespace (ms_blobs (en_state en))))"

definition read_consistent_known_keys ::
  "'v store_env \<Rightarrow> 'v mem_engine \<Rightarrow> address list \<Rightarrow> address list \<Rightarrow> bool \<Rightarrow> store_capacity_budget \<Rightarrow>
   'v known_key_read_result result" where
  "read_consistent_known_keys env en json_keys blob_keys include_events capacity =
     read_bounded_known_keys_from_parts env json_keys blob_keys include_events capacity
       (ms_json (en_state en)) (ms_blobs (en_state en)) (ms_events (en_state en))"

definition open_immutable_read_session :: "'v mem_engine \<Rightarrow> store_capacity_budget \<Rightarrow> 'v read_session result" where
  "open_immutable_read_session en capacity =
     and_then (validate_immutable_read_session_capacity (en_capacity en) capacity) (\<lambda>_.
       Ok (session_new capacity))"

text \<open>Reading a batch of addresses through a session; the first error ends the batch.\<close>

fun read_json_known_keys ::
  "'v store_env \<Rightarrow> 'v mem_state \<Rightarrow> address list \<Rightarrow> 'v read_session \<Rightarrow> 'v read_session \<times> 'v json_read list result" where
  "read_json_known_keys env st [] s = (s, Ok [])"
| "read_json_known_keys env st (a # as) s =
     (case record_json env s (fst a) (snd a) (btree_get (ms_json st) a) of
        (s', Inl e) \<Rightarrow> (s', Err e)
      | (s', Inr r) \<Rightarrow>
          (case read_json_known_keys env st as s' of
             (s'', Inl e) \<Rightarrow> (s'', Err e)
           | (s'', Inr rs) \<Rightarrow> (s'', Ok (r # rs))))"

fun read_blob_known_keys ::
  "'v mem_state \<Rightarrow> address list \<Rightarrow> 'v read_session \<Rightarrow> 'v read_session \<times> blob_read list result" where
  "read_blob_known_keys st [] s = (s, Ok [])"
| "read_blob_known_keys st (a # as) s =
     (case record_blob s (fst a) (snd a) (btree_get (ms_blobs st) a) of
        (s', Inl e) \<Rightarrow> (s', Err e)
      | (s', Inr r) \<Rightarrow>
          (case read_blob_known_keys st as s' of
             (s'', Inl e) \<Rightarrow> (s'', Err e)
           | (s'', Inr rs) \<Rightarrow> (s'', Ok (r # rs))))"

record consistent_read_request =
  cr_json :: "address list"
  cr_blobs :: "address list"
  cr_include_events :: bool

record 'v consistent_read_result =
  cs_json :: "(address \<times> 'v option) list"
  cs_blobs :: "(address \<times> bytes option) list"
  cs_events :: "store_event list"

definition read_consistent_from_state ::
  "consistent_read_request \<Rightarrow> 'v tx_state \<Rightarrow> 'v consistent_read_result" where
  "read_consistent_from_state req t =
     \<lparr> cs_json = map (\<lambda>a. (a, btree_get (ts_json t) a)) (cr_json req),
       cs_blobs = map (\<lambda>a. (a, btree_get (ts_blobs t) a)) (cr_blobs req),
       cs_events = (if cr_include_events req then ts_events t else []) \<rparr>"

definition read_consistent :: "consistent_read_request \<Rightarrow> 'v mem_engine \<Rightarrow> 'v consistent_read_result" where
  "read_consistent req en =
     read_consistent_from_state req
       \<lparr> ts_json = ms_json (en_state en), ts_blobs = ms_blobs (en_state en), ts_events = ms_events (en_state en) \<rparr>"

section \<open>Harness operations\<close>

text \<open>Direct writes, compiled for the replay harness only.\<close>

definition append_event :: "store_event \<Rightarrow> 'v mem_engine \<Rightarrow> 'v mem_engine \<times> unit result" where
  "append_event ev en =
     (let capacity = en_capacity en; st = en_state en in
      case enforce_event_key_budget capacity ev ''in_memory_store_event'' of
        Inl e \<Rightarrow> (en, Err e)
      | Inr _ \<Rightarrow>
          if btree_contains (ms_event_ids st) (event_id ev)
          then (en, Err (config_error ''store_event_log'' (''duplicate event id '' @ event_id ev)))
          else let ids = btset_insert (event_id ev) (ms_event_ids st) in
          if cap_event_log_max_items capacity \<le> length (ms_events st)
          then (en\<lparr>en_state := st\<lparr>ms_event_ids := btree_remove (event_id ev) ids\<rparr>\<rparr>,
                Err (store_budget_error (''event log items '' @ dec (saturating_add (length (ms_events st)) 1)
                       @ '' exceed '' @ dec (cap_event_log_max_items capacity))))
          else (en\<lparr>en_state := st\<lparr>ms_event_ids := ids, ms_events := ms_events st @ [ev]\<rparr>\<rparr>, Ok ()))"

definition put_json_value :: "string \<Rightarrow> string \<Rightarrow> 'v \<Rightarrow> 'v mem_engine \<Rightarrow> 'v mem_engine \<times> unit result" where
  "put_json_value namespace key v en =
     (let capacity = en_capacity en; st = en_state en; a = (namespace, key) in
      case enforce_logical_key_budget capacity namespace key ''in_memory_json_write'' of
        Inl e \<Rightarrow> (en, Err e)
      | Inr _ \<Rightarrow>
          if \<not> btree_contains (ms_json st) a \<and> cap_kv_max_entries capacity \<le> btree_len (ms_json st)
          then (en, Err (store_budget_error (''kv entries '' @ dec (saturating_add (btree_len (ms_json st)) 1)
                  @ '' exceed '' @ dec (cap_kv_max_entries capacity))))
          else (en\<lparr>en_state := st\<lparr>ms_json := btree_insert a v (ms_json st)\<rparr>\<rparr>, Ok ()))"

definition delete_json_value :: "string \<Rightarrow> string \<Rightarrow> 'v mem_engine \<Rightarrow> 'v mem_engine \<times> bool result" where
  "delete_json_value namespace key en =
     (let st = en_state en; a = (namespace, key) in
      case enforce_logical_key_budget (en_capacity en) namespace key ''in_memory_json_delete'' of
        Inl e \<Rightarrow> (en, Err e)
      | Inr _ \<Rightarrow> (en\<lparr>en_state := st\<lparr>ms_json := btree_remove a (ms_json st)\<rparr>\<rparr>, Ok (btree_contains (ms_json st) a)))"

definition put_blob :: "string \<Rightarrow> string \<Rightarrow> bytes \<Rightarrow> 'v mem_engine \<Rightarrow> 'v mem_engine \<times> unit result" where
  "put_blob namespace key v en =
     (let capacity = en_capacity en; st = en_state en; a = (namespace, key) in
      case enforce_logical_key_budget capacity namespace key ''in_memory_blob_write'' of
        Inl e \<Rightarrow> (en, Err e)
      | Inr _ \<Rightarrow>
          let previous = (case btree_get (ms_blobs st) a of None \<Rightarrow> 0 | Some old \<Rightarrow> length old);
              next_bytes = saturating_add (saturating_sub (blob_bytes_of (ms_blobs st)) previous) (length v)
          in if cap_blob_max_bytes capacity < next_bytes
             then (en, Err (store_budget_error (''blob bytes '' @ dec next_bytes @ '' exceed ''
                     @ dec (cap_blob_max_bytes capacity))))
             else (en\<lparr>en_state := st\<lparr>ms_blobs := btree_insert a v (ms_blobs st)\<rparr>\<rparr>, Ok ()))"

definition delete_blob :: "string \<Rightarrow> string \<Rightarrow> 'v mem_engine \<Rightarrow> 'v mem_engine \<times> bool result" where
  "delete_blob namespace key en =
     (let st = en_state en; a = (namespace, key) in
      case enforce_logical_key_budget (en_capacity en) namespace key ''in_memory_blob_delete'' of
        Inl e \<Rightarrow> (en, Err e)
      | Inr _ \<Rightarrow> (en\<lparr>en_state := st\<lparr>ms_blobs := btree_remove a (ms_blobs st)\<rparr>\<rparr>, Ok (btree_contains (ms_blobs st) a)))"

definition validate_restore_post_image_blob_bytes ::
  "store_capacity_budget \<Rightarrow> usize list \<Rightarrow> usize list \<Rightarrow> usize result" where
  "validate_restore_post_image_blob_bytes capacity retained replacement =
     and_then (try_fold (\<lambda>n tot. ok_or (store_budget_error ''restore post-image blob byte count overflow'')
          (checked_add tot n)) (retained @ replacement) 0) (\<lambda>final_blob_bytes.
     if cap_blob_max_bytes capacity < final_blob_bytes
     then Err (store_budget_error (''restore post-image blob bytes '' @ dec final_blob_bytes @ '' exceed ''
            @ dec (cap_blob_max_bytes capacity)))
     else Ok final_blob_bytes)"

record snapshot_replace_report =
  sr_json_deleted :: usize
  sr_blobs_deleted :: usize
  sr_events_imported :: usize

definition snapshot_keys :: "store_capacity_budget \<Rightarrow> (address \<times> 'b) list \<Rightarrow> address btset result" where
  "snapshot_keys capacity docs =
     and_then (collect_results (\<lambda>d.
        and_then (enforce_logical_key_budget capacity (fst (fst d)) (snd (fst d)) ''in_memory_snapshot_import'')
          (\<lambda>_. Ok (fst d))) docs) (\<lambda>as. Ok (btset_of_list as))"

definition snapshot_event_ids :: "store_capacity_budget \<Rightarrow> store_event list \<Rightarrow> string btset result" where
  "snapshot_event_ids capacity events =
     try_fold (\<lambda>ev ids.
       and_then (enforce_event_key_budget capacity ev ''in_memory_snapshot_import'') (\<lambda>_.
       if btree_contains ids (event_id ev)
       then Err (config_error ''store_event_log'' (''duplicate event id '' @ event_id ev))
       else Ok (btset_insert (event_id ev) ids))) events btree_empty"

definition replace_docs :: "string btset \<Rightarrow> (address \<times> 'b) list \<Rightarrow> (address, 'b) btree \<Rightarrow> (address, 'b) btree" where
  "replace_docs namespaces docs m =
     fold (\<lambda>(a, v). btree_insert a v) docs (btree_retain (\<lambda>a _. \<not> btree_contains namespaces (fst a)) m)"

definition count_deleted :: "string btset \<Rightarrow> address btset \<Rightarrow> (address, 'b) btree \<Rightarrow> usize" where
  "count_deleted namespaces kept m =
     length (filter (\<lambda>a. btree_contains namespaces (fst a) \<and> \<not> btree_contains kept a) (btree_keys m))"

definition plan_snapshot ::
  "string list \<Rightarrow> string list \<Rightarrow> (address \<times> 'v) list \<Rightarrow> (address \<times> bytes) list \<Rightarrow> store_event list \<Rightarrow>
   'v mem_engine \<Rightarrow> ('v mem_state \<times> snapshot_replace_report) result" where
  "plan_snapshot json_namespaces blob_namespaces json_docs blobs events en =
     (let capacity = en_capacity en; st = en_state en in
      if cap_event_log_max_items capacity < length events
      then Err (store_budget_error (''event log items '' @ dec (length events) @ '' exceed ''
             @ dec (cap_event_log_max_items capacity)))
      else
      and_then (snapshot_event_ids capacity events) (\<lambda>event_ids.
      let json_set = btset_of_list json_namespaces; blob_set = btset_of_list blob_namespaces in
      and_then (snapshot_keys capacity json_docs) (\<lambda>json_keys.
      and_then (snapshot_keys capacity blobs) (\<lambda>blob_keys.
      let retained = length (filter (\<lambda>a. \<not> btree_contains json_set (fst a)) (btree_keys (ms_json st)));
          final_json_entries = saturating_add retained (length json_docs) in
      if cap_kv_max_entries capacity < final_json_entries
      then Err (store_budget_error (''kv entries '' @ dec final_json_entries @ '' exceed ''
             @ dec (cap_kv_max_entries capacity)))
      else
      and_then (validate_restore_post_image_blob_bytes capacity
          (map (\<lambda>e. length (snd e))
             (filter (\<lambda>e. \<not> btree_contains blob_set (fst (fst e))) (entries (ms_blobs st))))
          (map (\<lambda>b. length (snd b)) blobs)) (\<lambda>_.
      Ok (\<lparr> ms_json = replace_docs json_set json_docs (ms_json st),
            ms_blobs = replace_docs blob_set blobs (ms_blobs st),
            ms_events = events, ms_event_ids = event_ids \<rparr>,
          \<lparr> sr_json_deleted = count_deleted json_set json_keys (ms_json st),
            sr_blobs_deleted = count_deleted blob_set blob_keys (ms_blobs st),
            sr_events_imported = length events \<rparr>))))))"

definition replace_snapshot ::
  "string list \<Rightarrow> string list \<Rightarrow> (address \<times> 'v) list \<Rightarrow> (address \<times> bytes) list \<Rightarrow> store_event list \<Rightarrow>
   'v mem_engine \<Rightarrow> 'v mem_engine \<times> snapshot_replace_report result" where
  "replace_snapshot json_namespaces blob_namespaces json_docs blobs events en =
     (case plan_snapshot json_namespaces blob_namespaces json_docs blobs events en of
        Inl e \<Rightarrow> (en, Err e)
      | Inr (st, report) \<Rightarrow> (en\<lparr>en_state := st\<rparr>, Ok report))"

end
