(* ===== verification/Store_Refinement.thy ===== *)
theory Store_Refinement
  imports In_Memory
begin

text \<open>
  What a commit does to the store. The abstract store is a pair of maps and a log; the
  abstract meaning of a request is the fold of its mutations, with conditional deletes
  decided on the store before the transaction. The lemmas follow the code: what the commit
  reads, the closure of the read set, the execution on the copy, the budgets, the writes.
\<close>

section \<open>The abstract store\<close>

record 'v store_spec =
  sp_json :: "address \<Rightarrow> 'v option"
  sp_blobs :: "address \<Rightarrow> bytes option"
  sp_log :: "store_event list"

definition spec_of :: "'v mem_state \<Rightarrow> 'v store_spec" where
  "spec_of st = \<lparr> sp_json = btree_get (ms_json st), sp_blobs = btree_get (ms_blobs st), sp_log = ms_events st \<rparr>"

fun spec_mutation :: "'v store_env \<Rightarrow> 'v store_spec \<Rightarrow> 'v engine_mutation \<Rightarrow> 'v store_spec \<Rightarrow> 'v store_spec" where
  "spec_mutation env before (PutJson ns k v) s = s\<lparr>sp_json := (sp_json s)((ns, k) \<mapsto> v)\<rparr>"
| "spec_mutation env before (DeleteJson ns k) s = s\<lparr>sp_json := (sp_json s)((ns, k) := None)\<rparr>"
| "spec_mutation env before (DeleteJsonIfPresent ns k t) s =
     (case sp_json before (ns, k) of
        None \<Rightarrow> s
      | Some v \<Rightarrow> (case se_json_bytes env v of
            Inl _ \<Rightarrow> s
          | Inr bs \<Rightarrow> s\<lparr>sp_json := (sp_json s)((ns, k) := None),
                         sp_log := sp_log s @ [materialize_bytes env t bs]\<rparr>))"
| "spec_mutation env before (PutBlob ns k v) s = s\<lparr>sp_blobs := (sp_blobs s)((ns, k) \<mapsto> v)\<rparr>"
| "spec_mutation env before (DeleteBlob ns k) s = s\<lparr>sp_blobs := (sp_blobs s)((ns, k) := None)\<rparr>"
| "spec_mutation env before (DeleteBlobIfPresent ns k t) s =
     (case sp_blobs before (ns, k) of
        None \<Rightarrow> s
      | Some bs \<Rightarrow> s\<lparr>sp_blobs := (sp_blobs s)((ns, k) := None),
                      sp_log := sp_log s @ [materialize_bytes env t bs]\<rparr>)"
| "spec_mutation env before (AppendEvent ev) s = s\<lparr>sp_log := sp_log s @ [ev]\<rparr>"

definition spec_transaction :: "'v store_env \<Rightarrow> ('v, 'a) transaction_request \<Rightarrow> 'v store_spec \<Rightarrow> 'v store_spec" where
  "spec_transaction env req s = fold (spec_mutation env s) (tr_mutations req) s"

section \<open>Writes of a mutation\<close>

fun json_write :: "'v engine_mutation \<Rightarrow> (address \<times> 'v option) list" where
  "json_write (PutJson ns k v) = [((ns, k), Some v)]"
| "json_write (DeleteJson ns k) = [((ns, k), None)]"
| "json_write _ = []"

fun blob_write :: "'v engine_mutation \<Rightarrow> (address \<times> bytes option) list" where
  "blob_write (PutBlob ns k v) = [((ns, k), Some v)]"
| "blob_write (DeleteBlob ns k) = [((ns, k), None)]"
| "blob_write _ = []"

fun event_write :: "'v engine_mutation \<Rightarrow> store_event list" where
  "event_write (AppendEvent ev) = [ev]"
| "event_write _ = []"

abbreviation json_writes :: "'v engine_mutation list \<Rightarrow> (address \<times> 'v option) list" where
  "json_writes ms \<equiv> concat (map json_write ms)"

abbreviation blob_writes :: "'v engine_mutation list \<Rightarrow> (address \<times> bytes option) list" where
  "blob_writes ms \<equiv> concat (map blob_write ms)"

abbreviation event_writes :: "'v engine_mutation list \<Rightarrow> store_event list" where
  "event_writes ms \<equiv> concat (map event_write ms)"

fun primitive :: "'v engine_mutation \<Rightarrow> bool" where
  "primitive (DeleteJsonIfPresent _ _ _) \<longleftrightarrow> False"
| "primitive (DeleteBlobIfPresent _ _ _) \<longleftrightarrow> False"
| "primitive _ \<longleftrightarrow> True"

text \<open>Both executors perform the same writes.\<close>

lemma apply_primitive_Ok:
  "apply_primitive m st = Inr st' \<longleftrightarrow> primitive m \<and>
   st' = st\<lparr>ms_json := fold run_write (json_write m) (ms_json st),
            ms_blobs := fold run_write (blob_write m) (ms_blobs st),
            ms_events := ms_events st @ event_write m,
            ms_event_ids := fold btset_insert (map event_id (event_write m)) (ms_event_ids st)\<rparr>"
  by (cases m) (auto simp: run_write_def)

lemma apply_plan_Ok:
  "list_all primitive ms \<Longrightarrow>
   apply_in_memory_transaction_plan ms st =
     (st\<lparr>ms_json := fold run_write (json_writes ms) (ms_json st),
         ms_blobs := fold run_write (blob_writes ms) (ms_blobs st),
         ms_events := ms_events st @ event_writes ms,
         ms_event_ids := fold btset_insert (map event_id (event_writes ms)) (ms_event_ids st)\<rparr>, Ok ())"
proof (induction ms arbitrary: st)
  case (Cons m ms)
  then obtain st' where st': "apply_primitive m st = Inr st'" by (simp add: apply_primitive_Ok)
  show ?case
    using Cons st' by (simp) (simp add: apply_primitive_Ok)
qed simp

lemma apply_mutation_Ok:
  assumes "apply_mutation capacity m s = Inr s'"
  shows "primitive m"
    and "ap_next s' = \<lparr>ts_json = fold run_write (json_write m) (ts_json (ap_next s)),
            ts_blobs = fold run_write (blob_write m) (ts_blobs (ap_next s)),
            ts_events = ts_events (ap_next s) @ event_write m\<rparr>"
    and "ap_event_ids s' = ap_event_ids s @ map event_id (event_write m)"
    and "ap_known_event_ids s' = fold btset_insert (map event_id (event_write m)) (ap_known_event_ids s)"
    and "distinct (map event_id (event_write m))
         \<and> (\<forall>ev \<in> set (event_write m). \<not> btree_contains (ap_known_event_ids s) (event_id ev))"
  using assms by (cases m; auto simp: result_simps run_write_def)+

lemma apply_mutations_Ok:
  assumes "try_fold (apply_mutation capacity) ms s = Inr s'"
  shows "list_all primitive ms
    \<and> ap_next s' = \<lparr>ts_json = fold run_write (json_writes ms) (ts_json (ap_next s)),
            ts_blobs = fold run_write (blob_writes ms) (ts_blobs (ap_next s)),
            ts_events = ts_events (ap_next s) @ event_writes ms\<rparr>
    \<and> ap_event_ids s' = ap_event_ids s @ map event_id (event_writes ms)
    \<and> distinct (map event_id (event_writes ms))
    \<and> (\<forall>ev \<in> set (event_writes ms). \<not> btree_contains (ap_known_event_ids s) (event_id ev))"
  using assms
proof (induction ms arbitrary: s)
  case (Cons m ms)
  from Cons.prems obtain u where u: "apply_mutation capacity m s = Inr u"
    "try_fold (apply_mutation capacity) ms u = Inr s'" by (auto simp: result_simps)
  note step = apply_mutation_Ok [OF u(1)] and rest = Cons.IH [OF u(2)]
  show ?case using step rest by (auto simp: step) (metis imageI)
qed simp

section \<open>What a commit reads\<close>

lemma map_of_map_filter_self:
  "map_of (List.map_filter (\<lambda>a. map_option (Pair a) (f a)) as) k = (if k \<in> set as then f k else None)"
  by (induction as) (auto simp: List.map_filter_simps split: option.splits)

lemma map_filter_rev: "rev (List.map_filter f xs) = List.map_filter f (rev xs)"
  by (induction xs) (auto simp: List.map_filter_simps List.map_filter_def split: option.splits)

lemma get_select_addresses:
  "btree_get (select_addresses as m) k = (if btree_contains as k then btree_get m k else None)"
  by (simp add: select_addresses_def get_of_list map_filter_rev map_of_map_filter_self set_keys contains_dom)

lemma get_inserts: "btree_get (fold (\<lambda>(k, v). btree_insert k v) xs m) = btree_get m ++ map_of (rev xs)"
  by (rule bt.lookup_inserts)

lemma add_prefix_part:
  assumes "btree_get sel \<subseteq>\<^sub>m btree_get m"
  shows "btree_get sel \<subseteq>\<^sub>m btree_get (add_prefix m p sel)" and "btree_get (add_prefix m p sel) \<subseteq>\<^sub>m btree_get m"
proof -
  let ?es = "filter (\<lambda>e. fst (fst e) = fst p \<and> starts_with (snd (fst e)) (snd p)) (entries m)"
  have part: "map_of (rev ?es) k = Some v \<Longrightarrow> btree_get m k = Some v" for k v
    by (drule map_of_SomeD) (simp add: set_entries)
  show "btree_get (add_prefix m p sel) \<subseteq>\<^sub>m btree_get m"
    using part assms by (auto simp: add_prefix_def get_inserts map_le_def map_add_def dom_def split: option.splits)
  show "btree_get sel \<subseteq>\<^sub>m btree_get (add_prefix m p sel)"
    using part assms by (fastforce simp: add_prefix_def get_inserts map_le_def map_add_def split: option.splits)
qed

lemma fold_add_prefix_part:
  "btree_get sel \<subseteq>\<^sub>m btree_get m \<Longrightarrow>
   btree_get sel \<subseteq>\<^sub>m btree_get (fold (add_prefix m) ps sel) \<and> btree_get (fold (add_prefix m) ps sel) \<subseteq>\<^sub>m btree_get m"
proof (induction ps arbitrary: sel)
  case (Cons p ps)
  note step = add_prefix_part [OF Cons.prems, of p]
  show ?case using Cons.IH [OF step(2)] map_le_trans [OF step(1)] by simp
qed simp

lemma touched_state_part:
  shows "btree_get (select_addresses (rs_json rs) (ms_json st)) \<subseteq>\<^sub>m btree_get (ts_json (touched_state rs st))"
    and "btree_get (ts_json (touched_state rs st)) \<subseteq>\<^sub>m btree_get (ms_json st)"
    and "btree_get (ts_blobs (touched_state rs st)) k =
         (if btree_contains (rs_blobs rs) k then btree_get (ms_blobs st) k else None)"
proof -
  have "btree_get (select_addresses (rs_json rs) (ms_json st)) \<subseteq>\<^sub>m btree_get (ms_json st)"
    by (auto simp: map_le_def get_select_addresses split: if_splits)
  note part = fold_add_prefix_part [OF this, of "btree_keys (rs_json_prefixes rs)"]
  show "btree_get (select_addresses (rs_json rs) (ms_json st)) \<subseteq>\<^sub>m btree_get (ts_json (touched_state rs st))"
    "btree_get (ts_json (touched_state rs st)) \<subseteq>\<^sub>m btree_get (ms_json st)"
    using part by (simp_all add: touched_state_def)
  show "btree_get (ts_blobs (touched_state rs st)) k =
         (if btree_contains (rs_blobs rs) k then btree_get (ms_blobs st) k else None)"
    by (simp add: touched_state_def get_select_addresses)
qed

section \<open>Closure of the read set\<close>

declare dependency_loop.simps [simp del]

lemma dependency_loop_visit:
  assumes "dependency_loop h capacity rd visited pending b json = Inr json'"
    and "pop_first pending = Some (a, pending')" and "\<not> btree_contains visited a"
  shows "\<not> (cap_kv_max_entries capacity < btree_len (btset_insert a visited) \<or> cap_snapshot_max_bytes capacity < b)
    \<and> enforce_logical_key_budget capacity (fst a) (snd a) ''memory_write_transaction'' = Inr ()
    \<and> (rd (fst a) (snd a) (cap_snapshot_max_bytes capacity - b) = Inr None
           \<and> dependency_loop h capacity rd (btset_insert a visited) pending' b json = Inr json'
       \<or> (\<exists>v b' pending''. rd (fst a) (snd a) (cap_snapshot_max_bytes capacity - b) = Inr (Some v)
           \<and> and_then (serialized_json_len (h_store_env h) v) (\<lambda>n.
                 ok_or (store_budget_error ''Soul dependency read bytes overflow'') (checked_add b n)) = Inr b'
           \<and> \<not> cap_snapshot_max_bytes capacity < b'
           \<and> enqueue_dependencies h capacity (btset_insert a visited) (fst a) v pending' = Inr pending''
           \<and> dependency_loop h capacity rd (btset_insert a visited) pending'' b' (btree_insert a v json) = Inr json'))"
  using assms(1) unfolding dependency_loop.simps [of h capacity rd visited pending] assms(2)
  by (simp only: option.case prod.case assms(3) if_False Let_def) (auto split: if_splits sum.splits option.splits)

text \<open>Induction over the iterations of a loop that succeeds.\<close>

lemma dependency_loop_induct [consumes 1, case_names stop skip missing found]:
  assumes "dependency_loop h capacity rd visited pending b json = Inr json'"
    and stop: "\<And>visited pending b json. pop_first pending = None \<Longrightarrow> P visited pending b json json"
    and skip: "\<And>visited pending b json json' a pending'. pop_first pending = Some (a, pending') \<Longrightarrow>
      btree_contains visited a \<Longrightarrow> P visited pending' b json json' \<Longrightarrow> P visited pending b json json'"
    and missing: "\<And>visited pending b json json' a pending'. pop_first pending = Some (a, pending') \<Longrightarrow>
      \<not> btree_contains visited a \<Longrightarrow> rd (fst a) (snd a) (cap_snapshot_max_bytes capacity - b) = Inr None \<Longrightarrow>
      P (btset_insert a visited) pending' b json json' \<Longrightarrow> P visited pending b json json'"
    and found: "\<And>visited pending b json json' a pending' v b' pending''. pop_first pending = Some (a, pending') \<Longrightarrow>
      \<not> btree_contains visited a \<Longrightarrow> rd (fst a) (snd a) (cap_snapshot_max_bytes capacity - b) = Inr (Some v) \<Longrightarrow>
      enqueue_dependencies h capacity (btset_insert a visited) (fst a) v pending' = Inr pending'' \<Longrightarrow>
      P (btset_insert a visited) pending'' b' (btree_insert a v json) json' \<Longrightarrow> P visited pending b json json'"
  shows "P visited pending b json json'"
  using assms(1)
proof (induction h\<equiv>h capacity\<equiv>capacity rd\<equiv>rd visited pending b json rule: dependency_loop.induct)
  case (1 visited pending b json)
  show ?case
  proof (cases "pop_first pending")
    case None
    then show ?thesis using 1(4) stop by (simp add: dependency_loop.simps)
  next
    case (Some ap)
    obtain a pending' where pop: "pop_first pending = Some (a, pending')" using Some by (cases ap) simp
    show ?thesis
    proof (cases "btree_contains visited a")
      case True
      then have "dependency_loop h capacity rd visited pending' b json = Inr json'"
        using 1(4) pop by (simp add: dependency_loop.simps [of h capacity rd visited pending])
      then show ?thesis using skip [OF pop True] 1(1) [OF pop refl True] by blast
    next
      case False
      note visit = dependency_loop_visit [OF 1(4) pop False]
      show ?thesis
        using visit missing [OF pop False] found [OF pop False]
          1(2) [OF pop refl False refl] 1(3) [OF pop refl False refl] by blast
    qed
  qed
qed

lemma dependency_loop_part:
  assumes "dependency_loop h capacity rd visited pending b json = Inr json'"
    and "btree_get json \<subseteq>\<^sub>m btree_get m" and "\<And>ns k n r. rd ns k n = Inr r \<Longrightarrow> r = btree_get m (ns, k)"
  shows "btree_get json \<subseteq>\<^sub>m btree_get json' \<and> btree_get json' \<subseteq>\<^sub>m btree_get m"
  using assms(1,2)
proof (induction rule: dependency_loop_induct)
  case (found visited pending b json json' a pending' v b' pending'')
  then have v: "btree_get m a = Some v" using assms(3) [of "fst a" "snd a"] by simp
  then have "btree_get json \<subseteq>\<^sub>m btree_get (btree_insert a v json)" "btree_get (btree_insert a v json) \<subseteq>\<^sub>m btree_get m"
    using found.prems by (auto simp: map_le_def dom_def)
  then show ?case using found.IH map_le_trans by blast
qed simp_all

text \<open>The reader may fail, but what it returns is what the store holds.\<close>

lemma expand_reader_part:
  assumes "expand_owner_transaction_dependencies h req capacity t rd = Inr t'"
    and "btree_get (ts_json t) \<subseteq>\<^sub>m btree_get m" and "\<And>ns k n r. rd ns k n = Inr r \<Longrightarrow> r = btree_get m (ns, k)"
  shows "btree_get (ts_json t) \<subseteq>\<^sub>m btree_get (ts_json t')" and "btree_get (ts_json t') \<subseteq>\<^sub>m btree_get m"
    and "ts_blobs t' = ts_blobs t" and "ts_events t' = ts_events t"
proof -
  from assms(1) obtain visited pending b json where
    loop: "dependency_loop h capacity rd visited pending b (ts_json t) = Inr json"
    and t': "t' = t\<lparr>ts_json := json\<rparr>"
    unfolding expand_owner_transaction_dependencies_def Let_def by (auto simp: result_simps)
  show "btree_get (ts_json t) \<subseteq>\<^sub>m btree_get (ts_json t')" "btree_get (ts_json t') \<subseteq>\<^sub>m btree_get m"
    "ts_blobs t' = ts_blobs t" "ts_events t' = ts_events t"
    using dependency_loop_part [OF loop assms(2,3)] by (simp_all add: t')
qed

lemma expand_part:
  assumes "expand_owner_transaction_dependencies h req capacity t (\<lambda>ns k n. Inr (btree_get m (ns, k))) = Inr t'"
    and "btree_get (ts_json t) \<subseteq>\<^sub>m btree_get m"
  shows "btree_get (ts_json t) \<subseteq>\<^sub>m btree_get (ts_json t')" and "btree_get (ts_json t') \<subseteq>\<^sub>m btree_get m"
    and "ts_blobs t' = ts_blobs t" and "ts_events t' = ts_events t"
  using expand_reader_part [OF assms] by simp_all

section \<open>Requests whose read set holds what they mention\<close>

fun json_targets :: "'v engine_mutation \<Rightarrow> address list" where
  "json_targets (PutJson ns k _) = [(ns, k)]"
| "json_targets (DeleteJson ns k) = [(ns, k)]"
| "json_targets (DeleteJsonIfPresent ns k _) = [(ns, k)]"
| "json_targets _ = []"

fun blob_targets :: "'v engine_mutation \<Rightarrow> address list" where
  "blob_targets (PutBlob ns k _) = [(ns, k)]"
| "blob_targets (DeleteBlob ns k) = [(ns, k)]"
| "blob_targets (DeleteBlobIfPresent ns k _) = [(ns, k)]"
| "blob_targets _ = []"

definition read_set_covers :: "('v, 'a) transaction_request \<Rightarrow> bool" where
  "read_set_covers req \<longleftrightarrow>
     (\<forall>p \<in> set (tr_preconditions req). btree_contains (rs_json (tr_read_set req)) (jp_namespace p, jp_key p)) \<and>
     (\<forall>p \<in> set (tr_blob_preconditions req). btree_contains (rs_blobs (tr_read_set req)) (bp_namespace p, bp_key p)) \<and>
     (\<forall>m \<in> set (tr_mutations req).
        (\<forall>a \<in> set (json_targets m). btree_contains (rs_json (tr_read_set req)) a) \<and>
        (\<forall>a \<in> set (blob_targets m). btree_contains (rs_blobs (tr_read_set req)) a))"

lemma read_set_add_mutation_contains:
  "btree_contains (rs_json (read_set_add_mutation m rs)) a \<longleftrightarrow> a \<in> set (json_targets m) \<or> btree_contains (rs_json rs) a"
  "btree_contains (rs_blobs (read_set_add_mutation m rs)) a \<longleftrightarrow> a \<in> set (blob_targets m) \<or> btree_contains (rs_blobs rs) a"
  by (cases m; auto)+

lemma fold_add_mutation_contains:
  "btree_contains (rs_json (fold read_set_add_mutation ms rs)) a \<longleftrightarrow>
     (\<exists>m \<in> set ms. a \<in> set (json_targets m)) \<or> btree_contains (rs_json rs) a"
  "btree_contains (rs_blobs (fold read_set_add_mutation ms rs)) a \<longleftrightarrow>
     (\<exists>m \<in> set ms. a \<in> set (blob_targets m)) \<or> btree_contains (rs_blobs rs) a"
  by (induction ms arbitrary: rs) (auto simp: read_set_add_mutation_contains)

lemma fold_add_precondition_contains:
  "btree_contains (rs_json (fold (\<lambda>p rs. rs\<lparr>rs_json := btset_insert (jp_namespace p, jp_key p) (rs_json rs)\<rparr>) ps rs)) a
   \<longleftrightarrow> (\<exists>p \<in> set ps. a = (jp_namespace p, jp_key p)) \<or> btree_contains (rs_json rs) a"
  by (induction ps arbitrary: rs) auto

lemma fold_add_blob_precondition_contains:
  "btree_contains (fold (\<lambda>p. btset_insert (bp_namespace p, bp_key p)) ps s) a
   \<longleftrightarrow> (\<exists>p \<in> set ps. a = (bp_namespace p, bp_key p)) \<or> btree_contains s a"
  by (induction ps arbitrary: s) auto

text \<open>The constructor and every builder give such requests.\<close>

lemma covers_request_new: "read_set_covers (request_new tid ps ms batch)"
  unfolding read_set_covers_def request_new_def read_set_from_request_parts_def
  by (auto simp: fold_add_mutation_contains fold_add_precondition_contains)

lemma covers_builders:
  assumes "read_set_covers req"
  shows "read_set_covers (with_blob_preconditions bps req)"
    and "read_set_covers (include_governed_json_reads as req)"
    and "read_set_covers (include_governed_json_prefix_reads as req)"
    and "read_set_covers (with_procedural_authority_initialization req)"
    and "read_set_covers (authorize_procedural_mutation a req)"
    and "read_set_covers (authorize_procedural_intake a req)"
    and "read_set_covers (authorize_long_term_control a req)"
    and "read_set_covers (authorize_graph_repair req)"
  using assms
  by (auto simp: read_set_covers_def with_blob_preconditions_def include_governed_json_reads_def
      include_governed_json_prefix_reads_def with_procedural_authority_initialization_def
      authorize_procedural_mutation_def authorize_procedural_intake_def authorize_long_term_control_def
      authorize_graph_repair_def fold_add_blob_precondition_contains)

section \<open>Conditional mutations become primitive\<close>

text \<open>The transaction state holds of the store what the read set names.\<close>

definition reads_from :: "read_set \<Rightarrow> 'v tx_state \<Rightarrow> 'v mem_state \<Rightarrow> bool" where
  "reads_from rs t st \<longleftrightarrow>
     btree_get (ts_json t) \<subseteq>\<^sub>m btree_get (ms_json st) \<and>
     (\<forall>a. btree_contains (rs_json rs) a \<longrightarrow> btree_get (ts_json t) a = btree_get (ms_json st) a) \<and>
     btree_get (ts_blobs t) \<subseteq>\<^sub>m btree_get (ms_blobs st) \<and>
     (\<forall>a. btree_contains (rs_blobs rs) a \<longrightarrow> btree_get (ts_blobs t) a = btree_get (ms_blobs st) a)"

lemma reads_from_expanded:
  assumes "expand_owner_transaction_dependencies h req capacity (touched_state rs st)
      (\<lambda>ns k n. Inr (btree_get (ms_json st) (ns, k))) = Inr t"
  shows "reads_from rs t st"
proof -
  note part = expand_part [OF assms touched_state_part(2)]
  have sel: "btree_get (select_addresses (rs_json rs) (ms_json st)) \<subseteq>\<^sub>m btree_get (ts_json t)"
    using map_le_trans [OF touched_state_part(1) part(1)] .
  have "btree_get (ts_json t) a = btree_get (ms_json st) a" if "btree_contains (rs_json rs) a" for a
  proof (cases "btree_get (ms_json st) a")
    case None
    then show ?thesis using part(2) by (metis domIff map_le_def)
  next
    case (Some v)
    then have "btree_get (select_addresses (rs_json rs) (ms_json st)) a = Some v"
      using that by (simp add: get_select_addresses)
    then show ?thesis using sel Some by (metis domI map_le_def)
  qed
  moreover have "btree_get (ts_blobs t) \<subseteq>\<^sub>m btree_get (ms_blobs st)"
    by (auto simp: part(3) touched_state_part(3) map_le_def split: if_splits)
  ultimately show ?thesis
    using part(2) by (simp add: reads_from_def part(3) touched_state_part(3))
qed

lemma materialize_mutation_spec:
  assumes "materialize_mutation env t m = Inr ms" and "reads_from rs t st"
    and "\<forall>a \<in> set (json_targets m). btree_contains (rs_json rs) a"
    and "\<forall>a \<in> set (blob_targets m). btree_contains (rs_blobs rs) a"
  shows "fold (spec_mutation env b) ms s = spec_mutation env (spec_of st) m s"
    and "list_all primitive ms"
    and "fst ` set (json_writes ms) \<subseteq> set (json_targets m)"
    and "fst ` set (blob_writes ms) \<subseteq> set (blob_targets m)"
  using assms
  by (cases m; auto simp: reads_from_def spec_of_def materialize_json_def result_simps
      split: option.splits sum.splits)+

lemma materialize_spec:
  assumes "list_all2 (\<lambda>m ms. materialize_mutation env t m = Inr ms) ms mss" and "reads_from rs t st"
    and "\<forall>m \<in> set ms. (\<forall>a \<in> set (json_targets m). btree_contains (rs_json rs) a) \<and>
                        (\<forall>a \<in> set (blob_targets m). btree_contains (rs_blobs rs) a)"
  shows "fold (spec_mutation env b) (concat mss) s = fold (spec_mutation env (spec_of st)) ms s
    \<and> list_all primitive (concat mss)
    \<and> (\<forall>a \<in> fst ` set (json_writes (concat mss)). btree_contains (rs_json rs) a)
    \<and> (\<forall>a \<in> fst ` set (blob_writes (concat mss)). btree_contains (rs_blobs rs) a)"
  using assms
proof (induction arbitrary: s rule: list_all2_induct)
  case (Cons m ms ns mss)
  have jt: "\<forall>a \<in> set (json_targets m). btree_contains (rs_json rs) a"
    and bl: "\<forall>a \<in> set (blob_targets m). btree_contains (rs_blobs rs) a" using Cons.prems by simp_all
  note step = materialize_mutation_spec [OF Cons.hyps(1) Cons.prems(1) jt bl]
  have "\<forall>a \<in> fst ` set (json_writes ns). btree_contains (rs_json rs) a"
    "\<forall>a \<in> fst ` set (blob_writes ns). btree_contains (rs_blobs rs) a"
    using subsetD [OF step(3)] subsetD [OF step(4)] jt bl by (meson+)
  moreover have "\<forall>m \<in> set ms. (\<forall>a \<in> set (json_targets m). btree_contains (rs_json rs) a) \<and>
                        (\<forall>a \<in> set (blob_targets m). btree_contains (rs_blobs rs) a)"
    using Cons.prems(2) by simp
  note IH = Cons.IH [OF Cons.prems(1) this]
  ultimately show ?case
    unfolding concat.simps map_append concat_append set_append image_Un ball_Un list_all_append fold_append
      fold.simps comp_apply step(1) using step(2) IH by simp
qed simp

lemma apply_primitive_spec:
  "apply_primitive m st = Inr st' \<Longrightarrow> spec_of st' = spec_mutation env b m (spec_of st)"
  by (cases m) (auto simp: spec_of_def)

lemma apply_plan_spec:
  "list_all primitive ms \<Longrightarrow>
   spec_of (fst (apply_in_memory_transaction_plan ms st)) = fold (spec_mutation env b) ms (spec_of st)"
proof (induction ms arbitrary: st)
  case (Cons m ms)
  then obtain st' where st': "apply_primitive m st = Inr st'" by (simp add: apply_primitive_Ok)
  then show ?case using Cons apply_primitive_spec [OF st'] by simp
qed simp

section \<open>Anatomy of a commit\<close>

definition commit_context :: "('v, 'a) transaction_request \<Rightarrow> 'v tx_state \<Rightarrow> 'v mem_state \<Rightarrow> 'v tx_context" where
  "commit_context req t st =
     \<lparr> cx_touched = t, cx_usage = usage_of st, cx_existing_event_ids = existing_event_ids req st \<rparr>"

text \<open>What is known of a commit that planned successfully.\<close>

definition planned ::
  "('v, 'a, 'j) tx_hooks \<Rightarrow> transaction_admission \<Rightarrow> ('v, 'a) transaction_request \<Rightarrow> 'v mem_state \<Rightarrow>
   'v tx_state \<Rightarrow> 'v engine_mutation list list \<Rightarrow> 'v apply_state \<Rightarrow> ('v, 'a) transaction_plan \<Rightarrow> bool" where
  "planned h adm req st t mss s plan \<longleftrightarrow>
     reads_from (tr_read_set req) t st \<and>
     list_all2 (\<lambda>m ms. materialize_mutation (h_store_env h) t m = Inr ms) (tr_mutations req) mss \<and>
     validate_preconditions (am_operation_capacity adm) (tr_preconditions req) (ts_json t) = Inr () \<and>
     validate_blob_preconditions (h_store_env h) (am_operation_capacity adm) (tr_blob_preconditions req) (ts_blobs t)
       = Inr () \<and>
     try_fold (apply_mutation (am_operation_capacity adm)) (concat mss) (apply_start (commit_context req t st)) = Inr s \<and>
     validate_next_image h adm req (req\<lparr>tr_mutations := concat mss\<rparr>) t s = Inr () \<and>
     check_budgets adm (commit_context req t st) s = Inr (tp_budget_report (pn_report plan)) \<and>
     ts_events t = [] \<and>
     pn_effective_request plan = req\<lparr>tr_mutations := concat mss\<rparr> \<and> pn_next_touched plan = ap_next s \<and>
     tp_transaction_id (pn_report plan) = tr_transaction_id req \<and>
     tp_changed_json (pn_report plan) = btree_len (ap_changed_json s) \<and>
     tp_changed_blobs (pn_report plan) = btree_len (ap_changed_blobs s) \<and>
     tp_event_ids (pn_report plan) = ap_event_ids s \<and> tp_appended_events (pn_report plan) = length (ap_event_ids s)"

lemma apply_transaction_Ok:
  assumes "apply_transaction h adm req context = Inr plan"
  obtains mss s where
    "list_all2 (\<lambda>m ms. materialize_mutation (h_store_env h) (cx_touched context) m = Inr ms) (tr_mutations req) mss"
    "try_fold (apply_mutation (am_operation_capacity adm)) (concat mss) (apply_start context) = Inr s"
    "pn_effective_request plan = req\<lparr>tr_mutations := concat mss\<rparr>" "pn_next_touched plan = ap_next s"
    "trim (tr_transaction_id req) \<noteq> []"
  using assms unfolding apply_transaction_def Let_def materialize_conditional_mutations_def
  by (auto simp: result_simps collect_results_Ok split: if_splits)

lemma plan_commit_Ok:
  assumes "plan_commit h adm req st = Inr plan"
  obtains t mss s where "planned h adm req st t mss s plan"
proof -
  from assms obtain t where
    ex: "expand_owner_transaction_dependencies h req (am_operation_capacity adm) (touched_state (tr_read_set req) st)
      (\<lambda>ns k n. Inr (btree_get (ms_json st) (ns, k))) = Inr t"
    and app: "apply_transaction h adm req (commit_context req t st) = Inr plan"
    unfolding plan_commit_def commit_context_def by (auto simp: result_simps)
  have ev: "ts_events t = []"
    using expand_part(4) [OF ex touched_state_part(2)] by (simp add: touched_state_def)
  from app obtain mss s where "planned h adm req st t mss s plan"
    using reads_from_expanded [OF ex] ev
    unfolding apply_transaction_def Let_def planned_def materialize_conditional_mutations_def
    by (auto simp: result_simps collect_results_Ok commit_context_def)
  then show thesis by (rule that)
qed

lemma planned_writes:
  assumes "planned h adm req st t mss s plan"
  shows "apply_in_memory_transaction_plan (tr_mutations (pn_effective_request plan)) st =
     (st\<lparr>ms_json := fold run_write (json_writes (concat mss)) (ms_json st),
         ms_blobs := fold run_write (blob_writes (concat mss)) (ms_blobs st),
         ms_events := ms_events st @ event_writes (concat mss),
         ms_event_ids := fold btset_insert (map event_id (event_writes (concat mss))) (ms_event_ids st)\<rparr>, Ok ())"
    and "ap_next s = \<lparr>ts_json = fold run_write (json_writes (concat mss)) (ts_json t),
            ts_blobs = fold run_write (blob_writes (concat mss)) (ts_blobs t), ts_events = event_writes (concat mss)\<rparr>"
    and "ap_event_ids s = map event_id (event_writes (concat mss))"
    and "list_all primitive (concat mss)"
    and "distinct (map event_id (event_writes (concat mss)))"
    and "\<forall>ev \<in> set (event_writes (concat mss)). \<not> btree_contains (existing_event_ids req st) (event_id ev)"
  using assms apply_mutations_Ok [of "am_operation_capacity adm" "concat mss" "apply_start (commit_context req t st)" s]
  by (simp_all add: planned_def apply_plan_Ok apply_start_def commit_context_def)

lemma commit_Ok:
  assumes "commit_transaction_admitted renv h inputs req adm (au, en) = ((au', en'), Inr rep)"
  obtains t mss s plan where "planned h adm req (en_state en) t mss s plan" "rep = pn_report plan"
    "en' = en\<lparr>en_state := fst (apply_in_memory_transaction_plan (concat mss) (en_state en))\<rparr>"
    "validate_inside_engine_fence renv adm (en_capacity en) (en_admission_authority en) inputs au = (au', Inr ())"
proof -
  from assms obtain plan where pl: "plan_commit h adm req (en_state en) = Inr plan"
    unfolding commit_transaction_admitted_def by (auto split: prod.splits sum.splits)
  then obtain t mss s where p: "planned h adm req (en_state en) t mss s plan" by (rule plan_commit_Ok)
  moreover have "rep = pn_report plan"
    "en' = en\<lparr>en_state := fst (apply_in_memory_transaction_plan (concat mss) (en_state en))\<rparr>"
    "validate_inside_engine_fence renv adm (en_capacity en) (en_admission_authority en) inputs au = (au', Inr ())"
    using assms pl planned_writes(1) [OF p] p
    unfolding commit_transaction_admitted_def planned_def by (auto split: prod.splits sum.splits)
  ultimately show thesis using that by blast
qed

lemma commit_Err:
  assumes "commit_transaction_admitted renv h inputs req adm (au, en) = ((au', en'), Inl e)"
  shows "en' = en"
proof (cases "plan_commit h adm req (en_state en)")
  case (Inl e)
  then show ?thesis using assms unfolding commit_transaction_admitted_def by (auto split: prod.splits sum.splits)
next
  case (Inr plan)
  then obtain t mss s where p: "planned h adm req (en_state en) t mss s plan" by (rule plan_commit_Ok)
  show ?thesis
    using assms Inr planned_writes(1) [OF p]
    unfolding commit_transaction_admitted_def by (auto split: prod.splits sum.splits)
qed

lemma commit_cases:
  assumes "commit_transaction_admitted renv h inputs req adm (au, en) = ((au', en'), r)"
  shows "en_capacity en' = en_capacity en" and "en_admission_authority en' = en_admission_authority en"
  using assms by (cases r; auto elim!: commit_Ok dest: commit_Err)+

section \<open>Functional correctness\<close>

lemma planned_covers:
  assumes "planned h adm req st t mss s plan" and "read_set_covers req"
  shows "fold (spec_mutation (h_store_env h) b) (concat mss) x =
         fold (spec_mutation (h_store_env h) (spec_of st)) (tr_mutations req) x"
    and "\<forall>a \<in> fst ` set (json_writes (concat mss)). btree_contains (rs_json (tr_read_set req)) a"
    and "\<forall>a \<in> fst ` set (blob_writes (concat mss)). btree_contains (rs_blobs (tr_read_set req)) a"
  using materialize_spec [of "h_store_env h" t "tr_mutations req" mss "tr_read_set req" st] assms
  by (auto simp: planned_def read_set_covers_def)

lemma planned_spec:
  assumes "planned h adm req st t mss s plan" and "read_set_covers req"
  shows "spec_of (fst (apply_in_memory_transaction_plan (concat mss) st)) =
         spec_transaction (h_store_env h) req (spec_of st)"
  using apply_plan_spec [OF planned_writes(4) [OF assms(1)], of st "h_store_env h" "spec_of st"]
    planned_covers(1) [OF assms, of "spec_of st" "spec_of st"]
  by (simp add: spec_transaction_def)

lemma validate_precondition_Ok:
  "validate_precondition capacity json p as = Inr as' \<longleftrightarrow>
   enforce_logical_key_budget capacity (jp_namespace p) (jp_key p) ''memory_write_transaction'' = Inr () \<and>
   \<not> btree_contains as (jp_namespace p, jp_key p) \<and> btree_get json (jp_namespace p, jp_key p) = expected_json p \<and>
   as' = btset_insert (jp_namespace p, jp_key p) as"
  by (auto simp: validate_precondition_def Let_def result_simps)

lemma validate_preconditions_sound:
  assumes "validate_preconditions capacity ps json = Inr ()" and "p \<in> set ps"
  shows "btree_get json (jp_namespace p, jp_key p) = expected_json p"
proof -
  have "try_fold (validate_precondition capacity json) ps as = Inr as' \<Longrightarrow>
        \<forall>p \<in> set ps. btree_get json (jp_namespace p, jp_key p) = expected_json p" for as as'
    by (induction ps arbitrary: as) (auto simp: result_simps validate_precondition_Ok)
  then show ?thesis using assms by (auto simp: validate_preconditions_def result_simps)
qed

lemma validate_blob_precondition_Ok:
  "validate_blob_precondition env capacity blobs p as = Inr as' \<Longrightarrow>
   map_option (blob_digest env) (btree_get blobs (bp_namespace p, bp_key p)) = expected_digest p"
  by (auto simp: validate_blob_precondition_def Let_def result_simps)

lemma validate_blob_preconditions_sound:
  assumes "validate_blob_preconditions env capacity ps blobs = Inr ()" and "p \<in> set ps"
  shows "map_option (blob_digest env) (btree_get blobs (bp_namespace p, bp_key p)) = expected_digest p"
proof -
  have "try_fold (validate_blob_precondition env capacity blobs) ps as = Inr as' \<Longrightarrow>
        \<forall>p \<in> set ps. map_option (blob_digest env) (btree_get blobs (bp_namespace p, bp_key p)) = expected_digest p"
    for as as'
    by (induction ps arbitrary: as) (auto simp: result_simps dest: validate_blob_precondition_Ok)
  then show ?thesis using assms by (auto simp: validate_blob_preconditions_def result_simps)
qed

lemma planned_preconditions:
  assumes "planned h adm req st t mss s plan" and "read_set_covers req"
  shows "\<forall>p \<in> set (tr_preconditions req). btree_get (ms_json st) (jp_namespace p, jp_key p) = expected_json p"
    and "\<forall>p \<in> set (tr_blob_preconditions req).
           map_option (blob_digest (h_store_env h)) (btree_get (ms_blobs st) (bp_namespace p, bp_key p)) = expected_digest p"
  using assms validate_preconditions_sound validate_blob_preconditions_sound
  unfolding planned_def read_set_covers_def reads_from_def by metis+

end
