(* ===== verification/Store_Invariants.thy ===== *)
theory Store_Invariants
  imports Store_Refinement
begin

text \<open>
  Invariants of the store under commits: the capacity of the engine, the event identities,
  the protected namespaces. The counts a transaction computes from its read set are the
  counts of the whole store after the writes, as long as no count reaches the largest
  \<open>usize\<close>.
\<close>

section \<open>Capacity\<close>

definition bounded_capacity :: "store_capacity_budget \<Rightarrow> bool" where
  "bounded_capacity c \<longleftrightarrow>
     cap_kv_max_entries c < usize_max \<and> cap_blob_max_bytes c < usize_max \<and> cap_event_log_max_items c < usize_max"

definition within_capacity :: "store_capacity_budget \<Rightarrow> 'v mem_state \<Rightarrow> bool" where
  "within_capacity c st \<longleftrightarrow>
     btree_len (ms_json st) + btree_len (ms_blobs st) \<le> cap_kv_max_entries c \<and>
     blob_bytes_of (ms_blobs st) \<le> cap_blob_max_bytes c \<and>
     length (ms_events st) \<le> cap_event_log_max_items c"

definition event_ids_inv :: "'v mem_state \<Rightarrow> bool" where
  "event_ids_inv st \<longleftrightarrow>
     distinct (map event_id (ms_events st)) \<and>
     (\<forall>i. btree_contains (ms_event_ids st) i \<longleftrightarrow> i \<in> set (map event_id (ms_events st)))"

definition engine_inv :: "'v mem_engine \<Rightarrow> bool" where
  "engine_inv en \<longleftrightarrow> within_capacity (en_capacity en) (en_state en) \<and> event_ids_inv (en_state en)"

lemma blob_bytes_weight: "blob_bytes_of m = sum_list (map (\<lambda>e. length (snd e)) (entries m))"
  by (simp add: blob_bytes_of_def btree_values_def comp_def)

lemma reads_from_covered:
  assumes "reads_from rs t st"
  shows "\<forall>a \<in> A. btree_contains (rs_json rs) a \<Longrightarrow> A \<inter> dom (btree_get (ms_json st)) \<subseteq> dom (btree_get (ts_json t))"
    and "\<forall>a \<in> A. btree_contains (rs_blobs rs) a \<Longrightarrow> A \<inter> dom (btree_get (ms_blobs st)) \<subseteq> dom (btree_get (ts_blobs t))"
  using assms by (auto simp: reads_from_def)

text \<open>The sizes of the store after the writes, from the sizes of the read set.\<close>

lemma planned_sizes:
  assumes p: "planned h adm req st t mss s plan" and c: "read_set_covers req"
  defines "st' \<equiv> fst (apply_in_memory_transaction_plan (concat mss) st)"
  shows "btree_len (ms_json st') = btree_len (ms_json st) - btree_len (ts_json t) + btree_len (ts_json (ap_next s))"
    and "btree_len (ms_blobs st') = btree_len (ms_blobs st) - btree_len (ts_blobs t) + btree_len (ts_blobs (ap_next s))"
    and "blob_bytes_of (ms_blobs st') =
         blob_bytes_of (ms_blobs st) - blob_bytes_of (ts_blobs t) + blob_bytes_of (ts_blobs (ap_next s))"
    and "length (ms_events st') = length (ms_events st) + length (ap_event_ids s)"
    and "btree_len (ts_json t) \<le> btree_len (ms_json st)" "btree_len (ts_blobs t) \<le> btree_len (ms_blobs st)"
    and "blob_bytes_of (ts_blobs t) \<le> blob_bytes_of (ms_blobs st)"
proof -
  note w = planned_writes [OF p] and covered = planned_covers [OF p c]
  have r: "reads_from (tr_read_set req) t st" using p by (simp add: planned_def)
  then have sub: "btree_get (ts_json t) \<subseteq>\<^sub>m btree_get (ms_json st)" "btree_get (ts_blobs t) \<subseteq>\<^sub>m btree_get (ms_blobs st)"
    by (simp_all add: reads_from_def)
  have st': "st' = st\<lparr>ms_json := fold run_write (json_writes (concat mss)) (ms_json st),
         ms_blobs := fold run_write (blob_writes (concat mss)) (ms_blobs st),
         ms_events := ms_events st @ event_writes (concat mss),
         ms_event_ids := fold btset_insert (map event_id (event_writes (concat mss))) (ms_event_ids st)\<rparr>"
    unfolding st'_def by (simp add: apply_plan_Ok w(4))
  note writes = writes_sum [OF sub(1) reads_from_covered(1) [OF r covered(2)]]
    writes_sum [OF sub(2) reads_from_covered(2) [OF r covered(3)]]
  show "btree_len (ms_json st') = btree_len (ms_json st) - btree_len (ts_json t) + btree_len (ts_json (ap_next s))"
    "btree_len (ms_blobs st') = btree_len (ms_blobs st) - btree_len (ts_blobs t) + btree_len (ts_blobs (ap_next s))"
    "blob_bytes_of (ms_blobs st') =
         blob_bytes_of (ms_blobs st) - blob_bytes_of (ts_blobs t) + blob_bytes_of (ts_blobs (ap_next s))"
    using writes by (simp_all add: st' w(2) len_weight blob_bytes_weight)
  show "length (ms_events st') = length (ms_events st) + length (ap_event_ids s)"
    by (simp add: st' w(3))
  show "btree_len (ts_json t) \<le> btree_len (ms_json st)" "btree_len (ts_blobs t) \<le> btree_len (ms_blobs st)"
    "blob_bytes_of (ts_blobs t) \<le> blob_bytes_of (ms_blobs st)"
    unfolding len_weight blob_bytes_weight by (rule writes_weight_le [OF sub(1)] writes_weight_le [OF sub(2)])+
qed

lemma saturating_add_unclipped: "saturating_add a b \<le> c \<Longrightarrow> c < usize_max \<Longrightarrow> saturating_add a b = a + b"
  by (simp add: arith_defs)

lemma planned_budgets:
  assumes "planned h adm req st t mss s plan"
  defines "kv \<equiv> saturating_add (saturating_sub (us_kv_entries (usage_of st)) (touched_entries t)) (touched_entries (ap_next s))"
    and "bb \<equiv> saturating_add (saturating_sub (blob_bytes_of (ms_blobs st)) (blob_bytes_of (ts_blobs t)))
              (blob_bytes_of (ts_blobs (ap_next s)))"
    and "ev \<equiv> saturating_add (length (ms_events st)) (length (ap_event_ids s))"
  shows "kv \<le> cap_kv_max_entries (am_operation_capacity adm)" "bb \<le> cap_blob_max_bytes (am_operation_capacity adm)"
    and "ev \<le> cap_event_log_max_items (am_operation_capacity adm)"
    and "tp_budget_report (pn_report plan) = backend_budget_report adm (usage_of st) kv bb ev"
  using assms
  by (auto simp: planned_def check_budgets_def Let_def commit_context_def usage_of_def result_simps)

lemma planned_within_capacity:
  assumes p: "planned h adm req st t mss s plan" and c: "read_set_covers req"
    and cap: "bounded_capacity (am_operation_capacity adm)"
    and small: "btree_len (ms_json st) + btree_len (ms_blobs st) \<le> usize_max"
  shows "within_capacity (am_operation_capacity adm) (fst (apply_in_memory_transaction_plan (concat mss) st))"
proof -
  note sizes = planned_sizes [OF p c]
  note b = planned_budgets(1-3) [OF p]
  show ?thesis
    unfolding within_capacity_def sizes(1-4)
    using b sizes(5-7) small cap
    by (auto simp: bounded_capacity_def arith_defs usage_of_def touched_entries_def min_def split: if_splits)
qed

section \<open>Event identities\<close>

lemma materialize_mutation_event:
  "materialize_mutation env t m = Inr ms \<Longrightarrow> ev \<in> set (event_writes ms) \<Longrightarrow> mutation_event_id m = Some (event_id ev)"
  by (cases m) (auto simp: materialize_json_def materialize_bytes_def store_event_new_def result_simps
      split: option.splits sum.splits)

lemma materialized_event:
  assumes "list_all2 (\<lambda>m ms. materialize_mutation env t m = Inr ms) ms mss" and "ev \<in> set (event_writes (concat mss))"
  shows "event_id ev \<in> set (List.map_filter mutation_event_id ms)"
  using assms
proof (induction rule: list_all2_induct)
  case (Cons m ms ns mss)
  then consider "ev \<in> set (event_writes ns)" | "ev \<in> set (event_writes (concat mss))" by auto
  then show ?case
  proof cases
    case 1
    then show ?thesis using materialize_mutation_event [OF Cons.hyps(1)] by (simp add: List.map_filter_simps)
  next
    case 2
    then show ?thesis using Cons.IH by (simp add: List.map_filter_simps split: option.splits)
  qed
qed simp

lemma planned_event_ids:
  assumes p: "planned h adm req st t mss s plan" and inv: "event_ids_inv st"
  shows "event_ids_inv (fst (apply_in_memory_transaction_plan (concat mss) st))"
proof -
  note w = planned_writes [OF p]
  let ?new = "event_writes (concat mss)"
  have fresh: "event_id ev \<notin> event_id ` set (ms_events st)" if "ev \<in> set ?new" for ev
  proof
    assume "event_id ev \<in> event_id ` set (ms_events st)"
    then have "btree_contains (ms_event_ids st) (event_id ev)" using inv by (simp add: event_ids_inv_def)
    moreover have "event_id ev \<in> set (List.map_filter mutation_event_id (tr_mutations req))"
      using p that unfolding planned_def by (blast intro: materialized_event)
    ultimately have "btree_contains (existing_event_ids req st) (event_id ev)"
      by (simp add: existing_event_ids_def)
    then show False using w(6) that by blast
  qed
  show ?thesis
    using inv w(5) fresh by (auto simp: event_ids_inv_def apply_plan_Ok [OF w(4)] dest: sym)
qed

section \<open>The image a transaction validated is the image of the store\<close>

lemma planned_image:
  assumes p: "planned h adm req st t mss s plan" and c: "read_set_covers req"
  defines "st' \<equiv> fst (apply_in_memory_transaction_plan (concat mss) st)"
  shows "btree_contains (rs_json (tr_read_set req)) a \<Longrightarrow> btree_get (ts_json t) a = btree_get (ms_json st) a"
    and "btree_contains (rs_json (tr_read_set req)) a \<Longrightarrow> btree_get (ts_json (ap_next s)) a = btree_get (ms_json st') a"
    and "btree_get (ts_json t) a = Some v \<Longrightarrow> btree_get (ms_json st') a = btree_get (ts_json (ap_next s)) a"
    and "\<not> btree_contains (rs_json (tr_read_set req)) a \<Longrightarrow> btree_get (ms_json st') a = btree_get (ms_json st) a"
    and "btree_get (ms_json st') a \<noteq> btree_get (ms_json st) a \<Longrightarrow> a \<in> fst ` set (json_writes (concat mss))"
proof -
  note w = planned_writes [OF p] and covered = planned_covers [OF p c]
  have r: "reads_from (tr_read_set req) t st" using p by (simp add: planned_def)
  have st': "ms_json st' = fold run_write (json_writes (concat mss)) (ms_json st)"
    by (simp add: st'_def apply_plan_Ok [OF w(4)])
  have nx: "ts_json (ap_next s) = fold run_write (json_writes (concat mss)) (ts_json t)" by (simp add: w(2))
  have agree: "btree_get (ts_json t) a = btree_get (ms_json st) a \<Longrightarrow>
      btree_get (ts_json (ap_next s)) a = btree_get (ms_json st') a"
    by (simp add: st' nx get_run_writes split: option.split)
  show read: "btree_get (ts_json t) a = btree_get (ms_json st) a" if "btree_contains (rs_json (tr_read_set req)) a"
    using r that unfolding reads_from_def by blast
  show "btree_get (ts_json (ap_next s)) a = btree_get (ms_json st') a" if "btree_contains (rs_json (tr_read_set req)) a"
    using agree read that by blast
  show "btree_get (ms_json st') a = btree_get (ts_json (ap_next s)) a" if "btree_get (ts_json t) a = Some v"
    using agree r that unfolding reads_from_def map_le_def by (metis domI)
  show written: "a \<in> fst ` set (json_writes (concat mss))" if "btree_get (ms_json st') a \<noteq> btree_get (ms_json st) a"
    using that get_unwritten [of a] unfolding st' by blast
  show "btree_get (ms_json st') a = btree_get (ms_json st) a" if "\<not> btree_contains (rs_json (tr_read_set req)) a"
    using written covered(2) that by blast
qed

section \<open>Protected namespaces\<close>

lemma planned_checks:
  assumes "planned h adm req st t mss s plan"
  shows "check_selection_authority req (concat mss) t (ap_next s) = Inr ()"
    and "check_ledgers h req t (ap_next s) = Inr ()"
    and "check_method_closure (req\<lparr>tr_mutations := concat mss\<rparr>) = Inr ()"
  using assms by (auto simp: planned_def validate_next_image_def result_simps)

lemma selection_authority_kept:
  assumes "check_selection_authority req ms t nx = Inr ()" and "fst a = SELECTION_NAMESPACE"
    and "btree_get (ts_json t) a = Some v"
  shows "btree_get (ts_json nx) a = Some v"
proof -
  have "btree_contains (ts_json nx) a"
    using assms
    by (cases a) (auto simp: check_selection_authority_def result_simps list_ex_iff set_keys dom_def,
        (metis option.distinct(1))+)
  then obtain w where w: "btree_get (ts_json nx) a = Some w" by (auto simp: btree_contains_def)
  then have "check_selection_entry req t (a, w) = Inr ()"
    using assms(1) by (cases a) (auto simp: check_selection_authority_def result_simps set_entries)
  then show ?thesis
    using assms(2,3) w by (auto simp: check_selection_entry_def btree_contains_def split: if_splits)
qed

lemma selection_authority_created:
  assumes "check_selection_authority req ms t nx = Inr ()" and "fst a = SELECTION_NAMESPACE"
    and "btree_get (ts_json t) a = None" and "btree_get (ts_json nx) a = Some w"
  shows "tr_procedural_authority_initialization req" and "Absent (fst a) (snd a) \<in> set (tr_preconditions req)"
proof -
  have "check_selection_entry req t (a, w) = Inr ()"
    using assms by (cases a) (auto simp: check_selection_authority_def result_simps set_entries)
  then show "tr_procedural_authority_initialization req" "Absent (fst a) (snd a) \<in> set (tr_preconditions req)"
    using assms(2,3) by (auto simp: check_selection_entry_def requires_absent_def split: if_splits)
qed

lemma ledger_kept:
  assumes "check_ledgers h req t nx = Inr ()" and "fst a = APPLICATION_LEDGER_NAMESPACE"
    and "btree_get (ts_json t) a = Some v"
  shows "btree_get (ts_json nx) a = Some v"
proof -
  have "check_ledger_kept nx (a, v) = Inr ()"
    using assms by (cases a) (auto simp: check_ledgers_def result_simps set_entries)
  then show ?thesis using assms(2) by (auto simp: check_ledger_kept_def split: if_splits)
qed

lemma new_ledger_Ok:
  assumes "check_new_ledger h req t nx (a, v) = Inr ()"
  obtains ledger root_key root_value root where
    "Absent (fst a) (snd a) \<in> set (tr_preconditions req)" "h_decode_ledger h v = Some ledger"
    "lv_root_key ledger = Inr root_key"
    "btree_get (ts_json t) (PROCEDURAL_SUBJECT_VALIDITY_NAMESPACE, root_key) = Some root_value"
    "btree_get (ts_json nx) (PROCEDURAL_SUBJECT_VALIDITY_NAMESPACE, root_key) = Some root_value"
    "h_decode_root h root_value = Some root" "rv_permits_learning_reads root = Inr True"
    "lv_validity_epoch ledger = rv_validity_epoch root"
    "Exact PROCEDURAL_SUBJECT_VALIDITY_NAMESPACE root_key root_value \<in> set (tr_preconditions req)"
  using assms
  by (auto simp: check_new_ledger_def Let_def result_simps requires_absent_def requires_exact_def split: if_splits)

lemma ledger_created:
  assumes "check_ledgers h req t nx = Inr ()" and "fst a = APPLICATION_LEDGER_NAMESPACE"
    and "btree_get (ts_json t) a = None" and "btree_get (ts_json nx) a = Some v"
  shows "check_new_ledger h req t nx (a, v) = Inr ()"
  using assms by (cases a) (auto simp: check_ledgers_def result_simps set_entries btree_contains_def)

text \<open>Method owners: the writes of the transaction are the ones its governed batch declares.\<close>

lemma actual_method_writes:
  "list_all primitive ms \<Longrightarrow> is_method_namespace (fst a) \<Longrightarrow>
   map_of (List.map_filter actual_method ms) a = map_of (json_writes ms) a"
proof (induction ms)
  case (Cons m ms)
  then show ?case by (cases m) (auto simp: List.map_filter_simps)
qed (simp add: List.map_filter_simps)

lemma rev_json_writes: "rev (json_writes ms) = json_writes (rev ms)"
proof (induction ms)
  case (Cons m ms)
  have "rev (json_write m) = json_write m" by (cases m) auto
  then show ?case using Cons by simp
qed simp

lemma get_actual_methods:
  assumes "list_all primitive (tr_mutations req)" and "is_method_namespace (fst a)"
  shows "btree_get (actual_methods req) a = map_of (rev (json_writes (tr_mutations req))) a"
  using actual_method_writes [of "rev (tr_mutations req)" a] assms
  by (simp add: actual_methods_def get_of_list map_filter_rev rev_json_writes)

lemma planned_method_writes:
  assumes p: "planned h adm req st t mss s plan"
    and a: "is_method_namespace (fst a)" "a \<in> fst ` set (json_writes (concat mss))"
  shows "\<exists>batch. tr_governed_batch req = Some batch \<and> ba_transaction_id batch = tr_transaction_id req
    \<and> btree_get (declared_methods req) a =
       Some (btree_get (ms_json (fst (apply_in_memory_transaction_plan (concat mss) st))) a)"
proof -
  let ?eff = "req\<lparr>tr_mutations := concat mss\<rparr>"
  note w = planned_writes [OF p]
  obtain ov where ov: "map_of (rev (json_writes (concat mss))) a = Some ov"
    using a(2) by (metis map_of_eq_None_iff not_None_eq set_rev)
  have act: "btree_get (actual_methods ?eff) a = Some ov"
    using get_actual_methods [of ?eff a] w(4) a(1) ov by simp
  then have "btree_len (actual_methods ?eff) \<noteq> 0" by (metis card_0_eq domI empty_iff finite_dom_get len_card)
  then have "actual_methods ?eff = declared_methods ?eff"
    and batch: "\<exists>batch. tr_governed_batch req = Some batch \<and> ba_transaction_id batch = tr_transaction_id req"
    using planned_checks(3) [OF p] by (auto simp: check_method_closure_def Let_def split: if_splits option.splits)
  then have "btree_get (declared_methods req) a = Some ov"
    using act by (simp add: declared_methods_def)
  moreover have "btree_get (ms_json (fst (apply_in_memory_transaction_plan (concat mss) st))) a = ov"
    using ov by (simp add: apply_plan_Ok [OF w(4)] get_run_writes)
  ultimately show ?thesis using batch by simp
qed

section \<open>The report\<close>

lemma planned_budget_report:
  assumes p: "planned h adm req st t mss s plan" and c: "read_set_covers req"
    and cap: "bounded_capacity (am_operation_capacity adm)"
    and small: "btree_len (ms_json st) + btree_len (ms_blobs st) \<le> usize_max"
  defines "st' \<equiv> fst (apply_in_memory_transaction_plan (concat mss) st)"
  shows "br_remaining_kv_entries (tp_budget_report (pn_report plan)) =
           cap_kv_max_entries (am_operation_capacity adm) - (btree_len (ms_json st') + btree_len (ms_blobs st'))"
    and "br_remaining_blob_bytes (tp_budget_report (pn_report plan)) =
           cap_blob_max_bytes (am_operation_capacity adm) - blob_bytes_of (ms_blobs st')"
    and "br_remaining_events (tp_budget_report (pn_report plan)) =
           cap_event_log_max_items (am_operation_capacity adm) - length (ms_events st')"
proof -
  note sizes = planned_sizes [OF p c]
  note b = planned_budgets [OF p]
  show "br_remaining_kv_entries (tp_budget_report (pn_report plan)) =
           cap_kv_max_entries (am_operation_capacity adm) - (btree_len (ms_json st') + btree_len (ms_blobs st'))"
    using b(1) sizes(5,6) small cap unfolding b(4) st'_def sizes(1,2)
    by (auto simp: backend_budget_report_def Let_def bounded_capacity_def arith_defs usage_of_def touched_entries_def min_def
        split: if_splits)
  show "br_remaining_blob_bytes (tp_budget_report (pn_report plan)) =
           cap_blob_max_bytes (am_operation_capacity adm) - blob_bytes_of (ms_blobs st')"
    "br_remaining_events (tp_budget_report (pn_report plan)) =
           cap_event_log_max_items (am_operation_capacity adm) - length (ms_events st')"
    using b(2,3) sizes(7) cap unfolding b(4) st'_def sizes(3,4)
    by (auto simp: backend_budget_report_def Let_def bounded_capacity_def arith_defs usage_of_def min_def split: if_splits)
qed

end
