(* ===== verification/Store_Closure.thy ===== *)
theory Store_Closure
  imports Store_Refinement
begin

text \<open>
  The read set a transaction works on is closed: whatever a value that was read, or a value
  the transaction proposes, depends on has been read as well, so that the validators see
  the store and not a hole. The work list ends because the visited set is bounded by the
  entry limit of the admission.
\<close>

section \<open>Dependencies of a document\<close>

definition dependency_addresses :: "('v, 'a, 'j) tx_hooks \<Rightarrow> string \<Rightarrow> 'v \<Rightarrow> address set" where
  "dependency_addresses h namespace v =
     (case h_long_term_dependencies h namespace v of Inl _ \<Rightarrow> {} | Inr as \<Rightarrow> set as)
     \<union> set (fst (h_soul_dependencies h namespace v))
     \<union> (case h_procedural_dependencies h namespace v of Inl _ \<Rightarrow> {} | Inr as \<Rightarrow> set as)"

lemma emit_address_Ok:
  "emit_address capacity visited a pending = Inr pending' \<Longrightarrow>
   dom (btree_get visited) \<union> dom (btree_get pending') = insert a (dom (btree_get visited) \<union> dom (btree_get pending))
   \<and> dom (btree_get pending) \<subseteq> dom (btree_get pending')"
  by (auto simp: emit_address_def result_simps contains_dom split: if_splits)

lemma emit_addresses_Ok:
  "try_fold (emit_address capacity visited) as pending = Inr pending' \<Longrightarrow>
   dom (btree_get visited) \<union> dom (btree_get pending') = set as \<union> (dom (btree_get visited) \<union> dom (btree_get pending))"
proof (induction as arbitrary: pending)
  case (Cons a as)
  then obtain p where p: "emit_address capacity visited a pending = Inr p"
    "try_fold (emit_address capacity visited) as p = Inr pending'" by (auto simp: result_simps)
  show ?case using Cons.IH [OF p(2)] emit_address_Ok [OF p(1)] by auto
qed simp

lemma enqueue_dependencies_Ok:
  assumes "enqueue_dependencies h capacity visited namespace v pending = Inr pending'"
  shows "dom (btree_get visited) \<union> dom (btree_get pending') =
     dependency_addresses h namespace v \<union> (dom (btree_get visited) \<union> dom (btree_get pending))"
proof -
  obtain emitted res where soul: "h_soul_dependencies h namespace v = (emitted, res)" by force
  from assms soul obtain as1 as3 p1 p2 where
    "h_long_term_dependencies h namespace v = Inr as1" "h_procedural_dependencies h namespace v = Inr as3"
    and fold: "try_fold (emit_address capacity visited) as1 pending = Inr p1"
      "try_fold (emit_address capacity visited) emitted p1 = Inr p2"
      "try_fold (emit_address capacity visited) as3 p2 = Inr pending'"
    by (auto simp: enqueue_dependencies_def result_simps)
  then show ?thesis
    using emit_addresses_Ok [OF fold(1)] emit_addresses_Ok [OF fold(2)] emit_addresses_Ok [OF fold(3)] soul
    by (simp add: dependency_addresses_def ac_simps)
qed

lemma pop_first_None: "pop_first pending = None \<longleftrightarrow> dom (btree_get pending) = {}"
  by (simp add: pop_first.simps btree_get_def dom_map_of_conv_image_fst split: list.splits prod.splits)

lemma pop_first_Some:
  assumes "pop_first pending = Some (a, pending')"
  shows "a \<in> dom (btree_get pending) \<and> dom (btree_get pending') = dom (btree_get pending) - {a}"
proof -
  from assms obtain es where es: "entries pending = (a, ()) # es" and p': "pending' = btree_remove a pending"
    by (auto simp: pop_first.simps split: list.splits prod.splits)
  have "btree_get pending a = Some ()" using es by (simp add: btree_get_def)
  then show ?thesis by (simp add: p' domI)
qed

section \<open>The work list\<close>

definition closure_inv ::
  "('v, 'a, 'j) tx_hooks \<Rightarrow> (address, 'v) btree \<Rightarrow> address set \<Rightarrow> address btset \<Rightarrow> address btset \<Rightarrow>
   (address, 'v) btree \<Rightarrow> bool" where
  "closure_inv h m seeds visited pending json \<longleftrightarrow>
     btree_get json \<subseteq>\<^sub>m btree_get m \<and>
     (\<forall>d \<in> dom (btree_get visited). btree_get json d = btree_get m d) \<and>
     seeds \<subseteq> dom (btree_get visited) \<union> dom (btree_get pending) \<and>
     (\<forall>a v. btree_get json a = Some v \<longrightarrow>
        dependency_addresses h (fst a) v \<subseteq> dom (btree_get visited) \<union> dom (btree_get pending))"

lemma closure_inv_found:
  assumes inv: "closure_inv h m seeds visited pending json" and v: "btree_get m a = Some v"
    and union: "insert a (dom (btree_get visited)) \<union> dom (btree_get pending'') =
      dependency_addresses h (fst a) v \<union> (dom (btree_get visited) \<union> dom (btree_get pending))"
  shows "closure_inv h m seeds (btset_insert a visited) pending'' (btree_insert a v json)"
proof -
  have deps: "dependency_addresses h (fst a') v' \<subseteq> insert a (dom (btree_get visited)) \<union> dom (btree_get pending'')"
    if "btree_get (btree_insert a v json) a' = Some v'" for a' v'
  proof (cases "a' = a")
    case True
    then show ?thesis unfolding union using that by auto
  next
    case False
    then have "btree_get json a' = Some v'" using that by simp
    then show ?thesis unfolding union using inv unfolding closure_inv_def by blast
  qed
  show ?thesis
    unfolding closure_inv_def
  proof (intro conjI allI impI)
    have dv: "dom (btree_get (btset_insert a visited)) = insert a (dom (btree_get visited))" by simp
    show "btree_get (btree_insert a v json) \<subseteq>\<^sub>m btree_get m"
      "\<forall>d \<in> dom (btree_get (btset_insert a visited)). btree_get (btree_insert a v json) d = btree_get m d"
      using inv v by (auto simp: closure_inv_def map_le_def)
    show "seeds \<subseteq> dom (btree_get (btset_insert a visited)) \<union> dom (btree_get pending'')"
      unfolding dv union using inv by (auto simp: closure_inv_def)
    show "dependency_addresses h (fst a') v' \<subseteq> dom (btree_get (btset_insert a visited)) \<union> dom (btree_get pending'')"
      if "btree_get (btree_insert a v json) a' = Some v'" for a' v'
      unfolding dv by (rule deps [OF that])
  qed
qed

lemma dependency_loop_closed:
  assumes "dependency_loop h capacity (\<lambda>ns k n. Inr (btree_get m (ns, k))) visited pending b json = Inr json'"
    and "closure_inv h m seeds visited pending json"
  shows "(\<forall>d \<in> seeds. btree_get json' d = btree_get m d) \<and>
     (\<forall>a v. btree_get json' a = Some v \<longrightarrow> (\<forall>d \<in> dependency_addresses h (fst a) v. btree_get json' d = btree_get m d))"
  using assms
proof (induction rule: dependency_loop_induct)
  case (stop visited pending b json)
  then show ?case unfolding closure_inv_def pop_first_None by blast
next
  case (skip visited pending b json json' a pending')
  have "dom (btree_get visited) \<union> dom (btree_get pending') = dom (btree_get visited) \<union> dom (btree_get pending)"
    using pop_first_Some [OF skip.hyps(1)] skip.hyps(2) by (auto simp: contains_dom)
  then show ?case using skip.prems by (intro skip.IH) (simp add: closure_inv_def)
next
  case (missing visited pending b json json' a pending')
  have "insert a (dom (btree_get visited)) \<union> dom (btree_get pending') = dom (btree_get visited) \<union> dom (btree_get pending)"
    using pop_first_Some [OF missing.hyps(1)] by auto
  moreover have "btree_get json a = btree_get m a"
    using missing.prems missing.hyps(3) unfolding closure_inv_def map_le_def by (metis domIff prod.collapse sum.inject(2))
  ultimately show ?case using missing.prems by (intro missing.IH) (auto simp: closure_inv_def)
next
  case (found visited pending b json json' a pending' v b' pending'')
  have v: "btree_get m a = Some v" using found.hyps(3) by simp
  have union: "insert a (dom (btree_get visited)) \<union> dom (btree_get pending'') =
      dependency_addresses h (fst a) v \<union> (dom (btree_get visited) \<union> dom (btree_get pending))"
    using enqueue_dependencies_Ok [OF found.hyps(4)] pop_first_Some [OF found.hyps(1)] by auto
  have "closure_inv h m seeds (btset_insert a visited) pending'' (btree_insert a v json)"
    using found.prems v union by (rule closure_inv_found)
  then show ?case by (rule found.IH)
qed

lemma enqueue_all_Ok:
  "try_fold (\<lambda>((namespace, _), v). enqueue_dependencies h capacity visited namespace v) es pending = Inr pending' \<Longrightarrow>
   dom (btree_get visited) \<union> dom (btree_get pending') =
     (\<Union>((namespace, _), v) \<in> set es. dependency_addresses h namespace v) \<union> (dom (btree_get visited) \<union> dom (btree_get pending))"
proof (induction es arbitrary: pending)
  case (Cons e es)
  obtain ns k v where e: "e = ((ns, k), v)" by (metis prod.exhaust)
  with Cons.prems obtain p where p: "enqueue_dependencies h capacity visited ns v pending = Inr p"
    "try_fold (\<lambda>((namespace, _), v). enqueue_dependencies h capacity visited namespace v) es p = Inr pending'"
    by (auto simp: result_simps)
  show ?case using Cons.IH [OF p(2)] enqueue_dependencies_Ok [OF p(1)] e by auto
qed simp

fun proposed_dependencies :: "('v, 'a, 'j) tx_hooks \<Rightarrow> 'v engine_mutation \<Rightarrow> address set" where
  "proposed_dependencies h (PutJson namespace _ v) = dependency_addresses h namespace v"
| "proposed_dependencies h _ = {}"

lemma enqueue_proposed_Ok:
  "try_fold (\<lambda>m p. case m of PutJson namespace _ v \<Rightarrow> enqueue_dependencies h capacity visited namespace v p
                  | _ \<Rightarrow> Inr p) ms pending = Inr pending' \<Longrightarrow>
   dom (btree_get visited) \<union> dom (btree_get pending') =
     (\<Union>m \<in> set ms. proposed_dependencies h m) \<union> (dom (btree_get visited) \<union> dom (btree_get pending))"
proof (induction ms arbitrary: pending)
  case (Cons m ms)
  from Cons.prems obtain p where p: "(case m of PutJson namespace _ v \<Rightarrow>
      enqueue_dependencies h capacity visited namespace v pending | _ \<Rightarrow> Inr pending) = Inr p"
    and rest: "try_fold (\<lambda>m p. case m of PutJson namespace _ v \<Rightarrow> enqueue_dependencies h capacity visited namespace v p
                  | _ \<Rightarrow> Inr p) ms p = Inr pending'"
    by (auto simp: result_simps)
  have "dom (btree_get visited) \<union> dom (btree_get p) =
      proposed_dependencies h m \<union> (dom (btree_get visited) \<union> dom (btree_get pending))"
    using p enqueue_dependencies_Ok by (cases m) fastforce+
  then show ?case using Cons.IH [OF rest] by auto
qed simp

section \<open>The closed read set\<close>

lemma expand_closed:
  assumes "expand_owner_transaction_dependencies h req capacity (touched_state (tr_read_set req) st)
      (\<lambda>ns k n. Inr (btree_get (ms_json st) (ns, k))) = Inr t"
  shows "(\<forall>m \<in> set (tr_mutations req). \<forall>d \<in> proposed_dependencies h m. btree_get (ts_json t) d = btree_get (ms_json st) d) \<and>
     (\<forall>a v. btree_get (ts_json t) a = Some v \<longrightarrow>
        (\<forall>d \<in> dependency_addresses h (fst a) v. btree_get (ts_json t) d = btree_get (ms_json st) d))"
proof -
  let ?t = "touched_state (tr_read_set req) st"
  let ?visited = "fold btset_insert (btree_keys (ts_json ?t)) (rs_json (tr_read_set req))"
  from assms obtain b p0 p1 json where
    p0: "try_fold (\<lambda>((ns, _), v). enqueue_dependencies h capacity ?visited ns v) (entries (ts_json ?t)) btree_empty = Inr p0"
    and p1: "try_fold (\<lambda>m p. case m of PutJson ns _ v \<Rightarrow> enqueue_dependencies h capacity ?visited ns v p | _ \<Rightarrow> Inr p)
        (tr_mutations req) p0 = Inr p1"
    and loop: "dependency_loop h capacity (\<lambda>ns k n. Inr (btree_get (ms_json st) (ns, k))) ?visited p1 b (ts_json ?t) = Inr json"
    and t: "t = ?t\<lparr>ts_json := json\<rparr>"
    unfolding expand_owner_transaction_dependencies_def Let_def by (auto simp: result_simps)
  have part: "btree_get (ts_json ?t) \<subseteq>\<^sub>m btree_get (ms_json st)" by (rule touched_state_part(2))
  have sel: "btree_get (select_addresses (rs_json (tr_read_set req)) (ms_json st)) \<subseteq>\<^sub>m btree_get (ts_json ?t)"
    by (rule touched_state_part(1))
  have "btree_get (ts_json ?t) d = btree_get (ms_json st) d" if "d \<in> dom (btree_get ?visited)" for d
    using that part sel unfolding dom_fold_btset_insert set_keys map_le_def
    by (metis UnE contains_dom domIff get_select_addresses)
  moreover have "(\<Union>m \<in> set (tr_mutations req). proposed_dependencies h m) \<subseteq> dom (btree_get ?visited) \<union> dom (btree_get p1)"
    using enqueue_proposed_Ok [OF p1] by blast
  moreover have "dependency_addresses h (fst a) v \<subseteq> dom (btree_get ?visited) \<union> dom (btree_get p1)"
    if "btree_get (ts_json ?t) a = Some v" for a v
  proof -
    have "(a, v) \<in> set (entries (ts_json ?t))" using that by (simp add: set_entries)
    then have "dependency_addresses h (fst a) v \<subseteq> dom (btree_get ?visited) \<union> dom (btree_get p0)"
      unfolding enqueue_all_Ok [OF p0] by (cases a) force
    then show ?thesis using enqueue_proposed_Ok [OF p1] by blast
  qed
  ultimately have "closure_inv h (ms_json st) (\<Union>m \<in> set (tr_mutations req). proposed_dependencies h m) ?visited p1 (ts_json ?t)"
    using part unfolding closure_inv_def by blast
  from dependency_loop_closed [OF loop this] show ?thesis unfolding t by fastforce
qed

end
