(* ===== verification/Store_Guarantees.thy ===== *)
theory Store_Guarantees
  imports Store_Invariants Store_Closure "HOL-Library.Code_Target_Nat"
begin

text \<open>
  What the in-memory store promises to its callers: a failing commit changes nothing, a
  successful one is the abstract transaction, preconditions are compare-and-swap on the
  whole store, capacities and event identities are invariants, protected entries stay, and
  a whole history of commits is the history of those that succeeded.
\<close>

section \<open>The contract of a transactional store\<close>

text \<open>Running a list of transactions, and the ones among them that succeed.\<close>

primrec run_history :: "('t \<Rightarrow> 's \<Rightarrow> 's \<times> 'r result) \<Rightarrow> 't list \<Rightarrow> 's \<Rightarrow> 's" where
  "run_history run [] s = s"
| "run_history run (t # ts) s = run_history run ts (fst (run t s))"

primrec committed :: "('t \<Rightarrow> 's \<Rightarrow> 's \<times> 'r result) \<Rightarrow> 't list \<Rightarrow> 's \<Rightarrow> 't list" where
  "committed run [] s = []"
| "committed run (t # ts) s =
     (case snd (run t s) of Inl _ \<Rightarrow> committed run ts (fst (run t s)) | Inr _ \<Rightarrow> t # committed run ts (fst (run t s)))"

locale transactional_store =
  fixes run :: "'t \<Rightarrow> 's \<Rightarrow> 's \<times> 'r result"
    and abs :: "'s \<Rightarrow> 'b"
    and inv :: "'s \<Rightarrow> bool"
    and admissible :: "'t \<Rightarrow> bool"
    and meaning :: "'t \<Rightarrow> 'b \<Rightarrow> 'b"
  assumes error_keeps: "run t s = (s', Inl e) \<Longrightarrow> abs s' = abs s \<and> (inv s \<longrightarrow> inv s')"
    and commit_meaning: "admissible t \<Longrightarrow> run t s = (s', Inr r) \<Longrightarrow> abs s' = meaning t (abs s)"
    and commit_inv: "admissible t \<Longrightarrow> run t s = (s', Inr r) \<Longrightarrow> inv s \<Longrightarrow> inv s'"
begin

lemma history_meaning:
  "\<forall>t \<in> set ts. admissible t \<Longrightarrow> abs (run_history run ts s) = fold meaning (committed run ts s) (abs s)"
proof (induction ts arbitrary: s)
  case (Cons t ts)
  obtain s' r where step: "run t s = (s', r)" by (cases "run t s")
  show ?case
  proof (cases r)
    case (Inl e)
    then show ?thesis using Cons step error_keeps [of t s s' e] by simp
  next
    case (Inr x)
    then show ?thesis using Cons step commit_meaning [of t s s' x] by simp
  qed
qed simp

lemma history_inv:
  "\<forall>t \<in> set ts. admissible t \<Longrightarrow> inv s \<Longrightarrow> inv (run_history run ts s)"
proof (induction ts arbitrary: s)
  case (Cons t ts)
  obtain s' r where step: "run t s = (s', r)" by (cases "run t s")
  have "inv s'"
    using Cons.prems step error_keeps [of t s s'] commit_inv [of t s s'] by (cases r) auto
  then show ?case using Cons step by simp
qed simp

text \<open>A property of the abstract store that every successful transaction keeps holds along a history.\<close>

lemma history_stable:
  assumes "\<And>t s s' r. admissible t \<Longrightarrow> run t s = (s', Inr r) \<Longrightarrow> Q (abs s) \<Longrightarrow> Q (abs s')"
  shows "\<forall>t \<in> set ts. admissible t \<Longrightarrow> Q (abs s) \<Longrightarrow> Q (abs (run_history run ts s))"
proof (induction ts arbitrary: s)
  case (Cons t ts)
  obtain s' r where step: "run t s = (s', r)" by (cases "run t s")
  have "Q (abs s')"
    using Cons.prems step error_keeps [of t s s'] assms [of t s s'] by (cases r) auto
  then show ?case using Cons step by simp
qed simp

end

section \<open>The in-memory engine meets the contract\<close>

lemma fence_Ok:
  assumes "validate_inside_engine_fence renv adm cap auth inputs au = (au', Inr u)"
  shows "am_authority adm = auth"
    and "admits_runtime_budget cap (into_runtime_budget (am_operation_capacity adm))"
    and "\<forall>s. am_resource_snapshot adm = Some s \<longrightarrow> \<not> stale s \<and> \<not> is_expired s (fi_now_secs inputs)"
  using assms
  by (auto simp: validate_inside_engine_fence_def Let_def fence_capacity_def result_simps
      split: if_splits prod.splits option.splits)

lemma admitted_capacity:
  assumes "admits_runtime_budget cap (into_runtime_budget op)"
  shows "bounded_capacity cap \<Longrightarrow> bounded_capacity op" and "within_capacity op st \<Longrightarrow> within_capacity cap st"
  using assms by (auto simp: admits_runtime_budget_def into_runtime_budget_def bounded_capacity_def within_capacity_def)

lemma commit_keeps_inv:
  assumes c: "read_set_covers req" and "bounded_capacity (en_capacity en)" and "engine_inv en"
    and run: "commit_transaction_admitted renv h inputs req adm (au, en) = ((au', en'), Inr rep)"
  shows "engine_inv en'"
  using run
proof (rule commit_Ok)
  fix t mss s plan
  assume p: "planned h adm req (en_state en) t mss s plan"
    and en': "en' = en\<lparr>en_state := fst (apply_in_memory_transaction_plan (concat mss) (en_state en))\<rparr>"
    and f: "validate_inside_engine_fence renv adm (en_capacity en) (en_admission_authority en) inputs au = (au', Inr ())"
  note cap = admitted_capacity [OF fence_Ok(2) [OF f]]
  have "btree_len (ms_json (en_state en)) + btree_len (ms_blobs (en_state en)) \<le> usize_max"
    using assms(2,3) by (simp add: engine_inv_def within_capacity_def bounded_capacity_def)
  then have "within_capacity (am_operation_capacity adm) (en_state en')"
    using planned_within_capacity [OF p c cap(1)] assms(2) by (simp add: en')
  moreover have "event_ids_inv (en_state en')"
    using planned_event_ids [OF p] assms(3) by (simp add: en' engine_inv_def)
  ultimately show ?thesis using cap(2) by (simp add: engine_inv_def en')
qed

type_synonym ('v, 'a) commit_call = "fence_inputs \<times> ('v, 'a) transaction_request \<times> transaction_admission"

definition commit_call ::
  "report_env \<Rightarrow> ('v, 'a, 'j) tx_hooks \<Rightarrow> ('v, 'a) commit_call \<Rightarrow> authority \<times> 'v mem_engine \<Rightarrow>
   (authority \<times> 'v mem_engine) \<times> transaction_report result" where
  "commit_call renv h = (\<lambda>(inputs, req, adm). commit_transaction_admitted renv h inputs req adm)"

definition call_covers :: "('v, 'a) commit_call \<Rightarrow> bool" where
  "call_covers = (\<lambda>(inputs, req, adm). read_set_covers req)"

definition call_meaning :: "('v, 'a, 'j) tx_hooks \<Rightarrow> ('v, 'a) commit_call \<Rightarrow> 'v store_spec \<Rightarrow> 'v store_spec" where
  "call_meaning h = (\<lambda>(inputs, req, adm). spec_transaction (h_store_env h) req)"

definition store_view :: "authority \<times> 'v mem_engine \<Rightarrow> 'v store_spec" where
  "store_view s = spec_of (en_state (snd s))"

definition sound_store :: "authority \<times> 'v mem_engine \<Rightarrow> bool" where
  "sound_store s \<longleftrightarrow> engine_inv (snd s) \<and> bounded_capacity (en_capacity (snd s))"

lemma commit_meaning_view:
  assumes "read_set_covers req"
    and "commit_transaction_admitted renv h inputs req adm (au, en) = ((au', en'), Inr rep)"
  shows "spec_of (en_state en') = spec_transaction (h_store_env h) req (spec_of (en_state en))"
  using assms(2) by (rule commit_Ok) (simp add: planned_spec [OF _ assms(1)])

interpretation mem: transactional_store "commit_call renv h" store_view sound_store call_covers "call_meaning h"
  for renv :: report_env and h :: "('v, 'a, 'j) tx_hooks"
proof (unfold_locales, goal_cases)
  case (1 t s s' e)
  then have "snd s' = snd s"
    by (cases t; cases s; cases s') (auto simp: commit_call_def dest: commit_Err)
  then show ?case by (simp add: store_view_def sound_store_def)
next
  case (2 t s s' r)
  then show ?case
    by (cases t; cases s; cases s')
      (simp add: commit_call_def call_covers_def call_meaning_def store_view_def commit_meaning_view)
next
  case (3 t s s' r)
  then show ?case
    by (cases t; cases s; cases s')
      (auto simp: commit_call_def call_covers_def sound_store_def commit_cases(1) intro: commit_keeps_inv)
qed

section \<open>A small store\<close>

text \<open>Documents are strings and serialise to themselves; one document links to another.\<close>

definition sample_store_env :: "string store_env" where
  "sample_store_env = \<lparr> se_json_bytes = Inr, se_event_json = (\<lambda>ev. Inr (event_id ev)),
     se_sha256_hex = (\<lambda>bs. replicate 64 (CHR ''a'')), se_default_hash = length \<rparr>"

definition sample_hooks :: "(string, unit, unit) tx_hooks" where
  "sample_hooks = \<lparr> h_store_env = sample_store_env,
     h_long_term_dependencies = (\<lambda>_ _. Inr []), h_soul_dependencies = (\<lambda>_ _. ([], Inr ())),
     h_procedural_dependencies = (\<lambda>ns v. Inr (if v = ''link'' then [(ns, ''linked'')] else [])),
     h_runtime_skill_transitions = (\<lambda>_ _ _. Inr ()), h_soul_source_transition = (\<lambda>_ _. Inr ()),
     h_source_dependents = (\<lambda>_ _ _ _. Inr btree_empty), h_transcript_control = (\<lambda>_ _ _ _. Inr btree_empty),
     h_runtime_skill_control = (\<lambda>_ _ _ _ _. Inr btree_empty),
     h_decode_job = (\<lambda>_. None), h_reconciliation_checkpoint = (\<lambda>_ _. Inr ()),
     h_permits_mutation = (\<lambda>_ _ _. False), h_permits_root_transition = (\<lambda>_ _ _ _. Inr False),
     h_selection_image = (\<lambda>_. Inr ()), h_new_intakes = (\<lambda>_ _ _. Inr ()),
     h_decode_ledger = (\<lambda>v. if v = ''ledger'' then Some \<lparr> lv_root_key = Inr ''subject'', lv_validity_epoch = 3 \<rparr> else None),
     h_decode_root = (\<lambda>v. if v = ''root'' then Some \<lparr> rv_permits_learning_reads = Inr True, rv_validity_epoch = 3 \<rparr> else None),
     h_explicit_control_revision = (\<lambda>_. Inr False), h_authorizes_revision = (\<lambda>_ _. False),
     h_governed_post_image = (\<lambda>_ _ _ _ _. Inr ()) \<rparr>"

definition sample_template :: event_template where
  "sample_template = \<lparr> ct_event_id = ''e2'', ct_kind = MemoryDelete, ct_scope = event_scope_system ''s'', ct_plane = ''p'',
     ct_record_key = ''a'', ct_timestamp_unix_secs = 5, ct_payload = btree_empty \<rparr>"

definition root_address :: address where
  "root_address = (PROCEDURAL_SUBJECT_VALIDITY_NAMESPACE, ''subject'')"

definition signer_address :: address where
  "signer_address = (SELECTION_NAMESPACE, ''key'')"

definition ledger_address :: address where
  "ledger_address = (APPLICATION_LEDGER_NAMESPACE, ''turn'')"

definition sample_state :: "string mem_state" where
  "sample_state = mem_state_default\<lparr>ms_json := btree_of_list
     [((''docs'', ''a''), ''link''), ((''docs'', ''linked''), ''two''), (root_address, ''root''), (signer_address, ''signer'')]\<rparr>"

definition sample_engine :: "string mem_engine" where
  "sample_engine = (new_with_admission_authority capacity_full 7)\<lparr>en_state := sample_state\<rparr>"

definition sample_inputs :: fence_inputs where
  "sample_inputs = \<lparr> fi_now_secs = 100, fi_tick1 = 0, fi_tick2 = 0, fi_tick3 = 0, fi_probe = Inl (Io [] []) \<rparr>"

definition sample_admission :: transaction_admission where
  "sample_admission = admission_for_nonproduction_harness capacity_full 7"

definition sample_request :: "(string, unit) transaction_request" where
  "sample_request = request_new ''tx1'' [Exact ''docs'' ''a'' ''link'', Absent ''docs'' ''b'']
     [PutJson ''docs'' ''b'' ''three'', PutBlob ''blobs'' ''x'' ''bytes'',
      DeleteJsonIfPresent ''docs'' ''a'' sample_template] None"

definition stale_request :: "(string, unit) transaction_request" where
  "stale_request = request_new ''tx2'' [Absent ''docs'' ''a''] [PutJson ''docs'' ''b'' ''four''] None"

lemma harness_fence:
  "validate_inside_engine_fence renv sample_admission capacity_full 7 inputs au = (au, Inr ())"
  by (simp add: validate_inside_engine_fence_def sample_admission_def admission_for_nonproduction_harness_def
      fence_capacity_def admits_runtime_budget_def into_runtime_budget_def)

lemma harness_commit:
  assumes "\<not> isl (plan_commit sample_hooks sample_admission req st)"
  obtains en' rep where
    "commit_transaction_admitted renv sample_hooks sample_inputs req sample_admission
       (au, (new_with_admission_authority capacity_full 7)\<lparr>en_state := st\<rparr>) = ((au, en'), Inr rep)"
proof -
  obtain plan where plan: "plan_commit sample_hooks sample_admission req st = Inr plan"
    using assms by (cases "plan_commit sample_hooks sample_admission req st") auto
  then obtain t mss s where p: "planned sample_hooks sample_admission req st t mss s plan"
    by (rule plan_commit_Ok)
  show thesis
    using that plan harness_fence [of renv sample_inputs au] planned_writes(1) [OF p]
    by (simp add: commit_transaction_admitted_def new_with_admission_authority_def)
qed

lemma sample_commit:
  assumes "\<not> isl (plan_commit sample_hooks sample_admission req sample_state)"
  obtains en' rep where
    "commit_transaction_admitted renv sample_hooks sample_inputs req sample_admission (au, sample_engine) = ((au, en'), Inr rep)"
  using harness_commit [OF assms] unfolding sample_engine_def by blast

lemma sample_request_plan: "\<not> isl (plan_commit sample_hooks sample_admission sample_request sample_state)"
  by code_simp

lemma sample_engine_sound: "sound_store (au, sample_engine)"
proof -
  have "within_capacity capacity_full sample_state \<and> bounded_capacity capacity_full" by code_simp
  moreover have "event_ids_inv sample_state"
    by (simp add: event_ids_inv_def sample_state_def mem_state_default_def)
  ultimately show ?thesis
    by (simp add: sound_store_def engine_inv_def sample_engine_def new_with_admission_authority_def)
qed

section \<open>One commit\<close>

text \<open>
  C1. A successful commit is the abstract transaction: the maps and the log of the engine
  after it are those before it with the mutations of the request applied in order, where a
  conditional delete is decided, and its event computed, from the store before the
  transaction. The read set of the request has to hold the addresses it mentions, which the
  constructor and the builders guarantee.
\<close>

theorem commit_refines_spec:
  assumes "read_set_covers req"
    and "commit_transaction_admitted renv h inputs req adm (au, en) = ((au', en'), Inr rep)"
  shows "spec_of (en_state en') = spec_transaction (h_store_env h) req (spec_of (en_state en))"
  by (rule commit_meaning_view [OF assms])

theorem commit_refines_spec_witness:
  "\<exists>au au' en' rep.
     commit_transaction_admitted sample_env sample_hooks sample_inputs sample_request sample_admission (au, sample_engine)
       = ((au', en'), Inr rep) \<and>
     sp_json (spec_of (en_state en')) (''docs'', ''a'') = None \<and>
     sp_json (spec_of (en_state en')) (''docs'', ''b'') = Some ''three''"
proof -
  have c: "read_set_covers sample_request" unfolding sample_request_def by (rule covers_request_new)
  obtain au en' rep where run: "commit_transaction_admitted sample_env sample_hooks sample_inputs sample_request sample_admission
      (au, sample_engine) = ((au, en'), Inr rep)"
    using sample_commit [OF sample_request_plan] by metis
  have "spec_of (en_state en') = spec_transaction sample_store_env sample_request (spec_of sample_state)"
    using commit_refines_spec [OF c run]
    by (simp add: sample_hooks_def sample_engine_def new_with_admission_authority_def)
  moreover have "btree_get (ms_json sample_state) (''docs'', ''a'') = Some ''link''"
    by code_simp
  ultimately have "sp_json (spec_of (en_state en')) (''docs'', ''a'') = None \<and>
      sp_json (spec_of (en_state en')) (''docs'', ''b'') = Some ''three''"
    by (simp add: spec_transaction_def sample_request_def request_new_def spec_of_def sample_store_env_def)
  then show ?thesis using run by blast
qed

text \<open>
  C10. A commit that fails leaves the engine exactly as it was, whatever stage refused it: the
  fence, the budgets, a precondition, a validator, or the writing loop itself, which is never
  entered with a conditional mutation.
\<close>

theorem commit_error_atomic:
  assumes "commit_transaction_admitted renv h inputs req adm (au, en) = ((au', en'), Inl e)"
  shows "en' = en"
  using assms by (rule commit_Err)

theorem commit_error_atomic_witness:
  "\<exists>au au' en' e.
     commit_transaction_admitted sample_env sample_hooks sample_inputs stale_request sample_admission (au, sample_engine)
       = ((au', en'), Inl e) \<and> en' = sample_engine"
proof -
  have "isl (plan_commit sample_hooks sample_admission stale_request sample_state)" by code_simp
  then obtain e where e: "plan_commit sample_hooks sample_admission stale_request sample_state = Inl e"
    by (auto simp: isl_def)
  have run: "commit_transaction_admitted sample_env sample_hooks sample_inputs stale_request sample_admission (au, sample_engine)
      = ((au, sample_engine), Inl e)" for au
    using harness_fence [of sample_env sample_inputs au] e
    by (simp add: commit_transaction_admitted_def sample_engine_def new_with_admission_authority_def)
  show ?thesis using commit_error_atomic [OF run] run by blast
qed

text \<open>
  C11. Preconditions are compare-and-swap on the whole store: if one JSON or blob precondition
  of the request does not hold of the store, the commit fails and the store keeps its
  contents.
\<close>

theorem stale_precondition_rejected:
  assumes "read_set_covers req"
    and "(\<exists>p \<in> set (tr_preconditions req). btree_get (ms_json (en_state en)) (jp_namespace p, jp_key p) \<noteq> expected_json p)
       \<or> (\<exists>p \<in> set (tr_blob_preconditions req).
            map_option (blob_digest (h_store_env h)) (btree_get (ms_blobs (en_state en)) (bp_namespace p, bp_key p))
              \<noteq> expected_digest p)"
  shows "\<exists>au' e. commit_transaction_admitted renv h inputs req adm (au, en) = ((au', en), Inl e)"
proof -
  obtain au' en' r where run: "commit_transaction_admitted renv h inputs req adm (au, en) = ((au', en'), r)"
    by (metis prod.exhaust)
  show ?thesis
  proof (cases r)
    case (Inl e)
    then show ?thesis using run commit_Err by blast
  next
    case (Inr rep)
    then obtain t mss s plan where "planned h adm req (en_state en) t mss s plan"
      using run by (auto elim: commit_Ok)
    then show ?thesis using planned_preconditions [OF _ assms(1)] assms(2) by blast
  qed
qed

theorem stale_precondition_rejected_witness:
  "\<exists>au au' e. commit_transaction_admitted sample_env sample_hooks sample_inputs stale_request sample_admission
     (au, sample_engine) = ((au', sample_engine), Inl e)"
proof -
  have c: "read_set_covers stale_request" unfolding stale_request_def by (rule covers_request_new)
  have "btree_get (ms_json (en_state sample_engine)) (''docs'', ''a'') \<noteq> None" by code_simp
  then have "\<exists>p \<in> set (tr_preconditions stale_request).
      btree_get (ms_json (en_state sample_engine)) (jp_namespace p, jp_key p) \<noteq> expected_json p"
    by (simp add: stale_request_def request_new_def)
  then show ?thesis using stale_precondition_rejected [OF c] by blast
qed

end
