(* ===== verification/Store_Histories.thy ===== *)
theory Store_Histories
  imports Store_Guarantees
begin

text \<open>
  Histories of commits, with failures in between, and the entries no transaction may touch:
  signing authorities, committed application ledgers, method owners.
\<close>

section \<open>Histories\<close>

definition sample_calls :: "(string, unit) commit_call list" where
  "sample_calls = [(sample_inputs, stale_request, sample_admission), (sample_inputs, sample_request, sample_admission)]"

lemma sample_calls_cover: "\<forall>c \<in> set sample_calls. call_covers c"
  by (simp add: sample_calls_def call_covers_def stale_request_def sample_request_def covers_request_new)

text \<open>
  C14. A history of commits, any of which may fail, leaves the store that the successful ones
  describe: the abstract store at the end is the fold of the abstract transactions that were
  committed, in their order.
\<close>

theorem store_history_refines:
  assumes "\<forall>c \<in> set calls. call_covers c"
  shows "store_view (run_history (commit_call renv h) calls s) =
         fold (call_meaning h) (committed (commit_call renv h) calls s) (store_view s)"
  by (rule mem.history_meaning [OF assms])

theorem store_history_refines_witness:
  "\<exists>au. store_view (run_history (commit_call sample_env sample_hooks) sample_calls (au, sample_engine)) =
         fold (call_meaning sample_hooks) (committed (commit_call sample_env sample_hooks) sample_calls (au, sample_engine))
           (store_view (au, sample_engine))"
  using store_history_refines [OF sample_calls_cover] by blast

text \<open>
  C12. From a freshly opened engine on, after any history of commits the entries, the blob
  bytes and the events are within the capacity the engine was opened with, no two events of
  the log have the same identity, and the identity index is exactly the identities of the
  log.
\<close>

theorem fresh_store_stays_within_capacity:
  assumes "bounded_capacity cap" and "\<forall>c \<in> set calls. call_covers c"
  shows "engine_inv (snd (run_history (commit_call renv h) calls (au, new_with_admission_authority cap auth)))"
proof -
  have "sound_store (au, new_with_admission_authority cap auth)"
    using assms(1) by (simp add: sound_store_def engine_inv_def new_with_admission_authority_def mem_state_default_def
        within_capacity_def event_ids_inv_def blob_bytes_weight btree_empty.rep_eq)
  from mem.history_inv [where renv = renv and h = h, OF assms(2) this] show ?thesis by (simp add: sound_store_def)
qed

text \<open>The first call of the example is refused by the larger store, and accepted by a fresh one.\<close>

lemma stale_request_fresh_plan: "\<not> isl (plan_commit sample_hooks sample_admission stale_request mem_state_default)"
  by code_simp

theorem fresh_store_stays_within_capacity_witness:
  "\<exists>au. engine_inv (snd (run_history (commit_call sample_env sample_hooks) sample_calls
       (au, new_with_admission_authority capacity_full 7))) \<and>
     (sample_inputs, stale_request, sample_admission) \<in> set (committed (commit_call sample_env sample_hooks) sample_calls
       (au, new_with_admission_authority capacity_full 7))"
proof -
  have "bounded_capacity capacity_full" by code_simp
  note inv = fresh_store_stays_within_capacity [OF this sample_calls_cover, of sample_env sample_hooks]
  have "(new_with_admission_authority capacity_full 7)\<lparr>en_state := mem_state_default\<rparr> =
      (new_with_admission_authority capacity_full 7 :: string mem_engine)"
    by (simp add: new_with_admission_authority_def)
  then have run: "\<exists>en' rep. commit_transaction_admitted sample_env sample_hooks sample_inputs stale_request sample_admission
      (au, new_with_admission_authority capacity_full 7) = ((au, en'), Inr rep)" for au
    by (metis harness_commit [OF stale_request_fresh_plan])
  have "(sample_inputs, stale_request, sample_admission) \<in> set (committed (commit_call sample_env sample_hooks) sample_calls
       (au, new_with_admission_authority capacity_full 7))" for au
    using run [of au] by (elim exE) (simp add: sample_calls_def commit_call_def)
  with inv show ?thesis by blast
qed

section \<open>Protected entries\<close>

definition protected_namespace :: "string \<Rightarrow> bool" where
  "protected_namespace ns \<longleftrightarrow> ns = SELECTION_NAMESPACE \<or> ns = APPLICATION_LEDGER_NAMESPACE"

lemma commit_keeps_protected:
  assumes c: "read_set_covers req" and ns: "protected_namespace (fst a)"
    and run: "commit_transaction_admitted renv h inputs req adm (au, en) = ((au', en'), Inr rep)"
    and v: "btree_get (ms_json (en_state en)) a = Some v"
  shows "btree_get (ms_json (en_state en')) a = Some v"
  using run
proof (rule commit_Ok)
  fix t mss s plan
  assume p: "planned h adm req (en_state en) t mss s plan"
    and en': "en' = en\<lparr>en_state := fst (apply_in_memory_transaction_plan (concat mss) (en_state en))\<rparr>"
  note image = planned_image [OF p c, of a]
  show ?thesis
  proof (cases "btree_contains (rs_json (tr_read_set req)) a")
    case True
    then have "btree_get (ts_json t) a = Some v" using image(1) v by simp
    then have "btree_get (ts_json (ap_next s)) a = Some v"
      using ns selection_authority_kept [OF planned_checks(1) [OF p]] ledger_kept [OF planned_checks(2) [OF p]]
      unfolding protected_namespace_def by blast
    then show ?thesis using image(2) [OF True] by (simp add: en')
  next
    case False
    then show ?thesis using image(4) v by (simp add: en')
  qed
qed

text \<open>
  C15. A signing authority and a committed application ledger are permanent: once such an
  entry is in the store, every later history of commits, including those that initialise
  authorities, keeps it with the same value.
\<close>

theorem protected_entries_permanent:
  assumes "\<forall>c \<in> set calls. call_covers c" and "protected_namespace (fst a)"
    and "sp_json (store_view s) a = Some v"
  shows "sp_json (store_view (run_history (commit_call renv h) calls s)) a = Some v"
proof (rule mem.history_stable [where Q = "\<lambda>b. sp_json b a = Some v", OF _ assms(1,3)])
  fix c s s' r
  assume "call_covers c" "commit_call renv h c s = (s', Inr r)" "sp_json (store_view s) a = Some v"
  then show "sp_json (store_view s') a = Some v"
    by (cases c; cases s; cases s')
      (auto simp: call_covers_def commit_call_def store_view_def spec_of_def intro: commit_keeps_protected [OF _ assms(2)])
qed

theorem protected_entries_permanent_witness:
  "\<exists>au. sp_json (store_view (run_history (commit_call sample_env sample_hooks) sample_calls (au, sample_engine)))
     signer_address = Some ''signer''"
proof -
  have "btree_get (ms_json (en_state sample_engine)) signer_address = Some ''signer''" by code_simp
  then have "sp_json (store_view (au, sample_engine)) signer_address = Some ''signer''" for au
    by (simp add: store_view_def spec_of_def)
  moreover have "protected_namespace (fst signer_address)"
    by (simp add: protected_namespace_def signer_address_def)
  ultimately show ?thesis using protected_entries_permanent [OF sample_calls_cover] by blast
qed

text \<open>
  C33. A commit that was not built for authority initialisation leaves the signing authorities
  of the store as they are: it neither creates, nor changes, nor deletes one.
\<close>

theorem ordinary_commit_keeps_signers:
  assumes c: "read_set_covers req" and "\<not> tr_procedural_authority_initialization req"
    and run: "commit_transaction_admitted renv h inputs req adm (au, en) = ((au', en'), Inr rep)"
    and ns: "fst a = SELECTION_NAMESPACE"
  shows "btree_get (ms_json (en_state en')) a = btree_get (ms_json (en_state en)) a"
proof (cases "btree_get (ms_json (en_state en)) a")
  case (Some v)
  then show ?thesis using commit_keeps_protected [OF c _ run] ns by (simp add: protected_namespace_def)
next
  case None
  from run show ?thesis
  proof (rule commit_Ok)
    fix t mss s plan
    assume p: "planned h adm req (en_state en) t mss s plan"
      and en': "en' = en\<lparr>en_state := fst (apply_in_memory_transaction_plan (concat mss) (en_state en))\<rparr>"
    note image = planned_image [OF p c, of a]
    show ?thesis
    proof (cases "btree_contains (rs_json (tr_read_set req)) a")
      case True
      then have "btree_get (ts_json t) a = None" using image(1) None by simp
      then have "btree_get (ts_json (ap_next s)) a = None"
        using selection_authority_created(1) [OF planned_checks(1) [OF p] ns] assms(2) by fastforce
      then show ?thesis using image(2) [OF True] None by (simp add: en')
    next
      case False
      then show ?thesis using image(4) by (simp add: en')
    qed
  qed
qed

theorem ordinary_commit_keeps_signers_witness:
  "\<exists>au au' en' rep.
     commit_transaction_admitted sample_env sample_hooks sample_inputs sample_request sample_admission (au, sample_engine)
       = ((au', en'), Inr rep) \<and>
     btree_get (ms_json (en_state en')) signer_address = btree_get (ms_json (en_state sample_engine)) signer_address"
proof -
  have c: "read_set_covers sample_request" unfolding sample_request_def by (rule covers_request_new)
  have i: "\<not> tr_procedural_authority_initialization sample_request" by (simp add: sample_request_def request_new_def)
  obtain au en' rep where run: "commit_transaction_admitted sample_env sample_hooks sample_inputs sample_request sample_admission
      (au, sample_engine) = ((au, en'), Inr rep)"
    using sample_commit [OF sample_request_plan] by metis
  show ?thesis using ordinary_commit_keeps_signers [OF c i run, of signer_address] run
    by (auto simp: signer_address_def)
qed

section \<open>Application ledgers\<close>

definition ledger_request :: "(string, unit) transaction_request" where
  "ledger_request = request_new ''tx3''
     [Absent (fst ledger_address) (snd ledger_address), Exact (fst root_address) (snd root_address) ''root'']
     [PutJson (fst ledger_address) (snd ledger_address) ''ledger'']
     (Some \<lparr> ba_transaction_id = ''tx3'', ba_operation = ''apply'', ba_scope = event_scope_system ''s'',
        ba_mutations = [StorePutJson (fst ledger_address) (snd ledger_address) ''ledger'' MemoryWrite ''p'' ''r''] \<rparr>)"

lemma ledger_request_plan: "\<not> isl (plan_commit sample_hooks sample_admission ledger_request sample_state)"
  by code_simp

lemma ledger_commit:
  obtains au en' rep where
    "commit_transaction_admitted sample_env sample_hooks sample_inputs ledger_request sample_admission (au, sample_engine)
       = ((au, en'), Inr rep)" and "btree_get (ms_json (en_state en')) ledger_address = Some ''ledger''"
proof -
  obtain au en' rep where run: "commit_transaction_admitted sample_env sample_hooks sample_inputs ledger_request sample_admission
      (au, sample_engine) = ((au, en'), Inr rep)"
    using sample_commit [OF ledger_request_plan] by metis
  have "spec_of (en_state en') = spec_transaction sample_store_env ledger_request (spec_of sample_state)"
    using commit_meaning_view [OF _ run]
    by (simp add: ledger_request_def covers_request_new sample_hooks_def sample_engine_def new_with_admission_authority_def)
  then have "btree_get (ms_json (en_state en')) ledger_address = Some ''ledger''"
    by (simp add: spec_of_def spec_transaction_def ledger_request_def request_new_def)
  with run that show thesis by blast
qed

text \<open>
  C31. An application ledger comes into being only under its absent precondition and against
  the exact validity root it names: the root was in the store, is unchanged, was pinned by an
  exact precondition, permits learning reads, and has the epoch of the ledger.
\<close>

theorem ledger_creation_guarded:
  assumes c: "read_set_covers req"
    and run: "commit_transaction_admitted renv h inputs req adm (au, en) = ((au', en'), Inr rep)"
    and ns: "fst a = APPLICATION_LEDGER_NAMESPACE"
    and old: "btree_get (ms_json (en_state en)) a = None" and new: "btree_get (ms_json (en_state en')) a = Some v"
  shows "Absent (fst a) (snd a) \<in> set (tr_preconditions req) \<and>
    (\<exists>ledger root_key root_value root.
       h_decode_ledger h v = Some ledger \<and> lv_root_key ledger = Inr root_key \<and>
       btree_get (ms_json (en_state en)) (PROCEDURAL_SUBJECT_VALIDITY_NAMESPACE, root_key) = Some root_value \<and>
       btree_get (ms_json (en_state en')) (PROCEDURAL_SUBJECT_VALIDITY_NAMESPACE, root_key) = Some root_value \<and>
       Exact PROCEDURAL_SUBJECT_VALIDITY_NAMESPACE root_key root_value \<in> set (tr_preconditions req) \<and>
       h_decode_root h root_value = Some root \<and> rv_permits_learning_reads root = Inr True \<and>
       lv_validity_epoch ledger = rv_validity_epoch root)"
  using run
proof (rule commit_Ok)
  fix t mss s plan
  assume p: "planned h adm req (en_state en) t mss s plan"
    and en': "en' = en\<lparr>en_state := fst (apply_in_memory_transaction_plan (concat mss) (en_state en))\<rparr>"
  note image = planned_image [OF p c]
  have rs: "btree_contains (rs_json (tr_read_set req)) a" using image(4) [of a] old new by (auto simp: en')
  have "btree_get (ts_json t) a = None" "btree_get (ts_json (ap_next s)) a = Some v"
    using image(1,2) [OF rs] old new by (simp_all add: en')
  note chk = ledger_created [OF planned_checks(2) [OF p] ns this]
  from chk obtain ledger root_key root_value root where l:
    "Absent (fst a) (snd a) \<in> set (tr_preconditions req)" "h_decode_ledger h v = Some ledger"
    "lv_root_key ledger = Inr root_key"
    "btree_get (ts_json t) (PROCEDURAL_SUBJECT_VALIDITY_NAMESPACE, root_key) = Some root_value"
    "btree_get (ts_json (ap_next s)) (PROCEDURAL_SUBJECT_VALIDITY_NAMESPACE, root_key) = Some root_value"
    "h_decode_root h root_value = Some root" "rv_permits_learning_reads root = Inr True"
    "lv_validity_epoch ledger = rv_validity_epoch root"
    "Exact PROCEDURAL_SUBJECT_VALIDITY_NAMESPACE root_key root_value \<in> set (tr_preconditions req)"
    by (rule new_ledger_Ok)
  have "btree_contains (rs_json (tr_read_set req)) (PROCEDURAL_SUBJECT_VALIDITY_NAMESPACE, root_key)"
    using c l(9) unfolding read_set_covers_def by (metis json_precondition.sel(2,4))
  then show ?thesis using l image(1,2) by (auto simp: en')
qed

theorem ledger_creation_guarded_witness:
  "\<exists>au au' en' rep.
     commit_transaction_admitted sample_env sample_hooks sample_inputs ledger_request sample_admission (au, sample_engine)
       = ((au', en'), Inr rep) \<and>
     btree_get (ms_json (en_state en')) ledger_address = Some ''ledger'' \<and>
     Absent (fst ledger_address) (snd ledger_address) \<in> set (tr_preconditions ledger_request)"
proof -
  obtain au en' rep where run: "commit_transaction_admitted sample_env sample_hooks sample_inputs ledger_request sample_admission
      (au, sample_engine) = ((au, en'), Inr rep)" and new: "btree_get (ms_json (en_state en')) ledger_address = Some ''ledger''"
    by (rule ledger_commit)
  have c: "read_set_covers ledger_request" unfolding ledger_request_def by (rule covers_request_new)
  have "btree_get (ms_json (en_state sample_engine)) ledger_address = None" by code_simp
  from ledger_creation_guarded [OF c run _ this new] new run show ?thesis by (auto simp: ledger_address_def)
qed

section \<open>Method owners\<close>

text \<open>
  C32. Whatever a commit changes in the namespaces of method owners, its governed batch carries
  the transaction's identity and declares exactly that change: the same address with the
  value the store now holds, or a deletion.
\<close>

theorem method_owner_changes_declared:
  assumes c: "read_set_covers req"
    and run: "commit_transaction_admitted renv h inputs req adm (au, en) = ((au', en'), Inr rep)"
    and ns: "is_method_namespace (fst a)"
    and changed: "btree_get (ms_json (en_state en')) a \<noteq> btree_get (ms_json (en_state en)) a"
  shows "\<exists>batch. tr_governed_batch req = Some batch \<and> ba_transaction_id batch = tr_transaction_id req \<and>
    btree_get (declared_methods req) a = Some (btree_get (ms_json (en_state en')) a)"
  using run
proof (rule commit_Ok)
  fix t mss s plan
  assume p: "planned h adm req (en_state en) t mss s plan"
    and en': "en' = en\<lparr>en_state := fst (apply_in_memory_transaction_plan (concat mss) (en_state en))\<rparr>"
  have "a \<in> fst ` set (json_writes (concat mss))" using planned_image(5) [OF p c] changed by (simp add: en')
  from planned_method_writes [OF p ns this] show ?thesis by (simp add: en')
qed

theorem method_owner_changes_declared_witness:
  "\<exists>au au' en' rep.
     commit_transaction_admitted sample_env sample_hooks sample_inputs ledger_request sample_admission (au, sample_engine)
       = ((au', en'), Inr rep) \<and>
     btree_get (declared_methods ledger_request) ledger_address = Some (btree_get (ms_json (en_state en')) ledger_address)"
proof -
  obtain au en' rep where run: "commit_transaction_admitted sample_env sample_hooks sample_inputs ledger_request sample_admission
      (au, sample_engine) = ((au, en'), Inr rep)" and new: "btree_get (ms_json (en_state en')) ledger_address = Some ''ledger''"
    by (rule ledger_commit)
  have c: "read_set_covers ledger_request" unfolding ledger_request_def by (rule covers_request_new)
  have "btree_get (ms_json (en_state sample_engine)) ledger_address = None" by code_simp
  then have "btree_get (ms_json (en_state en')) ledger_address \<noteq> btree_get (ms_json (en_state sample_engine)) ledger_address"
    using new by simp
  moreover have "is_method_namespace (fst ledger_address)" by (simp add: is_method_namespace_def ledger_address_def)
  ultimately show ?thesis using method_owner_changes_declared [OF c run] run by blast
qed

section \<open>Reports and read sets\<close>

text \<open>
  C35. The report of a commit is about the store: the remaining entries, blob bytes and events
  are the operation capacity minus what the whole store holds after the commit, though they
  are computed from the read set, and the identities it lists are those of the events the
  log gained.
\<close>

theorem commit_report_exact:
  assumes c: "read_set_covers req" and "sound_store (au, en)"
    and run: "commit_transaction_admitted renv h inputs req adm (au, en) = ((au', en'), Inr rep)"
  shows "br_remaining_kv_entries (tp_budget_report rep) = cap_kv_max_entries (am_operation_capacity adm)
           - (btree_len (ms_json (en_state en')) + btree_len (ms_blobs (en_state en'))) \<and>
    br_remaining_blob_bytes (tp_budget_report rep) =
      cap_blob_max_bytes (am_operation_capacity adm) - blob_bytes_of (ms_blobs (en_state en')) \<and>
    br_remaining_events (tp_budget_report rep) =
      cap_event_log_max_items (am_operation_capacity adm) - length (ms_events (en_state en')) \<and>
    map event_id (ms_events (en_state en')) = map event_id (ms_events (en_state en)) @ tp_event_ids rep \<and>
    tp_appended_events rep = length (tp_event_ids rep)"
  using run
proof (rule commit_Ok)
  fix t mss s plan
  assume p: "planned h adm req (en_state en) t mss s plan" and rep: "rep = pn_report plan"
    and en': "en' = en\<lparr>en_state := fst (apply_in_memory_transaction_plan (concat mss) (en_state en))\<rparr>"
    and f: "validate_inside_engine_fence renv adm (en_capacity en) (en_admission_authority en) inputs au = (au', Inr ())"
  have cap: "bounded_capacity (am_operation_capacity adm)"
    using admitted_capacity(1) [OF fence_Ok(2) [OF f]] assms(2) by (simp add: sound_store_def)
  have small: "btree_len (ms_json (en_state en)) + btree_len (ms_blobs (en_state en)) \<le> usize_max"
    using assms(2) by (simp add: sound_store_def engine_inv_def within_capacity_def bounded_capacity_def)
  have "tp_event_ids rep = map event_id (event_writes (concat mss))" "tp_appended_events rep = length (tp_event_ids rep)"
    using p planned_writes(3) [OF p] by (simp_all add: rep planned_def)
  then show ?thesis
    using planned_budget_report [OF p c cap small]
    by (simp add: rep en' apply_plan_Ok [OF planned_writes(4) [OF p]])
qed

theorem commit_report_exact_witness:
  "\<exists>au au' en' rep.
     commit_transaction_admitted sample_env sample_hooks sample_inputs sample_request sample_admission (au, sample_engine)
       = ((au', en'), Inr rep) \<and> tp_appended_events rep = length (tp_event_ids rep)"
proof -
  have c: "read_set_covers sample_request" unfolding sample_request_def by (rule covers_request_new)
  obtain au en' rep where run: "commit_transaction_admitted sample_env sample_hooks sample_inputs sample_request sample_admission
      (au, sample_engine) = ((au, en'), Inr rep)"
    using sample_commit [OF sample_request_plan] by metis
  show ?thesis using commit_report_exact [OF c sample_engine_sound run] run by blast
qed

text \<open>
  C34. The read set of a commit is closed under dependencies: every document that a document of
  the read set, or a document the request proposes, depends on has itself been read from the
  store, so a missing entry in the validated image is an entry missing in the store.
\<close>

theorem read_set_closed:
  assumes "expand_owner_transaction_dependencies h req capacity (touched_state (tr_read_set req) st)
      (\<lambda>ns k n. Inr (btree_get (ms_json st) (ns, k))) = Inr t"
  shows "(\<forall>m \<in> set (tr_mutations req). \<forall>d \<in> proposed_dependencies h m. btree_get (ts_json t) d = btree_get (ms_json st) d) \<and>
     (\<forall>a v. btree_get (ts_json t) a = Some v \<longrightarrow>
        (\<forall>d \<in> dependency_addresses h (fst a) v. btree_get (ts_json t) d = btree_get (ms_json st) d))"
  by (rule expand_closed [OF assms])

theorem read_set_closed_witness:
  "\<exists>t. expand_owner_transaction_dependencies sample_hooks sample_request capacity_full
      (touched_state (tr_read_set sample_request) sample_state)
      (\<lambda>ns k n. Inr (btree_get (ms_json sample_state) (ns, k))) = Inr t \<and>
     btree_get (ts_json t) (''docs'', ''linked'') = btree_get (ms_json sample_state) (''docs'', ''linked'')"
proof -
  let ?e = "expand_owner_transaction_dependencies sample_hooks sample_request capacity_full
      (touched_state (tr_read_set sample_request) sample_state)
      (\<lambda>ns k n. Inr (btree_get (ms_json sample_state) (ns, k)))"
  have "case ?e of Inl _ \<Rightarrow> False | Inr t \<Rightarrow> btree_get (ts_json t) (''docs'', ''a'') = Some ''link''" by code_simp
  then obtain t where t: "?e = Inr t" "btree_get (ts_json t) (''docs'', ''a'') = Some ''link''"
    by (auto split: sum.splits)
  have "(''docs'', ''linked'') \<in> dependency_addresses sample_hooks ''docs'' ''link''"
    by (simp add: dependency_addresses_def sample_hooks_def)
  then show ?thesis using read_set_closed [OF t(1)] t by fastforce
qed

end
