(* ===== verification/Snapshot_Guarantees.thy ===== *)
theory Snapshot_Guarantees
  imports Store_Guarantees
begin

text \<open>
  Snapshots of the in-memory engine: what \<open>replace_snapshot\<close> leaves at every address, that it
  changes nothing when it fails, and that importing the contents of one store into another
  reproduces the first.
\<close>

section \<open>What a replacement leaves\<close>

lemma btset_ext: "(\<And>k. btree_contains a k \<longleftrightarrow> btree_contains b k) \<Longrightarrow> a = (b :: 'k::linorder btset)"
proof (rule btree_ext, rule ext)
  fix k
  assume "\<And>k. btree_contains a k \<longleftrightarrow> btree_contains b k"
  then have "btree_contains a k \<longleftrightarrow> btree_contains b k" .
  then show "btree_get a k = btree_get b k"
    by (cases "btree_get a k"; cases "btree_get b k") (simp_all add: btree_contains_def)
qed

lemma get_replace_docs:
  "btree_get (replace_docs namespaces docs m) a =
     (case map_of (rev docs) a of
        Some v \<Rightarrow> Some v
      | None \<Rightarrow> if btree_contains namespaces (fst a) then None else btree_get m a)"
  by (auto simp: replace_docs_def get_inserts map_add_def get_retain split: option.splits)

lemma replace_snapshot_Ok:
  assumes "replace_snapshot jns bns docs blobs events en = (en', Inr rep)"
  shows "ms_json (en_state en') = replace_docs (btset_of_list jns) docs (ms_json (en_state en))"
    and "ms_blobs (en_state en') = replace_docs (btset_of_list bns) blobs (ms_blobs (en_state en))"
    and "ms_events (en_state en') = events" and "sr_events_imported rep = length events"
    and "snapshot_event_ids (en_capacity en) events = Inr (ms_event_ids (en_state en'))"
    and "length events \<le> cap_event_log_max_items (en_capacity en)"
  using assms by (auto simp: replace_snapshot_def plan_snapshot_def Let_def result_simps split: sum.splits)

lemma snapshot_event_ids_Ok:
  "try_fold (\<lambda>ev ids. and_then (enforce_event_key_budget capacity ev ''in_memory_snapshot_import'') (\<lambda>_.
       if btree_contains ids (event_id ev)
       then Err (config_error ''store_event_log'' (''duplicate event id '' @ event_id ev))
       else Inr (btset_insert (event_id ev) ids))) events ids = Inr ids' \<longleftrightarrow>
   (\<forall>ev \<in> set events. length (event_record_key ev) \<le> cap_event_record_key_max_bytes capacity) \<and>
   distinct (map event_id events) \<and> (\<forall>ev \<in> set events. \<not> btree_contains ids (event_id ev)) \<and>
   ids' = fold btset_insert (map event_id events) ids"
proof (induction events arbitrary: ids)
  case (Cons ev events)
  show ?case
    using Cons.IH [of "btset_insert (event_id ev) ids"]
    by (auto simp: enforce_event_key_budget_def result_simps) (metis imageI)+
qed auto

text \<open>
  C37. A snapshot replacement that succeeds leaves, at every address, the last document given
  for it, otherwise nothing if its namespace was replaced, otherwise what was there; the log
  is the imported log, without duplicate identities and within the log limit; one that fails
  leaves the engine as it was.
\<close>

theorem snapshot_replacement_exact:
  "case replace_snapshot jns bns docs blobs events en of
     (en', Inl e) \<Rightarrow> en' = en
   | (en', Inr rep) \<Rightarrow>
       (\<forall>a. btree_get (ms_json (en_state en')) a =
          (case map_of (rev docs) a of Some v \<Rightarrow> Some v
           | None \<Rightarrow> if fst a \<in> set jns then None else btree_get (ms_json (en_state en)) a)) \<and>
       (\<forall>a. btree_get (ms_blobs (en_state en')) a =
          (case map_of (rev blobs) a of Some v \<Rightarrow> Some v
           | None \<Rightarrow> if fst a \<in> set bns then None else btree_get (ms_blobs (en_state en)) a)) \<and>
       ms_events (en_state en') = events \<and> event_ids_inv (en_state en') \<and>
       length events \<le> cap_event_log_max_items (en_capacity en)"
proof -
  obtain en' r where run: "replace_snapshot jns bns docs blobs events en = (en', r)" by force
  show ?thesis
  proof (cases r)
    case (Inl e)
    then show ?thesis using run by (auto simp: replace_snapshot_def split: sum.splits)
  next
    case (Inr rep)
    note ok = replace_snapshot_Ok [OF run [unfolded Inr]]
    have "event_ids_inv (en_state en')"
      using ok(5) by (simp add: snapshot_event_ids_def snapshot_event_ids_Ok event_ids_inv_def ok(3))
    then show ?thesis using ok run Inr by (simp add: get_replace_docs)
  qed
qed

section \<open>Round trip\<close>

definition storable :: "store_capacity_budget \<Rightarrow> 'v mem_state \<Rightarrow> bool" where
  "storable cap st \<longleftrightarrow>
     within_capacity cap st \<and> event_ids_inv st \<and> bounded_capacity cap \<and>
     (\<forall>a \<in> set (btree_keys (ms_json st)) \<union> set (btree_keys (ms_blobs st)).
        length (fst a) \<le> cap_logical_namespace_max_bytes cap \<and> length (snd a) \<le> cap_logical_key_max_bytes cap) \<and>
     (\<forall>ev \<in> set (ms_events st). length (event_record_key ev) \<le> cap_event_record_key_max_bytes cap)"

lemma map_of_rev_entries: "map_of (rev (entries m)) = btree_get m"
  unfolding btree_get_def 
  by (rule iffD2 [OF map_of_inject_set]) (simp_all add: entries_distinct flip: rev_map)

lemma inserts_entries: "fold (\<lambda>(k, v). btree_insert k v) (entries m) btree_empty = m"
  by (rule btree_ext) (simp add: get_inserts map_of_rev_entries fun_eq_iff map_add_def split: option.splits)

lemma replace_docs_all:
  assumes "\<forall>a \<in> set (btree_keys m). fst a \<in> set namespaces"
  shows "replace_docs (btset_of_list namespaces) (entries n) m = n"
proof (rule btree_ext, rule ext)
  fix a
  have "btree_get m a = None" if "fst a \<notin> set namespaces"
    using assms that by (auto simp: set_keys domIff)
  then show "btree_get (replace_docs (btset_of_list namespaces) (entries n) m) a = btree_get n a"
    by (cases "btree_get n a") (auto simp: get_replace_docs map_of_rev_entries)
qed

lemma snapshot_keys_Ok:
  assumes "\<forall>a \<in> set (map fst docs). length (fst a) \<le> cap_logical_namespace_max_bytes capacity
      \<and> length (snd a) \<le> cap_logical_key_max_bytes capacity"
  shows "snapshot_keys capacity docs = Inr (btset_of_list (map fst docs))"
proof -
  have "collect_results (\<lambda>d. and_then (enforce_logical_key_budget capacity (fst (fst d)) (snd (fst d))
      ''in_memory_snapshot_import'') (\<lambda>_. Ok (fst d))) docs = Inr (map fst docs)"
    using assms unfolding collect_results_Ok
    by (auto simp: list_all2_map2 list_all2_same result_simps key_budget_Ok)
  then show ?thesis by (simp add: snapshot_keys_def)
qed

lemma restore_blob_bytes_Ok:
  assumes "sum_list ns \<le> cap_blob_max_bytes capacity" and "cap_blob_max_bytes capacity < usize_max"
  shows "validate_restore_post_image_blob_bytes capacity [] ns = Inr (sum_list ns)"
proof -
  have "tot + sum_list ns \<le> usize_max \<Longrightarrow>
      try_fold (\<lambda>n tot. ok_or (store_budget_error msg) (checked_add tot n)) ns tot = Inr (tot + sum_list ns)" for tot msg
    by (induction ns arbitrary: tot) (simp_all add: arith_defs)
  from this [of 0 "''restore post-image blob byte count overflow''"] show ?thesis
    using assms by (simp add: validate_restore_post_image_blob_bytes_def)
qed

text \<open>
  C36. Importing the full contents of a store reproduces it: if a store fits the capacity and
  the key limits of an engine, replacing there all namespaces in use by its documents, blobs
  and events succeeds, and the engine then holds exactly that store.
\<close>

theorem snapshot_import_roundtrip:
  assumes "storable (en_capacity en) st"
    and "\<forall>a \<in> set (btree_keys (ms_json (en_state en))). fst a \<in> set jns"
    and "\<forall>a \<in> set (btree_keys (ms_blobs (en_state en))). fst a \<in> set bns"
  shows "\<exists>rep. replace_snapshot jns bns (entries (ms_json st)) (entries (ms_blobs st)) (ms_events st) en
     = (en\<lparr>en_state := st\<rparr>, Inr rep)"
proof -
  let ?cap = "en_capacity en"
  have keys: "\<forall>a \<in> set (map fst (entries (ms_json st))). length (fst a) \<le> cap_logical_namespace_max_bytes ?cap
      \<and> length (snd a) \<le> cap_logical_key_max_bytes ?cap"
    "\<forall>a \<in> set (map fst (entries (ms_blobs st))). length (fst a) \<le> cap_logical_namespace_max_bytes ?cap
      \<and> length (snd a) \<le> cap_logical_key_max_bytes ?cap"
    using assms(1) unfolding storable_def btree_keys_def by blast+
  have ids: "snapshot_event_ids ?cap (ms_events st) = Inr (ms_event_ids st)"
    using assms(1) unfolding snapshot_event_ids_def snapshot_event_ids_Ok
    by (auto simp: storable_def event_ids_inv_def intro!: btset_ext)
  have none: "filter (\<lambda>a. fst a \<notin> set jns) (btree_keys (ms_json (en_state en))) = []"
    "filter (\<lambda>e. fst (fst e) \<notin> set bns) (entries (ms_blobs (en_state en))) = []"
    using assms(2,3) by (auto simp: filter_empty_conv btree_keys_def)
  have "sum_list (map (\<lambda>b. length (snd b)) (entries (ms_blobs st))) \<le> cap_blob_max_bytes ?cap"
    "cap_blob_max_bytes ?cap < usize_max" "btree_len (ms_json st) \<le> cap_kv_max_entries ?cap"
    "length (ms_events st) \<le> cap_event_log_max_items ?cap"
    using assms(1) by (simp_all add: storable_def within_capacity_def bounded_capacity_def blob_bytes_weight)
  then show ?thesis
    using restore_blob_bytes_Ok
    by (simp add: replace_snapshot_def plan_snapshot_def Let_def ids snapshot_keys_Ok [OF keys(1)]
        snapshot_keys_Ok [OF keys(2)] none replace_docs_all [OF assms(2)] replace_docs_all [OF assms(3)]
        btree_len_def saturating_add_def)
qed

theorem snapshot_import_roundtrip_witness:
  "\<exists>rep. replace_snapshot [] [] (entries (ms_json sample_state)) (entries (ms_blobs sample_state)) (ms_events sample_state)
       (new_with_admission_authority capacity_full 9)
     = ((new_with_admission_authority capacity_full 9)\<lparr>en_state := sample_state\<rparr>, Inr rep)"
proof -
  have "within_capacity capacity_full sample_state \<and> bounded_capacity capacity_full \<and>
     (\<forall>a \<in> set (btree_keys (ms_json sample_state)) \<union> set (btree_keys (ms_blobs sample_state)).
        length (fst a) \<le> cap_logical_namespace_max_bytes capacity_full \<and>
        length (snd a) \<le> cap_logical_key_max_bytes capacity_full)" by code_simp
  moreover have "event_ids_inv sample_state" "ms_events sample_state = []"
    by (simp_all add: event_ids_inv_def sample_state_def mem_state_default_def)
  ultimately have "storable (en_capacity (new_with_admission_authority capacity_full 9)) sample_state"
    by (simp add: storable_def new_with_admission_authority_def)
  then show ?thesis
    by (rule snapshot_import_roundtrip)
      (simp_all add: new_with_admission_authority_def mem_state_default_def btree_keys_def btree_empty.rep_eq)
qed

end
