(* ===== verification/Embedded.thy ===== *)
theory Embedded
  imports Snapshot_Guarantees
begin

text \<open>
  The embedded store engine of \<^verbatim>\<open>sdk/src/store_internal/embedded.rs\<close>, a second engine in memory with
  a state, a transaction executor and read sessions of its own. Its commit is proved equal to
  that of the in-memory engine, which makes it a provider of the same transactional contract;
  its direct append differs: a full log loses its oldest events where the in-memory engine
  refuses. The scoped projection of an archive is not modelled.
\<close>

section \<open>State\<close>

record 'v embedded_state =
  es_json :: "(address, 'v) btree"
  es_blobs :: "(address, bytes) btree"
  es_events :: "store_event list"
  es_event_ids :: "string btset"

record 'v embedded_engine =
  ee_capacity :: store_capacity_budget
  ee_admission_authority :: nat
  ee_state :: "'v embedded_state"

definition embedded_new :: "store_capacity_budget \<Rightarrow> nat \<Rightarrow> 'v embedded_engine" where
  "embedded_new capacity auth =
     \<lparr> ee_capacity = capacity, ee_admission_authority = auth,
       ee_state = \<lparr> es_json = btree_empty, es_blobs = btree_empty, es_events = [], es_event_ids = btree_empty \<rparr> \<rparr>"

section \<open>Commit\<close>

fun apply_embedded_primitive :: "'v engine_mutation \<Rightarrow> 'v embedded_state \<Rightarrow> 'v embedded_state result" where
  "apply_embedded_primitive (PutJson namespace key v) st =
     Ok (st\<lparr>es_json := btree_insert (namespace, key) v (es_json st)\<rparr>)"
| "apply_embedded_primitive (DeleteJson namespace key) st =
     Ok (st\<lparr>es_json := btree_remove (namespace, key) (es_json st)\<rparr>)"
| "apply_embedded_primitive (PutBlob namespace key v) st =
     Ok (st\<lparr>es_blobs := btree_insert (namespace, key) v (es_blobs st)\<rparr>)"
| "apply_embedded_primitive (DeleteBlob namespace key) st =
     Ok (st\<lparr>es_blobs := btree_remove (namespace, key) (es_blobs st)\<rparr>)"
| "apply_embedded_primitive (AppendEvent ev) st =
     Ok (st\<lparr>es_event_ids := btset_insert (event_id ev) (es_event_ids st), es_events := es_events st @ [ev]\<rparr>)"
| "apply_embedded_primitive (DeleteJsonIfPresent _ _ _) st =
     Err (config_error ''memory_write_transaction'' ''conditional mutation reached embedded primitive execution'')"
| "apply_embedded_primitive (DeleteBlobIfPresent _ _ _) st =
     Err (config_error ''memory_write_transaction'' ''conditional mutation reached embedded primitive execution'')"

fun apply_embedded_transaction_plan ::
  "'v engine_mutation list \<Rightarrow> 'v embedded_state \<Rightarrow> 'v embedded_state \<times> unit result" where
  "apply_embedded_transaction_plan [] st = (st, Ok ())"
| "apply_embedded_transaction_plan (m # ms) st =
     (case apply_embedded_primitive m st of
        Inl e \<Rightarrow> (st, Err e)
      | Inr st' \<Rightarrow> apply_embedded_transaction_plan ms st')"

definition embedded_plan_commit ::
  "('v, 'a, 'j) tx_hooks \<Rightarrow> transaction_admission \<Rightarrow> ('v, 'a) transaction_request \<Rightarrow> 'v embedded_state \<Rightarrow>
   ('v, 'a) transaction_plan result" where
  "embedded_plan_commit h adm req st =
     (let rs = tr_read_set req;
          touched = \<lparr> ts_json = fold (add_prefix (es_json st)) (btree_keys (rs_json_prefixes rs))
                                 (select_addresses (rs_json rs) (es_json st)),
                      ts_blobs = select_addresses (rs_blobs rs) (es_blobs st), ts_events = [] \<rparr> in
      and_then (expand_owner_transaction_dependencies h req (am_operation_capacity adm) touched
          (\<lambda>namespace key _. Ok (btree_get (es_json st) (namespace, key)))) (\<lambda>touched.
      let existing = btset_of_list (filter (btree_contains (es_event_ids st))
                       (List.map_filter mutation_event_id (tr_mutations req))) in
      apply_transaction h adm req
        \<lparr> cx_touched = touched,
          cx_usage = \<lparr> us_kv_entries = saturating_add (btree_len (es_json st)) (btree_len (es_blobs st)),
                       us_blob_bytes = blob_bytes_of (es_blobs st), us_event_count = length (es_events st) \<rparr>,
          cx_existing_event_ids = existing \<rparr>))"

definition embedded_commit_transaction_admitted ::
  "report_env \<Rightarrow> ('v, 'a, 'j) tx_hooks \<Rightarrow> fence_inputs \<Rightarrow> ('v, 'a) transaction_request \<Rightarrow> transaction_admission \<Rightarrow>
   authority \<times> 'v embedded_engine \<Rightarrow> (authority \<times> 'v embedded_engine) \<times> transaction_report result" where
  "embedded_commit_transaction_admitted renv h inputs req adm =
     (\<lambda>(au, en).
        case validate_inside_engine_fence renv adm (ee_capacity en) (ee_admission_authority en) inputs au of
          (au', Inl e) \<Rightarrow> ((au', en), Err e)
        | (au', Inr _) \<Rightarrow>
            (case embedded_plan_commit h adm req (ee_state en) of
               Inl e \<Rightarrow> ((au', en), Err e)
             | Inr plan \<Rightarrow>
                 (case apply_embedded_transaction_plan (tr_mutations (pn_effective_request plan)) (ee_state en) of
                    (st, Inl e) \<Rightarrow> ((au', en\<lparr>ee_state := st\<rparr>), Err e)
                  | (st, Inr _) \<Rightarrow> ((au', en\<lparr>ee_state := st\<rparr>), Ok (pn_report plan)))))"

section \<open>Reads\<close>

definition embedded_get_json_value :: "'v embedded_engine \<Rightarrow> string \<Rightarrow> string \<Rightarrow> 'v option result" where
  "embedded_get_json_value en namespace key =
     and_then (enforce_logical_key_budget (ee_capacity en) namespace key ''embedded_store_json_read'') (\<lambda>_.
       Ok (btree_get (es_json (ee_state en)) (namespace, key)))"

definition embedded_get_blob :: "'v embedded_engine \<Rightarrow> string \<Rightarrow> string \<Rightarrow> bytes option result" where
  "embedded_get_blob en namespace key =
     and_then (enforce_logical_key_budget (ee_capacity en) namespace key ''embedded_store_blob_read'') (\<lambda>_.
       Ok (btree_get (es_blobs (ee_state en)) (namespace, key)))"

definition embedded_list_json_keys :: "'v embedded_engine \<Rightarrow> string \<Rightarrow> string list result" where
  "embedded_list_json_keys en namespace =
     and_then (enforce_logical_key_budget (ee_capacity en) namespace [] ''embedded_store_json_list'') (\<lambda>_.
       Ok (sort (map snd (filter (\<lambda>a. fst a = namespace) (btree_keys (es_json (ee_state en)))))))"

definition embedded_list_blob_keys :: "'v embedded_engine \<Rightarrow> string \<Rightarrow> string list result" where
  "embedded_list_blob_keys en namespace =
     and_then (enforce_logical_key_budget (ee_capacity en) namespace [] ''embedded_store_blob_list'') (\<lambda>_.
       Ok (sort (map snd (filter (\<lambda>a. fst a = namespace) (btree_keys (es_blobs (ee_state en)))))))"

definition embedded_read_consistent_known_keys ::
  "'v store_env \<Rightarrow> 'v embedded_engine \<Rightarrow> address list \<Rightarrow> address list \<Rightarrow> bool \<Rightarrow> store_capacity_budget \<Rightarrow>
   'v known_key_read_result result" where
  "embedded_read_consistent_known_keys env en json_keys blob_keys include_events capacity =
     read_bounded_known_keys_from_parts env json_keys blob_keys include_events capacity
       (es_json (ee_state en)) (es_blobs (ee_state en)) (es_events (ee_state en))"

definition embedded_open_immutable_read_session ::
  "'v embedded_engine \<Rightarrow> store_capacity_budget \<Rightarrow> 'v read_session result" where
  "embedded_open_immutable_read_session en capacity =
     and_then (validate_immutable_read_session_capacity (ee_capacity en) capacity) (\<lambda>_.
       Ok (session_new capacity))"

fun embedded_session_json ::
  "'v store_env \<Rightarrow> 'v embedded_state \<Rightarrow> address list \<Rightarrow> 'v read_session \<Rightarrow> 'v read_session \<times> 'v json_read list result" where
  "embedded_session_json env st [] s = (s, Ok [])"
| "embedded_session_json env st (a # as) s =
     (case record_json env s (fst a) (snd a) (btree_get (es_json st) a) of
        (s', Inl e) \<Rightarrow> (s', Err e)
      | (s', Inr r) \<Rightarrow>
          (case embedded_session_json env st as s' of
             (s'', Inl e) \<Rightarrow> (s'', Err e)
           | (s'', Inr rs) \<Rightarrow> (s'', Ok (r # rs))))"

fun embedded_session_blobs ::
  "'v embedded_state \<Rightarrow> address list \<Rightarrow> 'v read_session \<Rightarrow> 'v read_session \<times> blob_read list result" where
  "embedded_session_blobs st [] s = (s, Ok [])"
| "embedded_session_blobs st (a # as) s =
     (case record_blob s (fst a) (snd a) (btree_get (es_blobs st) a) of
        (s', Inl e) \<Rightarrow> (s', Err e)
      | (s', Inr r) \<Rightarrow>
          (case embedded_session_blobs st as s' of
             (s'', Inl e) \<Rightarrow> (s'', Err e)
           | (s'', Inr rs) \<Rightarrow> (s'', Ok (r # rs))))"

section \<open>Harness operations\<close>

text \<open>The loop of an append that drops the oldest event, with its identity, while the log is too long.\<close>

function evict_oldest :: "usize \<Rightarrow> 'v embedded_state \<Rightarrow> 'v embedded_state" where
  "evict_oldest limit st =
     (if limit < length (es_events st)
      then evict_oldest limit
             (st\<lparr>es_event_ids := btree_remove (event_id (hd (es_events st))) (es_event_ids st),
                 es_events := tl (es_events st)\<rparr>)
      else st)"
  by pat_completeness auto
termination
  by (relation "measure (\<lambda>(_, st). length (es_events st))") auto

declare evict_oldest.simps [simp del]

definition embedded_append_event :: "store_event \<Rightarrow> 'v embedded_engine \<Rightarrow> 'v embedded_engine \<times> unit result" where
  "embedded_append_event ev en =
     (let capacity = ee_capacity en; st = ee_state en in
      case enforce_event_key_budget capacity ev ''embedded_store_event'' of
        Inl e \<Rightarrow> (en, Err e)
      | Inr _ \<Rightarrow>
          if btree_contains (es_event_ids st) (event_id ev)
          then (en, Err (config_error ''store_event_log'' (''duplicate event id '' @ event_id ev)))
          else (en\<lparr>ee_state := evict_oldest (cap_event_log_max_items capacity)
                     (st\<lparr>es_event_ids := btset_insert (event_id ev) (es_event_ids st),
                         es_events := es_events st @ [ev]\<rparr>)\<rparr>, Ok ()))"

definition embedded_put_json_value ::
  "string \<Rightarrow> string \<Rightarrow> 'v \<Rightarrow> 'v embedded_engine \<Rightarrow> 'v embedded_engine \<times> unit result" where
  "embedded_put_json_value namespace key v en =
     (let capacity = ee_capacity en; st = ee_state en; a = (namespace, key) in
      case enforce_logical_key_budget capacity namespace key ''embedded_store_json_write'' of
        Inl e \<Rightarrow> (en, Err e)
      | Inr _ \<Rightarrow>
          if \<not> btree_contains (es_json st) a \<and> cap_kv_max_entries capacity \<le> btree_len (es_json st)
          then (en, Err (store_budget_error (''kv entries '' @ dec (saturating_add (btree_len (es_json st)) 1)
                  @ '' exceed '' @ dec (cap_kv_max_entries capacity))))
          else (en\<lparr>ee_state := st\<lparr>es_json := btree_insert a v (es_json st)\<rparr>\<rparr>, Ok ()))"

definition embedded_delete_json_value ::
  "string \<Rightarrow> string \<Rightarrow> 'v embedded_engine \<Rightarrow> 'v embedded_engine \<times> bool result" where
  "embedded_delete_json_value namespace key en =
     (let st = ee_state en; a = (namespace, key) in
      case enforce_logical_key_budget (ee_capacity en) namespace key ''embedded_store_json_delete'' of
        Inl e \<Rightarrow> (en, Err e)
      | Inr _ \<Rightarrow> (en\<lparr>ee_state := st\<lparr>es_json := btree_remove a (es_json st)\<rparr>\<rparr>, Ok (btree_contains (es_json st) a)))"

definition embedded_put_blob ::
  "string \<Rightarrow> string \<Rightarrow> bytes \<Rightarrow> 'v embedded_engine \<Rightarrow> 'v embedded_engine \<times> unit result" where
  "embedded_put_blob namespace key v en =
     (let capacity = ee_capacity en; st = ee_state en; a = (namespace, key) in
      case enforce_logical_key_budget capacity namespace key ''embedded_store_blob_write'' of
        Inl e \<Rightarrow> (en, Err e)
      | Inr _ \<Rightarrow>
          let previous = (case btree_get (es_blobs st) a of None \<Rightarrow> 0 | Some old \<Rightarrow> length old);
              next_bytes = saturating_add (saturating_sub (blob_bytes_of (es_blobs st)) previous) (length v)
          in if cap_blob_max_bytes capacity < next_bytes
             then (en, Err (store_budget_error (''blob bytes '' @ dec next_bytes @ '' exceed ''
                     @ dec (cap_blob_max_bytes capacity))))
             else (en\<lparr>ee_state := st\<lparr>es_blobs := btree_insert a v (es_blobs st)\<rparr>\<rparr>, Ok ()))"

definition embedded_delete_blob ::
  "string \<Rightarrow> string \<Rightarrow> 'v embedded_engine \<Rightarrow> 'v embedded_engine \<times> bool result" where
  "embedded_delete_blob namespace key en =
     (let st = ee_state en; a = (namespace, key) in
      case enforce_logical_key_budget (ee_capacity en) namespace key ''embedded_store_blob_delete'' of
        Inl e \<Rightarrow> (en, Err e)
      | Inr _ \<Rightarrow> (en\<lparr>ee_state := st\<lparr>es_blobs := btree_remove a (es_blobs st)\<rparr>\<rparr>, Ok (btree_contains (es_blobs st) a)))"

definition embedded_snapshot_keys :: "store_capacity_budget \<Rightarrow> (address \<times> 'b) list \<Rightarrow> address btset result" where
  "embedded_snapshot_keys capacity docs =
     and_then (collect_results (\<lambda>d.
        and_then (enforce_logical_key_budget capacity (fst (fst d)) (snd (fst d)) ''embedded_store_snapshot_import'')
          (\<lambda>_. Ok (fst d))) docs) (\<lambda>as. Ok (btset_of_list as))"

definition embedded_replace_snapshot ::
  "string list \<Rightarrow> string list \<Rightarrow> (address \<times> 'v) list \<Rightarrow> (address \<times> bytes) list \<Rightarrow> store_event list \<Rightarrow>
   'v embedded_engine \<Rightarrow> 'v embedded_engine \<times> snapshot_replace_report result" where
  "embedded_replace_snapshot json_namespaces blob_namespaces json_docs blobs events en =
     (let capacity = ee_capacity en; st = ee_state en;
          outcome =
           (if cap_event_log_max_items capacity < length events
            then Err (store_budget_error (''event lineage items '' @ dec (length events) @ '' exceed ''
                   @ dec (cap_event_log_max_items capacity)))
            else
            and_then (try_fold (\<lambda>ev ids.
                and_then (enforce_event_key_budget capacity ev ''embedded_store_snapshot_import'') (\<lambda>_.
                if btree_contains ids (event_id ev)
                then Err (config_error ''store_event_log'' (''duplicate event id '' @ event_id ev))
                else Ok (btset_insert (event_id ev) ids))) events btree_empty) (\<lambda>event_ids.
            let json_set = btset_of_list json_namespaces; blob_set = btset_of_list blob_namespaces in
            and_then (embedded_snapshot_keys capacity json_docs) (\<lambda>json_keys.
            and_then (embedded_snapshot_keys capacity blobs) (\<lambda>blob_keys.
            let retained = length (filter (\<lambda>a. \<not> btree_contains json_set (fst a)) (btree_keys (es_json st)));
                final_json_entries = saturating_add retained (length json_docs) in
            if cap_kv_max_entries capacity < final_json_entries
            then Err (store_budget_error (''kv entries '' @ dec final_json_entries @ '' exceed ''
                   @ dec (cap_kv_max_entries capacity)))
            else
            and_then (validate_restore_post_image_blob_bytes capacity
                (map (\<lambda>e. length (snd e))
                   (filter (\<lambda>e. \<not> btree_contains blob_set (fst (fst e))) (entries (es_blobs st))))
                (map (\<lambda>b. length (snd b)) blobs)) (\<lambda>_.
            Ok (\<lparr> es_json = replace_docs json_set json_docs (es_json st),
                  es_blobs = replace_docs blob_set blobs (es_blobs st),
                  es_events = events, es_event_ids = event_ids \<rparr>,
                \<lparr> sr_json_deleted = count_deleted json_set json_keys (es_json st),
                  sr_blobs_deleted = count_deleted blob_set blob_keys (es_blobs st),
                  sr_events_imported = length events \<rparr>))))))
      in case outcome of
           Inl e \<Rightarrow> (en, Err e)
         | Inr (st', report) \<Rightarrow> (en\<lparr>ee_state := st'\<rparr>, Ok report))"

section \<open>The in-memory engine it corresponds to\<close>

definition memory_state_of :: "'v embedded_state \<Rightarrow> 'v mem_state" where
  "memory_state_of st = \<lparr> ms_json = es_json st, ms_blobs = es_blobs st, ms_events = es_events st,
     ms_event_ids = es_event_ids st \<rparr>"

definition as_memory :: "'v embedded_engine \<Rightarrow> 'v mem_engine" where
  "as_memory en = \<lparr> en_capacity = ee_capacity en, en_admission_authority = ee_admission_authority en,
     en_state = memory_state_of (ee_state en) \<rparr>"

lemma memory_state_of_sel [simp]:
  "ms_json (memory_state_of st) = es_json st" "ms_blobs (memory_state_of st) = es_blobs st"
  "ms_events (memory_state_of st) = es_events st" "ms_event_ids (memory_state_of st) = es_event_ids st"
  by (simp_all add: memory_state_of_def)

lemma as_memory_sel [simp]:
  "en_capacity (as_memory en) = ee_capacity en" "en_admission_authority (as_memory en) = ee_admission_authority en"
  "en_state (as_memory en) = memory_state_of (ee_state en)"
  by (simp_all add: as_memory_def)

lemma as_memory_update: "as_memory (en\<lparr>ee_state := st\<rparr>) = (as_memory en)\<lparr>en_state := memory_state_of st\<rparr>"
  by (simp add: as_memory_def)

lemma as_memory_new: "as_memory (embedded_new capacity auth) = new_with_admission_authority capacity auth"
  by (simp add: as_memory_def embedded_new_def new_with_admission_authority_def memory_state_of_def mem_state_default_def)

lemma embedded_primitive:
  "primitive m \<Longrightarrow> apply_primitive m (memory_state_of st) = map_sum id memory_state_of (apply_embedded_primitive m st)"
  by (cases m) (simp_all add: memory_state_of_def)

lemma embedded_primitive_Ok: "primitive m \<Longrightarrow> \<exists>st'. apply_embedded_primitive m st = Inr st'"
  by (cases m) auto

lemma embedded_writes:
  "list_all primitive ms \<Longrightarrow>
   apply_in_memory_transaction_plan ms (memory_state_of st) =
     map_prod memory_state_of id (apply_embedded_transaction_plan ms st)"
proof (induction ms arbitrary: st)
  case (Cons m ms)
  then obtain st' where "apply_embedded_primitive m st = Inr st'"
    using embedded_primitive_Ok [of m st] by auto
  then show ?case using Cons by (simp add: embedded_primitive)
qed simp

lemma embedded_plan_eq: "embedded_plan_commit h adm req st = plan_commit h adm req (memory_state_of st)"
  by (simp add: embedded_plan_commit_def plan_commit_def touched_state_def usage_of_def existing_event_ids_def Let_def)

definition with_memory :: "authority \<times> 'v embedded_engine \<Rightarrow> authority \<times> 'v mem_engine" where
  "with_memory s = (fst s, as_memory (snd s))"

lemma embedded_commit_eq:
  "map_prod with_memory id (embedded_commit_transaction_admitted renv h inputs req adm (au, en)) =
   commit_transaction_admitted renv h inputs req adm (au, as_memory en)"
proof (cases "embedded_plan_commit h adm req (ee_state en)")
  case (Inl e)
  then show ?thesis
    by (simp add: embedded_commit_transaction_admitted_def commit_transaction_admitted_def embedded_plan_eq
        with_memory_def split: prod.splits sum.splits)
next
  case (Inr plan)
  then have pl: "plan_commit h adm req (memory_state_of (ee_state en)) = Inr plan"
    by (simp add: embedded_plan_eq)
  then obtain t mss s where p: "planned h adm req (memory_state_of (ee_state en)) t mss s plan" by (rule plan_commit_Ok)
  then have "list_all primitive (tr_mutations (pn_effective_request plan))"
    using planned_writes(4) [OF p] by (simp add: planned_def)
  from embedded_writes [OF this] Inr pl show ?thesis
    by (simp add: embedded_commit_transaction_admitted_def commit_transaction_admitted_def as_memory_update
        with_memory_def split: prod.splits sum.splits)
qed

section \<open>A second provider of the transactional contract\<close>

definition embedded_call ::
  "report_env \<Rightarrow> ('v, 'a, 'j) tx_hooks \<Rightarrow> ('v, 'a) commit_call \<Rightarrow> authority \<times> 'v embedded_engine \<Rightarrow>
   (authority \<times> 'v embedded_engine) \<times> transaction_report result" where
  "embedded_call renv h = (\<lambda>(inputs, req, adm). embedded_commit_transaction_admitted renv h inputs req adm)"

lemma embedded_call_run:
  assumes "embedded_call renv h c s = (s', r)"
  shows "commit_call renv h c (with_memory s) = (with_memory s', r)"
proof -
  obtain inputs req adm au en where cs: "c = (inputs, req, adm)" "s = (au, en)" by (cases c; cases s)
  then show ?thesis
    using assms embedded_commit_eq [of renv h inputs req adm au en]
    by (simp add: embedded_call_def commit_call_def with_memory_def)
qed

interpretation emb: transactional_store "embedded_call renv h" "\<lambda>s. store_view (with_memory s)"
    "\<lambda>s. sound_store (with_memory s)" call_covers "call_meaning h"
  for renv :: report_env and h :: "('v, 'a, 'j) tx_hooks"
proof (unfold_locales, goal_cases)
  case (1 t s s' e)
  show ?case by (rule mem.error_keeps [OF embedded_call_run [OF 1]])
next
  case (2 t s s' r)
  show ?case by (rule mem.commit_meaning [OF 2(1) embedded_call_run [OF 2(2)]])
next
  case (3 t s s' r)
  show ?case by (rule mem.commit_inv [OF 3(1) embedded_call_run [OF 3(2)] 3(3)])
qed

lemma embedded_run_history:
  "with_memory (run_history (embedded_call renv h) calls s) =
   run_history (commit_call renv h) calls (with_memory s)"
proof (induction calls arbitrary: s)
  case (Cons c calls)
  obtain s' r where "embedded_call renv h c s = (s', r)" by (cases "embedded_call renv h c s")
  then show ?case using Cons embedded_call_run [of renv h c s s' r] by simp
qed simp

lemma embedded_committed:
  "committed (embedded_call renv h) calls s = committed (commit_call renv h) calls (with_memory s)"
proof (induction calls arbitrary: s)
  case (Cons c calls)
  obtain s' r where "embedded_call renv h c s = (s', r)" by (cases "embedded_call renv h c s")
  then show ?case using Cons embedded_call_run [of renv h c s s' r] by (cases r) simp_all
qed simp

text \<open>
  C18. The embedded engine commits exactly as the in-memory engine does: started from fresh
  engines of the same capacity and authority, any history of commits leaves both with the
  same budget authority, documents, blobs, events and identity index, the same commits of it
  succeed, and the next commit gets the same answer, report or error, from both.
\<close>

theorem embedded_history_matches_memory:
  "let e = run_history (embedded_call renv h) calls (au, embedded_new cap auth);
       m = run_history (commit_call renv h) calls (au, new_with_admission_authority cap auth)
   in fst e = fst m \<and> as_memory (snd e) = snd m \<and>
      committed (embedded_call renv h) calls (au, embedded_new cap auth) =
        committed (commit_call renv h) calls (au, new_with_admission_authority cap auth) \<and>
      snd (embedded_call renv h c e) = snd (commit_call renv h c m)"
proof -
  define e where "e = run_history (embedded_call renv h) calls (au, embedded_new cap auth)"
  define m where "m = run_history (commit_call renv h) calls (au, new_with_admission_authority cap auth)"
  have em: "with_memory e = m"
    unfolding e_def m_def embedded_run_history by (simp add: as_memory_new with_memory_def)
  moreover obtain s' r where c: "embedded_call renv h c e = (s', r)" by (cases "embedded_call renv h c e")
  ultimately have "snd (embedded_call renv h c e) = snd (commit_call renv h c m)"
    using embedded_call_run [OF c] by simp
  then show ?thesis
    using em unfolding e_def [symmetric] m_def [symmetric] Let_def
    by (cases e; cases m) (simp add: embedded_committed as_memory_new with_memory_def)
qed

section \<open>Reads and direct writes\<close>

text \<open>Operations whose errors carry the name of the engine agree on success and in what they leave.\<close>

definition same_answer :: "'v embedded_engine \<times> 'r result \<Rightarrow> 'v mem_engine \<times> 'r result \<Rightarrow> bool" where
  "same_answer x y \<longleftrightarrow> as_memory (fst x) = fst y \<and> isl (snd x) = isl (snd y) \<and> (\<not> isl (snd x) \<longrightarrow> snd x = snd y)"

lemma embedded_puts_match:
  "same_answer (embedded_put_json_value ns k v en) (put_json_value ns k v (as_memory en))"
  "same_answer (embedded_put_blob ns k bs en) (put_blob ns k bs (as_memory en))"
  "same_answer (embedded_delete_json_value ns k en) (delete_json_value ns k (as_memory en))"
  "same_answer (embedded_delete_blob ns k en) (delete_blob ns k (as_memory en))"
  by (auto simp: same_answer_def enforce_logical_key_budget_def Let_def as_memory_update memory_state_of_def
      embedded_put_json_value_def put_json_value_def embedded_put_blob_def put_blob_def
      embedded_delete_json_value_def delete_json_value_def embedded_delete_blob_def delete_blob_def)

lemma embedded_sessions_match:
  "embedded_session_json env st as s = read_json_known_keys env (memory_state_of st) as s"
  "embedded_session_blobs st as s = read_blob_known_keys (memory_state_of st) as s"
  by (induction "as" arbitrary: s) simp_all

lemma embedded_reads_match:
  "embedded_read_consistent_known_keys env en jks bks ev cap = read_consistent_known_keys env (as_memory en) jks bks ev cap"
  "embedded_open_immutable_read_session en cap = open_immutable_read_session (as_memory en) cap"
  by (simp_all add: embedded_read_consistent_known_keys_def read_consistent_known_keys_def
      embedded_open_immutable_read_session_def open_immutable_read_session_def)

lemma embedded_snapshot_keys_label:
  "embedded_snapshot_keys c docs = Inr ks \<longleftrightarrow> snapshot_keys c docs = Inr ks"
proof -
  have "collect_results (\<lambda>d. and_then (enforce_logical_key_budget c (fst (fst d)) (snd (fst d)) label)
      (\<lambda>_. Ok (fst d))) docs = Inr as \<longleftrightarrow>
    collect_results (\<lambda>d. and_then (enforce_logical_key_budget c (fst (fst d)) (snd (fst d)) label')
      (\<lambda>_. Ok (fst d))) docs = Inr as" for label label' "as"
    by (simp add: collect_results_Ok result_simps key_budget_Ok)
  note eq = this [of "''embedded_store_snapshot_import''" _ "''in_memory_snapshot_import''"]
  show ?thesis
    unfolding embedded_snapshot_keys_def snapshot_keys_def by (simp add: result_simps eq)
qed

lemma embedded_snapshot_ids_label:
  "try_fold (\<lambda>ev ids. and_then (enforce_event_key_budget c ev label) (\<lambda>_.
       if btree_contains ids (event_id ev)
       then Err (config_error ''store_event_log'' (''duplicate event id '' @ event_id ev))
       else Inr (btset_insert (event_id ev) ids))) events ids = Inr ids' \<longleftrightarrow>
   try_fold (\<lambda>ev ids. and_then (enforce_event_key_budget c ev label') (\<lambda>_.
       if btree_contains ids (event_id ev)
       then Err (config_error ''store_event_log'' (''duplicate event id '' @ event_id ev))
       else Inr (btset_insert (event_id ev) ids))) events ids = Inr ids'"
  by (induction events arbitrary: ids) (auto simp: enforce_event_key_budget_def result_simps)

text \<open>Results that agree on success, with values related by \<open>R\<close>.\<close>

abbreviation agree :: "('a \<Rightarrow> 'b \<Rightarrow> bool) \<Rightarrow> 'a result \<Rightarrow> 'b result \<Rightarrow> bool" where
  "agree \<equiv> rel_sum (\<lambda>_ _. True)"

lemma agree_eqI: "(\<And>v. x = Inr v \<longleftrightarrow> y = Inr v) \<Longrightarrow> agree (=) x y"
  by (cases x; cases y) auto

lemma agree_and_then:
  assumes "agree (=) x y" and "\<And>v. agree R (f v) (g v)"
  shows "agree R (and_then x f) (and_then y g)"
  using assms by (cases x; cases y) simp_all

lemma agree_then: "(\<And>v. agree R (f v) (g v)) \<Longrightarrow> agree R (and_then x f) (and_then x g)"
  by (cases x) simp_all

lemma agree_same_answer:
  assumes "agree (\<lambda>(st, r) (st', r'). st' = memory_state_of st \<and> r = r') x y"
  shows "same_answer (case x of Inl e \<Rightarrow> (en, Err e) | Inr (st, r) \<Rightarrow> (en\<lparr>ee_state := st\<rparr>, Ok r))
    (case y of Inl e \<Rightarrow> (as_memory en, Err e) | Inr (st, r) \<Rightarrow> ((as_memory en)\<lparr>en_state := st\<rparr>, Ok r))"
  using assms by (cases x; cases y) (auto simp: same_answer_def as_memory_update)

lemma embedded_snapshot_matches:
  "same_answer (embedded_replace_snapshot jns bns docs blobs events en) (replace_snapshot jns bns docs blobs events (as_memory en))"
  unfolding embedded_replace_snapshot_def replace_snapshot_def plan_snapshot_def snapshot_event_ids_def Let_def as_memory_sel
proof (rule agree_same_answer, cases "cap_event_log_max_items (ee_capacity en) < length events", goal_cases)
  case 2
  note keys = agree_and_then [OF agree_eqI [OF embedded_snapshot_keys_label]]
  show ?case
    unfolding if_not_P [OF 2] memory_state_of_sel
    by (rule agree_and_then [OF agree_eqI [OF embedded_snapshot_ids_label]], rule keys, rule keys)
      (simp add: memory_state_of_def agree_then)
qed simp

section \<open>Appending to a full log\<close>

lemma evict_oldest_frame [simp]:
  "es_json (evict_oldest n st) = es_json st" "es_blobs (evict_oldest n st) = es_blobs st"
  by (induction n st rule: evict_oldest.induct) (subst evict_oldest.simps, simp)+

lemma evict_oldest_events: "es_events (evict_oldest n st) = drop (length (es_events st) - n) (es_events st)"
proof (induction n st rule: evict_oldest.induct)
  case (1 limit st)
  show ?case
  proof (cases "limit < length (es_events st)")
    case True
    then have "length (es_events st) - limit = Suc (length (tl (es_events st)) - limit)" by simp
    then show ?thesis using 1 [OF True] True by (subst evict_oldest.simps) (simp add: drop_Suc)
  qed (subst evict_oldest.simps, simp)
qed

lemma contains_removed: "btree_contains (btree_remove k m) i \<longleftrightarrow> i \<noteq> k \<and> btree_contains m i"
  by (simp add: btree_contains_def)

lemma evict_oldest_ids:
  "event_ids_inv (memory_state_of st) \<Longrightarrow> event_ids_inv (memory_state_of (evict_oldest n st))"
proof (induction n st rule: evict_oldest.induct)
  case (1 limit st)
  show ?case
  proof (cases "limit < length (es_events st)")
    case True
    then obtain ev evs where "es_events st = ev # evs" by (cases "es_events st") auto
    with 1(2) have "event_ids_inv (memory_state_of (st\<lparr>es_event_ids :=
        btree_remove (event_id (hd (es_events st))) (es_event_ids st), es_events := tl (es_events st)\<rparr>))"
      by (auto simp: event_ids_inv_def contains_removed) (metis imageI)
    from 1(1) [OF True this] True show ?thesis by (subst evict_oldest.simps) simp
  qed (subst evict_oldest.simps, simp add: 1)
qed

lemma new_event_key:
  "length (event_record_key ev) \<le> cap_event_record_key_max_bytes c \<Longrightarrow> enforce_event_key_budget c ev label = Inr ()"
  by (simp add: enforce_event_key_budget_def)

lemma new_event_unindexed:
  assumes "event_ids_inv st" and "event_id ev \<notin> event_id ` set (ms_events st)"
  shows "\<not> btree_contains (ms_event_ids st) (event_id ev)"
  using assms by (simp add: event_ids_inv_def)

lemma new_event_forgotten:
  "\<not> btree_contains ids i \<Longrightarrow> btree_remove i (btset_insert i ids) = (ids :: string btset)"
  by (rule btset_ext) (auto simp: contains_removed)

lemma new_event_inv:
  assumes "event_ids_inv (memory_state_of st)" and "event_id ev \<notin> event_id ` set (es_events st)"
  shows "event_ids_inv (memory_state_of (st\<lparr>es_event_ids := btset_insert (event_id ev) (es_event_ids st),
      es_events := es_events st @ [ev]\<rparr>))"
  using assms by (auto simp: event_ids_inv_def)

lemma full_log_refused:
  assumes "event_ids_inv (en_state en)" and "event_id ev \<notin> event_id ` set (ms_events (en_state en))"
    and "length (event_record_key ev) \<le> cap_event_record_key_max_bytes (en_capacity en)"
    and "cap_event_log_max_items (en_capacity en) \<le> length (ms_events (en_state en))"
  shows "\<exists>e. append_event ev en = (en, Err e)"
  using assms(4) new_event_unindexed [OF assms(1,2)] new_event_key [OF assms(3)]
  by (simp add: append_event_def new_event_forgotten)

text \<open>
  C19. Appending a new event to an embedded engine always succeeds and keeps the newest events
  up to the limit: the log becomes the longest suffix of the old log with the new event that
  the limit allows, and the identity index exactly its identities. If the log was full, the
  oldest event is therefore dropped without an error, and its identity is accepted again,
  where the in-memory engine with the same store refuses the append and keeps its log.
\<close>

theorem embedded_append_drops_oldest:
  assumes "event_ids_inv (memory_state_of (ee_state en))"
    and "length (event_record_key ev) \<le> cap_event_record_key_max_bytes (ee_capacity en)"
    and "event_id ev \<notin> event_id ` set (es_events (ee_state en))"
  shows "\<exists>en'. embedded_append_event ev en = (en', Ok ()) \<and>
      es_json (ee_state en') = es_json (ee_state en) \<and> es_blobs (ee_state en') = es_blobs (ee_state en) \<and>
      es_events (ee_state en') =
        drop (Suc (length (es_events (ee_state en))) - cap_event_log_max_items (ee_capacity en))
          (es_events (ee_state en) @ [ev]) \<and>
      event_ids_inv (memory_state_of (ee_state en')) \<and>
      (cap_event_log_max_items (ee_capacity en) \<le> length (es_events (ee_state en)) \<longrightarrow>
        (\<exists>e. append_event ev (as_memory en) = (as_memory en, Err e)))"
proof -
  let ?st = "(ee_state en)\<lparr>es_event_ids := btset_insert (event_id ev) (es_event_ids (ee_state en)),
      es_events := es_events (ee_state en) @ [ev]\<rparr>"
  let ?en = "en\<lparr>ee_state := evict_oldest (cap_event_log_max_items (ee_capacity en)) ?st\<rparr>"
  have "embedded_append_event ev en = (?en, Ok ())"
    using new_event_unindexed [OF assms(1), of ev] assms(3) new_event_key [OF assms(2)]
    by (simp add: embedded_append_event_def Let_def)
  moreover have "event_ids_inv (memory_state_of (ee_state ?en))"
    using evict_oldest_ids [OF new_event_inv [OF assms(1,3)]] by simp
  moreover have "es_events (ee_state ?en) =
        drop (Suc (length (es_events (ee_state en))) - cap_event_log_max_items (ee_capacity en))
          (es_events (ee_state en) @ [ev])"
    by (simp add: evict_oldest_events)
  moreover have "es_json (ee_state ?en) = es_json (ee_state en)" "es_blobs (ee_state ?en) = es_blobs (ee_state en)"
    by simp_all
  moreover have "cap_event_log_max_items (ee_capacity en) \<le> length (es_events (ee_state en)) \<longrightarrow>
      (\<exists>e. append_event ev (as_memory en) = (as_memory en, Err e))"
    using full_log_refused [of "as_memory en" ev] assms by simp
  ultimately show ?thesis by blast
qed

text \<open>An engine whose log of one event is full.\<close>

definition sample_appended :: "string \<Rightarrow> store_event" where
  "sample_appended eid = store_event_new eid MemoryWrite
     \<lparr> es_agent_id = ''agent'', es_owner_id = ''owner'', es_channel = ''channel'', es_chat_id = ''chat'',
       es_memory_space_id = ''space'', es_subject_id = ''subject'', es_physical_owning_scope = SharedProgram,
       es_conversation_id = None \<rparr> 0"

definition sample_full_log :: "string embedded_engine" where
  "sample_full_log = (embedded_new (capacity_full\<lparr>cap_event_log_max_items := 1\<rparr>) 7)
     \<lparr>ee_state := \<lparr> es_json = btree_empty, es_blobs = btree_empty, es_events = [sample_appended ''first''],
        es_event_ids = btset_insert ''first'' btree_empty \<rparr>\<rparr>"

theorem embedded_append_drops_oldest_witness:
  "\<exists>en' e. embedded_append_event (sample_appended ''second'') sample_full_log = (en', Ok ()) \<and>
     es_events (ee_state en') = [sample_appended ''second''] \<and>
     append_event (sample_appended ''second'') (as_memory sample_full_log) = (as_memory sample_full_log, Err e)"
proof -
  have "event_ids_inv (memory_state_of (ee_state sample_full_log))"
    "length (event_record_key (sample_appended ''second'')) \<le> cap_event_record_key_max_bytes (ee_capacity sample_full_log)"
    "event_id (sample_appended ''second'') \<notin> event_id ` set (es_events (ee_state sample_full_log))"
    by (simp_all add: sample_full_log_def sample_appended_def store_event_new_def embedded_new_def event_ids_inv_def)
  from embedded_append_drops_oldest [OF this] show ?thesis
    by (auto simp: sample_full_log_def embedded_new_def)
qed

end
