(* ===== verification/File_System.thy ===== *)
theory File_System
  imports BTree
begin

text \<open>
  The file system as the file-backed store of \<^verbatim>\<open>sdk/src/store_internal/file.rs\<close> uses it.
  Files are a map from paths below the store root to their bytes; a path is the list of its
  components, so the names \<^verbatim>\<open>.\<close> and \<^verbatim>\<open>..\<close> are ordinary names here, and a directory exists
  when a file lies below it. \<open>read_dir\<close> yields its entries in the order of their names.

  Code that changes files is a script: the system calls it issues, in order, and its result.
  A script that is cut short, by a crash or by a failing call, leaves one of the states of
  \<open>crash_states\<close>, in which a write may also be torn. \<open>rename\<close> is atomic.
\<close>

section \<open>Names\<close>

type_synonym path = "string list"
type_synonym files = "(path, bytes) btree"

text \<open>\<open>Path::file_stem\<close>, \<open>Path::extension\<close> and \<open>Path::with_extension\<close> on the last component.\<close>

definition file_stem :: "string \<Rightarrow> string" where
  "file_stem name =
     (case dropWhile (\<lambda>c. c \<noteq> CHR ''.'') (rev name) of
        [] \<Rightarrow> name
      | [_] \<Rightarrow> name
      | _ # stem \<Rightarrow> rev stem)"

definition extension :: "string \<Rightarrow> string option" where
  "extension name =
     (if file_stem name = name then None
      else Some (rev (takeWhile (\<lambda>c. c \<noteq> CHR ''.'') (rev name))))"

definition with_extension :: "path \<Rightarrow> string \<Rightarrow> path" where
  "with_extension p ext = butlast p @ [file_stem (last p) @ ''.'' @ ext]"

section \<open>Reading\<close>

datatype io_kind = IoNotFound | IoInvalidFilename | IoOther

datatype io_error = IoError io_kind string

fun io_error_kind :: "io_error \<Rightarrow> io_kind" where
  "io_error_kind (IoError k _) = k"

fun at_io_stage :: "string \<Rightarrow> io_error \<Rightarrow> error" where
  "at_io_stage stage (IoError _ text) = Io text stage"

definition missing_file :: io_error where
  "missing_file = IoError IoNotFound ''No such file or directory (os error 2)''"

definition is_not_found_or_invalid_filename :: "io_error \<Rightarrow> bool" where
  "is_not_found_or_invalid_filename e \<longleftrightarrow> io_error_kind e \<in> set [IoNotFound, IoInvalidFilename]"

text \<open>\<open>fault\<close> says which paths the operating system refuses to read, and how.\<close>

type_synonym io_faults = "path \<Rightarrow> io_error option"

definition fs_read :: "io_faults \<Rightarrow> files \<Rightarrow> path \<Rightarrow> io_error + bytes" where
  "fs_read fault fs p =
     (case fault p of
        Some e \<Rightarrow> Inl e
      | None \<Rightarrow> (case btree_get fs p of None \<Rightarrow> Inl missing_file | Some bs \<Rightarrow> Inr bs))"

definition read_file_bounded :: "io_faults \<Rightarrow> files \<Rightarrow> path \<Rightarrow> usize \<Rightarrow> string \<Rightarrow> bytes option result" where
  "read_file_bounded fault fs p max_bytes stage =
     (case fs_read fault fs p of
        Inl e \<Rightarrow> if is_not_found_or_invalid_filename e then Ok None else Err (at_io_stage stage e)
      | Inr bs \<Rightarrow>
          if max_bytes < length bs
          then Err (config_error stage (''file bytes '' @ dec (length bs) @ '' exceed remaining budget '' @ dec max_bytes))
          else Ok (Some bs))"

text \<open>The names of the directories below a directory, in order.\<close>

definition list_child_directory_names :: "files \<Rightarrow> path \<Rightarrow> string list" where
  "list_child_directory_names fs dir =
     btree_keys (btset_of_list (map (\<lambda>p. p ! length dir)
       (filter (\<lambda>p. take (length dir) p = dir \<and> length dir + 1 < length p) (btree_keys fs))))"

section \<open>System calls that change files\<close>

datatype fs_op =
    WriteFile path bytes
  | Rename path path
  | RemoveFile path
  | SetLen path nat
  | AppendBytes path bytes
  | SyncFile path
  | SyncDir path

definition content :: "files \<Rightarrow> path \<Rightarrow> bytes" where
  "content fs p = (case btree_get fs p of None \<Rightarrow> [] | Some bs \<Rightarrow> bs)"

fun apply_op :: "fs_op \<Rightarrow> files \<Rightarrow> files" where
  "apply_op (WriteFile p bs) fs = btree_insert p bs fs"
| "apply_op (Rename p q) fs =
     (case btree_get fs p of None \<Rightarrow> fs | Some bs \<Rightarrow> btree_insert q bs (btree_remove p fs))"
| "apply_op (RemoveFile p) fs = btree_remove p fs"
| "apply_op (SetLen p n) fs = btree_insert p (take n (content fs p @ replicate n (char_of (0 :: nat)))) fs"
| "apply_op (AppendBytes p bs) fs = btree_insert p (content fs p @ bs) fs"
| "apply_op (SyncFile p) fs = fs"
| "apply_op (SyncDir p) fs = fs"

fun torn :: "fs_op \<Rightarrow> files \<Rightarrow> files list" where
  "torn (WriteFile p bs) fs = map (\<lambda>n. btree_insert p (take n bs) fs) [0..<Suc (length bs)]"
| "torn (SetLen p n) fs = [btree_insert p (content fs p) fs]"
| "torn (AppendBytes p bs) fs = map (\<lambda>n. btree_insert p (content fs p @ take n bs) fs) [0..<Suc (length bs)]"
| "torn _ fs = []"

primrec run_ops :: "fs_op list \<Rightarrow> files \<Rightarrow> files" where
  "run_ops [] fs = fs"
| "run_ops (op # ops) fs = run_ops ops (apply_op op fs)"

primrec crash_states :: "fs_op list \<Rightarrow> files \<Rightarrow> files list" where
  "crash_states [] fs = [fs]"
| "crash_states (op # ops) fs = fs # torn op fs @ crash_states ops (apply_op op fs)"

section \<open>Scripts\<close>

type_synonym 'a script = "fs_op list \<times> 'a result"

definition script_then :: "'a script \<Rightarrow> ('a \<Rightarrow> 'b script) \<Rightarrow> 'b script" where
  "script_then s f =
     (case snd s of Inl e \<Rightarrow> (fst s, Err e) | Inr x \<Rightarrow> (fst s @ fst (f x), snd (f x)))"

abbreviation compute :: "'a result \<Rightarrow> 'a script" where
  "compute r \<equiv> ([], r)"

abbreviation emit :: "fs_op list \<Rightarrow> unit script" where
  "emit ops \<equiv> (ops, Ok ())"

primrec script_for_each :: "('a \<Rightarrow> unit script) \<Rightarrow> 'a list \<Rightarrow> unit script" where
  "script_for_each f [] = emit []"
| "script_for_each f (x # xs) = script_then (f x) (\<lambda>_. script_for_each f xs)"

definition sync_directory :: "path \<Rightarrow> bool \<Rightarrow> unit script" where
  "sync_directory dir fsync = emit (if fsync then [SyncDir dir] else [])"

definition complete_rename_durability :: "path \<Rightarrow> path \<Rightarrow> bool \<Rightarrow> unit script" where
  "complete_rename_durability from_path to_path fsync =
     (if fsync
      then script_for_each (\<lambda>dir. sync_directory dir True)
             (btree_keys (btset_of_list [butlast from_path, butlast to_path]))
      else emit [])"

definition atomic_write :: "path \<Rightarrow> bytes \<Rightarrow> bool \<Rightarrow> unit script" where
  "atomic_write p bs fsync =
     (let tmp = with_extension p ''tmp'' in
      script_then (emit ([WriteFile tmp bs] @ (if fsync then [SyncFile tmp] else []) @ [Rename tmp p])) (\<lambda>_.
      complete_rename_durability tmp p fsync))"

definition remove_file_if_exists :: "path \<Rightarrow> unit script" where
  "remove_file_if_exists p = emit [RemoveFile p]"

section \<open>Laws\<close>

lemma script_then_Ok [simp]: "script_then (ops, Inr x) f = (ops @ fst (f x), snd (f x))"
  by (simp add: script_then_def)

lemma script_then_Err [simp]: "script_then (ops, Inl e) f = (ops, Inl e)"
  by (simp add: script_then_def)

lemma script_then_eq_Ok:
  "script_then s f = (ops, Inr y) \<longleftrightarrow>
   (\<exists>a x b. s = (a, Inr x) \<and> f x = (b, Inr y) \<and> ops = a @ b)"
  by (cases s; cases "snd s") (auto simp: script_then_def prod_eq_iff)

lemma run_ops_append [simp]: "run_ops (a @ b) fs = run_ops b (run_ops a fs)"
  by (induction a arbitrary: fs) auto

lemma crash_states_append:
  "set (crash_states (a @ b) fs) = set (crash_states a fs) \<union> set (crash_states b (run_ops a fs))"
proof (induction a arbitrary: fs)
  case Nil
  then show ?case by (cases b) auto
qed auto

lemma crash_initial: "fs \<in> set (crash_states ops fs)"
  by (cases ops) auto

lemma crash_final: "run_ops ops fs \<in> set (crash_states ops fs)"
  by (induction ops arbitrary: fs) auto

text \<open>What a call may change.\<close>

fun touches :: "fs_op \<Rightarrow> path set" where
  "touches (WriteFile p _) = {p}"
| "touches (Rename p q) = {p, q}"
| "touches (RemoveFile p) = {p}"
| "touches (SetLen p _) = {p}"
| "touches (AppendBytes p _) = {p}"
| "touches (SyncFile _) = {}"
| "touches (SyncDir _) = {}"

definition script_touches :: "fs_op list \<Rightarrow> path set" where
  "script_touches ops = \<Union> (touches ` set ops)"

lemma script_touches_simps [simp]:
  "script_touches [] = {}" "script_touches (op # ops) = touches op \<union> script_touches ops"
  "script_touches (a @ b) = script_touches a \<union> script_touches b"
  by (auto simp: script_touches_def)

lemma apply_op_frame: "q \<notin> touches op \<Longrightarrow> btree_get (apply_op op fs) q = btree_get fs q"
  by (cases op) (auto split: option.splits)

lemma torn_frame: "fs' \<in> set (torn op fs) \<Longrightarrow> q \<notin> touches op \<Longrightarrow> btree_get fs' q = btree_get fs q"
  by (cases op) auto

lemma crash_frame:
  "fs' \<in> set (crash_states ops fs) \<Longrightarrow> q \<notin> script_touches ops \<Longrightarrow> btree_get fs' q = btree_get fs q"
proof (induction ops arbitrary: fs)
  case (Cons op ops)
  then show ?case using apply_op_frame [of q op fs] torn_frame [of fs' op fs q] by auto
qed simp

lemma run_frame: "q \<notin> script_touches ops \<Longrightarrow> btree_get (run_ops ops fs) q = btree_get fs q"
  using crash_frame [OF crash_final] by blast

text \<open>An atomic write changes its target in one step and leaves nothing else behind but its temporary file.\<close>

lemma btset_keys_doubleton: "set (btree_keys (btset_of_list [d, d'])) = {d, d'}"
  by (auto simp: set_keys btset_of_list_def dom_fold_btset_insert)

lemma script_for_each_emit:
  "script_for_each (\<lambda>x. emit (f x)) xs = emit (concat (map f xs))"
  by (induction xs) auto

lemma rename_durability_emits:
  obtains ops where "complete_rename_durability p q fsync = emit ops" "\<forall>op \<in> set ops. \<exists>d. op = SyncDir d"
    "fsync \<Longrightarrow> SyncDir (butlast q) \<in> set ops"
proof (cases fsync)
  case True
  have "complete_rename_durability p q fsync
      = emit (concat (map (\<lambda>d. [SyncDir d]) (btree_keys (btset_of_list [butlast p, butlast q]))))"
    using True by (simp add: complete_rename_durability_def sync_directory_def script_for_each_emit)
  then show ?thesis using that btset_keys_doubleton [of "butlast p" "butlast q"] by auto
next
  case False
  then show ?thesis using that [of "[]"] by (simp add: complete_rename_durability_def)
qed

lemma syncs_run: "\<forall>op \<in> set ops. \<exists>d. op = SyncDir d \<Longrightarrow> run_ops ops fs = fs"
  by (induction ops arbitrary: fs) auto

lemma syncs_crash: "\<forall>op \<in> set ops. \<exists>d. op = SyncDir d \<Longrightarrow> set (crash_states ops fs) = {fs}"
  by (induction ops arbitrary: fs) auto

lemma syncs_touches: "\<forall>op \<in> set ops. \<exists>d. op = SyncDir d \<Longrightarrow> script_touches ops = {}"
  by (induction ops) auto

lemma atomic_write_script:
  obtains ops where "atomic_write p bs fsync = emit ops"
    "script_touches ops = {with_extension p ''tmp'', p}"
    "\<And>fs. run_ops ops fs = (if with_extension p ''tmp'' = p then btree_insert p bs (btree_remove p fs)
            else btree_insert p bs (btree_remove (with_extension p ''tmp'') fs))"
    "\<And>fs fs'. fs' \<in> set (crash_states ops fs) \<Longrightarrow> with_extension p ''tmp'' \<noteq> p \<Longrightarrow>
       btree_get fs' p = btree_get fs p \<or> fs' = run_ops ops fs"
proof -
  let ?tmp = "with_extension p ''tmp''"
  obtain syncs where s: "complete_rename_durability ?tmp p fsync = emit syncs" "\<forall>op \<in> set syncs. \<exists>d. op = SyncDir d"
    by (rule rename_durability_emits)
  let ?ops = "[WriteFile ?tmp bs] @ (if fsync then [SyncFile ?tmp] else []) @ [Rename ?tmp p] @ syncs"
  have same: "btree_remove x (btree_insert x v fs) = btree_remove x fs" for x v and fs :: files
    by (rule btree_ext) (simp add: fun_eq_iff)
  show thesis
  proof (rule that [of ?ops])
    show "atomic_write p bs fsync = emit ?ops"
      by (simp add: atomic_write_def Let_def s)
    show "script_touches ?ops = {?tmp, p}"
      using syncs_touches [OF s(2)] by auto
    show run: "run_ops ?ops fs = (if ?tmp = p then btree_insert p bs (btree_remove p fs)
            else btree_insert p bs (btree_remove ?tmp fs))" for fs
      by (simp add: syncs_run [OF s(2)] same)
    show "btree_get fs' p = btree_get fs p \<or> fs' = run_ops ?ops fs"
      if "fs' \<in> set (crash_states ?ops fs)" "?tmp \<noteq> p" for fs fs'
      using that by (cases fsync) (auto simp: syncs_crash [OF s(2)] syncs_run [OF s(2)] crash_states_append)
  qed
qed

end
