(* ===== verification/File_Address.thy ===== *)
theory File_Address
  imports File_System Store_Apply "HOL-Library.Word"
begin

text \<open>
  Where the file-backed store of \<^verbatim>\<open>sdk/src/store_internal/file.rs\<close> keeps an entry: the
  64-bit digest of lane, namespace and key, the data file and the key index file it names,
  the budgets a path has to meet, and the file name of stores written before the digest
  was introduced, which is the key in hexadecimal.
\<close>

section \<open>Digest\<close>

definition digest_prime :: "64 word" where
  "digest_prime = 0x100000001b3"

definition digest_byte :: "char \<Rightarrow> 64 word \<Rightarrow> 64 word" where
  "digest_byte b hash = xor hash (of_nat (of_char b)) * digest_prime"

definition digest_part :: "bytes \<Rightarrow> 64 word \<Rightarrow> 64 word" where
  "digest_part part hash = xor (fold digest_byte part hash) 0xff * digest_prime"

definition digest_parts :: "64 word \<Rightarrow> bytes list \<Rightarrow> 64 word" where
  "digest_parts seed parts = fold digest_part parts seed"

definition physical_key_digest :: "string \<Rightarrow> string \<Rightarrow> string \<Rightarrow> usize \<Rightarrow> string" where
  "physical_key_digest lane namespace key hex_chars =
     (let first = digest_parts 0xcbf29ce484222325 [''bm-store-file-v2'', lane, namespace, key];
          second = digest_parts 0x84222325cbf29ce4 [''bm-store-file-v2-key'', key, namespace, lane]
      in take hex_chars (hex16 (unat first) @ hex16 (unat second)))"

section \<open>Hexadecimal file names\<close>

definition hex_encode :: "bytes \<Rightarrow> string" where
  "hex_encode bs = concat (map (\<lambda>b. [hex_digit (of_char b div 16), hex_digit (of_char b mod 16)]) bs)"

definition from_hex_digit :: "char \<Rightarrow> nat option" where
  "from_hex_digit c =
     (let n = of_char c :: nat in
      if 48 \<le> n \<and> n \<le> 57 then Some (n - 48)
      else if 97 \<le> n \<and> n \<le> 102 then Some (n - 87)
      else if 65 \<le> n \<and> n \<le> 70 then Some (n - 55)
      else None)"

text \<open>\<open>u8::from_str_radix(_, 16)\<close> on two characters, which may begin with a plus sign.\<close>

definition from_hex_pair :: "char \<Rightarrow> char \<Rightarrow> nat option" where
  "from_hex_pair c d =
     (if c = CHR ''+'' then from_hex_digit d
      else Option.bind (from_hex_digit c) (\<lambda>h. map_option (\<lambda>l. 16 * h + l) (from_hex_digit d)))"

fun hex_decode :: "string \<Rightarrow> bytes option" where
  "hex_decode [] = Some []"
| "hex_decode [_] = None"
| "hex_decode (c # d # s) =
     Option.bind (from_hex_pair c d) (\<lambda>n. map_option ((#) (char_of n)) (hex_decode s))"

text \<open>Well-formed UTF-8.\<close>

definition in_range :: "nat \<Rightarrow> nat \<Rightarrow> char \<Rightarrow> bool" where
  "in_range lo hi c \<longleftrightarrow> lo \<le> of_char c \<and> of_char c \<le> hi"

abbreviation continuation :: "char \<Rightarrow> bool" where
  "continuation \<equiv> in_range 0x80 0xBF"

fun valid_utf8 :: "bytes \<Rightarrow> bool" where
  "valid_utf8 [] = True"
| "valid_utf8 (a # s) =
     (if in_range 0 0x7F a then valid_utf8 s
      else case s of
        [] \<Rightarrow> False
      | b # s \<Rightarrow>
          if in_range 0xC2 0xDF a then continuation b \<and> valid_utf8 s
          else (case s of
            [] \<Rightarrow> False
          | c # s \<Rightarrow>
              if in_range 0xE0 0xEF a
              then in_range (if a = char_of (0xE0 :: nat) then 0xA0 else 0x80) (if a = char_of (0xED :: nat) then 0x9F else 0xBF) b
                   \<and> continuation c \<and> valid_utf8 s
              else (case s of
                [] \<Rightarrow> False
              | d # s \<Rightarrow>
                  in_range 0xF0 0xF4 a
                  \<and> in_range (if a = char_of (0xF0 :: nat) then 0x90 else 0x80) (if a = char_of (0xF4 :: nat) then 0x8F else 0xBF) b
                  \<and> continuation c \<and> continuation d \<and> valid_utf8 s)))"

definition hex_decode_to_string :: "string \<Rightarrow> string option" where
  "hex_decode_to_string s =
     (if odd (length s) then None
      else Option.bind (hex_decode s) (\<lambda>bs. if valid_utf8 bs then Some bs else None))"

section \<open>Paths of an entry\<close>

record file_engine =
  fl_fsync :: bool
  fl_capacity :: store_capacity_budget
  fl_path_budget :: store_path_budget
  fl_admission_authority :: nat

definition FILE_ADDRESSING_VERSION :: nat where "FILE_ADDRESSING_VERSION = 2"
definition FILE_ADDRESSING_DATA_DIR :: string where "FILE_ADDRESSING_DATA_DIR = ''_v2''"
definition FILE_ADDRESSING_INDEX_DIR :: string where "FILE_ADDRESSING_INDEX_DIR = ''_keys''"
definition MIN_PHYSICAL_DIGEST_HEX_CHARS :: usize where "MIN_PHYSICAL_DIGEST_HEX_CHARS = 16"
definition MAX_PHYSICAL_DIGEST_HEX_CHARS :: usize where "MAX_PHYSICAL_DIGEST_HEX_CHARS = 32"
definition TRANSACTION_MARKER_FILE :: string where "TRANSACTION_MARKER_FILE = ''.beetle-memory.transaction''"

definition validate_addressing_budget :: "file_engine \<Rightarrow> string \<Rightarrow> string \<Rightarrow> unit result" where
  "validate_addressing_budget eng ext stage =
     (let budget = fl_path_budget eng; digest_chars = physical_key_digest_hex_chars budget in
      if \<not> (MIN_PHYSICAL_DIGEST_HEX_CHARS \<le> digest_chars \<and> digest_chars \<le> MAX_PHYSICAL_DIGEST_HEX_CHARS)
      then Err (config_error stage (''physical key digest hex chars '' @ dec digest_chars @ '' outside ''
             @ dec MIN_PHYSICAL_DIGEST_HEX_CHARS @ ''..='' @ dec MAX_PHYSICAL_DIGEST_HEX_CHARS))
      else if max_file_name_bytes budget < digest_chars + 1 + length ext
              \<or> max_file_name_bytes budget < digest_chars + 1 + length ''json''
      then Err (config_error stage (''physical key digest length exceeds file name budget ''
             @ dec (max_file_name_bytes budget)))
      else Ok ())"

text \<open>The messages quote the name as it is; Rust's debug format would escape special characters in it.\<close>

definition quoted :: "string \<Rightarrow> string" where
  "quoted s = [char_of (34 :: nat)] @ s @ [char_of (34 :: nat)]"

definition validate_directory_component :: "file_engine \<Rightarrow> string \<Rightarrow> string \<Rightarrow> unit result" where
  "validate_directory_component eng v stage =
     (if v = [] \<or> CHR ''/'' \<in> set v \<or> char_of (92 :: nat) \<in> set v
      then Err (config_error stage (''invalid file store directory component '' @ quoted v))
      else if max_directory_name_bytes (fl_path_budget eng) < length v
      then Err (config_error stage (''directory component '' @ quoted v @ '' exceeds ''
             @ dec (max_directory_name_bytes (fl_path_budget eng)) @ '' bytes''))
      else Ok ())"

definition validate_file_name :: "file_engine \<Rightarrow> string \<Rightarrow> string \<Rightarrow> unit result" where
  "validate_file_name eng v stage =
     (if v = [] \<or> CHR ''/'' \<in> set v \<or> char_of (92 :: nat) \<in> set v
      then Err (config_error stage (''invalid file store file name '' @ quoted v))
      else if max_file_name_bytes (fl_path_budget eng) < length v
      then Err (config_error stage (''file name '' @ quoted v @ '' exceeds ''
             @ dec (max_file_name_bytes (fl_path_budget eng)) @ '' bytes''))
      else Ok ())"

definition validate_relative_path :: "file_engine \<Rightarrow> string \<Rightarrow> string \<Rightarrow> unit result" where
  "validate_relative_path eng v stage =
     (if max_relative_path_bytes (fl_path_budget eng) < length v
      then Err (config_error stage (''relative file store path exceeds ''
             @ dec (max_relative_path_bytes (fl_path_budget eng)) @ '' bytes''))
      else Ok ())"

record physical_key_paths =
  data_path :: path
  index_path :: path
  legacy_path :: path

definition slash_join :: "string list \<Rightarrow> string" where
  "slash_join parts = concat (map (\<lambda>i. (if i = 0 then [] else ''/'') @ parts ! i) [0..<length parts])"

definition physical_key_paths_at_root :: "file_engine \<Rightarrow> string \<Rightarrow> string \<Rightarrow> string \<Rightarrow> string \<Rightarrow> physical_key_paths result" where
  "physical_key_paths_at_root eng lane namespace key ext =
     (let stage = ''file_store_addressing'' in
      and_then (enforce_logical_key_budget (fl_capacity eng) namespace key stage) (\<lambda>_.
      and_then (validate_addressing_budget eng ext stage) (\<lambda>_.
      let digest = physical_key_digest lane namespace key (physical_key_digest_hex_chars (fl_path_budget eng));
          shard = take 2 digest;
          data_file_name = digest @ ''.'' @ ext;
          index_file_name = digest @ ''.json'';
          data = [lane, namespace, FILE_ADDRESSING_DATA_DIR, shard, data_file_name];
          index = [lane, namespace, FILE_ADDRESSING_INDEX_DIR, shard, index_file_name]
      in
      and_then (validate_directory_component eng lane stage) (\<lambda>_.
      and_then (validate_directory_component eng namespace stage) (\<lambda>_.
      and_then (validate_directory_component eng FILE_ADDRESSING_DATA_DIR stage) (\<lambda>_.
      and_then (validate_directory_component eng FILE_ADDRESSING_INDEX_DIR stage) (\<lambda>_.
      and_then (validate_directory_component eng shard stage) (\<lambda>_.
      and_then (validate_file_name eng data_file_name stage) (\<lambda>_.
      and_then (validate_file_name eng index_file_name stage) (\<lambda>_.
      and_then (validate_relative_path eng (slash_join data) stage) (\<lambda>_.
      and_then (validate_relative_path eng (slash_join index) stage) (\<lambda>_.
      Ok \<lparr> data_path = data, index_path = index,
           legacy_path = [lane, namespace, hex_encode key @ ''.'' @ ext] \<rparr>))))))))))))"

definition json_paths :: "file_engine \<Rightarrow> string \<Rightarrow> string \<Rightarrow> physical_key_paths result" where
  "json_paths eng namespace key = physical_key_paths_at_root eng ''kv'' namespace key ''json''"

definition blob_paths :: "file_engine \<Rightarrow> string \<Rightarrow> string \<Rightarrow> physical_key_paths result" where
  "blob_paths eng namespace key = physical_key_paths_at_root eng ''blob'' namespace key ''bin''"

definition events_path :: path where
  "events_path = [''events'', ''events.jsonl'']"

definition transaction_marker_path :: path where
  "transaction_marker_path = [TRANSACTION_MARKER_FILE]"

end
