(* ===== verification/File_Journal.thy ===== *)
theory File_Journal
  imports File_Address
begin

text \<open>
  The transaction journal of the file-backed store (\<^verbatim>\<open>sdk/src/store_internal/file.rs\<close>): the
  images of a transaction before and after, the journal file with its checksum, the script
  that brings the files to an image, and recovery, which restores the image the journal's
  state selects and then removes the journal.

  Serialisation is library code: the fields of \<open>file_env\<close> print and parse the documents the
  code writes. \<open>codecs_ok\<close> states what the store relies on: what was printed is read back.
\<close>

section \<open>Data\<close>

datatype journal_state = Prepared | Committed

record 'v image_json =
  ij_namespace :: string
  ij_key :: string
  ij_value :: "'v option"

record image_blob =
  ib_namespace :: string
  ib_key :: string
  ib_value :: "bytes option"

datatype events_image =
    ImageAppend (prefix_len: u64) (image_events: "store_event list")
  | ImageReplace (image_events: "store_event list")

record 'v transaction_image =
  im_json :: "'v image_json list"
  im_blobs :: "image_blob list"
  im_events :: events_image

record 'v transaction_journal =
  jo_schema_version :: u64
  jo_transaction_id :: string
  jo_state :: journal_state
  jo_before :: "'v transaction_image"
  jo_after :: "'v transaction_image"
  jo_checksum :: string

record key_index =
  ki_addressing_version :: u64
  ki_key :: string

record 'v file_env =
  fe_store :: "'v store_env"
  fe_pretty_json :: "'v \<Rightarrow> string + bytes"
  fe_parse_json :: "bytes \<Rightarrow> string + 'v"
  fe_pretty_index :: "key_index \<Rightarrow> string + bytes"
  fe_parse_index :: "bytes \<Rightarrow> string + key_index"
  fe_parse_event :: "bytes \<Rightarrow> string + store_event"
  fe_journal_json :: "'v transaction_journal \<Rightarrow> string + bytes"
  fe_checksum_json :: "u64 \<Rightarrow> string \<Rightarrow> journal_state \<Rightarrow> 'v transaction_image \<Rightarrow> 'v transaction_image \<Rightarrow> string + bytes"
  fe_parse_journal :: "bytes \<Rightarrow> string + 'v transaction_journal"
  fe_object_fields :: "bytes \<Rightarrow> string list option"
  fe_fault :: io_faults

definition map_config_err :: "string \<Rightarrow> string + 'a \<Rightarrow> 'a result" where
  "map_config_err stage r = (case r of Inl msg \<Rightarrow> Err (config_error stage msg) | Inr x \<Rightarrow> Ok x)"

section \<open>Journal\<close>

definition TRANSACTION_REPAIR_REQUIRED_STAGE :: string where
  "TRANSACTION_REPAIR_REQUIRED_STAGE = ''memory_write_transaction_repair_required''"

definition expected_checksum :: "'v file_env \<Rightarrow> 'v transaction_journal \<Rightarrow> string result" where
  "expected_checksum env j =
     and_then (map_config_err ''file_store_transaction''
        (fe_checksum_json env (jo_schema_version j) (jo_transaction_id j) (jo_state j) (jo_before j) (jo_after j)))
      (\<lambda>bs. Ok (se_sha256_hex (fe_store env) bs))"

definition refresh_checksum :: "'v file_env \<Rightarrow> 'v transaction_journal \<Rightarrow> 'v transaction_journal result" where
  "refresh_checksum env j = and_then (expected_checksum env j) (\<lambda>c. Ok (j\<lparr>jo_checksum := c\<rparr>))"

definition journal_new ::
  "'v file_env \<Rightarrow> string \<Rightarrow> 'v transaction_image \<Rightarrow> 'v transaction_image \<Rightarrow> 'v transaction_journal result" where
  "journal_new env transaction_id before after =
     refresh_checksum env \<lparr> jo_schema_version = 2, jo_transaction_id = transaction_id, jo_state = Prepared,
       jo_before = before, jo_after = after, jo_checksum = [] \<rparr>"

definition verify_checksum :: "'v file_env \<Rightarrow> 'v transaction_journal \<Rightarrow> unit result" where
  "verify_checksum env j =
     and_then (expected_checksum env j) (\<lambda>c.
       ensure (jo_checksum j = c)
         (config_error TRANSACTION_REPAIR_REQUIRED_STAGE ''file transaction journal checksum mismatch''))"

definition ij_address :: "'v image_json \<Rightarrow> address" where
  "ij_address e = (ij_namespace e, ij_key e)"

definition ib_address :: "image_blob \<Rightarrow> address" where
  "ib_address e = (ib_namespace e, ib_key e)"

definition json_addresses :: "'v transaction_image \<Rightarrow> address btset result" where
  "json_addresses img =
     (let addresses = btset_of_list (map ij_address (im_json img)) in
      if btree_len addresses \<noteq> length (im_json img)
      then Err (config_error TRANSACTION_REPAIR_REQUIRED_STAGE
             ''file transaction journal contains duplicate JSON addresses'')
      else Ok addresses)"

definition blob_addresses :: "'v transaction_image \<Rightarrow> address btset result" where
  "blob_addresses img =
     (let addresses = btset_of_list (map ib_address (im_blobs img)) in
      if btree_len addresses \<noteq> length (im_blobs img)
      then Err (config_error TRANSACTION_REPAIR_REQUIRED_STAGE
             ''file transaction journal contains duplicate blob addresses'')
      else Ok addresses)"

definition validate_event_images :: "events_image \<Rightarrow> events_image \<Rightarrow> unit result" where
  "validate_event_images before after =
     ensure (case (before, after) of
          (ImageAppend m _, ImageAppend n _) \<Rightarrow> m = n
        | (ImageReplace _, ImageReplace _) \<Rightarrow> True
        | _ \<Rightarrow> False)
       (config_error TRANSACTION_REPAIR_REQUIRED_STAGE ''file transaction journal event image contract mismatch'')"

definition address_closure_mismatch :: error where
  "address_closure_mismatch = config_error TRANSACTION_REPAIR_REQUIRED_STAGE
     ''file transaction journal before/after address closure mismatch''"

definition validate_image_address_contract :: "'v transaction_journal \<Rightarrow> unit result" where
  "validate_image_address_contract j =
     (if trim (jo_transaction_id j) = [] then Err address_closure_mismatch
      else
      and_then (json_addresses (jo_before j)) (\<lambda>b.
      and_then (json_addresses (jo_after j)) (\<lambda>a.
      if b \<noteq> a then Err address_closure_mismatch
      else
      and_then (blob_addresses (jo_before j)) (\<lambda>b.
      and_then (blob_addresses (jo_after j)) (\<lambda>a.
      if b \<noteq> a then Err address_closure_mismatch
      else validate_event_images (im_events (jo_before j)) (im_events (jo_after j)))))))"

definition has_complete_journal_shape :: "'v file_env \<Rightarrow> bytes \<Rightarrow> bool" where
  "has_complete_journal_shape env bs =
     (case fe_object_fields env bs of
        None \<Rightarrow> False
      | Some journal \<Rightarrow> list_all (\<lambda>f. f \<in> set journal)
          [''schema_version'', ''transaction_id'', ''state'', ''before'', ''after'', ''checksum''])"

definition journal_limit :: "file_engine \<Rightarrow> usize" where
  "journal_limit eng = saturating_add (cap_import_max_bytes (fl_capacity eng))
     (saturating_mul (cap_blob_max_bytes (fl_capacity eng)) 3)"

definition read_transaction_journal_read_only ::
  "'v file_env \<Rightarrow> file_engine \<Rightarrow> files \<Rightarrow> 'v transaction_journal option result" where
  "read_transaction_journal_read_only env eng fs =
     and_then (read_file_bounded (fe_fault env) fs transaction_marker_path (journal_limit eng)
                 ''file_store_transaction_recovery'') (\<lambda>found.
     case found of
       None \<Rightarrow> Ok None
     | Some bs \<Rightarrow>
         and_then (case fe_parse_journal env bs of
             Inr j \<Rightarrow> Ok j
           | Inl msg \<Rightarrow> Err (config_error
               (if has_complete_journal_shape env bs then TRANSACTION_REPAIR_REQUIRED_STAGE
                else ''store_transaction_recovery_required'')
               (''file transaction journal is not recoverable: '' @ msg))) (\<lambda>j.
         if jo_schema_version j \<noteq> 2
         then Err (config_error TRANSACTION_REPAIR_REQUIRED_STAGE
                (''unsupported file transaction journal schema '' @ dec (jo_schema_version j)))
         else
         and_then (verify_checksum env j) (\<lambda>_.
         and_then (validate_image_address_contract j) (\<lambda>_. Ok (Some j)))))"

definition transaction_image :: "'v tx_state \<Rightarrow> read_set \<Rightarrow> events_image \<Rightarrow> 'v transaction_image" where
  "transaction_image t rs events =
     \<lparr> im_json = map (\<lambda>a. \<lparr> ij_namespace = fst a, ij_key = snd a, ij_value = btree_get (ts_json t) a \<rparr>)
                   (btree_keys (rs_json rs)),
       im_blobs = map (\<lambda>a. \<lparr> ib_namespace = fst a, ib_key = snd a, ib_value = btree_get (ts_blobs t) a \<rparr>)
                   (btree_keys (rs_blobs rs)),
       im_events = events \<rparr>"

section \<open>Writing an image\<close>

definition recovery_stage :: string where
  "recovery_stage = ''file_store_transaction_recovery''"

definition sync_root :: "file_engine \<Rightarrow> unit script" where
  "sync_root eng = sync_directory [] (fl_fsync eng)"

definition write_key_index :: "'v file_env \<Rightarrow> file_engine \<Rightarrow> path \<Rightarrow> string \<Rightarrow> string \<Rightarrow> unit script" where
  "write_key_index env eng p key stage =
     script_then (compute (map_config_err stage
         (fe_pretty_index env \<lparr> ki_addressing_version = FILE_ADDRESSING_VERSION, ki_key = key \<rparr>))) (\<lambda>bs.
     atomic_write p bs (fl_fsync eng))"

text \<open>Opening the event log in append mode creates it when it is missing.\<close>

definition append_event_unchecked :: "'v file_env \<Rightarrow> file_engine \<Rightarrow> store_event \<Rightarrow> unit script" where
  "append_event_unchecked env eng ev =
     script_then (emit [AppendBytes events_path []]) (\<lambda>_.
     script_then (compute (map_config_err ''store_event_log'' (se_event_json (fe_store env) ev))) (\<lambda>bs.
     emit ([AppendBytes events_path bs, AppendBytes events_path [char_of (10 :: nat)]]
           @ (if fl_fsync eng then [SyncFile events_path] else []))))"

fun events_jsonl_bytes :: "'v file_env \<Rightarrow> store_event list \<Rightarrow> bytes result" where
  "events_jsonl_bytes env [] = Ok []"
| "events_jsonl_bytes env (ev # evs) =
     and_then (map_config_err ''file_store_transaction'' (se_event_json (fe_store env) ev)) (\<lambda>bs.
     and_then (events_jsonl_bytes env evs) (\<lambda>rest. Ok (bs @ [char_of (10 :: nat)] @ rest)))"

definition remove_entry_files :: "physical_key_paths \<Rightarrow> unit script" where
  "remove_entry_files paths =
     script_then (remove_file_if_exists (data_path paths)) (\<lambda>_.
     script_then (remove_file_if_exists (index_path paths)) (\<lambda>_.
     remove_file_if_exists (legacy_path paths)))"

definition restore_json :: "'v file_env \<Rightarrow> file_engine \<Rightarrow> 'v image_json \<Rightarrow> unit script" where
  "restore_json env eng e =
     script_then (compute (json_paths eng (ij_namespace e) (ij_key e))) (\<lambda>paths.
     case ij_value e of
       Some v \<Rightarrow>
         script_then (write_key_index env eng (index_path paths) (ij_key e) recovery_stage) (\<lambda>_.
         script_then (compute (map_config_err recovery_stage (fe_pretty_json env v))) (\<lambda>bs.
         atomic_write (data_path paths) bs (fl_fsync eng)))
     | None \<Rightarrow> remove_entry_files paths)"

definition restore_blob :: "'v file_env \<Rightarrow> file_engine \<Rightarrow> image_blob \<Rightarrow> unit script" where
  "restore_blob env eng e =
     script_then (compute (blob_paths eng (ib_namespace e) (ib_key e))) (\<lambda>paths.
     case ib_value e of
       Some v \<Rightarrow>
         script_then (write_key_index env eng (index_path paths) (ib_key e) recovery_stage) (\<lambda>_.
         atomic_write (data_path paths) v (fl_fsync eng))
     | None \<Rightarrow> remove_entry_files paths)"

fun restore_events :: "'v file_env \<Rightarrow> file_engine \<Rightarrow> events_image \<Rightarrow> unit script" where
  "restore_events env eng (ImageAppend n evs) =
     script_then (emit [SetLen events_path n]) (\<lambda>_. script_for_each (append_event_unchecked env eng) evs)"
| "restore_events env eng (ImageReplace evs) =
     script_then (compute (events_jsonl_bytes env evs)) (\<lambda>bs. atomic_write events_path bs (fl_fsync eng))"

definition restore_transaction_image :: "'v file_env \<Rightarrow> file_engine \<Rightarrow> 'v transaction_image \<Rightarrow> unit script" where
  "restore_transaction_image env eng img =
     script_then (script_for_each (restore_json env eng) (im_json img)) (\<lambda>_.
     script_then (script_for_each (restore_blob env eng) (im_blobs img)) (\<lambda>_.
     script_then (restore_events env eng (im_events img)) (\<lambda>_.
     sync_root eng)))"

section \<open>The journal file\<close>

definition write_transaction_journal :: "'v file_env \<Rightarrow> file_engine \<Rightarrow> 'v transaction_journal \<Rightarrow> unit script" where
  "write_transaction_journal env eng j =
     script_then (compute (map_config_err ''file_store_transaction'' (fe_journal_json env j))) (\<lambda>bs.
     script_then (atomic_write transaction_marker_path bs (fl_fsync eng)) (\<lambda>_.
     sync_root eng))"

definition remove_transaction_journal :: "file_engine \<Rightarrow> unit script" where
  "remove_transaction_journal eng =
     script_then (remove_file_if_exists transaction_marker_path) (\<lambda>_. sync_root eng)"

definition selected_image :: "'v transaction_journal \<Rightarrow> 'v transaction_image" where
  "selected_image j = (case jo_state j of Prepared \<Rightarrow> jo_before j | Committed \<Rightarrow> jo_after j)"

definition recover_validated_transaction ::
  "'v file_env \<Rightarrow> file_engine \<Rightarrow> 'v transaction_journal option \<Rightarrow> unit script" where
  "recover_validated_transaction env eng journal =
     (case journal of
        None \<Rightarrow> emit []
      | Some j \<Rightarrow>
          script_then (restore_transaction_image env eng (selected_image j)) (\<lambda>_.
          remove_transaction_journal eng))"

definition recover_transaction_if_needed :: "'v file_env \<Rightarrow> file_engine \<Rightarrow> files \<Rightarrow> unit script" where
  "recover_transaction_if_needed env eng fs =
     script_then (compute (read_transaction_journal_read_only env eng fs)) (\<lambda>journal.
     recover_validated_transaction env eng journal)"

end
