(* ===== verification/File_Store.thy ===== *)
theory File_Store
  imports File_Journal In_Memory
begin

text \<open>
  The file-backed store engine of \<^verbatim>\<open>sdk/src/store_internal/file.rs\<close>: reading an entry
  through its key index, listing keys, reading the event log line by line, the usage counts,
  and the commit of a transaction through the journal. Every operation runs under the
  exclusive or shared lock of the store root, so one operation at a time sees the files;
  waiting for the lock is not part of the model.
\<close>

section \<open>Key index\<close>

definition read_key_index :: "'v file_env \<Rightarrow> file_engine \<Rightarrow> files \<Rightarrow> path \<Rightarrow> string \<Rightarrow> string option result" where
  "read_key_index env eng fs p stage =
     and_then (read_file_bounded (fe_fault env) fs p
                 (saturating_add (cap_logical_key_max_bytes (fl_capacity eng)) 1024) stage) (\<lambda>found.
     case found of
       None \<Rightarrow> Ok None
     | Some bs \<Rightarrow>
         and_then (map_config_err stage (fe_parse_index env bs)) (\<lambda>v.
         if ki_addressing_version v \<noteq> FILE_ADDRESSING_VERSION
         then Err (config_error stage (''unsupported file store key index version '' @ dec (ki_addressing_version v)))
         else Ok (Some (ki_key v))))"

definition require_key_index_matches :: "'v file_env \<Rightarrow> file_engine \<Rightarrow> files \<Rightarrow> path \<Rightarrow> string \<Rightarrow> string \<Rightarrow> unit result" where
  "require_key_index_matches env eng fs p key stage =
     and_then (read_key_index env eng fs p stage) (\<lambda>found.
     case found of
       None \<Rightarrow> Err (config_error stage ''file store physical data is missing key index'')
     | Some existing \<Rightarrow>
         if existing \<noteq> key then Err (config_error stage ''file store physical key collision detected'')
         else Ok ())"

definition missing_physical_data :: "string \<Rightarrow> error" where
  "missing_physical_data stage = config_error stage ''file store key index has missing physical data''"

section \<open>Reading an entry\<close>

text \<open>The unbounded reads: the data file, or the file name used before key indexes existed.\<close>

definition read_entry ::
  "'v file_env \<Rightarrow> file_engine \<Rightarrow> files \<Rightarrow> physical_key_paths \<Rightarrow> string \<Rightarrow> string \<Rightarrow> bytes option result" where
  "read_entry env eng fs paths key stage =
     (case fs_read (fe_fault env) fs (data_path paths) of
        Inr bs \<Rightarrow> and_then (require_key_index_matches env eng fs (index_path paths) key stage) (\<lambda>_. Ok (Some bs))
      | Inl e \<Rightarrow>
          if is_not_found_or_invalid_filename e then
            and_then (read_key_index env eng fs (index_path paths) stage) (\<lambda>index.
            if index \<noteq> None then Err (missing_physical_data stage)
            else case fs_read (fe_fault env) fs (legacy_path paths) of
                Inr bs \<Rightarrow> Ok (Some bs)
              | Inl e \<Rightarrow> if is_not_found_or_invalid_filename e then Ok None else Err (at_io_stage stage e))
          else Err (at_io_stage stage e))"

definition get_json_value_unlocked :: "'v file_env \<Rightarrow> file_engine \<Rightarrow> files \<Rightarrow> string \<Rightarrow> string \<Rightarrow> 'v option result" where
  "get_json_value_unlocked env eng fs namespace key =
     and_then (json_paths eng namespace key) (\<lambda>paths.
     and_then (read_entry env eng fs paths key ''file_store_json_read'') (\<lambda>found.
     case found of
       None \<Rightarrow> Ok None
     | Some bs \<Rightarrow> and_then (map_config_err ''file_store_json_read'' (fe_parse_json env bs)) (\<lambda>v. Ok (Some v))))"

definition get_blob_unlocked :: "'v file_env \<Rightarrow> file_engine \<Rightarrow> files \<Rightarrow> string \<Rightarrow> string \<Rightarrow> bytes option result" where
  "get_blob_unlocked env eng fs namespace key =
     and_then (blob_paths eng namespace key) (\<lambda>paths.
     read_entry env eng fs paths key ''file_store_blob_read'')"

text \<open>The bounded reads.\<close>

definition read_entry_bounded ::
  "'v file_env \<Rightarrow> file_engine \<Rightarrow> files \<Rightarrow> physical_key_paths \<Rightarrow> string \<Rightarrow> usize \<Rightarrow> bytes option result" where
  "read_entry_bounded env eng fs paths key max_bytes =
     and_then (read_file_bounded (fe_fault env) fs (data_path paths) max_bytes
                 ''store_consistent_read_budget_exceeded'') (\<lambda>found.
     case found of
       Some bs \<Rightarrow>
         and_then (require_key_index_matches env eng fs (index_path paths) key ''store_consistent_read'') (\<lambda>_.
         Ok (Some bs))
     | None \<Rightarrow>
         and_then (read_key_index env eng fs (index_path paths) ''store_consistent_read'') (\<lambda>index.
         if index \<noteq> None then Err (missing_physical_data ''store_consistent_read'')
         else read_file_bounded (fe_fault env) fs (legacy_path paths) max_bytes
                ''store_consistent_read_budget_exceeded''))"

definition get_json_value_unlocked_bounded ::
  "'v file_env \<Rightarrow> file_engine \<Rightarrow> files \<Rightarrow> string \<Rightarrow> string \<Rightarrow> usize \<Rightarrow> ('v \<times> usize) option result" where
  "get_json_value_unlocked_bounded env eng fs namespace key max_logical_bytes =
     and_then (json_paths eng namespace key) (\<lambda>paths.
     and_then (read_entry_bounded env eng fs paths key (cap_snapshot_max_bytes (fl_capacity eng))) (\<lambda>found.
     case found of
       None \<Rightarrow> Ok None
     | Some bs \<Rightarrow>
         and_then (map_config_err ''store_consistent_read'' (fe_parse_json env bs)) (\<lambda>v.
         and_then (to_vec (fe_store env) v) (\<lambda>logical.
         if max_logical_bytes < length logical
         then Err (config_error ''store_consistent_read_budget_exceeded''
                (''logical JSON bytes '' @ dec (length logical) @ '' exceed remaining budget '' @ dec max_logical_bytes))
         else Ok (Some (v, length logical))))))"

definition get_blob_unlocked_bounded ::
  "'v file_env \<Rightarrow> file_engine \<Rightarrow> files \<Rightarrow> string \<Rightarrow> string \<Rightarrow> usize \<Rightarrow> (bytes \<times> usize) option result" where
  "get_blob_unlocked_bounded env eng fs namespace key max_bytes =
     and_then (blob_paths eng namespace key) (\<lambda>paths.
     and_then (read_entry_bounded env eng fs paths key max_bytes) (\<lambda>found.
     Ok (map_option (\<lambda>bs. (bs, length bs)) found)))"

section \<open>Listing keys\<close>

definition index_files :: "files \<Rightarrow> string \<Rightarrow> string \<Rightarrow> path list" where
  "index_files fs lane namespace =
     filter (\<lambda>p. length p = 5 \<and> take 3 p = [lane, namespace, FILE_ADDRESSING_INDEX_DIR]
               \<and> extension (last p) = Some ''json'') (btree_keys fs)"

definition indexed_key ::
  "'v file_env \<Rightarrow> file_engine \<Rightarrow> files \<Rightarrow> string \<Rightarrow> string \<Rightarrow> string \<Rightarrow> path \<Rightarrow> string list \<Rightarrow> string list result" where
  "indexed_key env eng fs lane namespace ext p out =
     (let data = [lane, namespace, FILE_ADDRESSING_DATA_DIR, p ! 3, file_stem (last p) @ ''.'' @ ext] in
      case fs_read (fe_fault env) fs data of
        Inl _ \<Rightarrow> Err (missing_physical_data ''file_store_list'')
      | Inr _ \<Rightarrow>
          and_then (read_key_index env eng fs p ''file_store_list'') (\<lambda>found.
          case found of
            None \<Rightarrow> Ok out
          | Some key \<Rightarrow>
              and_then (physical_key_paths_at_root eng lane namespace key ext) (\<lambda>expected.
              if index_path expected \<noteq> p \<or> data_path expected \<noteq> data
              then Err (config_error ''file_store_list'' ''file store physical key index does not match logical key'')
              else Ok (out @ [key]))))"

definition list_indexed_keys ::
  "'v file_env \<Rightarrow> file_engine \<Rightarrow> files \<Rightarrow> string \<Rightarrow> string \<Rightarrow> string \<Rightarrow> string list result" where
  "list_indexed_keys env eng fs lane namespace ext =
     and_then (try_fold (indexed_key env eng fs lane namespace ext) (index_files fs lane namespace) []) (\<lambda>out.
     Ok (sort out))"

definition list_legacy_encoded_keys :: "files \<Rightarrow> string \<Rightarrow> string \<Rightarrow> string \<Rightarrow> string list" where
  "list_legacy_encoded_keys fs lane namespace ext =
     sort (List.map_filter (\<lambda>p. hex_decode_to_string (file_stem (last p)))
       (filter (\<lambda>p. length p = 3 \<and> take 2 p = [lane, namespace] \<and> extension (last p) = Some ext) (btree_keys fs)))"

definition list_keys :: "'v file_env \<Rightarrow> file_engine \<Rightarrow> files \<Rightarrow> string \<Rightarrow> string \<Rightarrow> string \<Rightarrow> string list result" where
  "list_keys env eng fs lane namespace ext =
     and_then (list_indexed_keys env eng fs lane namespace ext) (\<lambda>indexed.
     Ok (btree_keys (btset_of_list (indexed @ list_legacy_encoded_keys fs lane namespace ext))))"

definition list_json_keys_unlocked :: "'v file_env \<Rightarrow> file_engine \<Rightarrow> files \<Rightarrow> string \<Rightarrow> string list result" where
  "list_json_keys_unlocked env eng fs namespace =
     and_then (validate_directory_component eng namespace ''file_store_list'') (\<lambda>_.
     list_keys env eng fs ''kv'' namespace ''json'')"

definition list_blob_keys_unlocked :: "'v file_env \<Rightarrow> file_engine \<Rightarrow> files \<Rightarrow> string \<Rightarrow> string list result" where
  "list_blob_keys_unlocked env eng fs namespace =
     and_then (validate_directory_component eng namespace ''file_store_list'') (\<lambda>_.
     list_keys env eng fs ''blob'' namespace ''bin'')"

section \<open>Usage\<close>

definition json_entry_count :: "'v file_env \<Rightarrow> file_engine \<Rightarrow> files \<Rightarrow> usize result" where
  "json_entry_count env eng fs =
     try_fold (\<lambda>namespace count. and_then (list_json_keys_unlocked env eng fs namespace) (\<lambda>keys.
        Ok (saturating_add count (length keys)))) (list_child_directory_names fs [''kv'']) 0"

definition blob_entry_count :: "'v file_env \<Rightarrow> file_engine \<Rightarrow> files \<Rightarrow> usize result" where
  "blob_entry_count env eng fs =
     try_fold (\<lambda>namespace count. and_then (list_blob_keys_unlocked env eng fs namespace) (\<lambda>keys.
        Ok (saturating_add count (length keys)))) (list_child_directory_names fs [''blob'']) 0"

definition blob_value_len_unlocked ::
  "'v file_env \<Rightarrow> file_engine \<Rightarrow> files \<Rightarrow> string \<Rightarrow> string \<Rightarrow> usize option result" where
  "blob_value_len_unlocked env eng fs namespace key =
     and_then (blob_paths eng namespace key) (\<lambda>paths.
     and_then (read_entry env eng fs paths key ''file_store_blob_quota'') (\<lambda>found.
     case found of
       None \<Rightarrow> Ok None
     | Some bs \<Rightarrow>
         if usize_max < length bs then Err (store_budget_error ''blob length exceeds platform address space'')
         else Ok (Some (length bs))))"

definition add_blob_size ::
  "'v file_env \<Rightarrow> file_engine \<Rightarrow> files \<Rightarrow> string \<Rightarrow> string \<Rightarrow> usize \<Rightarrow> usize result" where
  "add_blob_size env eng fs namespace key tot =
     and_then (blob_value_len_unlocked env eng fs namespace key) (\<lambda>found.
     case found of
       None \<Rightarrow> Ok tot
     | Some n \<Rightarrow> ok_or (store_budget_error ''file store blob byte count overflow'') (checked_add tot n))"

definition blob_total_bytes :: "'v file_env \<Rightarrow> file_engine \<Rightarrow> files \<Rightarrow> usize result" where
  "blob_total_bytes env eng fs =
     try_fold (\<lambda>namespace tot. and_then (list_blob_keys_unlocked env eng fs namespace) (\<lambda>keys.
        try_fold (add_blob_size env eng fs namespace) keys tot)) (list_child_directory_names fs [''blob'']) 0"

section \<open>Event log\<close>

definition ascii_whitespace :: "char \<Rightarrow> bool" where
  "ascii_whitespace c \<longleftrightarrow> of_char c \<in> set [32, 9, 10, 12, 13 :: nat]"

definition newline :: char where
  "newline = char_of (10 :: nat)"

definition push_bounded_event_line ::
  "'v file_env \<Rightarrow> store_capacity_budget \<Rightarrow> string \<Rightarrow> string \<Rightarrow> bytes \<Rightarrow> store_event list \<Rightarrow> store_event list result" where
  "push_bounded_event_line env capacity item_stage schema_stage raw events =
     (if list_all ascii_whitespace raw then Ok events
      else if cap_event_log_max_items capacity < saturating_add (length events) 1
      then Err (config_error item_stage ''event items exceed the active aggregate budget'')
      else
      and_then (map_config_err schema_stage (fe_parse_event env raw)) (\<lambda>ev.
      and_then (validate_current_schema ev schema_stage) (\<lambda>_. Ok (events @ [ev]))))"

text \<open>
  The reader's buffer is the rest of the input, as it is for a reader over a slice; a reader
  that delivers less at a time only checks the same sums more often.
\<close>

function read_events_from_reader_bounded ::
  "'v file_env \<Rightarrow> store_capacity_budget \<Rightarrow> usize \<Rightarrow> string \<Rightarrow> string \<Rightarrow> bytes \<Rightarrow> bytes \<Rightarrow> usize \<Rightarrow> store_event list \<Rightarrow>
   (store_event list \<times> usize) result" where
  "read_events_from_reader_bounded env capacity max_bytes item_stage byte_stage buffer line consumed events =
     (if buffer = [] then
        and_then (if line \<noteq> [] then push_bounded_event_line env capacity item_stage byte_stage line events else Ok events)
          (\<lambda>events. Ok (events, consumed))
      else
        let body = takeWhile (\<lambda>c. c \<noteq> newline) buffer;
            terminated = length body < length buffer;
            taken = length body + (if terminated then 1 else 0)
        in case checked_add consumed taken of
             None \<Rightarrow> Err (store_budget_error ''event log aggregate byte count overflow'')
           | Some consumed \<Rightarrow>
               if max_bytes < consumed \<or> max_bytes < saturating_add (length line) (length body)
               then Err (config_error byte_stage ''event log line or aggregate bytes exceed operation budget'')
               else if terminated then
                 (case push_bounded_event_line env capacity item_stage byte_stage (line @ body) events of
                    Inl e \<Rightarrow> Err e
                  | Inr events \<Rightarrow> read_events_from_reader_bounded env capacity max_bytes item_stage byte_stage
                      (drop taken buffer) [] consumed events)
               else read_events_from_reader_bounded env capacity max_bytes item_stage byte_stage
                      (drop taken buffer) (line @ body) consumed events)"
  by pat_completeness auto
termination
proof (relation "measure (\<lambda>(env, capacity, m, i, b, buffer, line, consumed, events). length buffer)", goal_cases)
  case 1
  show ?case by simp
next
  case (2 env capacity max_bytes item_stage byte_stage buffer line consumed events)
  then show ?case by simp
next
  case (3 env capacity max_bytes item_stage byte_stage buffer line consumed events body terminated taken)
  then have "length body = length buffer"
    using length_takeWhile_le [of "\<lambda>c. c \<noteq> newline" buffer] by simp
  then show ?case using 3 by simp
qed

declare read_events_from_reader_bounded.simps [simp del]

definition read_events_jsonl_bounded ::
  "'v file_env \<Rightarrow> files \<Rightarrow> store_capacity_budget \<Rightarrow> usize \<Rightarrow> string \<Rightarrow> store_event list result" where
  "read_events_jsonl_bounded env fs capacity max_bytes stage =
     (case fs_read (fe_fault env) fs events_path of
        Inl e \<Rightarrow> if io_error_kind e = IoNotFound then Ok [] else Err (at_io_stage stage e)
      | Inr bs \<Rightarrow>
          if max_bytes < length bs
          then Err (config_error stage ''runtime metric event bytes exceed the active aggregate budget'')
          else and_then (read_events_from_reader_bounded env capacity max_bytes stage stage bs [] 0 []) (\<lambda>r. Ok (fst r)))"

definition read_events_unlocked :: "'v file_env \<Rightarrow> file_engine \<Rightarrow> files \<Rightarrow> store_event list result" where
  "read_events_unlocked env eng fs =
     read_events_jsonl_bounded env fs (fl_capacity eng) (cap_snapshot_max_bytes (fl_capacity eng)) ''store_event_log''"

section \<open>Commit\<close>

definition transaction_event_usage ::
  "'v file_env \<Rightarrow> files \<Rightarrow> ('v, 'a) transaction_request \<Rightarrow> store_capacity_budget \<Rightarrow>
   (usize \<times> string btset \<times> u64) result" where
  "transaction_event_usage env fs req capacity =
     (let event_ids = btset_of_list (List.map_filter mutation_event_id (tr_mutations req)) in
      and_then (case fs_read (fe_fault env) fs events_path of
          Inr bs \<Rightarrow> Ok (length bs)
        | Inl e \<Rightarrow> if io_error_kind e = IoNotFound then Ok 0 else Err (at_io_stage ''memory_write_transaction'' e)) (\<lambda>prefix.
      and_then (read_events_jsonl_bounded env fs capacity (cap_snapshot_max_bytes capacity)
          ''memory_write_transaction'') (\<lambda>events.
      Ok (length events, btset_of_list (filter (btree_contains event_ids) (map event_id events)), prefix))))"

text \<open>
  One document or blob of a batch: the value is added to what was read, and its length to the
  bytes read. The message is the one of the caller for an overflow of that count.
\<close>

definition load_json_counted ::
  "string \<Rightarrow> 'v file_env \<Rightarrow> file_engine \<Rightarrow> files \<Rightarrow> store_capacity_budget \<Rightarrow> string \<Rightarrow> string \<Rightarrow>
   (address, 'v) btree \<times> usize \<Rightarrow> ((address, 'v) btree \<times> usize) result" where
  "load_json_counted overflow env eng fs capacity namespace key = (\<lambda>(json, json_bytes).
     and_then (get_json_value_unlocked_bounded env eng fs namespace key
         (saturating_sub (cap_snapshot_max_bytes capacity) json_bytes)) (\<lambda>found.
     case found of
       None \<Rightarrow> Ok (json, json_bytes)
     | Some (v, n) \<Rightarrow>
         and_then (ok_or (store_budget_error overflow) (checked_add json_bytes n)) (\<lambda>json_bytes.
         Ok (btree_insert (namespace, key) v json, json_bytes))))"

abbreviation load_json ::
  "'v file_env \<Rightarrow> file_engine \<Rightarrow> files \<Rightarrow> store_capacity_budget \<Rightarrow> string \<Rightarrow> string \<Rightarrow>
   (address, 'v) btree \<times> usize \<Rightarrow> ((address, 'v) btree \<times> usize) result" where
  "load_json \<equiv> load_json_counted ''transaction touched JSON byte count overflow''"

definition load_prefix ::
  "'v file_env \<Rightarrow> file_engine \<Rightarrow> files \<Rightarrow> store_capacity_budget \<Rightarrow> address \<Rightarrow>
   (address, 'v) btree \<times> usize \<Rightarrow> ((address, 'v) btree \<times> usize) result" where
  "load_prefix env eng fs capacity np s =
     and_then (list_json_keys_unlocked env eng fs (fst np)) (\<lambda>keys.
     try_fold (\<lambda>key s.
        if \<not> starts_with key (snd np) \<or> btree_contains (fst s) (fst np, key) then Ok s
        else load_json env eng fs capacity (fst np) key s) keys s)"

definition load_blob_counted ::
  "string \<Rightarrow> 'v file_env \<Rightarrow> file_engine \<Rightarrow> files \<Rightarrow> store_capacity_budget \<Rightarrow> address \<Rightarrow>
   (address, bytes) btree \<times> usize \<Rightarrow> ((address, bytes) btree \<times> usize) result" where
  "load_blob_counted overflow env eng fs capacity a = (\<lambda>(blobs, touched_blob_bytes).
     and_then (get_blob_unlocked_bounded env eng fs (fst a) (snd a)
         (saturating_sub (cap_blob_max_bytes capacity) touched_blob_bytes)) (\<lambda>found.
     case found of
       None \<Rightarrow> Ok (blobs, touched_blob_bytes)
     | Some (v, n) \<Rightarrow>
         and_then (ok_or (store_budget_error overflow) (checked_add touched_blob_bytes n)) (\<lambda>touched_blob_bytes.
         Ok (btree_insert a v blobs, touched_blob_bytes))))"

abbreviation load_blob ::
  "'v file_env \<Rightarrow> file_engine \<Rightarrow> files \<Rightarrow> store_capacity_budget \<Rightarrow> address \<Rightarrow>
   (address, bytes) btree \<times> usize \<Rightarrow> ((address, bytes) btree \<times> usize) result" where
  "load_blob \<equiv> load_blob_counted ''transaction touched blob byte count overflow''"

definition load_transaction_context ::
  "'v file_env \<Rightarrow> ('v, 'a, 'j) tx_hooks \<Rightarrow> file_engine \<Rightarrow> files \<Rightarrow> ('v, 'a) transaction_request \<Rightarrow> store_capacity_budget \<Rightarrow>
   ('v tx_context \<times> u64) result" where
  "load_transaction_context env h eng fs req capacity =
     and_then (try_fold (\<lambda>a. load_json env eng fs capacity (fst a) (snd a)) (btree_keys (rs_json (tr_read_set req)))
         (btree_empty, 0)) (\<lambda>s.
     and_then (try_fold (load_prefix env eng fs capacity) (btree_keys (rs_json_prefixes (tr_read_set req))) s) (\<lambda>s.
     and_then (expand_owner_transaction_dependencies h req capacity
         \<lparr> ts_json = fst s, ts_blobs = btree_empty, ts_events = [] \<rparr>
         (\<lambda>namespace key remaining.
            and_then (get_json_value_unlocked_bounded env eng fs namespace key remaining) (\<lambda>found.
            Ok (map_option fst found)))) (\<lambda>touched.
     and_then (try_fold (load_blob env eng fs capacity) (btree_keys (rs_blobs (tr_read_set req))) (btree_empty, 0)) (\<lambda>b.
     and_then (transaction_event_usage env fs req capacity) (\<lambda>(event_count, existing_event_ids, event_prefix_len).
     and_then (json_entry_count env eng fs) (\<lambda>json_entries.
     and_then (blob_entry_count env eng fs) (\<lambda>blob_entries.
     and_then (blob_total_bytes env eng fs) (\<lambda>blob_bytes.
     Ok (\<lparr> cx_touched = touched\<lparr>ts_blobs := fst b\<rparr>,
           cx_usage = \<lparr> us_kv_entries = saturating_add json_entries blob_entries, us_blob_bytes = blob_bytes,
                        us_event_count = event_count \<rparr>,
           cx_existing_event_ids = existing_event_ids \<rparr>, event_prefix_len)))))))))"

fun appended_event :: "'v engine_mutation \<Rightarrow> store_event option" where
  "appended_event (AppendEvent ev) = Some ev"
| "appended_event _ = None"

text \<open>
  The part of a commit after the fence: read the context, plan, write the journal as
  prepared, bring the files to the image after the transaction, write the journal as
  committed, remove it.
\<close>

definition journal_plan ::
  "'v file_env \<Rightarrow> ('v, 'a) transaction_request \<Rightarrow> 'v tx_context \<Rightarrow> u64 \<Rightarrow> ('v, 'a) transaction_plan \<Rightarrow>
   'v transaction_journal result" where
  "journal_plan env req context event_prefix_len plan =
     journal_new env (tr_transaction_id (pn_effective_request plan))
       (transaction_image (cx_touched context) (tr_read_set req) (ImageAppend event_prefix_len []))
       (transaction_image (pn_next_touched plan) (tr_read_set req)
          (ImageAppend event_prefix_len (List.map_filter appended_event (tr_mutations (pn_effective_request plan)))))"

definition write_plan ::
  "'v file_env \<Rightarrow> file_engine \<Rightarrow> 'v transaction_journal \<Rightarrow> unit script" where
  "write_plan env eng journal =
     script_then (write_transaction_journal env eng journal) (\<lambda>_.
     script_then (restore_transaction_image env eng (jo_after journal)) (\<lambda>_.
     script_then (compute (refresh_checksum env (journal\<lparr>jo_state := Committed\<rparr>))) (\<lambda>journal.
     script_then (write_transaction_journal env eng journal) (\<lambda>_.
     remove_transaction_journal eng))))"

definition commit_admitted_plan ::
  "'v file_env \<Rightarrow> ('v, 'a, 'j) tx_hooks \<Rightarrow> file_engine \<Rightarrow> ('v, 'a) transaction_request \<Rightarrow> transaction_admission \<Rightarrow> files \<Rightarrow>
   transaction_report script" where
  "commit_admitted_plan env h eng req adm fs =
     script_then (compute (load_transaction_context env h eng fs req (am_operation_capacity adm))) (\<lambda>(context, event_prefix_len).
     script_then (compute (apply_transaction h adm req context)) (\<lambda>plan.
     script_then (compute (journal_plan env req context event_prefix_len plan)) (\<lambda>journal.
     script_then (write_plan env eng journal) (\<lambda>_.
     compute (Ok (pn_report plan))))))"

definition file_commit_transaction_admitted ::
  "report_env \<Rightarrow> 'v file_env \<Rightarrow> ('v, 'a, 'j) tx_hooks \<Rightarrow> file_engine \<Rightarrow> fence_inputs \<Rightarrow> ('v, 'a) transaction_request \<Rightarrow>
   transaction_admission \<Rightarrow> authority \<Rightarrow> files \<Rightarrow> authority \<times> transaction_report script" where
  "file_commit_transaction_admitted renv env h eng inputs req adm au fs =
     (case recover_transaction_if_needed env eng fs of
        (ops, Inl e) \<Rightarrow> (au, (ops, Err e))
      | (ops, Inr _) \<Rightarrow>
          (case validate_inside_engine_fence renv adm (fl_capacity eng) (fl_admission_authority eng) inputs au of
             (au', Inl e) \<Rightarrow> (au', (ops, Err e))
           | (au', Inr _) \<Rightarrow>
               (au', script_then (ops, Ok ()) (\<lambda>_. commit_admitted_plan env h eng req adm (run_ops ops fs)))))"

end
