(* ===== verification/File_Layout.thy ===== *)
theory File_Layout
  imports File_Store
begin

text \<open>
  How the files represent the contents of a store: every entry lies in its data file with a
  matching key index, or in the file name of an older store; every other file of a lane is a
  temporary one. A lane is described up to a set of addresses whose files are in any state,
  which is what a transaction leaves while it is being written.
\<close>

section \<open>Names of files\<close>

definition is_tmp :: "path \<Rightarrow> bool" where
  "is_tmp q \<longleftrightarrow> extension (last q) = Some ''tmp''"

lemma stem_of_name:
  assumes "stem \<noteq> []" and "CHR ''.'' \<notin> set ext"
  shows "file_stem (stem @ CHR ''.'' # ext) = stem" and "extension (stem @ CHR ''.'' # ext) = Some ext"
proof -
  have "dropWhile (\<lambda>c. c \<noteq> CHR ''.'') (rev (stem @ CHR ''.'' # ext)) = CHR ''.'' # rev stem"
    using assms(2) by (auto simp: dropWhile_append)
  then show fs: "file_stem (stem @ CHR ''.'' # ext) = stem"
    using assms(1) by (cases "rev stem") (auto simp: file_stem_def)
  have "takeWhile (\<lambda>c. c \<noteq> CHR ''.'') (rev (stem @ CHR ''.'' # ext)) = rev ext"
    using assms(2) by (auto simp: takeWhile_append)
  then show "extension (stem @ CHR ''.'' # ext) = Some ext"
    by (simp add: extension_def fs)
qed

lemma hex16_length [simp]: "length (hex16 n) = 16"
  by (simp add: hex16_def)

lemma digest_length [simp]: "length (physical_key_digest lane ns k n) = min n 32"
  by (simp add: physical_key_digest_def Let_def)

section \<open>The files of an entry\<close>

text \<open>The two lanes and their extensions.\<close>

definition store_lane :: "string \<Rightarrow> string \<Rightarrow> bool" where
  "store_lane lane ext \<longleftrightarrow> (lane, ext) \<in> set [(''kv'', ''json''), (''blob'', ''bin'')]"

definition entry_slots :: "file_engine \<Rightarrow> string \<Rightarrow> string \<Rightarrow> address \<Rightarrow> path set" where
  "entry_slots eng lane ext a =
     (case physical_key_paths_at_root eng lane (fst a) (snd a) ext of
        Inl _ \<Rightarrow> {} | Inr p \<Rightarrow> {data_path p, index_path p, legacy_path p})"

definition entry_zone :: "file_engine \<Rightarrow> string \<Rightarrow> string \<Rightarrow> address \<Rightarrow> path set" where
  "entry_zone eng lane ext a =
     (case physical_key_paths_at_root eng lane (fst a) (snd a) ext of
        Inl _ \<Rightarrow> {}
      | Inr p \<Rightarrow> {data_path p, index_path p, legacy_path p, with_extension (data_path p) ''tmp'',
                    with_extension (index_path p) ''tmp''})"

definition valid_namespace :: "file_engine \<Rightarrow> string \<Rightarrow> bool" where
  "valid_namespace eng ns \<longleftrightarrow> validate_directory_component eng ns [] = Inr ()"

lemma valid_namespace_stage: "validate_directory_component eng ns stage = Inr u \<longleftrightarrow> valid_namespace eng ns"
  by (auto simp: valid_namespace_def validate_directory_component_def)

lemma paths_Ok:
  assumes "physical_key_paths_at_root eng lane ns k ext = Inr p"
  obtains digest where
    "digest = physical_key_digest lane ns k (physical_key_digest_hex_chars (fl_path_budget eng))"
    "16 \<le> length digest"
    "data_path p = [lane, ns, ''_v2'', take 2 digest, digest @ CHR ''.'' # ext]"
    "index_path p = [lane, ns, ''_keys'', take 2 digest, digest @ ''.json'']"
    "legacy_path p = [lane, ns, hex_encode k @ CHR ''.'' # ext]"
    "valid_namespace eng ns"
  using assms that
  by (auto simp: physical_key_paths_at_root_def Let_def result_simps valid_namespace_stage
      validate_addressing_budget_def FILE_ADDRESSING_DATA_DIR_def FILE_ADDRESSING_INDEX_DIR_def
      MIN_PHYSICAL_DIGEST_HEX_CHARS_def MAX_PHYSICAL_DIGEST_HEX_CHARS_def min_def split: if_splits)

lemma paths_names:
  assumes "physical_key_paths_at_root eng lane ns k ext = Inr p" and "store_lane lane ext"
  shows "with_extension (data_path p) ''tmp'' \<noteq> data_path p" "with_extension (index_path p) ''tmp'' \<noteq> index_path p"
    and "is_tmp (with_extension (data_path p) ''tmp'')" "is_tmp (with_extension (index_path p) ''tmp'')"
    and "\<not> is_tmp (data_path p)" "\<not> is_tmp (index_path p)" "\<not> is_tmp (legacy_path p)"
    and "data_path p \<noteq> index_path p" "data_path p \<noteq> legacy_path p" "index_path p \<noteq> legacy_path p"
    and "with_extension (data_path p) ''tmp'' \<noteq> with_extension (index_path p) ''tmp''"
proof -
  from assms(1) obtain d where d: "16 \<le> length d"
    "data_path p = [lane, ns, ''_v2'', take 2 d, d @ CHR ''.'' # ext]"
    "index_path p = [lane, ns, ''_keys'', take 2 d, d @ ''.json'']"
    "legacy_path p = [lane, ns, hex_encode k @ CHR ''.'' # ext]" by (rule paths_Ok)
  have ne: "d \<noteq> []" using d(1) by auto
  have dot: "CHR ''.'' \<notin> set ext" "ext \<noteq> ''tmp''" using assms(2) by (auto simp: store_lane_def)
  have legacy: "extension (hex_encode k @ CHR ''.'' # ext) \<noteq> Some ''tmp''"
  proof (cases "hex_encode k = []")
    case True
    then show ?thesis using assms(2) by (auto simp: store_lane_def extension_def file_stem_def)
  next
    case False
    then show ?thesis using stem_of_name(2) [OF _ dot(1)] dot(2) by auto
  qed
  show "with_extension (data_path p) ''tmp'' \<noteq> data_path p" "with_extension (index_path p) ''tmp'' \<noteq> index_path p"
    "is_tmp (with_extension (data_path p) ''tmp'')" "is_tmp (with_extension (index_path p) ''tmp'')"
    "\<not> is_tmp (data_path p)" "\<not> is_tmp (index_path p)" "\<not> is_tmp (legacy_path p)"
    "data_path p \<noteq> index_path p" "data_path p \<noteq> legacy_path p" "index_path p \<noteq> legacy_path p"
    "with_extension (data_path p) ''tmp'' \<noteq> with_extension (index_path p) ''tmp''"
    using dot legacy stem_of_name [OF ne dot(1)] stem_of_name [OF ne, of "''json''"] stem_of_name [OF ne, of "''tmp''"]
    by (auto simp: d with_extension_def is_tmp_def)
qed

lemma zone_shape:
  assumes "q \<in> entry_zone eng lane ext a"
  shows "q \<noteq> []" "hd q = lane" "2 \<le> length q" "q ! 1 = fst a" "valid_namespace eng (fst a)"
  using assms
  by (auto simp: entry_zone_def with_extension_def split: sum.splits elim!: paths_Ok)

lemma slots_zone: "entry_slots eng lane ext a \<subseteq> entry_zone eng lane ext a"
  by (auto simp: entry_slots_def entry_zone_def split: sum.splits)

lemma zone_slots_or_tmp:
  assumes "store_lane lane ext" "q \<in> entry_zone eng lane ext a"
  shows "q \<in> entry_slots eng lane ext a \<or> is_tmp q"
  using assms paths_names(3,4) [OF _ assms(1)]
  by (auto simp: entry_slots_def entry_zone_def split: sum.splits)

lemma slots_not_tmp:
  assumes "store_lane lane ext" "q \<in> entry_slots eng lane ext a"
  shows "\<not> is_tmp q"
  using assms paths_names(5-7) [OF _ assms(1)] by (auto simp: entry_slots_def split: sum.splits)

text \<open>No two of the given addresses share a file.\<close>

definition collision_free :: "file_engine \<Rightarrow> string \<Rightarrow> string \<Rightarrow> address set \<Rightarrow> bool" where
  "collision_free eng lane ext as \<longleftrightarrow>
     (\<forall>a \<in> as. \<forall>b \<in> as. a \<noteq> b \<longrightarrow> entry_slots eng lane ext a \<inter> entry_slots eng lane ext b = {})"

section \<open>Representation of a lane\<close>

definition index_of :: "string \<Rightarrow> key_index" where
  "index_of key = \<lparr> ki_addressing_version = FILE_ADDRESSING_VERSION, ki_key = key \<rparr>"

definition stored ::
  "'v file_env \<Rightarrow> (bytes \<Rightarrow> 'x option) \<Rightarrow> physical_key_paths \<Rightarrow> string \<Rightarrow> 'x \<Rightarrow> files \<Rightarrow> bool" where
  "stored env decode p key v fs \<longleftrightarrow>
     (case btree_get fs (data_path p) of
        Some bs \<Rightarrow> decode bs = Some v \<and>
          (\<exists>ix. btree_get fs (index_path p) = Some ix \<and> fe_parse_index env ix = Inr (index_of key))
      | None \<Rightarrow> btree_get fs (index_path p) = None \<and>
          (\<exists>bs. btree_get fs (legacy_path p) = Some bs \<and> decode bs = Some v))"

definition lane_repr ::
  "'v file_env \<Rightarrow> file_engine \<Rightarrow> string \<Rightarrow> string \<Rightarrow> (bytes \<Rightarrow> 'x option) \<Rightarrow> address set \<Rightarrow> (address \<Rightarrow> 'x option) \<Rightarrow> files \<Rightarrow> bool"
  where
  "lane_repr env eng lane ext decode open_set m fs \<longleftrightarrow>
     (\<forall>a v. m a = Some v \<longrightarrow> a \<notin> open_set \<longrightarrow>
        (\<exists>p. physical_key_paths_at_root eng lane (fst a) (snd a) ext = Inr p \<and> stored env decode p (snd a) v fs)) \<and>
     (\<forall>q bs. btree_get fs q = Some bs \<longrightarrow> q \<noteq> [] \<longrightarrow> hd q = lane \<longrightarrow> \<not> is_tmp q \<longrightarrow>
        (\<exists>a. (m a \<noteq> None \<or> a \<in> open_set) \<and> q \<in> entry_slots eng lane ext a)) \<and>
     (\<forall>q bs. btree_get fs q = Some bs \<longrightarrow> q \<noteq> [] \<longrightarrow> hd q = lane \<longrightarrow> 2 \<le> length q \<and> valid_namespace eng (q ! 1))"

lemma lane_repr_entry:
  assumes "lane_repr env eng lane ext decode W m fs" "m a = Some v" "a \<notin> W"
  obtains p where "physical_key_paths_at_root eng lane (fst a) (snd a) ext = Inr p" "stored env decode p (snd a) v fs"
  using assms unfolding lane_repr_def by blast

lemma lane_repr_file:
  assumes "lane_repr env eng lane ext decode W m fs" "btree_get fs q = Some bs" "q \<noteq> []" "hd q = lane" "\<not> is_tmp q"
  obtains a where "m a \<noteq> None \<or> a \<in> W" "q \<in> entry_slots eng lane ext a"
  using assms unfolding lane_repr_def by blast

text \<open>Changes to the files of the open addresses, and outside the lane, keep the rest.\<close>

lemma lane_repr_frame:
  assumes r: "lane_repr env eng lane ext decode W m fs" and lane: "store_lane lane ext"
    and cf: "collision_free eng lane ext (W \<union> dom m)"
    and same: "\<And>q. q \<notin> Z \<Longrightarrow> btree_get fs' q = btree_get fs q"
    and zone: "\<And>q. q \<in> Z \<Longrightarrow> q \<noteq> [] \<Longrightarrow> hd q = lane \<Longrightarrow> \<exists>a \<in> W. q \<in> entry_zone eng lane ext a"
  shows "lane_repr env eng lane ext decode W m fs'"
  unfolding lane_repr_def
proof (intro conjI allI impI)
  fix a v assume a: "m a = Some v" "a \<notin> W"
  obtain p where p: "physical_key_paths_at_root eng lane (fst a) (snd a) ext = Inr p" "stored env decode p (snd a) v fs"
    using lane_repr_entry [OF r a] .
  have "q \<notin> Z" if q: "q \<in> entry_slots eng lane ext a" for q
  proof
    assume "q \<in> Z"
    moreover have "q \<noteq> []" "hd q = lane" using zone_shape [OF subsetD [OF slots_zone q]] by auto
    ultimately obtain b where b: "b \<in> W" "q \<in> entry_zone eng lane ext b" using zone by blast
    then have "q \<in> entry_slots eng lane ext b"
      using zone_slots_or_tmp [OF lane b(2)] slots_not_tmp [OF lane q] by blast
    then show False using cf b(1) a q unfolding collision_free_def by (metis UnI1 UnI2 disjoint_iff domI)
  qed
  then have "btree_get fs' (data_path p) = btree_get fs (data_path p)"
    "btree_get fs' (index_path p) = btree_get fs (index_path p)"
    "btree_get fs' (legacy_path p) = btree_get fs (legacy_path p)"
    using same by (simp_all add: entry_slots_def p(1))
  then have "stored env decode p (snd a) v fs'" using p(2) by (simp add: stored_def split: option.splits)
  then show "\<exists>p. physical_key_paths_at_root eng lane (fst a) (snd a) ext = Inr p \<and> stored env decode p (snd a) v fs'"
    using p(1) by blast
next
  fix q bs assume q: "btree_get fs' q = Some bs" "q \<noteq> []" "hd q = lane" "\<not> is_tmp q"
  show "\<exists>a. (m a \<noteq> None \<or> a \<in> W) \<and> q \<in> entry_slots eng lane ext a"
  proof (cases "q \<in> Z")
    case True
    then obtain b where "b \<in> W" "q \<in> entry_zone eng lane ext b" using zone q by blast
    then show ?thesis using zone_slots_or_tmp [OF lane] q(4) by blast
  next
    case False
    then show ?thesis using r q same unfolding lane_repr_def by metis
  qed
next
  fix q bs assume q: "btree_get fs' q = Some bs" "q \<noteq> []" "hd q = lane"
  have "2 \<le> length q \<and> valid_namespace eng (q ! 1)"
  proof (cases "q \<in> Z")
    case True
    then obtain b where "b \<in> W" "q \<in> entry_zone eng lane ext b" using zone q by blast
    then show ?thesis using zone_shape by metis
  next
    case False
    then show ?thesis using r q same unfolding lane_repr_def by metis
  qed
  then show "2 \<le> length q" "valid_namespace eng (q ! 1)" by auto
qed

text \<open>An address whose files are in order again is no longer open.\<close>

lemma lane_repr_close:
  assumes r: "lane_repr env eng lane ext decode W m fs"
    and p: "physical_key_paths_at_root eng lane (fst a) (snd a) ext = Inr p"
    and slots: "case ov of Some v \<Rightarrow> stored env decode p (snd a) v fs
                | None \<Rightarrow> (\<forall>q \<in> entry_slots eng lane ext a. btree_get fs q = None)"
  shows "lane_repr env eng lane ext decode (W - {a}) (m(a := ov)) fs"
  unfolding lane_repr_def
proof (intro conjI allI impI)
  fix b v assume b: "(m(a := ov)) b = Some v" "b \<notin> W - {a}"
  show "\<exists>p. physical_key_paths_at_root eng lane (fst b) (snd b) ext = Inr p \<and> stored env decode p (snd b) v fs"
  proof (cases "b = a")
    case True
    then show ?thesis using b p slots by auto
  next
    case False
    then show ?thesis using b r unfolding lane_repr_def by (auto split: if_splits)
  qed
next
  fix q bs assume q: "btree_get fs q = Some bs" "q \<noteq> []" "hd q = lane" "\<not> is_tmp q"
  then obtain b where b: "m b \<noteq> None \<or> b \<in> W" "q \<in> entry_slots eng lane ext b"
    using lane_repr_file [OF r] by blast
  show "\<exists>b. ((m(a := ov)) b \<noteq> None \<or> b \<in> W - {a}) \<and> q \<in> entry_slots eng lane ext b"
  proof (cases "b = a \<and> ov = None")
    case True
    then show ?thesis using slots b(2) q(1) by auto
  next
    case False
    then show ?thesis using b by (intro exI [of _ b]) auto
  qed
next
  fix q bs assume "btree_get fs q = Some bs" "q \<noteq> []" "hd q = lane"
  then show "2 \<le> length q" "valid_namespace eng (q ! 1)" using r unfolding lane_repr_def by blast+
qed

text \<open>Changes outside the lane keep all of it.\<close>

lemma lane_repr_same:
  assumes r: "lane_repr env eng lane ext decode W m fs" and same: "\<And>q. hd q = lane \<Longrightarrow> btree_get fs' q = btree_get fs q"
  shows "lane_repr env eng lane ext decode W m fs'"
  unfolding lane_repr_def
proof (intro conjI allI impI)
  fix a v assume "m a = Some v" "a \<notin> W"
  then obtain p where p: "physical_key_paths_at_root eng lane (fst a) (snd a) ext = Inr p" "stored env decode p (snd a) v fs"
    using lane_repr_entry [OF r] by metis
  have "hd (data_path p) = lane" "hd (index_path p) = lane" "hd (legacy_path p) = lane"
    using p(1) by (auto elim!: paths_Ok)
  then have "stored env decode p (snd a) v fs'"
    using p(2) same by (simp add: stored_def split: option.splits)
  then show "\<exists>p. physical_key_paths_at_root eng lane (fst a) (snd a) ext = Inr p \<and> stored env decode p (snd a) v fs'"
    using p(1) by blast
next
  fix q bs assume "btree_get fs' q = Some bs" "q \<noteq> []" "hd q = lane" "\<not> is_tmp q"
  then show "\<exists>a. (m a \<noteq> None \<or> a \<in> W) \<and> q \<in> entry_slots eng lane ext a"
    using lane_repr_file [OF r] same by metis
next
  fix q bs assume "btree_get fs' q = Some bs" "q \<noteq> []" "hd q = lane"
  then show "2 \<le> length q" "valid_namespace eng (q ! 1)" using r same unfolding lane_repr_def by metis+
qed

text \<open>Opening addresses loses nothing.\<close>

lemma lane_repr_open:
  "lane_repr env eng lane ext decode W m fs \<Longrightarrow> W \<subseteq> W' \<Longrightarrow> (\<And>a. a \<notin> W' \<Longrightarrow> m' a = m a) \<Longrightarrow>
   lane_repr env eng lane ext decode W' m' fs"
  unfolding lane_repr_def by (intro conjI allI impI; metis subsetD)

section \<open>Reading an entry\<close>

lemma hex_digit_inverse: "n < 16 \<Longrightarrow> from_hex_digit (hex_digit n) = Some n"
  by (auto simp: from_hex_digit_def Let_def)

lemma hex_decode_encode: "hex_decode (hex_encode bs) = Some bs"
proof (induction bs)
  case (Cons b bs)
  have lt: "of_char b div 16 < (16 :: nat)"
    using nat_of_char_less_256 [of b] by (simp add: less_mult_imp_div_less)
  have "hex_digit (of_char b div 16) \<noteq> CHR ''+''"
  proof
    assume "hex_digit (of_char b div 16) = CHR ''+''"
    then have "from_hex_digit (hex_digit (of_char b div 16)) = from_hex_digit (CHR ''+'')" by simp
    then show False using hex_digit_inverse [of "of_char b div 16"] lt by (simp add: from_hex_digit_def del: hex_digit.simps)
  qed
  moreover have "16 * (of_char b div 16) + of_char b mod 16 = (of_char b :: nat)" by simp
  ultimately have "from_hex_pair (hex_digit (of_char b div 16)) (hex_digit (of_char b mod 16)) = Some (of_char b)"
    using lt hex_digit_inverse [of "of_char b div 16"] hex_digit_inverse [of "of_char b mod 16"]
    by (simp add: from_hex_pair_def del: hex_digit.simps)
  then show ?case using Cons by (simp add: hex_encode_def)
qed (simp add: hex_encode_def)

lemma hex_encode_inject: "hex_encode a = hex_encode b \<Longrightarrow> a = b"
  using hex_decode_encode by (metis option.inject)

lemma slot_kinds:
  assumes "physical_key_paths_at_root eng lane ns k ext = Inr p" "physical_key_paths_at_root eng lane ns' k' ext = Inr p'"
  shows "data_path p \<noteq> index_path p'" "data_path p \<noteq> legacy_path p'" "index_path p \<noteq> legacy_path p'"
    and "data_path p = data_path p' \<longleftrightarrow> index_path p = index_path p'"
    and "data_path p = data_path p' \<Longrightarrow> ns = ns'"
    and "legacy_path p = legacy_path p' \<Longrightarrow> ns = ns' \<and> k = k'"
  using assms by (auto elim!: paths_Ok dest: hex_encode_inject)

lemma key_index_read:
  "read_key_index env eng fs p stage = Inr (Some key) \<Longrightarrow>
   \<exists>bs. btree_get fs p = Some bs \<and> fe_parse_index env bs = Inr (index_of key)"
  unfolding read_key_index_def read_file_bounded_def fs_read_def
  by (cases "fe_fault env p"; cases "btree_get fs p")
    (auto simp: map_config_err_def index_of_def result_simps split: sum.splits if_splits)

text \<open>
  The three files of an entry as the readers see them, and what they make of it. The reads
  with and without a size limit are instances.
\<close>

lemma lane_repr_lookup:
  assumes r: "lane_repr env eng lane ext decode {} m fs"
    and lane: "store_lane lane ext" and p: "physical_key_paths_at_root eng lane ns k ext = Inr p"
    and res: "case btree_get fs (data_path p) of
       Some bs \<Rightarrow> found = Some bs \<and> (\<exists>ix. btree_get fs (index_path p) = Some ix \<and> fe_parse_index env ix = Inr (index_of k))
     | None \<Rightarrow> btree_get fs (index_path p) = None \<and> found = btree_get fs (legacy_path p)"
  shows "case found of Some bs \<Rightarrow> \<exists>v. decode bs = Some v \<and> m (ns, k) = Some v | None \<Rightarrow> m (ns, k) = None"
proof -
  have here: "q \<noteq> []" "hd q = lane" "\<not> is_tmp q" if "q \<in> {data_path p, index_path p, legacy_path p}" for q
    using that zone_shape [of q eng lane ext "(ns, k)"] slots_zone [of eng lane ext "(ns, k)"]
      slots_not_tmp [OF lane, of q eng "(ns, k)"] by (auto simp: entry_slots_def p)
  have none: "m (ns, k) = None" if "btree_get fs (data_path p) = None" "btree_get fs (legacy_path p) = None"
    using that p lane_repr_entry [OF r, of "(ns, k)"] by (cases "m (ns, k)") (fastforce simp: stored_def)+
  show ?thesis
  proof (cases "btree_get fs (data_path p)")
    case (Some bs)
    then obtain ix where ix: "found = Some bs" "btree_get fs (index_path p) = Some ix" "fe_parse_index env ix = Inr (index_of k)"
      using res by auto
    obtain a where a: "m a \<noteq> None" "data_path p \<in> entry_slots eng lane ext a"
      using lane_repr_file [OF r Some here] by auto
    then obtain v p' where v: "m a = Some v" and p': "physical_key_paths_at_root eng lane (fst a) (snd a) ext = Inr p'"
      "stored env decode p' (snd a) v fs"
      using lane_repr_entry [OF r] by (metis empty_iff not_None_eq)
    have "data_path p = data_path p'"
      using a(2) p'(1) slot_kinds(1,2) [OF p p'(1)] by (simp add: entry_slots_def)
    moreover have "index_path p = index_path p'" "ns = fst a"
      using slot_kinds(4,5) [OF p p'(1)] calculation by auto
    ultimately have "decode bs = Some v" "snd a = k"
      using p'(2) Some ix by (auto simp: stored_def index_of_def)
    then show ?thesis using v \<open>ns = fst a\<close> ix(1) by (cases a) simp
  next
    case None
    show ?thesis
    proof (cases "btree_get fs (legacy_path p)")
      case absent: None
      then show ?thesis using none [OF None absent] res None by simp
    next
      case (Some bs)
      obtain a where a: "m a \<noteq> None" "legacy_path p \<in> entry_slots eng lane ext a"
        using lane_repr_file [OF r Some here] by auto
      then obtain v p' where v: "m a = Some v" and p': "physical_key_paths_at_root eng lane (fst a) (snd a) ext = Inr p'"
        "stored env decode p' (snd a) v fs"
        using lane_repr_entry [OF r] by (metis empty_iff not_None_eq)
      have "legacy_path p = legacy_path p'"
        using a(2) p'(1) slot_kinds(2,3) [OF p'(1) p] by (auto simp: entry_slots_def)
      then have "a = (ns, k)" using slot_kinds(6) [OF p p'(1)] by (cases a) auto
      then show ?thesis using p' p v Some None res by (auto simp: stored_def)
    qed
  qed
qed

end
