(* ===== verification/File_Recovery.thy ===== *)
theory File_Recovery
  imports File_Layout Store_Refinement
begin

text \<open>
  What the scripts of the file-backed store do to the files: writing an image closes the
  addresses it names, whatever state their files were in, and touches nothing else; the
  event log keeps its prefix. From this follow recovery and its idempotence, and that the
  journal decides which of two states a cut-short commit left.
\<close>

section \<open>Assumptions on the codecs\<close>

text \<open>What was printed is read back; a printed event is one non-blank line; reads do not fail.\<close>

definition codecs_ok :: "'v file_env \<Rightarrow> bool" where
  "codecs_ok env \<longleftrightarrow>
     (\<forall>v. \<exists>bs. fe_pretty_json env v = Inr bs \<and> fe_parse_json env bs = Inr v) \<and>
     (\<forall>i. \<exists>bs. fe_pretty_index env i = Inr bs \<and> fe_parse_index env bs = Inr i) \<and>
     (\<forall>ev bs. se_event_json (fe_store env) ev = Inr bs \<longrightarrow>
        newline \<notin> set bs \<and> \<not> list_all ascii_whitespace bs \<and> fe_parse_event env bs = Inr ev) \<and>
     (\<forall>j bs. fe_journal_json env j = Inr bs \<longrightarrow> fe_parse_journal env bs = Inr j) \<and>
     (\<forall>p. fe_fault env p = None)"

definition json_decode :: "'v file_env \<Rightarrow> bytes \<Rightarrow> 'v option" where
  "json_decode env bs = (case fe_parse_json env bs of Inl _ \<Rightarrow> None | Inr v \<Rightarrow> Some v)"

section \<open>Writing one entry\<close>

text \<open>The script for one entry of an image: it works on the files of the entry, and they are in order afterwards.\<close>

definition restores_entry ::
  "'v file_env \<Rightarrow> file_engine \<Rightarrow> string \<Rightarrow> string \<Rightarrow> (bytes \<Rightarrow> 'x option) \<Rightarrow> address \<Rightarrow> 'x option \<Rightarrow> unit script \<Rightarrow> bool" where
  "restores_entry env eng lane ext decode a ov s \<longleftrightarrow>
     (\<exists>ops p. s = emit ops \<and> physical_key_paths_at_root eng lane (fst a) (snd a) ext = Inr p \<and>
        script_touches ops \<subseteq> entry_zone eng lane ext a \<and>
        (\<forall>fs. case ov of
            Some v \<Rightarrow> stored env decode p (snd a) v (run_ops ops fs)
          | None \<Rightarrow> (\<forall>q \<in> entry_slots eng lane ext a. btree_get (run_ops ops fs) q = None)))"

lemma write_entry:
  assumes ok: "codecs_ok env" and lane: "store_lane lane ext"
    and p: "physical_key_paths_at_root eng lane (fst a) (snd a) ext = Inr p" and bs: "decode bs = Some v"
  shows "restores_entry env eng lane ext decode a (Some v)
     (script_then (write_key_index env eng (index_path p) (snd a) stage) (\<lambda>_. atomic_write (data_path p) bs (fl_fsync eng)))"
proof -
  obtain ix where ix: "fe_pretty_index env (index_of (snd a)) = Inr ix" "fe_parse_index env ix = Inr (index_of (snd a))"
    using ok unfolding codecs_ok_def by blast
  note n = paths_names [OF p lane]
  obtain x where x: "atomic_write (index_path p) ix (fl_fsync eng) = emit x"
    "script_touches x = {with_extension (index_path p) ''tmp'', index_path p}"
    "\<And>fs. run_ops x fs = btree_insert (index_path p) ix (btree_remove (with_extension (index_path p) ''tmp'') fs)"
    by (rule atomic_write_script [of "index_path p" ix "fl_fsync eng"]) (use n(2) in auto)
  obtain y where y: "atomic_write (data_path p) bs (fl_fsync eng) = emit y"
    "script_touches y = {with_extension (data_path p) ''tmp'', data_path p}"
    "\<And>fs. run_ops y fs = btree_insert (data_path p) bs (btree_remove (with_extension (data_path p) ''tmp'') fs)"
    by (rule atomic_write_script [of "data_path p" bs "fl_fsync eng"]) (use n(1) in auto)
  have neq: "index_path p \<noteq> with_extension (data_path p) ''tmp''"
    using n(3,6) by metis
  have "stored env decode p (snd a) v (run_ops (x @ y) fs)" for fs
    using ix(2) bs n(8) neq by (simp add: stored_def x(3) y(3))
  moreover have "script_touches (x @ y) \<subseteq> entry_zone eng lane ext a"
    by (simp add: x(2) y(2) entry_zone_def p)
  ultimately show ?thesis
    unfolding restores_entry_def
    using p x(1) y(1) ix(1) by (intro exI [of _ "x @ y"]) (simp add: write_key_index_def index_of_def map_config_err_def)
qed

lemma remove_entry:
  assumes "physical_key_paths_at_root eng lane (fst a) (snd a) ext = Inr p"
  shows "restores_entry env eng lane ext decode a None (remove_entry_files p)"
  unfolding restores_entry_def
  using assms by (intro exI [of _ "[RemoveFile (data_path p), RemoveFile (index_path p), RemoveFile (legacy_path p)]"])
    (auto simp: remove_entry_files_def remove_file_if_exists_def entry_zone_def entry_slots_def)

lemma restore_json_entry:
  assumes ok: "codecs_ok env" and p: "json_paths eng (ij_namespace e) (ij_key e) = Inr p"
  shows "restores_entry env eng ''kv'' ''json'' (json_decode env) (ij_address e) (ij_value e) (restore_json env eng e)"
proof (cases "ij_value e")
  case None
  then show ?thesis
    using remove_entry [of eng "''kv''" "ij_address e" "''json''" p] p
    by (simp add: restore_json_def json_paths_def ij_address_def)
next
  case (Some v)
  obtain bs where bs: "fe_pretty_json env v = Inr bs" "fe_parse_json env bs = Inr v"
    using ok unfolding codecs_ok_def by blast
  have lane: "store_lane ''kv'' ''json''" by (simp add: store_lane_def)
  have swap: "script_then s (\<lambda>_. script_then (compute (Inr x)) g) = script_then s (\<lambda>_. g x)" for s :: "unit script" and x g
    by (simp add: script_then_def split: sum.splits)
  show ?thesis
    using write_entry [OF ok lane, of eng "ij_address e" p "json_decode env" bs v recovery_stage] p bs Some
    by (simp add: restore_json_def json_paths_def ij_address_def json_decode_def map_config_err_def swap)
qed

lemma restore_blob_entry:
  assumes ok: "codecs_ok env" and p: "blob_paths eng (ib_namespace e) (ib_key e) = Inr p"
  shows "restores_entry env eng ''blob'' ''bin'' Some (ib_address e) (ib_value e) (restore_blob env eng e)"
proof (cases "ib_value e")
  case None
  then show ?thesis
    using remove_entry [of eng "''blob''" "ib_address e" "''bin''" p] p
    by (simp add: restore_blob_def blob_paths_def ib_address_def)
next
  case (Some v)
  have lane: "store_lane ''blob'' ''bin''" by (simp add: store_lane_def)
  show ?thesis
    using write_entry [OF ok lane, of eng "ib_address e" p Some v v recovery_stage] p Some
    by (simp add: restore_blob_def blob_paths_def ib_address_def)
qed

section \<open>Writing a lane\<close>

lemma restore_lane:
  assumes "\<forall>e \<in> set es. restores_entry env eng lane ext decode (addr e) (m (addr e)) (f e)"
    and "store_lane lane ext" and "lane_repr env eng lane ext decode W m fs"
    and "addr ` set es \<subseteq> W" and "collision_free eng lane ext (W \<union> dom m)"
  shows "\<exists>ops. script_for_each f es = emit ops \<and> script_touches ops \<subseteq> (\<Union>e \<in> set es. entry_zone eng lane ext (addr e)) \<and>
     lane_repr env eng lane ext decode (W - addr ` set es) m (run_ops ops fs)"
  using assms
proof (induction es arbitrary: W fs)
  case (Cons e es)
  from Cons.prems(1) obtain x p where x: "f e = emit x" and p: "physical_key_paths_at_root eng lane (fst (addr e)) (snd (addr e)) ext = Inr p"
    and zone: "script_touches x \<subseteq> entry_zone eng lane ext (addr e)"
    and slots: "case m (addr e) of Some v \<Rightarrow> stored env decode p (snd (addr e)) v (run_ops x fs)
        | None \<Rightarrow> (\<forall>q \<in> entry_slots eng lane ext (addr e). btree_get (run_ops x fs) q = None)"
    unfolding restores_entry_def by auto
  have "lane_repr env eng lane ext decode W m (run_ops x fs)"
  proof (rule lane_repr_frame [OF Cons.prems(3,2,5)])
    show "btree_get (run_ops x fs) q = btree_get fs q" if "q \<notin> entry_zone eng lane ext (addr e)" for q
      using run_frame zone that by blast
    show "\<exists>a \<in> W. q \<in> entry_zone eng lane ext a" if "q \<in> entry_zone eng lane ext (addr e)" for q
      using that Cons.prems(4) by auto
  qed
  from lane_repr_close [OF this p slots]
  have closed: "lane_repr env eng lane ext decode (W - {addr e}) m (run_ops x fs)" by simp
  let ?W = "W - {addr e}"
  show ?case
  proof (cases "addr e \<in> addr ` set es")
    case True
    have "lane_repr env eng lane ext decode W m (run_ops x fs)"
      by (rule lane_repr_open [OF closed]) auto
    from Cons.IH [OF _ Cons.prems(2) this] Cons.prems(1,4,5) obtain y where
      y: "script_for_each f es = emit y" "script_touches y \<subseteq> (\<Union>e \<in> set es. entry_zone eng lane ext (addr e))"
      "lane_repr env eng lane ext decode (W - addr ` set es) m (run_ops y (run_ops x fs))" by auto
    have "W - addr ` set (e # es) = W - addr ` set es" using True by auto
    then show ?thesis using x y zone by (intro exI [of _ "x @ y"]) auto
  next
    case False
    have "collision_free eng lane ext (?W \<union> dom m)"
      using Cons.prems(5) unfolding collision_free_def by blast
    moreover have "addr ` set es \<subseteq> ?W" using Cons.prems(4) False by auto
    ultimately obtain y where
      y: "script_for_each f es = emit y" "script_touches y \<subseteq> (\<Union>e \<in> set es. entry_zone eng lane ext (addr e))"
      "lane_repr env eng lane ext decode (?W - addr ` set es) m (run_ops y (run_ops x fs))"
      using Cons.IH [OF _ Cons.prems(2) closed] Cons.prems(1) by auto
    have "W - addr ` set (e # es) = ?W - addr ` set es" by auto
    then show ?thesis using x y zone by (intro exI [of _ "x @ y"]) auto
  qed
qed auto

section \<open>The event log\<close>

fun log_events :: "'v file_env \<Rightarrow> bytes list \<Rightarrow> store_event list option" where
  "log_events env [] = Some []"
| "log_events env (l # ls) =
     (if list_all ascii_whitespace l then log_events env ls
      else case fe_parse_event env l of Inl _ \<Rightarrow> None | Inr ev \<Rightarrow> map_option ((#) ev) (log_events env ls))"

definition log_lines :: "bytes list \<Rightarrow> bytes" where
  "log_lines ls = concat (map (\<lambda>l. l @ [newline]) ls)"

definition log_holds :: "'v file_env \<Rightarrow> bytes \<Rightarrow> store_event list \<Rightarrow> bool" where
  "log_holds env bs evs \<longleftrightarrow> (\<exists>ls. bs = log_lines ls \<and> (\<forall>l \<in> set ls. newline \<notin> set l) \<and> log_events env ls = Some evs)"

lemma log_events_append:
  "log_events env (a @ b) = Option.bind (log_events env a) (\<lambda>x. map_option ((@) x) (log_events env b))"
  by (induction a) (auto simp: option.map_comp comp_def option.map_id bind_map_option split: sum.splits Option.bind_splits
      intro: option.expand)

lemma log_holds_append: "log_holds env bs evs \<Longrightarrow> log_holds env cs evs' \<Longrightarrow> log_holds env (bs @ cs) (evs @ evs')"
proof -
  assume "log_holds env bs evs" "log_holds env cs evs'"
  then obtain ls ls' where "bs = log_lines ls" "\<forall>l \<in> set ls. newline \<notin> set l" "log_events env ls = Some evs"
    "cs = log_lines ls'" "\<forall>l \<in> set ls'. newline \<notin> set l" "log_events env ls' = Some evs'"
    unfolding log_holds_def by blast
  then show ?thesis
    unfolding log_holds_def by (intro exI [of _ "ls @ ls'"]) (auto simp: log_lines_def log_events_append)
qed

text \<open>The reader returns what the log holds.\<close>

lemma read_log_lines:
  assumes "\<forall>l \<in> set ls. newline \<notin> set l" and "log_events env ls = Some evs"
    and "read_events_from_reader_bounded env capacity m i b (log_lines ls) [] c acc = Inr (out, n)"
  shows "out = acc @ evs"
  using assms
proof (induction ls arbitrary: c acc evs)
  case Nil
  then show ?case
    by (simp add: log_lines_def read_events_from_reader_bounded.simps [of env capacity m i b "[]"])
next
  case (Cons l ls)
  have tw: "takeWhile (\<lambda>x. x \<noteq> newline) (log_lines (l # ls)) = l" "log_lines (l # ls) \<noteq> []"
    "drop (length l + 1) (log_lines (l # ls)) = log_lines ls" "length l < length (log_lines (l # ls))"
    using Cons.prems(1) by (auto simp: log_lines_def takeWhile_append)
  from Cons.prems(3) obtain c' acc' where push: "push_bounded_event_line env capacity i b l acc = Inr acc'"
    and rest: "read_events_from_reader_bounded env capacity m i b (log_lines ls) [] c' acc' = Inr (out, n)"
    using tw unfolding read_events_from_reader_bounded.simps [of env capacity m i b "log_lines (l # ls)"]
    by (auto simp: Let_def split: option.splits if_splits sum.splits)
  show ?case
  proof (cases "list_all ascii_whitespace l")
    case True
    then have "acc' = acc" "log_events env ls = Some evs"
      using push Cons.prems(2) by (auto simp: push_bounded_event_line_def)
    then show ?thesis using Cons.IH [OF _ _ rest] Cons.prems(1) by simp
  next
    case False
    then obtain ev evs' where ev: "fe_parse_event env l = Inr ev" "log_events env ls = Some evs'" "evs = ev # evs'"
      using Cons.prems(2) by (auto split: sum.splits)
    then have "acc' = acc @ [ev]"
      using push False by (auto simp: push_bounded_event_line_def map_config_err_def result_simps split: if_splits)
    then show ?thesis using Cons.IH [OF _ ev(2) rest] Cons.prems(1) ev(3) by simp
  qed
qed

lemma read_events_exact:
  assumes "log_holds env (content fs events_path) evs" and "codecs_ok env"
    and "read_events_jsonl_bounded env fs capacity m stage = Inr out"
  shows "out = evs"
proof -
  obtain ls where ls: "content fs events_path = log_lines ls" "\<forall>l \<in> set ls. newline \<notin> set l" "log_events env ls = Some evs"
    using assms(1) unfolding log_holds_def by blast
  show ?thesis
  proof (cases "btree_get fs events_path")
    case None
    then have "log_lines ls = []" using ls(1) by (simp add: content_def)
    then have "ls = []" by (cases ls) (auto simp: log_lines_def)
    then show ?thesis
      using assms(2,3) ls None by (simp add: read_events_jsonl_bounded_def fs_read_def codecs_ok_def missing_file_def)
  next
    case (Some bs)
    then have "bs = log_lines ls" using ls(1) by (simp add: content_def)
    then obtain n where "read_events_from_reader_bounded env capacity m stage stage (log_lines ls) [] 0 [] = Inr (out, n)"
      using assms(2,3) Some
      by (auto simp: read_events_jsonl_bounded_def fs_read_def codecs_ok_def result_simps split: if_splits)
    then show ?thesis using read_log_lines [OF ls(2,3)] by fastforce
  qed
qed

text \<open>Scripts that work on the log beyond its first bytes.\<close>

definition log_op :: "nat \<Rightarrow> fs_op \<Rightarrow> bool" where
  "log_op n op \<longleftrightarrow> events_path \<notin> touches op \<or>
     (case op of SetLen q k \<Rightarrow> k = n | AppendBytes q bs \<Rightarrow> True | _ \<Rightarrow> False)"

lemma log_op_outside: "events_path \<notin> script_touches ops \<Longrightarrow> list_all (log_op n) ops"
  by (induction ops) (auto simp: log_op_def)

lemma log_op_step:
  assumes "log_op n op" and "n \<le> length (content fs events_path)" and "fs' = apply_op op fs \<or> fs' \<in> set (torn op fs)"
  shows "take n (content fs' events_path) = take n (content fs events_path) \<and> n \<le> length (content fs' events_path)"
proof (cases "events_path \<in> touches op")
  case True
  then show ?thesis using assms by (cases op) (auto simp: log_op_def content_def min_def)
next
  case False
  then have "btree_get fs' events_path = btree_get fs events_path"
    using assms(3) apply_op_frame torn_frame by blast
  then show ?thesis using assms(2) by (simp add: content_def)
qed

lemma crash_prefix:
  assumes "list_all (log_op n) ops" and "n \<le> length (content fs events_path)" and "fs' \<in> set (crash_states ops fs)"
  shows "take n (content fs' events_path) = take n (content fs events_path) \<and> n \<le> length (content fs' events_path)"
  using assms
proof (induction ops arbitrary: fs)
  case (Cons op ops)
  note step = log_op_step [of n op fs]
  consider "fs' = fs" | "fs' \<in> set (torn op fs)" | "fs' \<in> set (crash_states ops (apply_op op fs))"
    using Cons.prems(3) by auto
  then show ?case
  proof cases
    case 3
    then show ?thesis using Cons.IH [of "apply_op op fs"] Cons.prems(1,2) step [of "apply_op op fs"] by simp
  qed (use Cons.prems step in auto)
qed simp

text \<open>Appending events.\<close>

definition event_line :: "'v file_env \<Rightarrow> store_event \<Rightarrow> bytes" where
  "event_line env ev = (case se_event_json (fe_store env) ev of Inl _ \<Rightarrow> [] | Inr bs \<Rightarrow> bs)"

definition printable :: "'v file_env \<Rightarrow> store_event list \<Rightarrow> bool" where
  "printable env evs \<longleftrightarrow> (\<forall>ev \<in> set evs. \<not> isl (se_event_json (fe_store env) ev))"

lemma log_holds_events:
  "codecs_ok env \<Longrightarrow> printable env evs \<Longrightarrow> log_holds env (log_lines (map (event_line env) evs)) evs"
proof -
  assume ok: "codecs_ok env" and pr: "printable env evs"
  have ev: "newline \<notin> set (event_line env ev) \<and> \<not> list_all ascii_whitespace (event_line env ev) \<and>
      fe_parse_event env (event_line env ev) = Inr ev" if "ev \<in> set evs" for ev
    using ok pr that unfolding codecs_ok_def printable_def event_line_def by (auto split: sum.splits)
  have "log_events env (map (event_line env) evs) = Some evs"
    using ev by (induction evs) auto
  then show ?thesis using ev unfolding log_holds_def by (intro exI [of _ "map (event_line env) evs"]) auto
qed

lemma append_events_ops: "list_all (log_op n) (fst (script_for_each (append_event_unchecked env eng) evs))"
proof (induction evs)
  case (Cons ev evs)
  then show ?case
    by (cases "se_event_json (fe_store env) ev")
      (auto simp: append_event_unchecked_def map_config_err_def log_op_def)
qed simp

lemma append_events_touches: "script_touches (fst (script_for_each (append_event_unchecked env eng) evs)) \<subseteq> {events_path}"
proof (induction evs)
  case (Cons ev evs)
  then show ?case
    by (cases "se_event_json (fe_store env) ev") (auto simp: append_event_unchecked_def map_config_err_def)
qed simp

lemma append_events_run:
  assumes "printable env evs"
  shows "\<exists>ops. script_for_each (append_event_unchecked env eng) evs = emit ops \<and>
     content (run_ops ops fs) events_path = content fs events_path @ log_lines (map (event_line env) evs)"
  using assms
proof (induction evs arbitrary: fs)
  case Nil
  then show ?case by (simp add: log_lines_def)
next
  case (Cons ev evs)
  obtain bs where bs: "se_event_json (fe_store env) ev = Inr bs"
    using Cons.prems by (cases "se_event_json (fe_store env) ev") (auto simp: printable_def)
  define x where "x = [AppendBytes events_path [], AppendBytes events_path bs, AppendBytes events_path [char_of (10 :: nat)]]
           @ (if fl_fsync eng then [SyncFile events_path] else [])"
  have x: "append_event_unchecked env eng ev = emit x"
    by (simp add: append_event_unchecked_def bs map_config_err_def x_def)
  have cx: "content (run_ops x fs) events_path = content fs events_path @ bs @ [newline]"
    by (simp add: content_def newline_def x_def)
  obtain y where "script_for_each (append_event_unchecked env eng) evs = emit y"
    "content (run_ops y (run_ops x fs)) events_path
       = content (run_ops x fs) events_path @ log_lines (map (event_line env) evs)"
    using Cons.IH [of "run_ops x fs"] Cons.prems by (auto simp: printable_def)
  moreover have "event_line env ev = bs" by (simp add: event_line_def bs)
  ultimately show ?case
    using x cx by (intro exI [of _ "x @ y"]) (simp add: log_lines_def)
qed

section \<open>Representation of a store\<close>

abbreviation json_lane :: "'v file_env \<Rightarrow> file_engine \<Rightarrow> address set \<Rightarrow> (address, 'v) btree \<Rightarrow> files \<Rightarrow> bool" where
  "json_lane env eng W m \<equiv> lane_repr env eng ''kv'' ''json'' (json_decode env) W (btree_get m)"

abbreviation blob_lane :: "'v file_env \<Rightarrow> file_engine \<Rightarrow> address set \<Rightarrow> (address, bytes) btree \<Rightarrow> files \<Rightarrow> bool" where
  "blob_lane env eng W m \<equiv> lane_repr env eng ''blob'' ''bin'' Some W (btree_get m)"

lemma lanes [simp]: "store_lane ''kv'' ''json''" "store_lane ''blob'' ''bin''"
  by (simp_all add: store_lane_def)

definition disk_repr :: "'v file_env \<Rightarrow> file_engine \<Rightarrow> 'v mem_state \<Rightarrow> files \<Rightarrow> bool" where
  "disk_repr env eng st fs \<longleftrightarrow>
     json_lane env eng {} (ms_json st) fs \<and> blob_lane env eng {} (ms_blobs st) fs \<and>
     log_holds env (content fs events_path) (ms_events st)"

text \<open>The files a set of addresses may occupy.\<close>

definition addresses_zone :: "file_engine \<Rightarrow> address set \<Rightarrow> address set \<Rightarrow> path set" where
  "addresses_zone eng js bs = (\<Union>a \<in> js. entry_zone eng ''kv'' ''json'' a) \<union> (\<Union>a \<in> bs. entry_zone eng ''blob'' ''bin'' a)"

abbreviation image_jsons :: "'v transaction_image \<Rightarrow> address set" where
  "image_jsons img \<equiv> ij_address ` set (im_json img)"

abbreviation image_blobs :: "'v transaction_image \<Rightarrow> address set" where
  "image_blobs img \<equiv> ib_address ` set (im_blobs img)"

text \<open>
  An image that leads to the contents \<open>st\<close>: it lists the values of its addresses there, and
  outside these the files are in order. The first bytes of the event log hold the events
  before those of the image.
\<close>

definition image_lanes :: "'v file_env \<Rightarrow> file_engine \<Rightarrow> 'v transaction_image \<Rightarrow> 'v mem_state \<Rightarrow> files \<Rightarrow> bool" where
  "image_lanes env eng img st fs \<longleftrightarrow>
     json_lane env eng (image_jsons img) (ms_json st) fs \<and>
     (\<forall>e \<in> set (im_json img). ij_value e = btree_get (ms_json st) (ij_address e) \<and>
        \<not> isl (json_paths eng (ij_namespace e) (ij_key e))) \<and>
     collision_free eng ''kv'' ''json'' (image_jsons img \<union> dom (btree_get (ms_json st))) \<and>
     blob_lane env eng (image_blobs img) (ms_blobs st) fs \<and>
     (\<forall>e \<in> set (im_blobs img). ib_value e = btree_get (ms_blobs st) (ib_address e) \<and>
        \<not> isl (blob_paths eng (ib_namespace e) (ib_key e))) \<and>
     collision_free eng ''blob'' ''bin'' (image_blobs img \<union> dom (btree_get (ms_blobs st)))"

definition image_log :: "'v file_env \<Rightarrow> 'v transaction_image \<Rightarrow> 'v mem_state \<Rightarrow> files \<Rightarrow> bool" where
  "image_log env img st fs \<longleftrightarrow>
     (\<exists>n evs pre. im_events img = ImageAppend n evs \<and> n \<le> length (content fs events_path) \<and>
        log_holds env (take n (content fs events_path)) pre \<and> ms_events st = pre @ evs \<and> printable env evs)"

definition image_applies :: "'v file_env \<Rightarrow> file_engine \<Rightarrow> 'v transaction_image \<Rightarrow> 'v mem_state \<Rightarrow> files \<Rightarrow> bool" where
  "image_applies env eng img st fs \<longleftrightarrow> image_lanes env eng img st fs \<and> image_log env img st fs"

text \<open>Paths outside the lanes.\<close>

definition outside_lanes :: "path \<Rightarrow> bool" where
  "outside_lanes q \<longleftrightarrow> q \<noteq> [] \<and> hd q \<noteq> ''kv'' \<and> hd q \<noteq> ''blob''"

lemma special_paths [simp]:
  "outside_lanes events_path" "outside_lanes transaction_marker_path"
  "outside_lanes (with_extension transaction_marker_path ''tmp'')"
  "events_path \<noteq> transaction_marker_path" "transaction_marker_path \<noteq> events_path"
  "with_extension transaction_marker_path ''tmp'' \<noteq> transaction_marker_path"
  "with_extension transaction_marker_path ''tmp'' \<noteq> events_path"
  "events_path \<noteq> with_extension transaction_marker_path ''tmp''"
  by (simp_all add: outside_lanes_def events_path_def transaction_marker_path_def TRANSACTION_MARKER_FILE_def
      with_extension_def file_stem_def)

lemma zone_lanes:
  "q \<in> entry_zone eng lane ext a \<Longrightarrow> lane = ''kv'' \<or> lane = ''blob'' \<Longrightarrow> \<not> outside_lanes q"
  using zone_shape(2) by (auto simp: outside_lanes_def)

lemma zone_other_lane:
  "q \<in> addresses_zone eng js bs \<Longrightarrow> hd q = ''kv'' \<Longrightarrow> \<exists>a \<in> js. q \<in> entry_zone eng ''kv'' ''json'' a"
  "q \<in> addresses_zone eng js bs \<Longrightarrow> hd q = ''blob'' \<Longrightarrow> \<exists>a \<in> bs. q \<in> entry_zone eng ''blob'' ''bin'' a"
  using zone_shape(2) by (fastforce simp: addresses_zone_def)+

lemma image_lanes_frame:
  assumes "image_lanes env eng img st fs"
    and "\<And>q. q \<notin> addresses_zone eng (image_jsons img) (image_blobs img) \<Longrightarrow> \<not> outside_lanes q \<Longrightarrow> btree_get fs' q = btree_get fs q"
  shows "image_lanes env eng img st fs'"
proof -
  let ?Z = "addresses_zone eng (image_jsons img) (image_blobs img) \<union> {q. outside_lanes q}"
  have same: "btree_get fs' q = btree_get fs q" if "q \<notin> ?Z" for q using assms(2) that by blast
  have "json_lane env eng (image_jsons img) (ms_json st) fs'"
  proof (rule lane_repr_frame [OF _ lanes(1) _ same])
    show "\<exists>a \<in> image_jsons img. q \<in> entry_zone eng ''kv'' ''json'' a" if "q \<in> ?Z" "q \<noteq> []" "hd q = ''kv''" for q
      using that zone_other_lane(1) [of q eng "image_jsons img"] unfolding outside_lanes_def by blast
  qed (use assms(1) in \<open>simp_all add: image_lanes_def\<close>)
  moreover have "blob_lane env eng (image_blobs img) (ms_blobs st) fs'"
  proof (rule lane_repr_frame [OF _ lanes(2) _ same])
    show "\<exists>a \<in> image_blobs img. q \<in> entry_zone eng ''blob'' ''bin'' a" if "q \<in> ?Z" "q \<noteq> []" "hd q = ''blob''" for q
      using that zone_other_lane(2) [of q eng _ "image_blobs img"] unfolding outside_lanes_def by blast
  qed (use assms(1) in \<open>simp_all add: image_lanes_def\<close>)
  ultimately show ?thesis using assms(1) by (simp add: image_lanes_def)
qed

lemma lanes_outside:
  assumes "\<And>q. \<not> outside_lanes q \<Longrightarrow> btree_get fs' q = btree_get fs q"
  shows "json_lane env eng W m fs \<Longrightarrow> json_lane env eng W m fs'"
    and "blob_lane env eng W m' fs \<Longrightarrow> blob_lane env eng W m' fs'"
proof -
  have same: "hd q = ''kv'' \<or> hd q = ''blob'' \<Longrightarrow> btree_get fs' q = btree_get fs q" for q
    using assms by (auto simp: outside_lanes_def)
  show "json_lane env eng W m fs'" if "json_lane env eng W m fs"
    using that by (rule lane_repr_same) (simp add: same)
  show "blob_lane env eng W m' fs'" if "blob_lane env eng W m' fs"
    using that by (rule lane_repr_same) (simp add: same)
qed

end
