(* ===== verification/File_Commit.thy ===== *)
theory File_Commit
  imports File_Recovery
begin

text \<open>
  Recovery and commit of the file-backed store. The contents of a store on disk are those of
  its files, or, while a journal lies in the root, those the selected image of the journal
  leads to; \<open>contents\<close> relates files to them.
\<close>

section \<open>Writing an image\<close>

lemma restores_touches:
  assumes "\<forall>e \<in> set es. restores_entry env eng lane ext decode (addr e) (val e) (f e)"
  shows "\<exists>ops. script_for_each f es = emit ops \<and> script_touches ops \<subseteq> (\<Union>e \<in> set es. entry_zone eng lane ext (addr e))"
  using assms
proof (induction es)
  case (Cons e es)
  then obtain x y where "f e = emit x" "script_touches x \<subseteq> entry_zone eng lane ext (addr e)"
    "script_for_each f es = emit y" "script_touches y \<subseteq> (\<Union>e \<in> set es. entry_zone eng lane ext (addr e))"
    unfolding restores_entry_def by auto
  then show ?case by (intro exI [of _ "x @ y"]) auto
qed auto

definition image_paths_ok :: "file_engine \<Rightarrow> 'v transaction_image \<Rightarrow> bool" where
  "image_paths_ok eng img \<longleftrightarrow>
     (\<forall>e \<in> set (im_json img). \<not> isl (json_paths eng (ij_namespace e) (ij_key e))) \<and>
     (\<forall>e \<in> set (im_blobs img). \<not> isl (blob_paths eng (ib_namespace e) (ib_key e)))"

lemma restores_image:
  assumes "codecs_ok env" and "image_paths_ok eng img"
  shows "\<forall>e \<in> set (im_json img). restores_entry env eng ''kv'' ''json'' (json_decode env) (ij_address e) (ij_value e) (restore_json env eng e)"
    and "\<forall>e \<in> set (im_blobs img). restores_entry env eng ''blob'' ''bin'' Some (ib_address e) (ib_value e) (restore_blob env eng e)"
  using assms restore_json_entry [OF assms(1)] restore_blob_entry [OF assms(1)]
  unfolding image_paths_ok_def by (metis obj_sumE sum.disc(1))+

lemma events_not_in_zone: "events_path \<notin> addresses_zone eng js bs"
  using zone_lanes special_paths(1) by (fastforce simp: addresses_zone_def)

text \<open>The calls of a restore, whether it ends well or not.\<close>

lemma restore_image_ops:
  assumes "codecs_ok env" and "image_paths_ok eng img" and "im_events img = ImageAppend n evs"
  defines "ops \<equiv> fst (restore_transaction_image env eng img)"
  shows "script_touches ops \<subseteq> addresses_zone eng (image_jsons img) (image_blobs img) \<union> {events_path}"
    and "list_all (log_op n) ops"
proof -
  obtain a where a: "script_for_each (restore_json env eng) (im_json img) = emit a"
    "script_touches a \<subseteq> (\<Union>e \<in> set (im_json img). entry_zone eng ''kv'' ''json'' (ij_address e))"
    using restores_touches [OF restores_image(1) [OF assms(1,2)]] by blast
  obtain b where b: "script_for_each (restore_blob env eng) (im_blobs img) = emit b"
    "script_touches b \<subseteq> (\<Union>e \<in> set (im_blobs img). entry_zone eng ''blob'' ''bin'' (ib_address e))"
    using restores_touches [OF restores_image(2) [OF assms(1,2)]] by blast
  have ab: "script_touches (a @ b) \<subseteq> addresses_zone eng (image_jsons img) (image_blobs img)"
    using a(2) b(2) by (auto simp: addresses_zone_def)
  then have "events_path \<notin> script_touches (a @ b)" using events_not_in_zone by blast
  note logab = log_op_outside [OF this, of n]
  define c where "c = script_for_each (append_event_unchecked env eng) evs"
  have c: "list_all (log_op n) (fst c)" unfolding c_def by (rule append_events_ops)
  have tc: "script_touches (fst c) \<subseteq> {events_path}"
    unfolding c_def by (rule append_events_touches)
  have ops: "ops = a @ b @ [SetLen events_path n] @ fst c @ (if isl (snd c) then [] else fst (sync_root eng))"
    by (cases c; cases "snd c")
      (auto simp: ops_def restore_transaction_image_def a(1) b(1) assms(3) c_def [symmetric] script_then_def)
  have sync: "script_touches (fst (sync_root eng)) = {}" "list_all (log_op n) (fst (sync_root eng))"
    by (auto simp: sync_root_def sync_directory_def log_op_def)
  show "script_touches ops \<subseteq> addresses_zone eng (image_jsons img) (image_blobs img) \<union> {events_path}"
    using ab tc sync(1) by (auto simp: ops)
  show "list_all (log_op n) ops"
    using logab c sync(2) by (auto simp: ops log_op_def)
qed

lemma lane_kept:
  assumes "\<forall>q \<in> script_touches ops. hd q \<noteq> lane" and "lane_repr env eng lane ext decode W m fs"
  shows "lane_repr env eng lane ext decode W m (run_ops ops fs)"
  using assms(2) by (rule lane_repr_same) (metis assms(1) run_frame)

lemma restore_image:
  assumes ok: "codecs_ok env" and img: "image_applies env eng img st fs"
  obtains ops where "restore_transaction_image env eng img = emit ops" "disk_repr env eng st (run_ops ops fs)"
proof -
  from img obtain n evs pre where ev: "im_events img = ImageAppend n evs" "n \<le> length (content fs events_path)"
    "log_holds env (take n (content fs events_path)) pre" "ms_events st = pre @ evs" "printable env evs"
    by (auto simp: image_applies_def image_log_def)
  have il: "image_lanes env eng img st fs" using img by (simp add: image_applies_def)
  then have paths: "image_paths_ok eng img" by (auto simp: image_lanes_def image_paths_ok_def)
  have j: "json_lane env eng (image_jsons img) (ms_json st) fs"
    "collision_free eng ''kv'' ''json'' (image_jsons img \<union> dom (btree_get (ms_json st)))"
    and b: "blob_lane env eng (image_blobs img) (ms_blobs st) fs"
    "collision_free eng ''blob'' ''bin'' (image_blobs img \<union> dom (btree_get (ms_blobs st)))"
    using il by (simp_all add: image_lanes_def)
  note re = restores_image [OF ok paths]
  have "\<forall>e \<in> set (im_json img). restores_entry env eng ''kv'' ''json'' (json_decode env) (ij_address e)
      (btree_get (ms_json st) (ij_address e)) (restore_json env eng e)"
    using re(1) il by (simp add: image_lanes_def)
  from restore_lane [OF this lanes(1) j(1) subset_refl j(2)] obtain a where a: "script_for_each (restore_json env eng) (im_json img) = emit a"
    "script_touches a \<subseteq> (\<Union>e \<in> set (im_json img). entry_zone eng ''kv'' ''json'' (ij_address e))"
    "json_lane env eng {} (ms_json st) (run_ops a fs)"
    by auto
  have akv: "hd q = ''kv''" if "q \<in> script_touches a" for q
    using that a(2) zone_shape(2) by blast
  have blob: "blob_lane env eng (image_blobs img) (ms_blobs st) (run_ops a fs)"
    by (rule lane_kept) (use akv b(1) in auto)
  have "\<forall>e \<in> set (im_blobs img). restores_entry env eng ''blob'' ''bin'' Some (ib_address e)
      (btree_get (ms_blobs st) (ib_address e)) (restore_blob env eng e)"
    using re(2) il by (simp add: image_lanes_def)
  from restore_lane [OF this lanes(2) blob subset_refl b(2)] obtain b where b: "script_for_each (restore_blob env eng) (im_blobs img) = emit b"
    "script_touches b \<subseteq> (\<Union>e \<in> set (im_blobs img). entry_zone eng ''blob'' ''bin'' (ib_address e))"
    "blob_lane env eng {} (ms_blobs st) (run_ops b (run_ops a fs))"
    by auto
  have bb: "hd q = ''blob''" if "q \<in> script_touches b" for q
    using that b(2) zone_shape(2) by blast
  have json: "json_lane env eng {} (ms_json st) (run_ops b (run_ops a fs))"
    by (rule lane_kept) (use bb a(3) in auto)
  let ?fs = "run_ops [SetLen events_path n] (run_ops b (run_ops a fs))"
  have "events_path \<notin> script_touches (a @ b)" using akv [of events_path] bb [of events_path] by (auto simp: events_path_def)
  then have "content (run_ops b (run_ops a fs)) events_path = content fs events_path"
    using run_frame [of events_path "a @ b" fs] by (simp add: content_def)
  then have set: "content ?fs events_path = take n (content fs events_path)"
    using ev(2) by (simp add: content_def [of "btree_insert _ _ _"])
  obtain c where c: "script_for_each (append_event_unchecked env eng) evs = emit c"
    "content (run_ops c ?fs) events_path = take n (content fs events_path) @ log_lines (map (event_line env) evs)"
    using append_events_run [OF ev(5), of eng ?fs] set by auto
  have tc: "script_touches c \<subseteq> {events_path}"
    using append_events_touches [of env eng evs] c(1) by simp
  let ?ops = "a @ b @ [SetLen events_path n] @ c @ fst (sync_root eng)"
  have sync: "script_touches (fst (sync_root eng)) = {}" "snd (sync_root eng) = Inr ()" "run_ops (fst (sync_root eng)) g = g" for g
    by (auto simp: sync_root_def sync_directory_def)
  have "restore_transaction_image env eng img = emit ?ops"
    using sync(2) by (simp add: restore_transaction_image_def a(1) b(1) ev(1) c(1))
  moreover have "\<forall>q \<in> script_touches ([SetLen events_path n] @ c). hd q \<noteq> ''kv''"
    "\<forall>q \<in> script_touches ([SetLen events_path n] @ c). hd q \<noteq> ''blob''"
    using tc by (auto simp: events_path_def)
  note kept = lane_kept [OF this(1) json] lane_kept [OF this(2) b(3)]
  have "json_lane env eng {} (ms_json st) (run_ops c ?fs)" "blob_lane env eng {} (ms_blobs st) (run_ops c ?fs)"
    using kept unfolding run_ops_append .
  moreover note this
  moreover have "log_holds env (content (run_ops c ?fs) events_path) (ms_events st)"
    unfolding c(2) ev(4) by (rule log_holds_append [OF ev(3) log_holds_events [OF ok ev(5)]])
  ultimately show thesis
    using that [of ?ops] by (simp add: disk_repr_def sync(3))
qed

section \<open>The contents of a store\<close>

text \<open>A journal file that recovery accepts.\<close>

definition journal_file :: "'v file_env \<Rightarrow> file_engine \<Rightarrow> bytes \<Rightarrow> 'v transaction_journal \<Rightarrow> bool" where
  "journal_file env eng bs j \<longleftrightarrow>
     length bs \<le> journal_limit eng \<and> fe_parse_journal env bs = Inr j \<and> jo_schema_version j = 2 \<and>
     verify_checksum env j = Inr () \<and> validate_image_address_contract j = Inr ()"

text \<open>The contents are those of the files, or those the selected image of a journal leads to.\<close>

definition contents :: "'v file_env \<Rightarrow> file_engine \<Rightarrow> 'v mem_state \<Rightarrow> files \<Rightarrow> bool" where
  "contents env eng st fs \<longleftrightarrow>
     (case btree_get fs transaction_marker_path of
        None \<Rightarrow> disk_repr env eng st fs
      | Some bs \<Rightarrow> (\<exists>j. journal_file env eng bs j \<and> image_applies env eng (selected_image j) st fs))"

definition settled :: "'v file_env \<Rightarrow> file_engine \<Rightarrow> 'v mem_state \<Rightarrow> files \<Rightarrow> bool" where
  "settled env eng st fs \<longleftrightarrow> btree_get fs transaction_marker_path = None \<and> disk_repr env eng st fs"

lemma settled_contents: "settled env eng st fs \<Longrightarrow> contents env eng st fs"
  by (simp add: settled_def contents_def)

lemma disk_repr_outside:
  assumes "disk_repr env eng st fs" and "\<And>q. \<not> outside_lanes q \<or> q = events_path \<Longrightarrow> btree_get fs' q = btree_get fs q"
  shows "disk_repr env eng st fs'"
proof -
  have same: "btree_get fs' q = btree_get fs q" if "\<not> outside_lanes q" for q using assms(2) that by blast
  have "content fs' events_path = content fs events_path" using assms(2) [of events_path] by (simp add: content_def)
  then show ?thesis
    using assms(1) lanes_outside(1) [OF same, of env eng "{}" "ms_json st"] lanes_outside(2) [OF same, of env eng "{}" "ms_blobs st"]
    unfolding disk_repr_def by metis
qed

lemma image_applies_outside:
  assumes "image_applies env eng img st fs" and "\<And>q. \<not> outside_lanes q \<or> q = events_path \<Longrightarrow> btree_get fs' q = btree_get fs q"
  shows "image_applies env eng img st fs'"
proof -
  have "image_lanes env eng img st fs'"
    by (rule image_lanes_frame [of env eng img st fs]) (use assms in \<open>auto simp: image_applies_def\<close>)
  moreover have "content fs' events_path = content fs events_path" using assms(2) [of events_path] by (simp add: content_def)
  ultimately show ?thesis using assms(1) by (simp add: image_applies_def image_log_def)
qed

text \<open>
  Writing one image of a journal, cut short anywhere, leaves the other image applicable: both
  name the same addresses and the same prefix of the log.
\<close>

lemma restore_image_crash:
  assumes ok: "codecs_ok env" and img: "image_applies env eng img st fs"
    and paths: "image_paths_ok eng img'" and same: "image_jsons img' = image_jsons img" "image_blobs img' = image_blobs img"
    and ev: "im_events img = ImageAppend n evs" "im_events img' = ImageAppend n evs'"
    and crash: "fs' \<in> set (crash_states (fst (restore_transaction_image env eng img')) fs)"
  shows "image_applies env eng img st fs'" and "btree_get fs' transaction_marker_path = btree_get fs transaction_marker_path"
proof -
  let ?Z = "addresses_zone eng (image_jsons img) (image_blobs img)"
  note ops = restore_image_ops [OF ok paths ev(2)]
  have "script_touches (fst (restore_transaction_image env eng img')) \<subseteq> ?Z \<union> {events_path}"
    using ops(1) unfolding same .
  then have frame: "btree_get fs' q = btree_get fs q" if "q \<notin> ?Z" "q \<noteq> events_path" for q
    using that by (intro crash_frame [OF crash]) blast
  have notz: "q \<notin> ?Z" if "outside_lanes q" for q
    using that by (auto simp: addresses_zone_def dest: zone_lanes)
  show "btree_get fs' transaction_marker_path = btree_get fs transaction_marker_path"
    using frame [OF notz] by simp
  have "n \<le> length (content fs events_path)" using img ev(1) by (auto simp: image_applies_def image_log_def)
  from crash_prefix [OF ops(2) this crash]
  have "image_log env img st fs'" using img ev(1) by (auto simp: image_applies_def image_log_def)
  moreover have "image_lanes env eng img st fs'"
  proof (rule image_lanes_frame)
    show "btree_get fs' q = btree_get fs q" if "q \<notin> ?Z" "\<not> outside_lanes q" for q
      using frame that special_paths(1) by blast
  qed (use img in \<open>simp add: image_applies_def\<close>)
  ultimately show "image_applies env eng img st fs'" by (simp add: image_applies_def)
qed

section \<open>Recovery\<close>

lemma read_journal:
  assumes "codecs_ok env"
  shows "btree_get fs transaction_marker_path = None \<Longrightarrow> read_transaction_journal_read_only env eng fs = Inr None"
    and "btree_get fs transaction_marker_path = Some bs \<Longrightarrow> journal_file env eng bs j \<Longrightarrow>
         read_transaction_journal_read_only env eng fs = Inr (Some j)"
  using assms
  by (auto simp: read_transaction_journal_read_only_def read_file_bounded_def fs_read_def codecs_ok_def
      missing_file_def is_not_found_or_invalid_filename_def journal_file_def)

lemma remove_journal_script:
  "remove_transaction_journal eng = emit (RemoveFile transaction_marker_path # fst (sync_root eng))"
  by (simp add: remove_transaction_journal_def remove_file_if_exists_def sync_root_def sync_directory_def)

lemma sync_root_ops [simp]: "run_ops (fst (sync_root eng)) fs = fs" "set (crash_states (fst (sync_root eng)) fs) = {fs}"
  "snd (sync_root eng) = Inr ()" "script_touches (fst (sync_root eng)) = {}"
  by (auto simp: sync_root_def sync_directory_def)

lemma remove_journal_settles:
  assumes "disk_repr env eng st fs"
  shows "settled env eng st (run_ops (fst (remove_transaction_journal eng)) fs)"
    and "fs' \<in> set (crash_states (fst (remove_transaction_journal eng)) fs) \<Longrightarrow> fs' = fs \<or> settled env eng st fs'"
proof -
  have "disk_repr env eng st (btree_remove transaction_marker_path fs)"
    by (rule disk_repr_outside [OF assms]) auto
  then have s: "settled env eng st (btree_remove transaction_marker_path fs)" by (simp add: settled_def)
  then show "settled env eng st (run_ops (fst (remove_transaction_journal eng)) fs)"
    by (simp add: remove_journal_script)
  show "fs' = fs \<or> settled env eng st fs'" if "fs' \<in> set (crash_states (fst (remove_transaction_journal eng)) fs)"
    using that s by (auto simp: remove_journal_script)
qed

text \<open>Recovery brings the files to the contents; cut short and started again any number of times, it still does.\<close>

lemma recover_contents:
  assumes ok: "codecs_ok env" and c: "contents env eng st fs"
  obtains ops where "recover_transaction_if_needed env eng fs = emit ops" "settled env eng st (run_ops ops fs)"
    "\<And>fs'. fs' \<in> set (crash_states ops fs) \<Longrightarrow> contents env eng st fs'"
proof (cases "btree_get fs transaction_marker_path")
  case None
  then show thesis
    using c that [of "[]"]
    by (simp add: recover_transaction_if_needed_def read_journal(1) [OF ok] recover_validated_transaction_def
        contents_def settled_def)
next
  case (Some bs)
  then obtain j where j: "journal_file env eng bs j" and img: "image_applies env eng (selected_image j) st fs"
    using c by (auto simp: contents_def)
  obtain r where r: "restore_transaction_image env eng (selected_image j) = emit r" "disk_repr env eng st (run_ops r fs)"
    using restore_image [OF ok img] by blast
  let ?rm = "fst (remove_transaction_journal eng)"
  have ops: "recover_transaction_if_needed env eng fs = emit (r @ ?rm)"
    by (simp add: recover_transaction_if_needed_def read_journal(2) [OF ok Some j] recover_validated_transaction_def r(1)
        remove_journal_script)
  obtain n evs where ev: "im_events (selected_image j) = ImageAppend n evs"
    using img by (auto simp: image_applies_def image_log_def)
  have paths: "image_paths_ok eng (selected_image j)"
    using img by (auto simp: image_applies_def image_lanes_def image_paths_ok_def)
  have "fst (restore_transaction_image env eng (selected_image j)) = r" by (simp add: r(1))
  note crash = restore_image_crash [OF ok img paths refl refl ev ev, unfolded this]
  have during: "contents env eng st fs'" if "fs' \<in> set (crash_states r fs)" for fs'
    using crash [OF that] j Some by (auto simp: contents_def)
  have "contents env eng st fs'" if "fs' \<in> set (crash_states (r @ ?rm) fs)" for fs'
    using that during remove_journal_settles(2) [OF r(2), of fs'] settled_contents [of env eng st fs'] crash_final [of r fs]
    unfolding crash_states_append by blast
  moreover have "settled env eng st (run_ops (r @ ?rm) fs)"
    using remove_journal_settles(1) [OF r(2)] by simp
  ultimately show thesis using that ops by blast
qed


end
