(* ===== verification/File_Context.thy ===== *)
theory File_Context
  imports File_Commit
begin

text \<open>
  What the file-backed store reads of its files is what they represent: the reads of an
  entry, with and without a size limit, the reads of a transaction, and the closure of its
  read set.
\<close>

section \<open>Reading an entry\<close>

lemma no_fault: "codecs_ok env \<Longrightarrow> fe_fault env p = None"
  by (simp add: codecs_ok_def)

lemma read_bounded_Ok:
  assumes "codecs_ok env" and "read_file_bounded (fe_fault env) fs p n stage = Inr found"
  shows "found = btree_get fs p"
  using assms(2)
  by (cases "btree_get fs p")
    (auto simp: read_file_bounded_def fs_read_def no_fault [OF assms(1)] missing_file_def
      is_not_found_or_invalid_filename_def split: if_splits)

lemma key_index_absent:
  assumes "codecs_ok env" and "read_key_index env eng fs p stage = Inr None"
  shows "btree_get fs p = None"
  using assms(2) read_bounded_Ok [OF assms(1)]
  by (fastforce simp: read_key_index_def map_config_err_def result_simps split: option.splits sum.splits if_splits)

lemma key_index_matches:
  assumes "require_key_index_matches env eng fs p key stage = Inr u"
  shows "\<exists>ix. btree_get fs p = Some ix \<and> fe_parse_index env ix = Inr (index_of key)"
  using assms key_index_read [of env eng fs p stage key]
  by (auto simp: require_key_index_matches_def result_simps split: option.splits if_splits)

definition holds_at :: "(bytes \<Rightarrow> 'x option) \<Rightarrow> 'x option \<Rightarrow> bytes option \<Rightarrow> bool" where
  "holds_at decode ov found \<longleftrightarrow>
     (case found of Some bs \<Rightarrow> \<exists>v. decode bs = Some v \<and> ov = Some v | None \<Rightarrow> ov = None)"

lemma read_entry_bounded_exact:
  assumes ok: "codecs_ok env" and r: "lane_repr env eng lane ext decode {} m fs" and lane: "store_lane lane ext"
    and p: "physical_key_paths_at_root eng lane ns k ext = Inr p"
    and read: "read_entry_bounded env eng fs p k n = Inr found"
  shows "holds_at decode (m (ns, k)) found"
  unfolding holds_at_def
proof (rule lane_repr_lookup [OF r lane p])
  obtain d where d: "read_file_bounded (fe_fault env) fs (data_path p) n ''store_consistent_read_budget_exceeded'' = Inr d"
    using read by (auto simp: read_entry_bounded_def result_simps)
  note get = read_bounded_Ok [OF ok d]
  show "case btree_get fs (data_path p) of
       Some bs \<Rightarrow> found = Some bs \<and> (\<exists>ix. btree_get fs (index_path p) = Some ix \<and> fe_parse_index env ix = Inr (index_of k))
     | None \<Rightarrow> btree_get fs (index_path p) = None \<and> found = btree_get fs (legacy_path p)"
  proof (cases "btree_get fs (data_path p)")
    case None
    then obtain index where *: "read_key_index env eng fs (index_path p) ''store_consistent_read'' = Inr index"
      using read d get by (auto simp: read_entry_bounded_def result_simps)
    have "index = None" "read_file_bounded (fe_fault env) fs (legacy_path p) n ''store_consistent_read_budget_exceeded'' = Inr found"
      using read d get * None by (auto simp: read_entry_bounded_def result_simps split: if_splits)
    then show ?thesis using None key_index_absent [OF ok] read_bounded_Ok [OF ok] * by simp
  next
    case (Some bs)
    then have *: "found = Some bs" "require_key_index_matches env eng fs (index_path p) k ''store_consistent_read'' = Inr ()"
      using read d get by (auto simp: read_entry_bounded_def result_simps)
    then show ?thesis using Some key_index_matches [OF *(2)] by simp
  qed
qed

lemma read_entry_exact:
  assumes ok: "codecs_ok env" and r: "lane_repr env eng lane ext decode {} m fs" and lane: "store_lane lane ext"
    and p: "physical_key_paths_at_root eng lane ns k ext = Inr p"
    and read: "read_entry env eng fs p k stage = Inr found"
  shows "holds_at decode (m (ns, k)) found"
  unfolding holds_at_def
proof (rule lane_repr_lookup [OF r lane p])
  show "case btree_get fs (data_path p) of
       Some bs \<Rightarrow> found = Some bs \<and> (\<exists>ix. btree_get fs (index_path p) = Some ix \<and> fe_parse_index env ix = Inr (index_of k))
     | None \<Rightarrow> btree_get fs (index_path p) = None \<and> found = btree_get fs (legacy_path p)"
  proof (cases "btree_get fs (data_path p)")
    case None
    then show ?thesis
      using read key_index_absent [OF ok]
      by (auto simp: read_entry_def fs_read_def no_fault [OF ok] missing_file_def
          is_not_found_or_invalid_filename_def result_simps split: if_splits option.splits)
  next
    case (Some bs)
    then have *: "found = Some bs" "require_key_index_matches env eng fs (index_path p) k stage = Inr ()"
      using read by (auto simp: read_entry_def fs_read_def no_fault [OF ok] result_simps)
    then show ?thesis using Some key_index_matches [OF *(2)] by simp
  qed
qed

lemma get_json_bounded_exact:
  assumes "codecs_ok env" and "json_lane env eng {} m fs" and "get_json_value_unlocked_bounded env eng fs ns k n = Inr found"
  shows "map_option fst found = btree_get m (ns, k)"
proof -
  from assms(3) obtain p raw where p: "json_paths eng ns k = Inr p"
    and raw: "read_entry_bounded env eng fs p k (cap_snapshot_max_bytes (fl_capacity eng)) = Inr raw"
    and res: "case raw of None \<Rightarrow> found = None | Some bs \<Rightarrow> \<exists>v n. fe_parse_json env bs = Inr v \<and> found = Some (v, n)"
    unfolding get_json_value_unlocked_bounded_def and_then_eq_Ok
    by (force simp: result_simps map_config_err_def split: option.splits sum.splits)
  have "holds_at (json_decode env) (btree_get m (ns, k)) raw"
    using read_entry_bounded_exact [OF assms(1,2) lanes(1) _ raw] p by (simp add: json_paths_def)
  then show ?thesis
    using res by (auto simp: holds_at_def json_decode_def split: option.splits)
qed

lemma get_blob_bounded_exact:
  assumes "codecs_ok env" and "blob_lane env eng {} m fs" and "get_blob_unlocked_bounded env eng fs ns k n = Inr found"
  shows "found = map_option (\<lambda>bs. (bs, length bs)) (btree_get m (ns, k))"
proof -
  from assms(3) obtain p raw where p: "blob_paths eng ns k = Inr p"
    and raw: "read_entry_bounded env eng fs p k n = Inr raw" and res: "found = map_option (\<lambda>bs. (bs, length bs)) raw"
    by (auto simp: get_blob_unlocked_bounded_def result_simps)
  have "holds_at Some (btree_get m (ns, k)) raw"
    using read_entry_bounded_exact [OF assms(1,2) lanes(2) _ raw] p by (simp add: blob_paths_def)
  then show ?thesis using res by (auto simp: holds_at_def split: option.splits)
qed

section \<open>The reads of a transaction\<close>

text \<open>What was loaded is the part of the store at the given addresses.\<close>

definition loaded :: "(address \<rightharpoonup> 'x) \<Rightarrow> address set \<Rightarrow> (address, 'x) btree \<Rightarrow> bool" where
  "loaded m as t \<longleftrightarrow> (\<forall>a. btree_get t a = (if a \<in> as then m a else None))"

lemma loaded_empty: "loaded m {} btree_empty"
  by (simp add: loaded_def)

lemma loaded_part:
  assumes "loaded m as t"
  shows "btree_get t \<subseteq>\<^sub>m m" and "a \<in> as \<Longrightarrow> btree_get t a = m a"
  using assms unfolding loaded_def map_le_def by (metis domIff)+

lemma loaded_found: "loaded m as t \<Longrightarrow> m a = Some v \<Longrightarrow> loaded m (insert a as) (btree_insert a v t)"
  unfolding loaded_def by (auto simp only: get_insert fun_upd_apply split: if_splits)

lemma loaded_missing: "loaded m as t \<Longrightarrow> m a = None \<Longrightarrow> loaded m (insert a as) t"
  unfolding loaded_def by (metis insert_iff)

lemma loaded_again: "loaded m as t \<Longrightarrow> btree_contains t a \<Longrightarrow> loaded m (insert a as) t"
  unfolding loaded_def btree_contains_def by (metis insert_iff)

lemma loaded_unique: "loaded m as t \<Longrightarrow> loaded m as t' \<Longrightarrow> t = t'"
  unfolding loaded_def by (metis btree_ext ext)

lemma map_le_between: "x \<subseteq>\<^sub>m y \<Longrightarrow> y \<subseteq>\<^sub>m z \<Longrightarrow> x a = z a \<Longrightarrow> y a = z a"
  unfolding map_le_def by (metis domIff)

lemma load_json_exact:
  assumes "codecs_ok env" and "json_lane env eng {} m fs" and "loaded (btree_get m) as (fst s)"
    and "load_json_counted msg env eng fs capacity ns k s = Inr s'"
  shows "loaded (btree_get m) (insert (ns, k) as) (fst s')"
proof -
  obtain json b where s: "s = (json, b)" by force
  from assms(4) obtain found where found: "get_json_value_unlocked_bounded env eng fs ns k
      (saturating_sub (cap_snapshot_max_bytes capacity) b) = Inr found"
    and s': "fst s' = (case found of None \<Rightarrow> json | Some r \<Rightarrow> btree_insert (ns, k) (fst r) json)"
    by (auto simp: load_json_counted_def s result_simps split: option.splits)
  have "btree_get m (ns, k) = map_option fst found"
    using get_json_bounded_exact [OF assms(1,2) found] by simp
  then show ?thesis
    using loaded_missing [OF assms(3), of "(ns, k)"] loaded_found [OF assms(3), of "(ns, k)"] s'
    by (cases found) (auto simp: s)
qed

lemma load_jsons_exact:
  assumes "codecs_ok env" and "json_lane env eng {} m fs" and "loaded (btree_get m) as (fst s)"
    and "try_fold (\<lambda>a. load_json_counted msg env eng fs capacity (fst a) (snd a)) bs s = Inr s'"
  shows "loaded (btree_get m) (set bs \<union> as) (fst s')"
  using assms(3,4)
proof (induction bs arbitrary: as s)
  case (Cons a bs)
  from Cons.prems(2) obtain u where u: "load_json_counted msg env eng fs capacity (fst a) (snd a) s = Inr u"
    "try_fold (\<lambda>a. load_json_counted msg env eng fs capacity (fst a) (snd a)) bs u = Inr s'" by (auto simp: result_simps)
  from Cons.IH [OF load_json_exact [OF assms(1,2) Cons.prems(1) u(1)] u(2)] show ?case by simp
qed simp

definition prefix_addresses :: "address \<Rightarrow> string set \<Rightarrow> address set" where
  "prefix_addresses np keys = {(fst np, k) | k. k \<in> keys \<and> starts_with k (snd np)}"

lemma load_prefix_exact:
  assumes "codecs_ok env" and "json_lane env eng {} m fs" and "loaded (btree_get m) as (fst s)"
    and "load_prefix env eng fs capacity np s = Inr s'"
  obtains keys where "list_json_keys_unlocked env eng fs (fst np) = Inr keys"
    "loaded (btree_get m) (prefix_addresses np (set keys) \<union> as) (fst s')"
proof -
  let ?step = "\<lambda>key s. if \<not> starts_with key (snd np) \<or> btree_contains (fst s) (fst np, key) then Ok s
        else load_json env eng fs capacity (fst np) key s"
  obtain keys where keys: "list_json_keys_unlocked env eng fs (fst np) = Inr keys" "try_fold ?step keys s = Inr s'"
    using assms(4) unfolding load_prefix_def and_then_eq_Ok by blast
  have "loaded (btree_get m) (prefix_addresses np (set ks) \<union> as) (fst s')"
    if "try_fold ?step ks s = Inr s'" "loaded (btree_get m) as (fst s)" for ks s as
    using that
  proof (induction ks arbitrary: s as)
    case (Cons k ks)
    from Cons.prems(1) obtain u where u: "?step k s = Inr u" "try_fold ?step ks u = Inr s'" by (auto simp: result_simps)
    show ?case
    proof (cases "starts_with k (snd np)")
      case True
      then have "prefix_addresses np (set (k # ks)) \<union> as = prefix_addresses np (set ks) \<union> insert (fst np, k) as"
        by (auto simp: prefix_addresses_def)
      moreover have "loaded (btree_get m) (insert (fst np, k) as) (fst u)"
        using u(1) True loaded_again [OF Cons.prems(2)] load_json_exact [OF assms(1,2) Cons.prems(2), of _ capacity "fst np" k u]
        by (auto split: if_splits)
      ultimately show ?thesis using Cons.IH [OF u(2)] by metis
    next
      case False
      then have "prefix_addresses np (set (k # ks)) = prefix_addresses np (set ks)" "u = s"
        using u(1) by (auto simp: prefix_addresses_def)
      then show ?thesis using Cons.IH [OF u(2)] Cons.prems(2) by simp
    qed
  qed (simp add: prefix_addresses_def)
  then show thesis using that keys assms(3) by blast
qed

lemma load_prefixes_exact:
  assumes ok: "codecs_ok env" and lane: "json_lane env eng {} m fs" and "loaded (btree_get m) as (fst s)"
    and "try_fold (load_prefix env eng fs capacity) ps s = Inr s'"
  shows "\<exists>keys. (\<forall>np \<in> set ps. list_json_keys_unlocked env eng fs (fst np) = Inr (keys (fst np))) \<and>
     loaded (btree_get m) ((\<Union>np \<in> set ps. prefix_addresses np (set (keys (fst np)))) \<union> as) (fst s')"
  using assms(3,4)
proof (induction ps arbitrary: as s)
  case (Cons np ps)
  from Cons.prems(2) obtain u where u: "load_prefix env eng fs capacity np s = Inr u"
    "try_fold (load_prefix env eng fs capacity) ps u = Inr s'" by (auto simp: result_simps)
  obtain ks where ks: "list_json_keys_unlocked env eng fs (fst np) = Inr ks"
    "loaded (btree_get m) (prefix_addresses np (set ks) \<union> as) (fst u)"
    using load_prefix_exact [OF ok lane Cons.prems(1) u(1)] by metis
  obtain keys where keys: "\<forall>np \<in> set ps. list_json_keys_unlocked env eng fs (fst np) = Inr (keys (fst np))"
    "loaded (btree_get m) ((\<Union>np \<in> set ps. prefix_addresses np (set (keys (fst np)))) \<union> (prefix_addresses np (set ks) \<union> as)) (fst s')"
    using Cons.IH [OF ks(2) u(2)] by blast
  let ?keys = "keys(fst np := ks)"
  have same: "?keys (fst p) = keys (fst p)" if "p \<in> set ps" for p
    using keys(1) ks(1) that by (cases "fst p = fst np") auto
  have "(\<Union>p \<in> set (np # ps). prefix_addresses p (set (?keys (fst p)))) \<union> as =
      (\<Union>p \<in> set ps. prefix_addresses p (set (keys (fst p)))) \<union> (prefix_addresses np (set ks) \<union> as)"
    using same by (auto split: if_splits)
  then show ?case using keys ks(1) same by (intro exI [of _ ?keys]) auto
qed simp

lemma load_blob_exact:
  assumes "codecs_ok env" and "blob_lane env eng {} m fs" and "loaded (btree_get m) as (fst s)"
    and "load_blob_counted msg env eng fs capacity a s = Inr s'"
  shows "loaded (btree_get m) (insert a as) (fst s')"
proof -
  obtain blobs b where s: "s = (blobs, b)" by force
  from assms(4) obtain found where found: "get_blob_unlocked_bounded env eng fs (fst a) (snd a)
      (saturating_sub (cap_blob_max_bytes capacity) b) = Inr found"
    and s': "fst s' = (case found of None \<Rightarrow> blobs | Some r \<Rightarrow> btree_insert a (fst r) blobs)"
    by (auto simp: load_blob_counted_def s result_simps split: option.splits)
  have "map_option fst found = btree_get m a"
    using get_blob_bounded_exact [OF assms(1,2) found] by (simp add: option.map_comp comp_def option.map_ident)
  then show ?thesis
    using loaded_missing [OF assms(3), of a] loaded_found [OF assms(3), of a] s' by (cases found) (auto simp: s)
qed

lemma load_blobs_exact:
  assumes "codecs_ok env" and "blob_lane env eng {} m fs" and "loaded (btree_get m) as (fst s)"
    and "try_fold (load_blob_counted msg env eng fs capacity) bs s = Inr s'"
  shows "loaded (btree_get m) (set bs \<union> as) (fst s')"
  using assms(3,4)
proof (induction bs arbitrary: as s)
  case (Cons a bs)
  from Cons.prems(2) obtain u where u: "load_blob_counted msg env eng fs capacity a s = Inr u"
    "try_fold (load_blob_counted msg env eng fs capacity) bs u = Inr s'" by (auto simp: result_simps)
  from Cons.IH [OF load_blob_exact [OF assms(1,2) Cons.prems(1) u(1)] u(2)] show ?case by simp
qed simp

lemma load_context_anatomy:
  assumes "load_transaction_context env h eng fs req capacity = Inr (context, prefix)"
  shows "\<exists>s s' t b ec ids jn bn bb.
     try_fold (\<lambda>a. load_json env eng fs capacity (fst a) (snd a)) (btree_keys (rs_json (tr_read_set req))) (btree_empty, 0) = Inr s \<and>
     try_fold (load_prefix env eng fs capacity) (btree_keys (rs_json_prefixes (tr_read_set req))) s = Inr s' \<and>
     expand_owner_transaction_dependencies h req capacity \<lparr> ts_json = fst s', ts_blobs = btree_empty, ts_events = [] \<rparr>
         (\<lambda>namespace key remaining. and_then (get_json_value_unlocked_bounded env eng fs namespace key remaining) (\<lambda>found.
            Ok (map_option fst found))) = Inr t \<and>
     try_fold (load_blob env eng fs capacity) (btree_keys (rs_blobs (tr_read_set req))) (btree_empty, 0) = Inr b \<and>
     transaction_event_usage env fs req capacity = Inr (ec, ids, prefix) \<and>
     json_entry_count env eng fs = Inr jn \<and> blob_entry_count env eng fs = Inr bn \<and> blob_total_bytes env eng fs = Inr bb \<and>
     context = \<lparr> cx_touched = t\<lparr>ts_blobs := fst b\<rparr>,
           cx_usage = \<lparr> us_kv_entries = saturating_add jn bn, us_blob_bytes = bb, us_event_count = ec \<rparr>,
           cx_existing_event_ids = ids \<rparr>"
proof -
  from assms obtain s s' t b u jn bn bb where *:
     "try_fold (\<lambda>a. load_json env eng fs capacity (fst a) (snd a)) (btree_keys (rs_json (tr_read_set req))) (btree_empty, 0) = Inr s"
     "try_fold (load_prefix env eng fs capacity) (btree_keys (rs_json_prefixes (tr_read_set req))) s = Inr s'"
     "expand_owner_transaction_dependencies h req capacity \<lparr> ts_json = fst s', ts_blobs = btree_empty, ts_events = [] \<rparr>
         (\<lambda>namespace key remaining. and_then (get_json_value_unlocked_bounded env eng fs namespace key remaining) (\<lambda>found.
            Ok (map_option fst found))) = Inr t"
     "try_fold (load_blob env eng fs capacity) (btree_keys (rs_blobs (tr_read_set req))) (btree_empty, 0) = Inr b"
     "transaction_event_usage env fs req capacity = Inr u"
     "json_entry_count env eng fs = Inr jn" "blob_entry_count env eng fs = Inr bn" "blob_total_bytes env eng fs = Inr bb"
     "Inr (\<lparr> cx_touched = t\<lparr>ts_blobs := fst b\<rparr>,
           cx_usage = \<lparr> us_kv_entries = saturating_add jn bn, us_blob_bytes = bb, us_event_count = fst u \<rparr>,
           cx_existing_event_ids = fst (snd u) \<rparr>, snd (snd u)) = Inr (context, prefix)"
    unfolding load_transaction_context_def case_prod_unfold and_then_eq_Ok by blast
  show ?thesis
    by (rule exI [of _ s], rule exI [of _ s'], rule exI [of _ t], rule exI [of _ b], rule exI [of _ "fst u"],
        rule exI [of _ "fst (snd u)"], rule exI [of _ jn], rule exI [of _ bn], rule exI [of _ bb])
      (use * in \<open>cases u; simp\<close>)
qed

lemma load_context_reads:
  assumes ok: "codecs_ok env" and d: "disk_repr env eng st fs"
    and load: "load_transaction_context env h eng fs req capacity = Inr (context, prefix)"
  shows "reads_from (tr_read_set req) (cx_touched context) st" and "ts_events (cx_touched context) = []"
    and "prefix = length (content fs events_path)"
proof -
  have jl: "json_lane env eng {} (ms_json st) fs" and bl: "blob_lane env eng {} (ms_blobs st) fs"
    using d by (simp_all add: disk_repr_def)
  from load_context_anatomy [OF load] obtain s s' t b ec ids where
    s: "try_fold (\<lambda>a. load_json env eng fs capacity (fst a) (snd a)) (btree_keys (rs_json (tr_read_set req))) (btree_empty, 0) = Inr s"
    and s': "try_fold (load_prefix env eng fs capacity) (btree_keys (rs_json_prefixes (tr_read_set req))) s = Inr s'"
    and t: "expand_owner_transaction_dependencies h req capacity
         \<lparr> ts_json = fst s', ts_blobs = btree_empty, ts_events = [] \<rparr>
         (\<lambda>namespace key remaining. and_then (get_json_value_unlocked_bounded env eng fs namespace key remaining) (\<lambda>found.
            Ok (map_option fst found))) = Inr t"
    and b: "try_fold (load_blob env eng fs capacity) (btree_keys (rs_blobs (tr_read_set req))) (btree_empty, 0) = Inr b"
    and us: "transaction_event_usage env fs req capacity = Inr (ec, ids, prefix)"
    and cx: "cx_touched context = t\<lparr>ts_blobs := fst b\<rparr>"
    by (elim exE conjE) (rule that, assumption+, simp)
  have "loaded (btree_get (ms_json st)) (set (btree_keys (rs_json (tr_read_set req)))) (fst s)"
    using load_jsons_exact [OF ok jl _ s, of "{}"] by (simp add: loaded_empty)
  from load_prefixes_exact [OF ok jl this s'] obtain as
    where l: "loaded (btree_get (ms_json st)) (as \<union> set (btree_keys (rs_json (tr_read_set req)))) (fst s')" by blast
  have rd: "r = btree_get (ms_json st) (ns, k)"
    if "and_then (get_json_value_unlocked_bounded env eng fs ns k n) (\<lambda>found. Ok (map_option fst found)) = Inr r" for ns k n r
    using that get_json_bounded_exact [OF ok jl] by (auto simp: result_simps)
  have le: "btree_get (ts_json \<lparr> ts_json = fst s', ts_blobs = btree_empty, ts_events = [] \<rparr>) \<subseteq>\<^sub>m btree_get (ms_json st)"
    using loaded_part(1) [OF l] by simp
  note part = expand_reader_part [OF t le rd]
  have "btree_get (ts_json t) a = btree_get (ms_json st) a" if "btree_contains (rs_json (tr_read_set req)) a" for a
  proof -
    have "btree_get (fst s') a = btree_get (ms_json st) a"
      using loaded_part(2) [OF l] that by (simp add: set_keys contains_dom)
    then show ?thesis using map_le_between [OF part(1,2)] by simp
  qed
  moreover have "loaded (btree_get (ms_blobs st)) (set (btree_keys (rs_blobs (tr_read_set req)))) (fst b)"
    using load_blobs_exact [OF ok bl _ b, of "{}"] by (simp add: loaded_empty)
  note loaded_part [OF this]
  ultimately show "reads_from (tr_read_set req) (cx_touched context) st"
    using part(2) by (simp add: reads_from_def cx set_keys contains_dom)
  show "ts_events (cx_touched context) = []" using part(4) by (simp add: cx)
  show "prefix = length (content fs events_path)"
    using us by (cases "btree_get fs events_path")
      (auto simp: transaction_event_usage_def fs_read_def no_fault [OF ok] missing_file_def content_def result_simps Let_def)
qed

text \<open>Every address of the read set has a place in the files.\<close>

lemma load_jsons_paths:
  assumes "try_fold (\<lambda>a. load_json_counted msg env eng fs capacity (fst a) (snd a)) bs s = Inr s'" and "a \<in> set bs"
  shows "\<not> isl (json_paths eng (fst a) (snd a))"
  using assms
proof (induction bs arbitrary: s)
  case (Cons b bs)
  then show ?case
    by (cases s) (auto simp: result_simps load_json_counted_def get_json_value_unlocked_bounded_def)
qed simp

lemma load_blobs_paths:
  assumes "try_fold (load_blob_counted msg env eng fs capacity) bs s = Inr s'" and "a \<in> set bs"
  shows "\<not> isl (blob_paths eng (fst a) (snd a))"
  using assms
proof (induction bs arbitrary: s)
  case (Cons b bs)
  then show ?case
    by (cases s) (auto simp: result_simps load_blob_counted_def get_blob_unlocked_bounded_def)
qed simp

lemma load_context_paths:
  assumes load: "load_transaction_context env h eng fs req capacity = Inr (context, prefix)"
  shows "a \<in> set (btree_keys (rs_json (tr_read_set req))) \<Longrightarrow> \<not> isl (json_paths eng (fst a) (snd a))"
    and "a \<in> set (btree_keys (rs_blobs (tr_read_set req))) \<Longrightarrow> \<not> isl (blob_paths eng (fst a) (snd a))"
  using load_context_anatomy [OF load] by (auto dest: load_jsons_paths load_blobs_paths)


end
