(* ===== verification/File_Listing.thy ===== *)
theory File_Listing
  imports File_Context
begin

text \<open>
  Listings of the file-backed store: the keys of a namespace are exactly those of the entries
  the files represent, whether they lie under their digest or under the file name of an older
  store; the usage counts a commit starts from are those of the in-memory store.
\<close>

section \<open>Keys of a namespace\<close>

text \<open>Keys are text: UTF-8 and not empty. The empty key has no name in an older store's files.\<close>

definition text_keys :: "(address \<rightharpoonup> 'x) \<Rightarrow> bool" where
  "text_keys m \<longleftrightarrow> (\<forall>a \<in> dom m. snd a \<noteq> [] \<and> valid_utf8 (snd a))"

definition keys_at :: "(address \<rightharpoonup> 'x) \<Rightarrow> string \<Rightarrow> string set" where
  "keys_at m ns = {k. m (ns, k) \<noteq> None}"

lemma index_file_owner:
  assumes r: "lane_repr env eng lane ext decode {} m fs" and lane: "store_lane lane ext"
    and q: "q \<in> set (index_files fs lane ns)"
  obtains k ix where "k \<in> keys_at m ns" "btree_get fs q = Some ix" "fe_parse_index env ix = Inr (index_of k)"
proof -
  from q obtain bs where bs: "btree_get fs q = Some bs" and shape: "length q = 5" "take 3 q = [lane, ns, ''_keys'']"
    "extension (last q) = Some ''json''"
    by (auto simp: index_files_def set_keys FILE_ADDRESSING_INDEX_DIR_def)
  have hd: "q \<noteq> []" "hd q = lane" "\<not> is_tmp q"
    using shape by (auto simp: is_tmp_def) (metis hd_take list.sel(1) zero_less_numeral)
  obtain a where a: "m a \<noteq> None" "q \<in> entry_slots eng lane ext a"
    using lane_repr_file [OF r bs hd] by auto
  then obtain v p where v: "m a = Some v" and p: "physical_key_paths_at_root eng lane (fst a) (snd a) ext = Inr p"
    "stored env decode p (snd a) v fs"
    using lane_repr_entry [OF r] by (metis empty_iff not_None_eq)
  obtain d where "data_path p = [lane, fst a, ''_v2'', take 2 d, d @ CHR ''.'' # ext]"
    "index_path p = [lane, fst a, ''_keys'', take 2 d, d @ ''.json'']"
    "legacy_path p = [lane, fst a, hex_encode (snd a) @ CHR ''.'' # ext]" using paths_Ok [OF p(1)] by metis
  then have q': "q = index_path p \<and> fst a = ns"
    using a(2) shape by (auto simp: entry_slots_def p(1))
  then have "\<exists>ix. btree_get fs q = Some ix \<and> fe_parse_index env ix = Inr (index_of (snd a))"
    using p(2) bs by (auto simp: stored_def split: option.splits)
  moreover have "snd a \<in> keys_at m ns" using v q' by (cases a) (auto simp: keys_at_def)
  ultimately show thesis using that by blast
qed

lemma index_file_listed:
  assumes p: "physical_key_paths_at_root eng lane ns k ext = Inr p" and "btree_get fs (index_path p) \<noteq> None"
  shows "index_path p \<in> set (index_files fs lane ns)"
proof -
  from p obtain d where d: "16 \<le> length d" "index_path p = [lane, ns, ''_keys'', take 2 d, d @ ''.json'']" by (rule paths_Ok)
  then have "extension (d @ ''.json'') = Some ''json''" using stem_of_name(2) [of d "''json''"] by force
  then show ?thesis using d assms(2) by (auto simp: index_files_def set_keys domIff FILE_ADDRESSING_INDEX_DIR_def)
qed

lemma indexed_key_Ok:
  assumes ok: "codecs_ok env" and "indexed_key env eng fs lane ns ext q out = Inr out'"
    and "btree_get fs q = Some ix" "fe_parse_index env ix = Inr (index_of k)"
  shows "out' = out @ [k]"
proof -
  from assms(2) obtain found where found: "read_key_index env eng fs q ''file_store_list'' = Inr found"
    and res: "found = None \<or> out' = out @ [the found]"
    by (auto simp: indexed_key_def Let_def result_simps split: sum.splits option.splits if_splits)
  show ?thesis
  proof (cases found)
    case None
    then show ?thesis using key_index_absent [OF ok] found assms(3) by fastforce
  next
    case (Some k')
    then have "fe_parse_index env ix = Inr (index_of k')" using key_index_read found assms(3) by fastforce
    then show ?thesis using res Some assms(4) by (simp add: index_of_def)
  qed
qed

lemma indexed_keys_Ok:
  assumes ok: "codecs_ok env" and "try_fold (indexed_key env eng fs lane ns ext) qs out = Inr out'"
    and "\<And>q. q \<in> set qs \<Longrightarrow> \<exists>k ix. k \<in> K \<and> btree_get fs q = Some ix \<and> fe_parse_index env ix = Inr (index_of k)"
  shows "set out' = set out \<union> {k. \<exists>q \<in> set qs. \<exists>ix. btree_get fs q = Some ix \<and> fe_parse_index env ix = Inr (index_of k)}"
  using assms(2,3)
proof (induction qs arbitrary: out)
  case (Cons q qs)
  from Cons.prems(1) obtain u where u: "indexed_key env eng fs lane ns ext q out = Inr u"
    "try_fold (indexed_key env eng fs lane ns ext) qs u = Inr out'" by (auto simp: result_simps)
  obtain k ix where k: "btree_get fs q = Some ix" "fe_parse_index env ix = Inr (index_of k)"
    using Cons.prems(2) [of q] by auto
  have "set out' = set u \<union> {k. \<exists>q \<in> set qs. \<exists>ix. btree_get fs q = Some ix \<and> fe_parse_index env ix = Inr (index_of k)}"
    using Cons.IH [OF u(2)] Cons.prems(2) by simp
  then show ?case
    using indexed_key_Ok [OF ok u(1) k] k by (auto simp: index_of_def)
qed simp

lemma hex_decodes: "valid_utf8 k \<Longrightarrow> hex_decode_to_string (hex_encode k) = Some k"
  and hex_decodes_only: "hex_decode_to_string (hex_encode k) = Some k' \<Longrightarrow> k' = k"
proof -
  have "even (length (hex_encode k))" by (induction k) (auto simp: hex_encode_def)
  then show "valid_utf8 k \<Longrightarrow> hex_decode_to_string (hex_encode k) = Some k"
    "hex_decode_to_string (hex_encode k) = Some k' \<Longrightarrow> k' = k"
    by (auto simp: hex_decode_to_string_def hex_decode_encode split: if_splits)
qed

lemma hex_encode_empty: "hex_encode k = [] \<longleftrightarrow> k = []"
  by (cases k) (auto simp: hex_encode_def)

lemma legacy_keys:
  assumes r: "lane_repr env eng lane ext decode {} m fs" and lane: "store_lane lane ext"
  shows "set (list_legacy_encoded_keys fs lane ns ext) \<subseteq> keys_at m ns"
    and "text_keys m \<Longrightarrow> physical_key_paths_at_root eng lane ns k ext = Inr p \<Longrightarrow> btree_get fs (legacy_path p) \<noteq> None \<Longrightarrow>
         m (ns, k) \<noteq> None \<Longrightarrow> k \<in> set (list_legacy_encoded_keys fs lane ns ext)"
proof -
  have dot: "CHR ''.'' \<notin> set ext" "ext \<noteq> ''tmp''" using lane by (auto simp: store_lane_def)
  show "set (list_legacy_encoded_keys fs lane ns ext) \<subseteq> keys_at m ns"
  proof
    fix k assume "k \<in> set (list_legacy_encoded_keys fs lane ns ext)"
    then obtain q bs where q: "btree_get fs q = Some bs" "length q = 3" "take 2 q = [lane, ns]" "extension (last q) = Some ext"
      and k: "hex_decode_to_string (file_stem (last q)) = Some k"
      by (auto simp: list_legacy_encoded_keys_def List.map_filter_def set_keys split: option.splits)
    have hd: "q \<noteq> []" "hd q = lane" "\<not> is_tmp q"
      using q(2-4) dot(2) by (auto simp: is_tmp_def) (metis hd_take list.sel(1) zero_less_numeral)
    obtain a where a: "m a \<noteq> None" "q \<in> entry_slots eng lane ext a"
      using lane_repr_file [OF r q(1) hd] by auto
    then obtain p where p: "physical_key_paths_at_root eng lane (fst a) (snd a) ext = Inr p"
      using lane_repr_entry [OF r] by (metis empty_iff not_None_eq)
    obtain d where "data_path p = [lane, fst a, ''_v2'', take 2 d, d @ CHR ''.'' # ext]"
      "index_path p = [lane, fst a, ''_keys'', take 2 d, d @ ''.json'']"
      "legacy_path p = [lane, fst a, hex_encode (snd a) @ CHR ''.'' # ext]" using paths_Ok [OF p] by metis
    then have q': "q = [lane, fst a, hex_encode (snd a) @ CHR ''.'' # ext]"
      using a(2) q(2) by (auto simp: entry_slots_def p)
    have "hex_encode (snd a) \<noteq> []"
    proof
      assume "hex_encode (snd a) = []"
      then show False using q(4) q' lane by (auto simp: store_lane_def extension_def file_stem_def)
    qed
    from stem_of_name(1) [OF this dot(1)] have "k = snd a" using k q' hex_decodes_only by simp
    moreover have "ns = fst a" using q(3) q' by simp
    ultimately show "k \<in> keys_at m ns" using a(1) by (simp add: keys_at_def)
  qed
  assume t: "text_keys m" and p: "physical_key_paths_at_root eng lane ns k ext = Inr p"
    and l: "btree_get fs (legacy_path p) \<noteq> None" and m: "m (ns, k) \<noteq> None"
  have lp: "legacy_path p = [lane, ns, hex_encode k @ CHR ''.'' # ext]" using p by (rule paths_Ok)
  have k: "k \<noteq> []" "valid_utf8 k" using t m by (force simp: text_keys_def)+
  note n = stem_of_name [OF _ dot(1), of "hex_encode k"]
  have "legacy_path p \<in> set (filter (\<lambda>p. length p = 3 \<and> take 2 p = [lane, ns] \<and> extension (last p) = Some ext) (btree_keys fs))"
    using l n(2) k by (auto simp: lp set_keys domIff hex_encode_empty)
  moreover have "hex_decode_to_string (file_stem (last (legacy_path p))) = Some k"
    using n(1) k by (simp add: lp hex_encode_empty hex_decodes)
  ultimately show "k \<in> set (list_legacy_encoded_keys fs lane ns ext)"
    unfolding list_legacy_encoded_keys_def List.map_filter_def set_sort
    by (force simp: image_iff)
qed

lemma list_keys_exact:
  assumes ok: "codecs_ok env" and r: "lane_repr env eng lane ext decode {} m fs" and lane: "store_lane lane ext"
    and t: "text_keys m" and keys: "list_keys env eng fs lane ns ext = Inr keys"
  shows "set keys = keys_at m ns" and "distinct keys" and "sorted keys"
proof -
  let ?legacy = "list_legacy_encoded_keys fs lane ns ext"
  from keys obtain out where out: "try_fold (indexed_key env eng fs lane ns ext) (index_files fs lane ns) [] = Inr out"
    and k: "keys = btree_keys (btset_of_list (sort out @ ?legacy))"
    by (auto simp: list_keys_def list_indexed_keys_def result_simps)
  show "distinct keys" by (simp add: k keys_distinct)
  show "sorted keys" using keys_sorted unfolding k strict_sorted_iff by blast
  have set: "set keys = set out \<union> set ?legacy"
    by (auto simp: k set_keys btset_of_list_def dom_fold_btset_insert)
  have owners: "\<exists>k ix. k \<in> keys_at m ns \<and> btree_get fs q = Some ix \<and> fe_parse_index env ix = Inr (index_of k)"
    if "q \<in> set (index_files fs lane ns)" for q
    using index_file_owner [OF r lane that] by metis
  note io = indexed_keys_Ok [OF ok out owners]
  have "set out \<subseteq> keys_at m ns"
    using io owners by (auto simp: index_of_def) (metis Inr_inject key_index.ext_inject option.inject)
  then have "set keys \<subseteq> keys_at m ns" using set legacy_keys(1) [OF r lane] by blast
  moreover have "k \<in> set keys" if k': "k \<in> keys_at m ns" for k
  proof -
    obtain v where v: "m (ns, k) = Some v" using k' by (auto simp: keys_at_def)
    obtain p where p: "physical_key_paths_at_root eng lane ns k ext = Inr p" "stored env decode p k v fs"
      using lane_repr_entry [OF r v] by auto
    show ?thesis
    proof (cases "btree_get fs (data_path p)")
      case None
      then have "btree_get fs (legacy_path p) \<noteq> None" using p(2) by (auto simp: stored_def)
      then show ?thesis using legacy_keys(2) [OF r lane t p(1)] v set by simp
    next
      case (Some bs)
      then obtain ix where "btree_get fs (index_path p) = Some ix" "fe_parse_index env ix = Inr (index_of k)"
        using p(2) by (auto simp: stored_def)
      then have "k \<in> set out" using io index_file_listed [OF p(1)] by auto
      then show ?thesis using set by simp
    qed
  qed
  ultimately show "set keys = keys_at m ns" by blast
qed

section \<open>Usage\<close>

lemma child_names:
  "distinct (list_child_directory_names fs [lane])"
  "set (list_child_directory_names fs [lane]) = {q ! 1 | q. btree_get fs q \<noteq> None \<and> take 1 q = [lane] \<and> 2 < length q}"
proof -
  show "distinct (list_child_directory_names fs [lane])"
    by (simp add: list_child_directory_names_def keys_distinct)
  show "set (list_child_directory_names fs [lane]) = {q ! 1 | q. btree_get fs q \<noteq> None \<and> take 1 q = [lane] \<and> 2 < length q}"
    by (auto simp: list_child_directory_names_def set_keys btset_of_list_def dom_fold_btset_insert image_iff domIff)
qed

lemma namespaces_listed:
  assumes r: "lane_repr env eng lane ext decode {} m fs"
  shows "fst ` dom m \<subseteq> set (list_child_directory_names fs [lane])"
proof
  fix ns assume "ns \<in> fst ` dom m"
  then obtain k v where v: "m (ns, k) = Some v" by auto
  obtain p where p: "physical_key_paths_at_root eng lane ns k ext = Inr p" "stored env decode p k v fs"
    using lane_repr_entry [OF r v] by auto
  obtain d where d: "data_path p = [lane, ns, ''_v2'', take 2 d, d @ CHR ''.'' # ext]"
      "legacy_path p = [lane, ns, hex_encode k @ CHR ''.'' # ext]" using paths_Ok [OF p(1)] by metis
  have "btree_get fs (data_path p) \<noteq> None \<or> btree_get fs (legacy_path p) \<noteq> None"
    using p(2) by (auto simp: stored_def split: option.splits)
  moreover have "ns = data_path p ! 1" "ns = legacy_path p ! 1" "take 1 (data_path p) = [lane]" "take 1 (legacy_path p) = [lane]"
    "2 < length (data_path p)" "2 < length (legacy_path p)" by (simp_all add: d)
  ultimately show "ns \<in> set (list_child_directory_names fs [lane])" unfolding child_names(2) by blast
qed

lemma dom_sigma:
  assumes "fst ` dom m \<subseteq> N"
  shows "dom m = (SIGMA ns:N. keys_at m ns)"
  using assms by (force simp: keys_at_def)

lemma count_fold:
  assumes "try_fold (\<lambda>ns c. and_then (f ns) (\<lambda>ks. Ok (saturating_add c (length ks)))) nss c = Inr n" and "c \<le> usize_max"
    and "\<And>ns ks. f ns = Inr ks \<Longrightarrow> length ks = g ns"
  shows "n = min (c + sum_list (map g nss)) usize_max"
  using assms(1,2)
proof (induction nss arbitrary: c)
  case (Cons ns nss)
  from Cons.prems(1) obtain ks where ks: "f ns = Inr ks"
    "try_fold (\<lambda>ns c. and_then (f ns) (\<lambda>ks. Ok (saturating_add c (length ks)))) nss (saturating_add c (length ks)) = Inr n"
    by (auto simp: result_simps)
  from Cons.IH [OF ks(2)] assms(3) [OF ks(1)] show ?case by (simp add: saturating_add_def min_def)
qed simp

lemma lane_count:
  assumes ok: "codecs_ok env" and r: "lane_repr env eng lane ext decode {} m fs" and lane: "store_lane lane ext"
    and t: "text_keys m" and fin: "finite (dom m)"
    and listing: "\<And>ns ks. f ns = Inr ks \<Longrightarrow> list_keys env eng fs lane ns ext = Inr ks"
    and count: "try_fold (\<lambda>ns c. and_then (f ns) (\<lambda>ks. Ok (saturating_add c (length ks))))
      (list_child_directory_names fs [lane]) 0 = Inr n"
  shows "n = min (card (dom m)) usize_max"
proof -
  let ?N = "list_child_directory_names fs [lane]"
  have len: "length ks = card (keys_at m ns)" if "f ns = Inr ks" for ns ks
    using list_keys_exact [OF ok r lane t listing [OF that]] distinct_card by metis
  have fk: "finite (keys_at m ns)" for ns
    using finite_subset [of "keys_at m ns" "snd ` dom m"] fin by (force simp: keys_at_def)
  have "card (dom m) = (\<Sum>ns \<in> set ?N. card (keys_at m ns))"
    unfolding dom_sigma [OF namespaces_listed [OF r]] using fk by (simp add: card_SigmaI)
  also have "\<dots> = sum_list (map (\<lambda>ns. card (keys_at m ns)) ?N)"
    using child_names(1) by (simp add: sum_list_distinct_conv_sum_set)
  finally show ?thesis using count_fold [OF count _ len] by simp
qed

lemma json_count_exact:
  assumes "codecs_ok env" "json_lane env eng {} m fs" "text_keys (btree_get m)" "json_entry_count env eng fs = Inr n"
  shows "n = min (btree_len m) usize_max"
  unfolding len_card
  by (rule lane_count [OF assms(1,2) lanes(1) assms(3) _ _ assms(4) [unfolded json_entry_count_def]])
    (auto simp: list_json_keys_unlocked_def result_simps)

lemma blob_count_exact:
  assumes "codecs_ok env" "blob_lane env eng {} m fs" "text_keys (btree_get m)" "blob_entry_count env eng fs = Inr n"
  shows "n = min (btree_len m) usize_max"
  unfolding len_card
  by (rule lane_count [OF assms(1,2) lanes(2) assms(3) _ _ assms(4) [unfolded blob_entry_count_def]])
    (auto simp: list_blob_keys_unlocked_def result_simps)

lemma blob_value_len_exact:
  assumes "codecs_ok env" and "blob_lane env eng {} m fs" and "blob_value_len_unlocked env eng fs ns k = Inr found"
  shows "found = map_option length (btree_get m (ns, k))"
proof -
  from assms(3) obtain p raw where p: "blob_paths eng ns k = Inr p"
    and raw: "read_entry env eng fs p k ''file_store_blob_quota'' = Inr raw" and res: "found = map_option length raw"
    by (auto simp: blob_value_len_unlocked_def result_simps split: option.splits if_splits)
  have "holds_at Some (btree_get m (ns, k)) raw"
    using read_entry_exact [OF assms(1,2) lanes(2) _ raw] p by (simp add: blob_paths_def)
  then show ?thesis using res by (auto simp: holds_at_def split: option.splits)
qed

definition blob_size :: "(address \<rightharpoonup> bytes) \<Rightarrow> address \<Rightarrow> nat" where
  "blob_size m a = (case m a of None \<Rightarrow> 0 | Some bs \<Rightarrow> length bs)"

lemma add_blob_sizes:
  assumes "codecs_ok env" and "blob_lane env eng {} m fs" and "try_fold (add_blob_size env eng fs ns) ks tot = Inr n"
  shows "n = tot + sum_list (map (\<lambda>k. blob_size (btree_get m) (ns, k)) ks)"
  using assms(3)
proof (induction ks arbitrary: tot)
  case (Cons k ks)
  from Cons.prems obtain u where step: "add_blob_size env eng fs ns k tot = Inr u"
    and rest: "try_fold (add_blob_size env eng fs ns) ks u = Inr n" by (auto simp: result_simps)
  from step obtain found where f: "blob_value_len_unlocked env eng fs ns k = Inr found"
    unfolding add_blob_size_def and_then_eq_Ok by blast
  have u: "u = tot + (case found of None \<Rightarrow> 0 | Some n \<Rightarrow> n)"
    using step f by (cases found) (auto simp: add_blob_size_def checked_add_def split: if_splits)
  have "u = tot + blob_size (btree_get m) (ns, k)"
    using blob_value_len_exact [OF assms(1,2) f] u by (auto simp: blob_size_def split: option.splits)
  then show ?case using Cons.IH [OF rest] by simp
qed simp

lemma blob_total_exact:
  assumes ok: "codecs_ok env" and r: "blob_lane env eng {} m fs" and t: "text_keys (btree_get m)"
    and total: "blob_total_bytes env eng fs = Inr n"
  shows "n = blob_bytes_of m"
proof -
  let ?N = "list_child_directory_names fs [''blob'']" and ?m = "btree_get m"
  have ks: "set ks = keys_at ?m ns \<and> distinct ks" if "list_blob_keys_unlocked env eng fs ns = Inr ks" for ns ks
    using that list_keys_exact [OF ok r lanes(2) t] by (auto simp: list_blob_keys_unlocked_def result_simps)
  have "n = tot + sum_list (map (\<lambda>ns. \<Sum>k \<in> keys_at ?m ns. blob_size ?m (ns, k)) nss)"
    if "try_fold (\<lambda>ns tot. and_then (list_blob_keys_unlocked env eng fs ns) (\<lambda>keys.
        try_fold (add_blob_size env eng fs ns) keys tot)) nss tot = Inr n" for nss tot
    using that
  proof (induction nss arbitrary: tot)
    case (Cons ns nss)
    from Cons.prems obtain keys u where k: "list_blob_keys_unlocked env eng fs ns = Inr keys"
      "try_fold (add_blob_size env eng fs ns) keys tot = Inr u"
      "try_fold (\<lambda>ns tot. and_then (list_blob_keys_unlocked env eng fs ns) (\<lambda>keys.
        try_fold (add_blob_size env eng fs ns) keys tot)) nss u = Inr n" by (auto simp: result_simps)
    have "sum_list (map (\<lambda>k. blob_size ?m (ns, k)) keys) = (\<Sum>k \<in> keys_at ?m ns. blob_size ?m (ns, k))"
      using ks [OF k(1)] by (simp add: sum_list_distinct_conv_sum_set)
    then show ?case using Cons.IH [OF k(3)] add_blob_sizes [OF ok r k(2)] by simp
  qed simp
  from this [OF total [unfolded blob_total_bytes_def]]
  have "n = (\<Sum>ns \<in> set ?N. \<Sum>k \<in> keys_at ?m ns. blob_size ?m (ns, k))"
    using child_names(1) by (simp add: sum_list_distinct_conv_sum_set)
  also have "\<dots> = (\<Sum>a \<in> dom ?m. blob_size ?m a)"
  proof -
    have "finite (keys_at ?m ns)" for ns
      using finite_subset [of "keys_at ?m ns" "snd ` dom ?m"] by (force simp: keys_at_def)
    then show ?thesis
      unfolding dom_sigma [OF namespaces_listed [OF r]] by (simp add: sum.Sigma)
  qed
  also have "\<dots> = blob_bytes_of m"
    by (simp add: blob_bytes_of_def btree_values_def sum_entries [where f = "\<lambda>e. length (snd e)", simplified comp_def] comp_def)
      (auto intro: sum.cong simp: blob_size_def)
  finally show ?thesis .
qed


end
