(* ===== verification/File_Reads.thy ===== *)
theory File_Reads
  imports File_Listing
begin

text \<open>
  The read operations of the file-backed store (\<^verbatim>\<open>sdk/src/store_internal/file.rs\<close>). A read takes
  the shared lock, and when it finds a journal it drops the lock, takes the exclusive one,
  recovers, and starts again; in the two moments without a lock other processes may work on
  the files, which is the parameter \<open>others\<close>. The loop need not end, so it is a partial
  function whose value is missing when it does not.
\<close>

section \<open>Locks\<close>

partial_function (option) with_shared_backend ::
  "'v file_env \<Rightarrow> file_engine \<Rightarrow> (nat \<Rightarrow> files \<Rightarrow> files) \<Rightarrow> string \<Rightarrow> (files \<Rightarrow> 'b result) \<Rightarrow> nat \<Rightarrow> files \<Rightarrow>
   (files \<times> 'b result) option" where
  "with_shared_backend env eng others stage operation n fs =
     (case fs_read (fe_fault env) fs transaction_marker_path of
        Inl e \<Rightarrow> if io_error_kind e = IoNotFound then Some (fs, operation fs) else Some (fs, Err (at_io_stage stage e))
      | Inr _ \<Rightarrow>
          (case recover_transaction_if_needed env eng (others n fs) of
             (ops, r) \<Rightarrow>
               (case r of
                  Inl e \<Rightarrow> Some (run_ops ops (others n fs), Err e)
                | Inr _ \<Rightarrow> with_shared_backend env eng others stage operation (n + 2)
                    (others (n + 1) (run_ops ops (others n fs))))))"

text \<open>The lock of a read session is kept; the session works on the files it found.\<close>

definition acquire_immutable_read_lock ::
  "'v file_env \<Rightarrow> file_engine \<Rightarrow> (nat \<Rightarrow> files \<Rightarrow> files) \<Rightarrow> files \<Rightarrow> (files \<times> unit result) option" where
  "acquire_immutable_read_lock env eng others fs =
     with_shared_backend env eng others ''store_immutable_read_session'' (\<lambda>_. Ok ()) 0 fs"

section \<open>Reads\<close>

definition file_get_json_value ::
  "'v file_env \<Rightarrow> file_engine \<Rightarrow> (nat \<Rightarrow> files \<Rightarrow> files) \<Rightarrow> string \<Rightarrow> string \<Rightarrow> files \<Rightarrow> (files \<times> 'v option result) option" where
  "file_get_json_value env eng others namespace key fs =
     with_shared_backend env eng others ''file_store_json_read'' (\<lambda>fs. get_json_value_unlocked env eng fs namespace key) 0 fs"

definition file_get_blob ::
  "'v file_env \<Rightarrow> file_engine \<Rightarrow> (nat \<Rightarrow> files \<Rightarrow> files) \<Rightarrow> string \<Rightarrow> string \<Rightarrow> files \<Rightarrow> (files \<times> bytes option result) option" where
  "file_get_blob env eng others namespace key fs =
     with_shared_backend env eng others ''file_store_blob_read'' (\<lambda>fs. get_blob_unlocked env eng fs namespace key) 0 fs"

definition file_list_json_keys ::
  "'v file_env \<Rightarrow> file_engine \<Rightarrow> (nat \<Rightarrow> files \<Rightarrow> files) \<Rightarrow> string \<Rightarrow> files \<Rightarrow> (files \<times> string list result) option" where
  "file_list_json_keys env eng others namespace fs =
     with_shared_backend env eng others ''file_store_list'' (\<lambda>fs. list_json_keys_unlocked env eng fs namespace) 0 fs"

definition file_list_blob_keys ::
  "'v file_env \<Rightarrow> file_engine \<Rightarrow> (nat \<Rightarrow> files \<Rightarrow> files) \<Rightarrow> string \<Rightarrow> files \<Rightarrow> (files \<times> string list result) option" where
  "file_list_blob_keys env eng others namespace fs =
     with_shared_backend env eng others ''file_store_list'' (\<lambda>fs. list_blob_keys_unlocked env eng fs namespace) 0 fs"

definition file_read_events ::
  "'v file_env \<Rightarrow> file_engine \<Rightarrow> (nat \<Rightarrow> files \<Rightarrow> files) \<Rightarrow> files \<Rightarrow> (files \<times> store_event list result) option" where
  "file_read_events env eng others fs =
     with_shared_backend env eng others ''store_event_log'' (read_events_unlocked env eng) 0 fs"

definition read_events_unlocked_bounded ::
  "'v file_env \<Rightarrow> files \<Rightarrow> store_capacity_budget \<Rightarrow> usize \<Rightarrow> store_event list result" where
  "read_events_unlocked_bounded env fs capacity already_used_json_bytes =
     and_then (case fs_read (fe_fault env) fs events_path of
         Inr bs \<Rightarrow> if usize_max < length bs
           then Err (store_budget_error ''event log length does not fit the platform address space'') else Ok (length bs)
       | Inl e \<Rightarrow> if io_error_kind e = IoNotFound then Ok 0 else Err (at_io_stage ''store_consistent_read'' e)) (\<lambda>n.
     if cap_snapshot_max_bytes capacity < saturating_add already_used_json_bytes n
     then Err (config_error ''store_consistent_read_budget_exceeded''
            ''event log exceeds the consistent known-key read budget'')
     else read_events_jsonl_bounded env fs capacity (saturating_sub (cap_snapshot_max_bytes capacity) already_used_json_bytes)
            ''store_consistent_read_budget_exceeded'')"

definition check_known_keys ::
  "store_capacity_budget \<Rightarrow> string \<Rightarrow> address list \<Rightarrow> (string \<times> address) btset \<Rightarrow> (string \<times> address) btset result" where
  "check_known_keys capacity kind keys =
     try_fold (\<lambda>a addresses.
        and_then (enforce_logical_key_budget capacity (fst a) (snd a) ''store_consistent_read'') (\<lambda>_.
        if btree_contains addresses (kind, a)
        then Err (config_error ''store_consistent_read''
               (''duplicate '' @ kind @ '' known-key address '' @ fst a @ ''/'' @ snd a))
        else Ok (btset_insert (kind, a) addresses))) keys"

definition read_known_parts ::
  "'v file_env \<Rightarrow> file_engine \<Rightarrow> address list \<Rightarrow> address list \<Rightarrow> bool \<Rightarrow> store_capacity_budget \<Rightarrow> files \<Rightarrow>
   'v known_key_read_result result" where
  "read_known_parts env eng json_keys blob_keys include_events capacity fs =
     and_then (try_fold (\<lambda>a. load_json_counted ''consistent known-key JSON byte count overflow'' env eng fs capacity (fst a) (snd a))
         json_keys (btree_empty, 0)) (\<lambda>(json, json_bytes).
     and_then (try_fold (load_blob_counted ''consistent known-key blob byte count overflow'' env eng fs capacity)
         blob_keys (btree_empty, 0)) (\<lambda>(blobs, _).
     and_then (if include_events then read_events_unlocked_bounded env fs capacity json_bytes else Ok []) (\<lambda>events.
     read_bounded_known_keys_from_parts (fe_store env) json_keys blob_keys include_events capacity json blobs events)))"

definition file_read_consistent_known_keys ::
  "'v file_env \<Rightarrow> file_engine \<Rightarrow> (nat \<Rightarrow> files \<Rightarrow> files) \<Rightarrow> address list \<Rightarrow> address list \<Rightarrow> bool \<Rightarrow> store_capacity_budget \<Rightarrow> files \<Rightarrow>
   (files \<times> 'v known_key_read_result result) option" where
  "file_read_consistent_known_keys env eng others json_keys blob_keys include_events capacity fs =
     (let requested_entries = saturating_add (length json_keys) (length blob_keys) in
      if cap_kv_max_entries capacity < requested_entries
      then Some (fs, Err (config_error ''store_consistent_read_budget_exceeded''
             (''requested entries '' @ dec requested_entries @ '' exceed '' @ dec (cap_kv_max_entries capacity))))
      else case and_then (check_known_keys capacity ''json'' json_keys btree_empty) (check_known_keys capacity ''blob'' blob_keys) of
          Inl e \<Rightarrow> Some (fs, Err e)
        | Inr _ \<Rightarrow> with_shared_backend env eng others ''store_consistent_read''
            (read_known_parts env eng json_keys blob_keys include_events capacity) 0 fs)"

text \<open>The reads of a session, on the files it holds the lock of.\<close>

fun session_read_json ::
  "'v file_env \<Rightarrow> file_engine \<Rightarrow> files \<Rightarrow> address list \<Rightarrow> 'v read_session \<Rightarrow> 'v read_session \<times> 'v json_read list result" where
  "session_read_json env eng fs [] s = (s, Ok [])"
| "session_read_json env eng fs (a # as) s =
     (case get_json_value_unlocked_bounded env eng fs (fst a) (snd a) (remaining_json_bytes s) of
        Inl e \<Rightarrow> session_fail s e
      | Inr found \<Rightarrow>
          (case record_json (fe_store env) s (fst a) (snd a) (map_option fst found) of
             (s', Inl e) \<Rightarrow> (s', Err e)
           | (s', Inr r) \<Rightarrow>
               (case session_read_json env eng fs as s' of
                  (s'', Inl e) \<Rightarrow> (s'', Err e)
                | (s'', Inr rs) \<Rightarrow> (s'', Ok (r # rs)))))"

fun session_read_blobs ::
  "'v file_env \<Rightarrow> file_engine \<Rightarrow> files \<Rightarrow> address list \<Rightarrow> 'v read_session \<Rightarrow> 'v read_session \<times> blob_read list result" where
  "session_read_blobs env eng fs [] s = (s, Ok [])"
| "session_read_blobs env eng fs (a # as) s =
     (case get_blob_unlocked_bounded env eng fs (fst a) (snd a) (remaining_blob_bytes s) of
        Inl e \<Rightarrow> session_fail s e
      | Inr found \<Rightarrow>
          (case record_blob s (fst a) (snd a) (map_option fst found) of
             (s', Inl e) \<Rightarrow> (s', Err e)
           | (s', Inr r) \<Rightarrow>
               (case session_read_blobs env eng fs as s' of
                  (s'', Inl e) \<Rightarrow> (s'', Err e)
                | (s'', Inr rs) \<Rightarrow> (s'', Ok (r # rs)))))"

definition file_open_immutable_read_session ::
  "'v file_env \<Rightarrow> file_engine \<Rightarrow> (nat \<Rightarrow> files \<Rightarrow> files) \<Rightarrow> store_capacity_budget \<Rightarrow> files \<Rightarrow>
   (files \<times> 'v read_session result) option" where
  "file_open_immutable_read_session env eng others capacity fs =
     (case validate_immutable_read_session_capacity (fl_capacity eng) capacity of
        Inl e \<Rightarrow> Some (fs, Err e)
      | Inr _ \<Rightarrow> map_option (\<lambda>(fs, r). (fs, and_then r (\<lambda>_. Ok (session_new capacity)))) (acquire_immutable_read_lock env eng others fs))"

end
