(* ===== verification/File_Atomicity.thy ===== *)
theory File_Atomicity
  imports File_Context
begin

text \<open>
  A commit of the file-backed store, cut short at any system call, leaves the contents before
  the transaction or those after it. The argument follows the journal: until it is renamed
  into place the files are untouched; while it is prepared the image before applies, whatever
  the files hold; once it is committed the image after applies; its removal changes nothing.
\<close>

section \<open>The plan and the images\<close>

definition next_state :: "('v, 'a) transaction_plan \<Rightarrow> 'v mem_state \<Rightarrow> 'v mem_state" where
  "next_state plan st = fst (apply_in_memory_transaction_plan (tr_mutations (pn_effective_request plan)) st)"

text \<open>What a plan leads to: the images of the journal list it at the read set, the rest of the store is unchanged.\<close>

lemma map_filter_appended: "List.map_filter appended_event ms = event_writes ms"
proof (induction ms)
  case (Cons m ms)
  then show ?case by (cases m) (auto simp: List.map_filter_simps)
qed (simp add: List.map_filter_simps)

lemma plan_next:
  assumes plan: "apply_transaction h adm req context = Inr plan" and rf: "reads_from (tr_read_set req) (cx_touched context) st"
    and cov: "read_set_covers req"
  defines "st' \<equiv> next_state plan st"
  shows "spec_of st' = spec_transaction (h_store_env h) req (spec_of st)"
    and "btree_contains (rs_json (tr_read_set req)) a \<Longrightarrow> btree_get (ts_json (pn_next_touched plan)) a = btree_get (ms_json st') a"
    and "\<not> btree_contains (rs_json (tr_read_set req)) a \<Longrightarrow> btree_get (ms_json st') a = btree_get (ms_json st) a"
    and "btree_contains (rs_blobs (tr_read_set req)) a \<Longrightarrow> btree_get (ts_blobs (pn_next_touched plan)) a = btree_get (ms_blobs st') a"
    and "\<not> btree_contains (rs_blobs (tr_read_set req)) a \<Longrightarrow> btree_get (ms_blobs st') a = btree_get (ms_blobs st) a"
    and "ms_events st' = ms_events st @ List.map_filter appended_event (tr_mutations (pn_effective_request plan))"
proof -
  obtain mss s where
    mat: "list_all2 (\<lambda>m ms. materialize_mutation (h_store_env h) (cx_touched context) m = Inr ms) (tr_mutations req) mss"
    and run: "try_fold (apply_mutation (am_operation_capacity adm)) (concat mss) (apply_start context) = Inr s"
    and eff: "pn_effective_request plan = req\<lparr>tr_mutations := concat mss\<rparr>" and nxt: "pn_next_touched plan = ap_next s"
    using apply_transaction_Ok [OF plan] by metis
  define t where "t = cx_touched context"
  note ap = apply_mutations_Ok [OF run]
  have nj: "ts_json (pn_next_touched plan) = fold run_write (json_writes (concat mss)) (ts_json t)"
    and nb: "ts_blobs (pn_next_touched plan) = fold run_write (blob_writes (concat mss)) (ts_blobs t)"
    using ap by (simp_all add: nxt apply_start_def t_def)
  have st': "ms_json st' = fold run_write (json_writes (concat mss)) (ms_json st)"
    "ms_blobs st' = fold run_write (blob_writes (concat mss)) (ms_blobs st)"
    "ms_events st' = ms_events st @ event_writes (concat mss)"
    using apply_plan_Ok [of "concat mss" st] ap by (simp_all add: st'_def next_state_def eff)
  have cv: "\<forall>m \<in> set (tr_mutations req). (\<forall>a \<in> set (json_targets m). btree_contains (rs_json (tr_read_set req)) a) \<and>
      (\<forall>a \<in> set (blob_targets m). btree_contains (rs_blobs (tr_read_set req)) a)"
    using cov by (simp add: read_set_covers_def)
  note m = materialize_spec [OF mat rf cv]
  show "spec_of st' = spec_transaction (h_store_env h) req (spec_of st)"
    using apply_plan_spec [of "concat mss" st "h_store_env h" "spec_of st"] m
    by (simp add: st'_def next_state_def eff spec_transaction_def)
  show "btree_get (ts_json (pn_next_touched plan)) a = btree_get (ms_json st') a" if a: "btree_contains (rs_json (tr_read_set req)) a"
  proof -
    have "btree_get (ts_json t) a = btree_get (ms_json st) a" using a rf unfolding reads_from_def t_def by blast
    then show ?thesis by (simp only: nj st' get_run_writes)
  qed
  show "btree_get (ms_json st') a = btree_get (ms_json st) a" if "\<not> btree_contains (rs_json (tr_read_set req)) a"
    using that m by (simp only: st') (rule get_unwritten, blast)
  show "btree_get (ts_blobs (pn_next_touched plan)) a = btree_get (ms_blobs st') a" if a: "btree_contains (rs_blobs (tr_read_set req)) a"
  proof -
    have "btree_get (ts_blobs t) a = btree_get (ms_blobs st) a" using a rf unfolding reads_from_def t_def by blast
    then show ?thesis by (simp only: nb st' get_run_writes)
  qed
  show "btree_get (ms_blobs st') a = btree_get (ms_blobs st) a" if "\<not> btree_contains (rs_blobs (tr_read_set req)) a"
    using that m by (simp only: st') (rule get_unwritten, blast)
  show "ms_events st' = ms_events st @ List.map_filter appended_event (tr_mutations (pn_effective_request plan))"
    by (simp add: st' eff map_filter_appended)
qed

text \<open>No two addresses of the read set and the store share a file.\<close>

definition places_disjoint :: "file_engine \<Rightarrow> read_set \<Rightarrow> 'v mem_state \<Rightarrow> bool" where
  "places_disjoint eng rs st \<longleftrightarrow>
     collision_free eng ''kv'' ''json'' (dom (btree_get (rs_json rs)) \<union> dom (btree_get (ms_json st))) \<and>
     collision_free eng ''blob'' ''bin'' (dom (btree_get (rs_blobs rs)) \<union> dom (btree_get (ms_blobs st)))"

definition places_exist :: "file_engine \<Rightarrow> read_set \<Rightarrow> bool" where
  "places_exist eng rs \<longleftrightarrow>
     (\<forall>a \<in> dom (btree_get (rs_json rs)). \<not> isl (json_paths eng (fst a) (snd a))) \<and>
     (\<forall>a \<in> dom (btree_get (rs_blobs rs)). \<not> isl (blob_paths eng (fst a) (snd a)))"

lemma image_addresses [simp]:
  "image_jsons (transaction_image t rs ev) = dom (btree_get (rs_json rs))"
  "image_blobs (transaction_image t rs ev) = dom (btree_get (rs_blobs rs))"
  by (force simp: transaction_image_def ij_address_def ib_address_def image_iff simp flip: set_keys)+

lemma image_events_of [simp]: "im_events (transaction_image t rs ev) = ev"
  by (simp add: transaction_image_def)

lemma collision_free_mono: "collision_free eng lane ext as \<Longrightarrow> bs \<subseteq> as \<Longrightarrow> collision_free eng lane ext bs"
  unfolding collision_free_def by blast

lemma transaction_image_lanes:
  assumes d: "disk_repr env eng st fs" and pd: "places_disjoint eng rs st" and pe: "places_exist eng rs"
    and t: "\<And>a. btree_contains (rs_json rs) a \<Longrightarrow> btree_get (ts_json t) a = btree_get (ms_json st') a"
      "\<And>a. btree_contains (rs_blobs rs) a \<Longrightarrow> btree_get (ts_blobs t) a = btree_get (ms_blobs st') a"
    and rest: "\<And>a. \<not> btree_contains (rs_json rs) a \<Longrightarrow> btree_get (ms_json st') a = btree_get (ms_json st) a"
      "\<And>a. \<not> btree_contains (rs_blobs rs) a \<Longrightarrow> btree_get (ms_blobs st') a = btree_get (ms_blobs st) a"
  shows "image_lanes env eng (transaction_image t rs ev) st' fs"
proof -
  have sub: "dom (btree_get (ms_json st')) \<subseteq> dom (btree_get (rs_json rs)) \<union> dom (btree_get (ms_json st))"
    "dom (btree_get (ms_blobs st')) \<subseteq> dom (btree_get (rs_blobs rs)) \<union> dom (btree_get (ms_blobs st))"
    using rest unfolding contains_dom by (metis UnI1 UnI2 domIff subsetI)+
  have cf: "collision_free eng ''kv'' ''json'' (dom (btree_get (rs_json rs)) \<union> dom (btree_get (ms_json st')))"
    "collision_free eng ''blob'' ''bin'' (dom (btree_get (rs_blobs rs)) \<union> dom (btree_get (ms_blobs st')))"
    using pd sub unfolding places_disjoint_def by (blast intro: collision_free_mono)+
  have "json_lane env eng (dom (btree_get (rs_json rs))) (ms_json st') fs"
    by (rule lane_repr_open [where W = "{}" and m = "btree_get (ms_json st)"])
      (use d rest(1) in \<open>auto simp: disk_repr_def contains_dom\<close>)
  moreover have "blob_lane env eng (dom (btree_get (rs_blobs rs))) (ms_blobs st') fs"
    by (rule lane_repr_open [where W = "{}" and m = "btree_get (ms_blobs st)"])
      (use d rest(2) in \<open>auto simp: disk_repr_def contains_dom\<close>)
  moreover have "\<forall>e \<in> set (im_json (transaction_image t rs ev)). ij_value e = btree_get (ms_json st') (ij_address e) \<and>
        \<not> isl (json_paths eng (ij_namespace e) (ij_key e))"
    using t(1) pe by (auto simp: transaction_image_def ij_address_def places_exist_def set_keys contains_dom)
  moreover have "\<forall>e \<in> set (im_blobs (transaction_image t rs ev)). ib_value e = btree_get (ms_blobs st') (ib_address e) \<and>
        \<not> isl (blob_paths eng (ib_namespace e) (ib_key e))"
    using t(2) pe by (auto simp: transaction_image_def ib_address_def places_exist_def set_keys contains_dom)
  ultimately show ?thesis using cf by (simp add: image_lanes_def)
qed

lemma transaction_image_paths: "places_exist eng rs \<Longrightarrow> image_paths_ok eng (transaction_image t rs ev)"
  by (auto simp: image_paths_ok_def transaction_image_def places_exist_def set_keys)

section \<open>The journal of a plan\<close>

lemma refresh_Ok:
  assumes "refresh_checksum env j = Inr j'"
  shows "verify_checksum env j' = Inr ()" and "\<exists>c. j' = j\<lparr>jo_checksum := c\<rparr>"
  using assms by (auto simp: refresh_checksum_def verify_checksum_def expected_checksum_def result_simps)

lemma keys_addresses:
  "btree_len (btset_of_list (btree_keys m)) = length (btree_keys m)"
proof -
  have "dom (btree_get (btset_of_list (btree_keys m))) = set (btree_keys m)"
    by (auto simp: btset_of_list_def dom_fold_btset_insert)
  then show ?thesis by (simp add: len_card distinct_card keys_distinct)
qed

lemma image_contract:
  "json_addresses (transaction_image t rs ev) = Inr (btset_of_list (btree_keys (rs_json rs)))"
  "blob_addresses (transaction_image t rs ev) = Inr (btset_of_list (btree_keys (rs_blobs rs)))"
  by (simp_all add: json_addresses_def blob_addresses_def transaction_image_def ij_address_def ib_address_def comp_def
      keys_addresses Let_def)

lemma journal_plan_Ok:
  assumes "journal_plan env req context n plan = Inr j" and "apply_transaction h adm req context = Inr plan"
  shows "jo_state j = Prepared" "jo_schema_version j = 2"
    and "jo_before j = transaction_image (cx_touched context) (tr_read_set req) (ImageAppend n [])"
    and "jo_after j = transaction_image (pn_next_touched plan) (tr_read_set req)
           (ImageAppend n (List.map_filter appended_event (tr_mutations (pn_effective_request plan))))"
    and "verify_checksum env j = Inr ()"
    and "validate_image_address_contract j = Inr ()"
proof -
  obtain c where c: "j = \<lparr> jo_schema_version = 2, jo_transaction_id = tr_transaction_id (pn_effective_request plan),
       jo_state = Prepared,
       jo_before = transaction_image (cx_touched context) (tr_read_set req) (ImageAppend n []),
       jo_after = transaction_image (pn_next_touched plan) (tr_read_set req)
           (ImageAppend n (List.map_filter appended_event (tr_mutations (pn_effective_request plan)))),
       jo_checksum = c \<rparr>"
    and v: "verify_checksum env j = Inr ()"
    using assms(1) refresh_Ok unfolding journal_plan_def journal_new_def by fastforce
  have "trim (tr_transaction_id (pn_effective_request plan)) \<noteq> []"
    using apply_transaction_Ok [OF assms(2)] by (metis transaction_request.select_convs(1) transaction_request.surjective
        transaction_request.update_convs(4))
  then show "validate_image_address_contract j = Inr ()"
    by (simp add: c validate_image_address_contract_def image_contract validate_event_images_def)
  show "jo_state j = Prepared" "jo_schema_version j = 2"
    "jo_before j = transaction_image (cx_touched context) (tr_read_set req) (ImageAppend n [])"
    "jo_after j = transaction_image (pn_next_touched plan) (tr_read_set req)
           (ImageAppend n (List.map_filter appended_event (tr_mutations (pn_effective_request plan))))"
    by (simp_all add: c)
  show "verify_checksum env j = Inr ()" by (rule v)
qed

section \<open>Writing the journal\<close>

text \<open>Two states of the files that differ at most in the journal and its temporary file.\<close>

definition alike :: "files \<Rightarrow> files \<Rightarrow> bool" where
  "alike fs' fs \<longleftrightarrow> (\<forall>q. \<not> outside_lanes q \<or> q = events_path \<longrightarrow> btree_get fs' q = btree_get fs q)"

lemma alike_disk: "disk_repr env eng st fs \<Longrightarrow> alike fs' fs \<Longrightarrow> disk_repr env eng st fs'"
  unfolding alike_def by (blast intro: disk_repr_outside)

lemma alike_image: "image_applies env eng img st fs \<Longrightarrow> alike fs' fs \<Longrightarrow> image_applies env eng img st fs'"
  unfolding alike_def by (blast intro: image_applies_outside)

abbreviation journal_tmp :: path where
  "journal_tmp \<equiv> with_extension transaction_marker_path ''tmp''"

text \<open>The journals a script writes are short enough to be read back.\<close>

definition journal_fits :: "file_engine \<Rightarrow> fs_op list \<Rightarrow> bool" where
  "journal_fits eng ops \<longleftrightarrow>
     list_all (\<lambda>op. case op of WriteFile p bs \<Rightarrow> p = journal_tmp \<longrightarrow> length bs \<le> journal_limit eng | _ \<Rightarrow> True) ops"

lemma journal_fits_append [simp]: "journal_fits eng (a @ b) \<longleftrightarrow> journal_fits eng a \<and> journal_fits eng b"
  by (simp add: journal_fits_def)

lemma journal_fits_written: "journal_fits eng ops \<Longrightarrow> WriteFile journal_tmp bs \<in> set ops \<Longrightarrow> length bs \<le> journal_limit eng"
  by (auto simp: journal_fits_def list_all_iff split: fs_op.splits)

lemma atomic_write_writes: "WriteFile (with_extension p ''tmp'') bs \<in> set (fst (atomic_write p bs fsync))"
  by (simp add: atomic_write_def Let_def)

text \<open>The journal appears in one step.\<close>

lemma write_journal_cases:
  obtains e where "write_transaction_journal env eng j = ([], Inl e)"
  | bs w where "fe_journal_json env j = Inr bs" "write_transaction_journal env eng j = emit w"
      "journal_fits eng w \<Longrightarrow> length bs \<le> journal_limit eng"
      "\<And>fs. btree_get (run_ops w fs) transaction_marker_path = Some bs" "\<And>fs. alike (run_ops w fs) fs"
      "\<And>fs fs'. fs' \<in> set (crash_states w fs) \<Longrightarrow> alike fs' fs \<and>
         (btree_get fs' transaction_marker_path = btree_get fs transaction_marker_path \<or> fs' = run_ops w fs)"
proof (cases "fe_journal_json env j")
  case (Inl msg)
  then show thesis
    using that(1) by (simp add: write_transaction_journal_def map_config_err_def)
next
  case (Inr bs)
  obtain w where w: "atomic_write transaction_marker_path bs (fl_fsync eng) = emit w"
    "script_touches w = {journal_tmp, transaction_marker_path}"
    "\<And>fs. run_ops w fs = btree_insert transaction_marker_path bs (btree_remove journal_tmp fs)"
    "\<And>fs fs'. fs' \<in> set (crash_states w fs) \<Longrightarrow>
       btree_get fs' transaction_marker_path = btree_get fs transaction_marker_path \<or> fs' = run_ops w fs"
    by (rule atomic_write_script [of transaction_marker_path bs "fl_fsync eng"]) simp
  let ?w = "w @ fst (sync_root eng)"
  have crash: "set (crash_states ?w fs) = set (crash_states w fs)" for fs
    using crash_final [of w fs] by (auto simp: crash_states_append)
  have alike: "alike fs' fs" if cut: "fs' \<in> set (crash_states w fs)" for fs fs'
  proof -
    have "btree_get fs' q = btree_get fs q" if q: "\<not> outside_lanes q \<or> q = events_path" for q
    proof (rule crash_frame [OF cut])
      show "q \<notin> script_touches w" using q special_paths unfolding w(2) by blast
    qed
    then show ?thesis unfolding alike_def by blast
  qed
  have "length bs \<le> journal_limit eng" if "journal_fits eng ?w"
    using that atomic_write_writes [of transaction_marker_path bs "fl_fsync eng"]
    by (auto simp: w(1) intro: journal_fits_written)
  moreover have "write_transaction_journal env eng j = emit ?w"
    by (simp add: write_transaction_journal_def Inr map_config_err_def w(1))
  ultimately show thesis
    using that(2) [of bs ?w] Inr crash alike w(4) crash_final [of w] by (simp add: w(3))
qed

lemma printable_if_appended:
  "snd (script_for_each (append_event_unchecked env eng) evs) = Inr u \<Longrightarrow> printable env evs"
proof (induction evs)
  case (Cons ev evs)
  then show ?case
    by (cases "se_event_json (fe_store env) ev")
      (auto simp: append_event_unchecked_def map_config_err_def printable_def)
qed (simp add: printable_def)

lemma restored_printable:
  assumes "snd (restore_transaction_image env eng img) = Inr u" and "im_events img = ImageAppend n evs"
  shows "printable env evs"
proof -
  have "snd (restore_events env eng (im_events img)) = Inr ()"
    using assms(1) unfolding restore_transaction_image_def script_then_def by (auto split: sum.splits)
  then show ?thesis
    unfolding assms(2) by (auto intro: printable_if_appended)
qed

section \<open>The script of a commit\<close>

text \<open>A journal for the step from \<open>st\<close> to \<open>st'\<close>.\<close>

definition journal_between ::
  "'v file_env \<Rightarrow> file_engine \<Rightarrow> 'v transaction_journal \<Rightarrow> 'v mem_state \<Rightarrow> 'v mem_state \<Rightarrow> files \<Rightarrow> bool" where
  "journal_between env eng j st st' fs \<longleftrightarrow>
     jo_state j = Prepared \<and> jo_schema_version j = 2 \<and> verify_checksum env j = Inr () \<and>
     validate_image_address_contract j = Inr () \<and>
     image_jsons (jo_after j) = image_jsons (jo_before j) \<and> image_blobs (jo_after j) = image_blobs (jo_before j) \<and>
     image_lanes env eng (jo_before j) st fs \<and> image_lanes env eng (jo_after j) st' fs \<and>
     (\<exists>evs. im_events (jo_before j) = ImageAppend (length (content fs events_path)) [] \<and>
        im_events (jo_after j) = ImageAppend (length (content fs events_path)) evs \<and> ms_events st' = ms_events st @ evs)"

lemma journal_between_images:
  assumes b: "journal_between env eng j st st' fs" and d: "disk_repr env eng st fs"
  shows "image_applies env eng (jo_before j) st fs"
    and "printable env (image_events (im_events (jo_after j))) \<Longrightarrow> image_applies env eng (jo_after j) st' fs"
    and "snd (restore_transaction_image env eng (jo_after j)) = Inr u \<Longrightarrow> image_applies env eng (jo_after j) st' fs"
proof -
  have log: "log_holds env (content fs events_path) (ms_events st)" using d by (simp add: disk_repr_def)
  from b obtain evs where ev: "im_events (jo_before j) = ImageAppend (length (content fs events_path)) []"
    "im_events (jo_after j) = ImageAppend (length (content fs events_path)) evs" "ms_events st' = ms_events st @ evs"
    by (auto simp: journal_between_def)
  show "image_applies env eng (jo_before j) st fs"
    using b ev(1) log by (simp add: image_applies_def journal_between_def image_log_def printable_def)
  show after: "image_applies env eng (jo_after j) st' fs" if "printable env (image_events (im_events (jo_after j)))"
    using that b ev log by (simp add: image_applies_def journal_between_def image_log_def)
  show "image_applies env eng (jo_after j) st' fs" if "snd (restore_transaction_image env eng (jo_after j)) = Inr u"
    using after restored_printable [OF that ev(2)] ev(2) by simp
qed

lemma contents_journal:
  assumes "fe_journal_json env j = Inr bs" and "codecs_ok env" and "length bs \<le> journal_limit eng"
    and "jo_schema_version j = 2" and "verify_checksum env j = Inr ()" and "validate_image_address_contract j = Inr ()"
    and "btree_get fs transaction_marker_path = Some bs" and "image_applies env eng (selected_image j) st fs"
  shows "contents env eng st fs"
  using assms unfolding contents_def journal_file_def codecs_ok_def by auto

text \<open>The outcome of a script: every cut leaves the old or the new contents, an error the old, success the new.\<close>

definition atomic_outcome ::
  "'v file_env \<Rightarrow> file_engine \<Rightarrow> 'v mem_state \<Rightarrow> 'v mem_state \<Rightarrow> files \<Rightarrow> 'x script \<Rightarrow> bool" where
  "atomic_outcome env eng st st' fs s \<longleftrightarrow>
     (\<forall>fs' \<in> set (crash_states (fst s) fs). contents env eng st fs' \<or> contents env eng st' fs') \<and>
     (case snd s of Inl _ \<Rightarrow> contents env eng st (run_ops (fst s) fs) | Inr _ \<Rightarrow> settled env eng st' (run_ops (fst s) fs))"

text \<open>The steps after the files hold the image after the transaction.\<close>

definition finish_plan :: "'v file_env \<Rightarrow> file_engine \<Rightarrow> 'v transaction_journal \<Rightarrow> unit script" where
  "finish_plan env eng journal =
     script_then (compute (refresh_checksum env (journal\<lparr>jo_state := Committed\<rparr>))) (\<lambda>journal.
     script_then (write_transaction_journal env eng journal) (\<lambda>_.
     remove_transaction_journal eng))"

lemma finish_plan_atomic:
  assumes ok: "codecs_ok env" and c: "contents env eng st fs" and marker: "btree_get fs transaction_marker_path = Some bs"
    and d: "disk_repr env eng st' fs" and after: "image_applies env eng (jo_after j) st' fs"
    and j: "jo_schema_version j = 2" "validate_image_address_contract j = Inr ()"
    and fits: "journal_fits eng (fst (finish_plan env eng j))"
  shows "atomic_outcome env eng st st' fs (finish_plan env eng j)"
proof (cases "refresh_checksum env (j\<lparr>jo_state := Committed\<rparr>)")
  case (Inl e)
  then show ?thesis using c by (simp add: finish_plan_def atomic_outcome_def)
next
  case (Inr j')
  have j': "jo_schema_version j' = 2" "validate_image_address_contract j' = Inr ()" "verify_checksum env j' = Inr ()"
    "selected_image j' = jo_after j"
    using refresh_Ok [OF Inr] j by (auto simp: validate_image_address_contract_def selected_image_def cong: if_cong)
  show ?thesis
  proof (cases rule: write_journal_cases [of env eng j'])
    case (1 e)
    then show ?thesis using c Inr by (simp add: finish_plan_def atomic_outcome_def)
  next
    case (2 bs' w)
    let ?rm = "fst (remove_transaction_journal eng)" and ?fs = "run_ops w fs"
    have s: "finish_plan env eng j = emit (w @ ?rm)"
      by (simp add: finish_plan_def Inr 2(2) remove_journal_script)
    have d': "disk_repr env eng st' ?fs" by (rule alike_disk [OF d 2(5)])
    have "length bs' \<le> journal_limit eng" using fits 2(3) by (simp add: s)
    moreover have "image_applies env eng (selected_image j') st' ?fs"
      unfolding j'(4) by (rule alike_image [OF after 2(5)])
    ultimately have c': "contents env eng st' ?fs"
      using contents_journal [OF 2(1) ok _ j'(1,3,2) 2(4)] by blast
    have before: "contents env eng st fs'" if "alike fs' fs" "btree_get fs' transaction_marker_path = btree_get fs transaction_marker_path" for fs'
      using c that marker by (auto simp: contents_def intro: alike_image)
    have "contents env eng st fs' \<or> contents env eng st' fs'" if "fs' \<in> set (crash_states (w @ ?rm) fs)" for fs'
      using that 2(6) [of fs' fs] before [of fs'] c' remove_journal_settles(2) [OF d', of fs'] settled_contents [of env eng st' fs']
      unfolding crash_states_append by blast
    then show ?thesis
      using remove_journal_settles(1) [OF d'] by (simp add: s atomic_outcome_def)
  qed
qed

lemma write_plan_finish:
  "write_plan env eng j =
     script_then (write_transaction_journal env eng j) (\<lambda>_.
     script_then (restore_transaction_image env eng (jo_after j)) (\<lambda>_. finish_plan env eng j))"
  by (simp add: write_plan_def finish_plan_def)

lemma atomic_then:
  assumes "snd s = Inr x" and "\<And>fs'. fs' \<in> set (crash_states (fst s) fs) \<Longrightarrow> contents env eng st fs'"
    and "atomic_outcome env eng st st' (run_ops (fst s) fs) (f x)"
  shows "atomic_outcome env eng st st' fs (script_then s f)"
  using assms by (cases s; cases "snd (f x)") (auto simp: atomic_outcome_def crash_states_append)

lemma atomic_stop:
  assumes "snd s = Inl e" and "\<And>fs'. fs' \<in> set (crash_states (fst s) fs) \<Longrightarrow> contents env eng st fs'"
  shows "atomic_outcome env eng st st' fs (script_then s f)"
  using assms crash_final by (cases s) (fastforce simp: atomic_outcome_def)

lemma write_plan_atomic:
  assumes ok: "codecs_ok env" and s: "settled env eng st fs" and b: "journal_between env eng j st st' fs"
    and fits: "journal_fits eng (fst (write_plan env eng j))"
  shows "atomic_outcome env eng st st' fs (write_plan env eng j)"
proof (cases rule: write_journal_cases [of env eng j])
  case (1 e)
  then show ?thesis
    using settled_contents [OF s] by (simp add: write_plan_def atomic_outcome_def)
next
  case (2 bs w)
  let ?fs = "run_ops w fs" and ?r = "restore_transaction_image env eng (jo_after j)"
  have d: "disk_repr env eng st fs" and none: "btree_get fs transaction_marker_path = None"
    using s by (simp_all add: settled_def)
  from b obtain evs where
    j: "jo_state j = Prepared" "jo_schema_version j = 2" "verify_checksum env j = Inr ()" "validate_image_address_contract j = Inr ()"
      "image_jsons (jo_after j) = image_jsons (jo_before j)" "image_blobs (jo_after j) = image_blobs (jo_before j)"
      "image_lanes env eng (jo_after j) st' fs"
      "im_events (jo_before j) = ImageAppend (length (content fs events_path)) []"
      "im_events (jo_after j) = ImageAppend (length (content fs events_path)) evs"
    by (auto simp: journal_between_def)
  note images = journal_between_images [OF b d]
  have before: "image_applies env eng (jo_before j) st ?fs" by (rule alike_image [OF images(1) 2(5)])
  have paths: "image_paths_ok eng (jo_after j)" using j(7) by (auto simp: image_lanes_def image_paths_ok_def)
  have len: "length bs \<le> journal_limit eng" using fits 2(2,3) by (simp add: write_plan_def)
  have prepared: "contents env eng st fs'"
    if "btree_get fs' transaction_marker_path = Some bs" "image_applies env eng (jo_before j) st fs'" for fs'
    by (rule contents_journal [OF 2(1) ok len j(2,3,4) that(1)]) (simp add: selected_image_def j(1) that(2))
  have first: "contents env eng st fs'" if "fs' \<in> set (crash_states w fs)" for fs'
    using 2(6) [OF that] prepared [OF 2(4) before] alike_disk [OF d] none by (auto simp: contents_def)
  have mid: "image_applies env eng (jo_before j) st fs'" "btree_get fs' transaction_marker_path = Some bs"
    if "fs' \<in> set (crash_states (fst ?r) ?fs)" for fs'
    using restore_image_crash [OF ok before paths j(5,6,8,9) that] 2(4) by simp_all
  have "atomic_outcome env eng st st' ?fs (script_then ?r (\<lambda>_. finish_plan env eng j))"
  proof (cases "snd ?r")
    case (Inl e)
    then show ?thesis by (rule atomic_stop) (use mid prepared in blast)
  next
    case (Inr u)
    let ?fs' = "run_ops (fst ?r) ?fs"
    have after: "image_applies env eng (jo_after j) st' ?fs" by (rule alike_image [OF images(3) [OF Inr] 2(5)])
    have d': "disk_repr env eng st' ?fs'" using restore_image [OF ok after] by (metis fst_conv)
    have after': "image_applies env eng (jo_after j) st' ?fs'"
      by (rule restore_image_crash(1) [OF ok after paths refl refl j(9,9) crash_final])
    have "journal_fits eng (fst (finish_plan env eng j))"
      using fits Inr 2(2) by (cases ?r) (simp add: write_plan_finish)
    then have "atomic_outcome env eng st st' ?fs' (finish_plan env eng j)"
      using finish_plan_atomic [OF ok _ _ d' after' j(2,4)] mid [OF crash_final] prepared by blast
    then show ?thesis by (rule atomic_then [OF Inr, rotated]) (use mid prepared in blast)
  qed
  then show ?thesis
    unfolding write_plan_finish by (intro atomic_then [of "write_transaction_journal env eng j" "()"]) (simp_all add: 2(2) first)
qed


text \<open>Nothing but printing can stop the script.\<close>

lemma write_plan_succeeds:
  assumes ok: "codecs_ok env" and d: "disk_repr env eng st fs" and b: "journal_between env eng j st st' fs"
    and ev: "printable env (image_events (im_events (jo_after j)))" and p: "fe_journal_json env j = Inr bs"
    and c: "refresh_checksum env (j\<lparr>jo_state := Committed\<rparr>) = Inr j'" "fe_journal_json env j' = Inr bs'"
  shows "snd (write_plan env eng j) = Inr ()"
proof -
  have w: "\<exists>w. write_transaction_journal env eng i = emit w \<and> (\<forall>fs. alike (run_ops w fs) fs)" if i: "fe_journal_json env i = Inr x" for i x
  proof (cases rule: write_journal_cases [of env eng i])
    case (1 e)
    then show ?thesis
      using i atomic_write_writes [of transaction_marker_path x "fl_fsync eng"]
      by (auto simp: write_transaction_journal_def map_config_err_def script_then_def split: sum.splits)
  qed blast
  obtain w1 where w1: "write_transaction_journal env eng j = emit w1" "\<And>fs. alike (run_ops w1 fs) fs" using w [OF p] by blast
  obtain w2 where w2: "write_transaction_journal env eng j' = emit w2" using w [OF c(2)] by blast
  obtain r where "restore_transaction_image env eng (jo_after j) = emit r"
    using restore_image [OF ok alike_image [OF journal_between_images(2) [OF b d ev] w1(2)]] by blast
  then show ?thesis
    by (simp add: write_plan_def w1(1) c(1) w2 remove_journal_script)
qed

text \<open>When every journal is short enough, so are those a script writes.\<close>

lemma fits_then: "journal_fits eng (fst s) \<Longrightarrow> (\<And>x. journal_fits eng (fst (f x))) \<Longrightarrow> journal_fits eng (fst (script_then s f))"
  by (cases s; cases "snd s") auto

lemma fits_untouched: "journal_tmp \<notin> script_touches ops \<Longrightarrow> journal_fits eng ops"
  by (induction ops) (auto simp: journal_fits_def split: fs_op.splits)

lemma write_journal_fits:
  assumes "\<And>j bs. fe_journal_json env j = Inr bs \<Longrightarrow> length bs \<le> journal_limit eng"
  shows "journal_fits eng (fst (write_transaction_journal env eng j))"
proof (cases "fe_journal_json env j")
  case (Inr bs)
  obtain syncs where s: "complete_rename_durability journal_tmp transaction_marker_path (fl_fsync eng) = emit syncs"
    "\<forall>op \<in> set syncs. \<exists>d. op = SyncDir d" by (rule rename_durability_emits)
  have "journal_fits eng (fst (sync_root eng))" "journal_fits eng syncs"
    using syncs_touches [OF s(2)] by (auto intro: fits_untouched)
  then show ?thesis
    using assms [OF Inr] by (simp add: write_transaction_journal_def Inr map_config_err_def atomic_write_def Let_def s(1))
      (simp add: journal_fits_def)
qed (simp add: write_transaction_journal_def map_config_err_def journal_fits_def)

lemma write_plan_fits:
  assumes ok: "codecs_ok env" and short: "\<And>j bs. fe_journal_json env j = Inr bs \<Longrightarrow> length bs \<le> journal_limit eng"
    and b: "journal_between env eng j st st' fs"
  shows "journal_fits eng (fst (write_plan env eng j))"
proof -
  have paths: "image_paths_ok eng (jo_after j)" using b by (auto simp: journal_between_def image_lanes_def image_paths_ok_def)
  obtain n evs where ev: "im_events (jo_after j) = ImageAppend n evs" using b by (auto simp: journal_between_def)
  have "journal_tmp \<notin> addresses_zone eng js bs" for js bs
    by (auto simp: addresses_zone_def dest: zone_lanes)
  then have "journal_tmp \<notin> script_touches (fst (restore_transaction_image env eng (jo_after j)))"
    using restore_image_ops(1) [OF ok paths ev] special_paths(7) by blast
  then have "journal_fits eng (fst (restore_transaction_image env eng (jo_after j)))" by (rule fits_untouched)
  moreover have "journal_fits eng (fst (remove_transaction_journal eng))"
    by (rule fits_untouched) (simp add: remove_journal_script)
  moreover note write_journal_fits [of env eng, OF short]
  ultimately show ?thesis
    unfolding write_plan_def by (intro fits_then) (simp_all add: journal_fits_def)
qed

section \<open>The commit\<close>

text \<open>The files hold an abstract store, perhaps through a journal.\<close>

definition represents :: "'v file_env \<Rightarrow> file_engine \<Rightarrow> 'v store_spec \<Rightarrow> files \<Rightarrow> bool" where
  "represents env eng sp fs \<longleftrightarrow> (\<exists>st. spec_of st = sp \<and> contents env eng st fs)"

definition represents_settled :: "'v file_env \<Rightarrow> file_engine \<Rightarrow> 'v store_spec \<Rightarrow> files \<Rightarrow> bool" where
  "represents_settled env eng sp fs \<longleftrightarrow> (\<exists>st. spec_of st = sp \<and> settled env eng st fs)"

definition spec_outcome ::
  "'v file_env \<Rightarrow> file_engine \<Rightarrow> 'v store_spec \<Rightarrow> 'v store_spec \<Rightarrow> files \<Rightarrow> 'x script \<Rightarrow> bool" where
  "spec_outcome env eng sp sp' fs s \<longleftrightarrow>
     (\<forall>fs' \<in> set (crash_states (fst s) fs). represents env eng sp fs' \<or> represents env eng sp' fs') \<and>
     (case snd s of Inl _ \<Rightarrow> represents env eng sp (run_ops (fst s) fs)
                  | Inr _ \<Rightarrow> represents_settled env eng sp' (run_ops (fst s) fs))"

lemma atomic_spec: "atomic_outcome env eng st st' fs s \<Longrightarrow> spec_outcome env eng (spec_of st) (spec_of st') fs s"
  unfolding atomic_outcome_def spec_outcome_def represents_def represents_settled_def
  by (cases "snd s") auto

lemma spec_outcome_stop: "contents env eng st fs \<Longrightarrow> spec_outcome env eng (spec_of st) sp' fs ([], Inl e)"
  unfolding spec_outcome_def represents_def by auto

lemma spec_outcome_then_value:
  "spec_outcome env eng sp sp' fs s \<Longrightarrow> spec_outcome env eng sp sp' fs (script_then s (\<lambda>_. compute (Ok y)))"
  by (cases s; cases "snd s") (auto simp: spec_outcome_def)

lemma spec_outcome_after:
  assumes "\<And>fs'. fs' \<in> set (crash_states ops fs) \<Longrightarrow> contents env eng st fs'"
    and "spec_outcome env eng (spec_of st) sp' (run_ops ops fs) s"
  shows "spec_outcome env eng (spec_of st) sp' fs (script_then (ops, Ok ()) (\<lambda>_. s))"
proof -
  have "represents env eng (spec_of st) fs'" if "fs' \<in> set (crash_states ops fs)" for fs'
    using assms(1) [OF that] by (auto simp: represents_def)
  then show ?thesis
    using assms(2) by (cases "snd s") (auto simp: spec_outcome_def crash_states_append)
qed

lemma plan_journal_between:
  assumes ok: "codecs_ok env" and d: "disk_repr env eng st fs" and cov: "read_set_covers req"
    and pd: "places_disjoint eng (tr_read_set req) st"
    and load: "load_transaction_context env h eng fs req (am_operation_capacity adm) = Inr (context, n)"
    and plan: "apply_transaction h adm req context = Inr plan" and j: "journal_plan env req context n plan = Inr j"
  shows "journal_between env eng j st (next_state plan st) fs"
proof -
  note rf = load_context_reads [OF ok d load] and jo = journal_plan_Ok [OF j plan]
  have pe: "places_exist eng (tr_read_set req)"
    using load_context_paths [OF load] by (auto simp: places_exist_def set_keys)
  note nx = plan_next [OF plan rf(1) cov]
  have cur: "btree_get (ts_json (cx_touched context)) a = btree_get (ms_json st) a" if "btree_contains (rs_json (tr_read_set req)) a" for a
    using rf(1) that unfolding reads_from_def by blast
  have curb: "btree_get (ts_blobs (cx_touched context)) a = btree_get (ms_blobs st) a" if "btree_contains (rs_blobs (tr_read_set req)) a" for a
    using rf(1) that unfolding reads_from_def by blast
  have "image_lanes env eng (jo_before j) st fs"
    unfolding jo(3) by (rule transaction_image_lanes [OF d pd pe cur curb]) simp_all
  moreover have "image_lanes env eng (jo_after j) (next_state plan st) fs"
    unfolding jo(4) by (rule transaction_image_lanes [OF d pd pe nx(2,4,3,5)])
  ultimately show ?thesis
    using jo(1,2,5,6) nx(6) rf(3) by (simp add: journal_between_def jo(3,4))
qed

lemma commit_plan_outcome:
  assumes ok: "codecs_ok env" and s: "settled env eng st fs" and cov: "read_set_covers req"
    and pd: "places_disjoint eng (tr_read_set req) st"
    and fits: "journal_fits eng (fst (commit_admitted_plan env h eng req adm fs))"
  shows "spec_outcome env eng (spec_of st) (spec_transaction (h_store_env h) req (spec_of st)) fs
           (commit_admitted_plan env h eng req adm fs)"
proof -
  have d: "disk_repr env eng st fs" using s by (simp add: settled_def)
  note stop = spec_outcome_stop [OF settled_contents [OF s]]
  show ?thesis
  proof (cases "load_transaction_context env h eng fs req (am_operation_capacity adm)")
    case (Inl e)
    then show ?thesis by (simp add: commit_admitted_plan_def stop)
  next
    case load: (Inr cn)
    obtain cx n where cn: "cn = (cx, n)" by force
    show ?thesis
    proof (cases "apply_transaction h adm req cx")
      case (Inl e)
      then show ?thesis by (simp add: commit_admitted_plan_def load cn stop)
    next
      case plan: (Inr plan)
      show ?thesis
      proof (cases "journal_plan env req cx n plan")
        case (Inl e)
        then show ?thesis by (simp add: commit_admitted_plan_def load cn plan stop)
      next
        case j: (Inr j)
        have run: "commit_admitted_plan env h eng req adm fs = script_then (write_plan env eng j) (\<lambda>_. compute (Ok (pn_report plan)))"
          by (simp add: commit_admitted_plan_def load cn plan j)
        have "journal_fits eng (fst (write_plan env eng j))"
          using fits unfolding run by (cases "write_plan env eng j"; cases "snd (write_plan env eng j)") auto
        from write_plan_atomic [OF ok s plan_journal_between [OF ok d cov pd load [unfolded cn] plan j] this]
        have "spec_outcome env eng (spec_of st) (spec_of (next_state plan st)) fs (write_plan env eng j)"
          by (rule atomic_spec)
        moreover have "spec_of (next_state plan st) = spec_transaction (h_store_env h) req (spec_of st)"
          using plan_next(1) [OF plan _ cov] load_context_reads(1) [OF ok d load [unfolded cn]] by blast
        ultimately show ?thesis unfolding run by (metis spec_outcome_then_value)
      qed
    qed
  qed
qed

lemma file_commit_outcome:
  assumes ok: "codecs_ok env" and c: "contents env eng st fs" and cov: "read_set_covers req"
    and pd: "places_disjoint eng (tr_read_set req) st"
    and run: "file_commit_transaction_admitted renv env h eng inputs req adm au fs = (au', s)"
    and fits: "journal_fits eng (fst s)"
  shows "spec_outcome env eng (spec_of st) (spec_transaction (h_store_env h) req (spec_of st)) fs s"
proof -
  obtain ops where r: "recover_transaction_if_needed env eng fs = emit ops" "settled env eng st (run_ops ops fs)"
    "\<And>fs'. fs' \<in> set (crash_states ops fs) \<Longrightarrow> contents env eng st fs'"
    using recover_contents [OF ok c] by metis
  show ?thesis
  proof (cases "validate_inside_engine_fence renv adm (fl_capacity eng) (fl_admission_authority eng) inputs au")
    case (Pair au'' res)
    show ?thesis
    proof (cases res)
      case (Inl e)
      then have "s = (ops, Err e)" using run Pair by (simp add: file_commit_transaction_admitted_def r(1))
      then show ?thesis
        using r(3) crash_final [of ops fs] by (auto simp: spec_outcome_def represents_def)
    next
      case (Inr u)
      then have s: "s = script_then (ops, Ok ()) (\<lambda>_. commit_admitted_plan env h eng req adm (run_ops ops fs))"
        using run Pair by (simp add: file_commit_transaction_admitted_def r(1))
      have "journal_fits eng (fst (commit_admitted_plan env h eng req adm (run_ops ops fs)))"
        using fits by (simp add: s)
      from commit_plan_outcome [OF ok r(2) cov pd this]
      show ?thesis unfolding s by (rule spec_outcome_after [rotated]) (rule r(3))
    qed
  qed
qed


end
