(* ===== verification/File_History.thy ===== *)
theory File_History
  imports File_Atomicity
begin

text \<open>
  Histories of a store that may be cut short at any moment. The contract of such a store is
  the locale \<open>crash_safe_store\<close>: a call that succeeds has its effect, one that fails has
  none, one that is cut short has its effect or none. The file-backed store, with its commits
  and its recovery, provides it; what a whole history leaves is proved once, for the contract.
\<close>

section \<open>The contract\<close>

datatype 't happening = Succeeded 't | Failed 't | CutShort 't

text \<open>The effects a happening may have had, as lists of calls.\<close>

fun possible :: "'t happening \<Rightarrow> 't list list" where
  "possible (Succeeded t) = [[t]]"
| "possible (Failed t) = [[]]"
| "possible (CutShort t) = [[], [t]]"

inductive store_run ::
  "('t \<Rightarrow> 's \<Rightarrow> 's \<times> 'r result) \<Rightarrow> ('t \<Rightarrow> 's \<Rightarrow> 's list) \<Rightarrow> ('t \<Rightarrow> 's \<Rightarrow> bool) \<Rightarrow> 's \<Rightarrow> 't happening list \<Rightarrow> 's \<Rightarrow> bool"
  for run :: "'t \<Rightarrow> 's \<Rightarrow> 's \<times> 'r result" and cuts :: "'t \<Rightarrow> 's \<Rightarrow> 's list" and admissible :: "'t \<Rightarrow> 's \<Rightarrow> bool" and s where
  start: "store_run run cuts admissible s [] s"
| success: "store_run run cuts admissible s hs u \<Longrightarrow> admissible t u \<Longrightarrow> run t u = (v, Inr r) \<Longrightarrow>
    store_run run cuts admissible s (hs @ [Succeeded t]) v"
| failure: "store_run run cuts admissible s hs u \<Longrightarrow> admissible t u \<Longrightarrow> run t u = (v, Inl e) \<Longrightarrow>
    store_run run cuts admissible s (hs @ [Failed t]) v"
| cut: "store_run run cuts admissible s hs u \<Longrightarrow> admissible t u \<Longrightarrow> v \<in> set (cuts t u) \<Longrightarrow>
    store_run run cuts admissible s (hs @ [CutShort t]) v"

inductive_cases store_run_nilE: "store_run run cuts admissible s [] u"

locale crash_safe_store =
  fixes run :: "'t \<Rightarrow> 's \<Rightarrow> 's \<times> 'r result"
    and cuts :: "'t \<Rightarrow> 's \<Rightarrow> 's list"
    and admissible :: "'t \<Rightarrow> 's \<Rightarrow> bool"
    and rep :: "'b \<Rightarrow> 's \<Rightarrow> bool"
    and meaning :: "'t \<Rightarrow> 'b \<Rightarrow> 'b"
  assumes run_Ok: "rep b s \<Longrightarrow> admissible t s \<Longrightarrow> run t s = (s', Inr r) \<Longrightarrow> rep (meaning t b) s'"
    and run_Err: "rep b s \<Longrightarrow> admissible t s \<Longrightarrow> run t s = (s', Inl e) \<Longrightarrow> rep b s'"
    and run_cut: "rep b s \<Longrightarrow> admissible t s \<Longrightarrow> s' \<in> set (cuts t s) \<Longrightarrow> rep b s' \<or> rep (meaning t b) s'"
begin

lemma history_durable:
  assumes "store_run run cuts admissible s hs s'" and "rep b s"
  shows "\<exists>es. list_all2 (\<lambda>e h. e \<in> set (possible h)) es hs \<and> rep (fold meaning (concat es) b) s'"
  using assms
proof (induction rule: store_run.induct)
  case start
  then show ?case by (intro exI [of _ "[]"]) simp
next
  case (success hs u t v r)
  then obtain es where "list_all2 (\<lambda>e h. e \<in> set (possible h)) es hs" "rep (fold meaning (concat es) b) u" by blast
  then show ?case
    using run_Ok [OF _ success.hyps(2,3)] by (intro exI [of _ "es @ [[t]]"]) (simp add: list_all2_appendI)
next
  case (failure hs u t v e)
  then obtain es where "list_all2 (\<lambda>e h. e \<in> set (possible h)) es hs" "rep (fold meaning (concat es) b) u" by blast
  then show ?case
    using run_Err [OF _ failure.hyps(2,3)] by (intro exI [of _ "es @ [[]]"]) (simp add: list_all2_appendI)
next
  case (cut hs u t v)
  then obtain es where es: "list_all2 (\<lambda>e h. e \<in> set (possible h)) es hs" "rep (fold meaning (concat es) b) u" by blast
  from run_cut [OF es(2) cut.hyps(2,3)] show ?case
  proof
    assume "rep (fold meaning (concat es) b) v"
    then show ?thesis using es(1) by (intro exI [of _ "es @ [[]]"]) (simp add: list_all2_appendI)
  next
    assume "rep (meaning t (fold meaning (concat es) b)) v"
    then show ?thesis using es(1) by (intro exI [of _ "es @ [[t]]"]) (simp add: list_all2_appendI)
  qed
qed

end

section \<open>The file-backed store as a provider\<close>

datatype ('v, 'a) file_call =
    CommitCall fence_inputs "('v, 'a) transaction_request" transaction_admission
  | RecoverCall

text \<open>A call as a script: the system calls it makes and its result.\<close>

fun file_script ::
  "report_env \<Rightarrow> 'v file_env \<Rightarrow> ('v, 'a, 'j) tx_hooks \<Rightarrow> file_engine \<Rightarrow> ('v, 'a) file_call \<Rightarrow> authority \<times> files \<Rightarrow>
   authority \<times> unit script" where
  "file_script renv env h eng (CommitCall inputs req adm) (au, fs) =
     (case file_commit_transaction_admitted renv env h eng inputs req adm au fs of
        (au', s) \<Rightarrow> (au', script_then s (\<lambda>_. compute (Ok ()))))"
| "file_script renv env h eng RecoverCall (au, fs) = (au, recover_transaction_if_needed env eng fs)"

definition file_run ::
  "report_env \<Rightarrow> 'v file_env \<Rightarrow> ('v, 'a, 'j) tx_hooks \<Rightarrow> file_engine \<Rightarrow> ('v, 'a) file_call \<Rightarrow> authority \<times> files \<Rightarrow>
   (authority \<times> files) \<times> unit result" where
  "file_run renv env h eng t s =
     (case file_script renv env h eng t s of (au, (ops, r)) \<Rightarrow> ((au, run_ops ops (snd s)), r))"

definition file_cuts ::
  "report_env \<Rightarrow> 'v file_env \<Rightarrow> ('v, 'a, 'j) tx_hooks \<Rightarrow> file_engine \<Rightarrow> ('v, 'a) file_call \<Rightarrow> authority \<times> files \<Rightarrow>
   (authority \<times> files) list" where
  "file_cuts renv env h eng t s =
     (case file_script renv env h eng t s of (au, (ops, r)) \<Rightarrow> map (Pair au) (crash_states ops (snd s)))"

fun file_meaning :: "('v, 'a, 'j) tx_hooks \<Rightarrow> ('v, 'a) file_call \<Rightarrow> 'v store_spec \<Rightarrow> 'v store_spec" where
  "file_meaning h (CommitCall inputs req adm) sp = spec_transaction (h_store_env h) req sp"
| "file_meaning h RecoverCall sp = sp"

text \<open>The addresses a history works on, in the two lanes.\<close>

definition request_within :: "address set \<Rightarrow> address set \<Rightarrow> ('v, 'a) file_call \<Rightarrow> bool" where
  "request_within js bs t =
     (case t of
        CommitCall _ req _ \<Rightarrow> read_set_covers req \<and> dom (btree_get (rs_json (tr_read_set req))) \<subseteq> js \<and>
          dom (btree_get (rs_blobs (tr_read_set req))) \<subseteq> bs
      | RecoverCall \<Rightarrow> True)"

definition file_admissible ::
  "report_env \<Rightarrow> 'v file_env \<Rightarrow> ('v, 'a, 'j) tx_hooks \<Rightarrow> file_engine \<Rightarrow> address set \<Rightarrow> address set \<Rightarrow> ('v, 'a) file_call \<Rightarrow>
   authority \<times> files \<Rightarrow> bool" where
  "file_admissible renv env h eng js bs t s \<longleftrightarrow>
     request_within js bs t \<and> journal_fits eng (fst (snd (file_script renv env h eng t s)))"

definition file_holds ::
  "'v file_env \<Rightarrow> file_engine \<Rightarrow> address set \<Rightarrow> address set \<Rightarrow> 'v store_spec \<Rightarrow> authority \<times> files \<Rightarrow> bool" where
  "file_holds env eng js bs sp s \<longleftrightarrow>
     codecs_ok env \<and> collision_free eng ''kv'' ''json'' js \<and> collision_free eng ''blob'' ''bin'' bs \<and>
     dom (sp_json sp) \<subseteq> js \<and> dom (sp_blobs sp) \<subseteq> bs \<and> represents env eng sp (snd s)"

lemma spec_mutation_dom:
  "dom (sp_json (spec_mutation env b m s)) \<subseteq> dom (sp_json s) \<union> set (json_targets m)"
  "dom (sp_blobs (spec_mutation env b m s)) \<subseteq> dom (sp_blobs s) \<union> set (blob_targets m)"
  by (cases m; auto split: option.splits sum.splits if_splits)+

lemma fold_spec_dom:
  "dom (sp_json (fold (spec_mutation env b) ms s)) \<subseteq> dom (sp_json s) \<union> (\<Union>m \<in> set ms. set (json_targets m))"
  "dom (sp_blobs (fold (spec_mutation env b) ms s)) \<subseteq> dom (sp_blobs s) \<union> (\<Union>m \<in> set ms. set (blob_targets m))"
proof (induction ms arbitrary: s)
  case (Cons m ms)
  {
    case 1
    show ?case using Cons(1) [of "spec_mutation env b m s"] spec_mutation_dom(1) [of env b m s] by auto
  next
    case 2
    show ?case using Cons(2) [of "spec_mutation env b m s"] spec_mutation_dom(2) [of env b m s] by auto
  }
qed auto

lemma spec_transaction_dom:
  assumes "read_set_covers req"
  shows "dom (sp_json (spec_transaction env req sp)) \<subseteq> dom (sp_json sp) \<union> dom (btree_get (rs_json (tr_read_set req)))"
    and "dom (sp_blobs (spec_transaction env req sp)) \<subseteq> dom (sp_blobs sp) \<union> dom (btree_get (rs_blobs (tr_read_set req)))"
  using fold_spec_dom [of env sp "tr_mutations req" sp] assms
  unfolding read_set_covers_def spec_transaction_def contains_dom by blast+

lemma file_script_outcome:
  assumes holds: "file_holds env eng js bs sp s" and adm: "file_admissible renv env h eng js bs t s"
    and script: "file_script renv env h eng t s = (au', x)"
  shows "spec_outcome env eng sp (file_meaning h t sp) (snd s) x"
    and "dom (sp_json (file_meaning h t sp)) \<subseteq> js" and "dom (sp_blobs (file_meaning h t sp)) \<subseteq> bs"
proof -
  obtain au fs where s: "s = (au, fs)" by force
  have ok: "codecs_ok env" and d: "dom (sp_json sp) \<subseteq> js" "dom (sp_blobs sp) \<subseteq> bs"
    using holds by (simp_all add: file_holds_def)
  obtain st where st: "spec_of st = sp" "contents env eng st fs" using holds by (auto simp: file_holds_def represents_def s)
  have within: "request_within js bs t" and fits: "journal_fits eng (fst x)"
    using adm script by (simp_all add: file_admissible_def)
  show "spec_outcome env eng sp (file_meaning h t sp) (snd s) x"
  proof (cases t)
    case (CommitCall inputs req a)
    have cov: "read_set_covers req" and sub: "dom (btree_get (rs_json (tr_read_set req))) \<subseteq> js"
      "dom (btree_get (rs_blobs (tr_read_set req))) \<subseteq> bs"
      using within CommitCall by (simp_all add: request_within_def)
    have "dom (btree_get (ms_json st)) \<subseteq> js" "dom (btree_get (ms_blobs st)) \<subseteq> bs"
      using d st(1) by (auto simp: spec_of_def)
    then have pd: "places_disjoint eng (tr_read_set req) st"
      using holds sub unfolding places_disjoint_def file_holds_def by (blast intro: collision_free_mono)
    obtain y where y: "file_commit_transaction_admitted renv env h eng inputs req a au fs = (au', y)"
      "x = script_then y (\<lambda>_. compute (Ok ()))"
      using script by (auto simp: CommitCall s split: prod.splits)
    have "journal_fits eng (fst y)" using fits y(2) by (cases y; cases "snd y") auto
    from file_commit_outcome [OF ok st(2) cov pd y(1) this]
    show ?thesis unfolding CommitCall y(2) file_meaning.simps s snd_conv st(1) by (rule spec_outcome_then_value)
  next
    case RecoverCall
    obtain ops where ops: "recover_transaction_if_needed env eng fs = emit ops" "settled env eng st (run_ops ops fs)"
      "\<And>fs'. fs' \<in> set (crash_states ops fs) \<Longrightarrow> contents env eng st fs'"
      using recover_contents [OF ok st(2)] by metis
    have "x = emit ops" using script ops(1) by (simp add: RecoverCall s)
    then show ?thesis
      using ops(2,3) st(1) by (auto simp: RecoverCall s spec_outcome_def represents_def represents_settled_def)
  qed
  have "dom (sp_json (file_meaning h t sp)) \<subseteq> js \<and> dom (sp_blobs (file_meaning h t sp)) \<subseteq> bs"
  proof (cases t)
    case (CommitCall inputs req a)
    then have "read_set_covers req" "dom (btree_get (rs_json (tr_read_set req))) \<subseteq> js"
      "dom (btree_get (rs_blobs (tr_read_set req))) \<subseteq> bs"
      using within by (simp_all add: request_within_def)
    then show ?thesis
      unfolding CommitCall file_meaning.simps using spec_transaction_dom [of req "h_store_env h" sp] d by blast
  next
    case RecoverCall
    then show ?thesis using d by simp
  qed
  then show "dom (sp_json (file_meaning h t sp)) \<subseteq> js" "dom (sp_blobs (file_meaning h t sp)) \<subseteq> bs" by blast+
qed

lemma represents_settledD: "represents_settled env eng sp fs \<Longrightarrow> represents env eng sp fs"
  unfolding represents_settled_def represents_def using settled_contents by blast

interpretation fl: crash_safe_store "file_run renv env h eng" "file_cuts renv env h eng" "file_admissible renv env h eng js bs"
  "file_holds env eng js bs" "file_meaning h"
proof
  show "file_holds env eng js bs (file_meaning h t b) s'"
    if asm: "file_holds env eng js bs b s" "file_admissible renv env h eng js bs t s" "file_run renv env h eng t s = (s', Inr r)"
    for b s t s' r
  proof -
    obtain au' ops where x: "file_script renv env h eng t s = (au', (ops, Inr r))" "s' = (au', run_ops ops (snd s))"
      using asm(3) by (auto simp: file_run_def split: prod.splits)
    show ?thesis
      using file_script_outcome [OF asm(1,2) x(1)] asm(1) represents_settledD by (auto simp: file_holds_def spec_outcome_def x(2))
  qed
  show "file_holds env eng js bs b s'"
    if asm: "file_holds env eng js bs b s" "file_admissible renv env h eng js bs t s" "file_run renv env h eng t s = (s', Inl e)"
    for b s t s' e
  proof -
    obtain au' ops where x: "file_script renv env h eng t s = (au', (ops, Inl e))" "s' = (au', run_ops ops (snd s))"
      using asm(3) by (auto simp: file_run_def split: prod.splits)
    show ?thesis using file_script_outcome [OF asm(1,2) x(1)] asm(1) by (auto simp: file_holds_def spec_outcome_def x(2))
  qed
  show "file_holds env eng js bs b s' \<or> file_holds env eng js bs (file_meaning h t b) s'"
    if asm: "file_holds env eng js bs b s" "file_admissible renv env h eng js bs t s" "s' \<in> set (file_cuts renv env h eng t s)"
    for b s t s'
  proof -
    obtain au' ops r where x1: "file_script renv env h eng t s = (au', (ops, r))" by (metis prod.exhaust)
    then obtain fs' where x: "file_script renv env h eng t s = (au', (ops, r))" "fs' \<in> set (crash_states ops (snd s))" "s' = (au', fs')"
      using asm(3) by (auto simp: file_cuts_def)
    show ?thesis using file_script_outcome [OF asm(1,2) x(1)] asm(1) x(2) by (auto simp: file_holds_def spec_outcome_def x(3))
  qed
qed

end
