(* ===== verification/File_Equivalence.thy ===== *)
theory File_Equivalence
  imports File_Listing File_Atomicity
begin

text \<open>
  The two store engines agree: a transaction that the file-backed store commits is committed
  by the in-memory store with the same contents, with the same report, and the files hold
  afterwards what the in-memory store holds. The file-backed store may refuse more, since its
  reads have limits of their own.
\<close>

section \<open>The closure of the read set\<close>

declare dependency_loop.simps [simp del]

text \<open>A reader that fails less often gives the same closure.\<close>

lemma dependency_loop_reader:
  assumes "dependency_loop h capacity rd visited pending b json = Inr json'"
    and "\<And>ns k n r. rd ns k n = Inr r \<Longrightarrow> rd' ns k n = Inr r"
  shows "dependency_loop h capacity rd' visited pending b json = Inr json'"
  using assms(1)
proof (induction h\<equiv>h capacity\<equiv>capacity rd\<equiv>rd visited pending b json rule: dependency_loop.induct)
  case (1 visited pending b json)
  show ?case
  proof (cases "pop_first pending")
    case None
    then show ?thesis using 1(4) by (simp add: dependency_loop.simps)
  next
    case (Some ap)
    obtain a pending' where pop: "pop_first pending = Some (a, pending')" using Some by (cases ap) simp
    show ?thesis
    proof (cases "btree_contains visited a")
      case True
      then have "dependency_loop h capacity rd visited pending' b json = Inr json'"
        using 1(4) pop by (simp add: dependency_loop.simps [of h capacity rd visited pending])
      from 1(1) [OF pop refl True this] show ?thesis
        using pop True by (simp add: dependency_loop.simps [of h capacity rd' visited pending])
    next
      case False
      note visit = dependency_loop_visit [OF 1(4) pop False]
      let ?v = "btset_insert a visited" and ?n = "cap_snapshot_max_bytes capacity - b"
      have guard: "\<not> (cap_kv_max_entries capacity < btree_len ?v \<or> cap_snapshot_max_bytes capacity < b)"
        and key: "enforce_logical_key_budget capacity (fst a) (snd a) ''memory_write_transaction'' = Inr ()"
        using visit by blast+
      consider (none) "rd (fst a) (snd a) ?n = Inr None" "dependency_loop h capacity rd ?v pending' b json = Inr json'"
        | (found) v b' pending'' where "rd (fst a) (snd a) ?n = Inr (Some v)"
          "and_then (serialized_json_len (h_store_env h) v) (\<lambda>n.
                 ok_or (store_budget_error ''Soul dependency read bytes overflow'') (checked_add b n)) = Inr b'"
          "\<not> cap_snapshot_max_bytes capacity < b'" "enqueue_dependencies h capacity ?v (fst a) v pending' = Inr pending''"
          "dependency_loop h capacity rd ?v pending'' b' (btree_insert a v json) = Inr json'"
        using visit by blast
      then show ?thesis
      proof cases
        case none
        from 1(2) [OF pop refl False refl guard key none(1) refl none(2)] assms(2) [OF none(1)]
        show ?thesis
          unfolding dependency_loop.simps [of h capacity rd' visited pending]
          using pop False guard key by (simp add: Let_def)
      next
        case (found v b' pending'')
        from 1(3) [OF pop refl False refl guard key found(1) refl found(2,3,4,5)] assms(2) [OF found(1)]
        show ?thesis
          unfolding dependency_loop.simps [of h capacity rd' visited pending]
          using pop False guard key found(2,3,4) by (simp add: Let_def)
      qed
    qed
  qed
qed

lemma expand_reader:
  assumes "expand_owner_transaction_dependencies h req capacity t rd = Inr t'" and "ts_json t = ts_json u"
    and "\<And>ns k n r. rd ns k n = Inr r \<Longrightarrow> rd' ns k n = Inr r"
  shows "expand_owner_transaction_dependencies h req capacity u rd' = Inr (u\<lparr>ts_json := ts_json t'\<rparr>)"
proof -
  have loop: "dependency_loop h capacity rd v p b j = Inr j' \<Longrightarrow> dependency_loop h capacity rd' v p b j = Inr j'" for v p b j j'
    using dependency_loop_reader assms(3) by metis
  show ?thesis
    using assms(1) loop unfolding expand_owner_transaction_dependencies_def Let_def assms(2) by (auto simp: result_simps)
qed

section \<open>What the in-memory store reads\<close>

lemma loaded_selected: "loaded (btree_get m) (dom (btree_get as)) (select_addresses as m)"
  unfolding loaded_def get_select_addresses contains_dom by blast

lemma loaded_prefix:
  assumes "loaded (btree_get m) as sel"
  shows "loaded (btree_get m) (prefix_addresses p (keys_at (btree_get m) (fst p)) \<union> as) (add_prefix m p sel)"
  unfolding loaded_def
proof
  fix a
  let ?es = "filter (\<lambda>e. fst (fst e) = fst p \<and> starts_with (snd (fst e)) (snd p)) (entries m)"
  have in_p: "a \<in> prefix_addresses p (keys_at (btree_get m) (fst p)) \<longleftrightarrow>
      fst a = fst p \<and> starts_with (snd a) (snd p) \<and> btree_get m a \<noteq> None"
    by (cases a) (auto simp: prefix_addresses_def keys_at_def)
  have get: "map_of (rev ?es) a = (if fst a = fst p \<and> starts_with (snd a) (snd p) then btree_get m a else None)"
  proof -
    have "distinct (map fst ?es)" using entries_distinct [of m] by (simp add: distinct_map_filter)
    then have "map_of (rev ?es) = map_of ?es" by (subst map_of_inject_set) (simp_all add: rev_map [symmetric])
    then show ?thesis
      by (simp add: map_of_filter_key entries_distinct btree_get_def split: Option.bind_splits)
  qed
  show "btree_get (add_prefix m p sel) a =
     (if a \<in> prefix_addresses p (keys_at (btree_get m) (fst p)) \<union> as then btree_get m a else None)"
  proof -
    have sel: "btree_get sel a = (if a \<in> as then btree_get m a else None)" using assms unfolding loaded_def by blast
    show ?thesis
      unfolding add_prefix_def get_inserts map_add_def get sel Un_iff in_p by (auto split: option.splits)
  qed
qed

lemma loaded_prefixes:
  "loaded (btree_get m) as sel \<Longrightarrow>
   loaded (btree_get m) ((\<Union>p \<in> set ps. prefix_addresses p (keys_at (btree_get m) (fst p))) \<union> as) (fold (add_prefix m) ps sel)"
proof (induction ps arbitrary: as sel)
  case (Cons p ps)
  from Cons.IH [OF loaded_prefix [OF Cons.prems]] show ?case by (simp add: Un_left_commute Un_assoc)
qed simp

section \<open>The context of a commit\<close>

text \<open>The identities of the log are those of its events.\<close>

definition ids_of_log :: "'v mem_state \<Rightarrow> bool" where
  "ids_of_log st \<longleftrightarrow> (\<forall>i. btree_contains (ms_event_ids st) i \<longleftrightarrow> i \<in> set (map event_id (ms_events st)))"

lemma saturated_sum: "saturating_add (min a usize_max) (min b usize_max) = saturating_add a b"
  by (simp add: saturating_add_def min_def)

lemma btset_eqI: "(\<And>k. btree_contains a k \<longleftrightarrow> btree_contains b k) \<Longrightarrow> a = (b :: 'k::linorder btset)"
proof (rule btree_ext, rule ext)
  fix k assume "\<And>k. btree_contains a k \<longleftrightarrow> btree_contains b k"
  from this [of k] have "btree_get a k = None \<longleftrightarrow> btree_get b k = None" unfolding btree_contains_def by blast
  then show "btree_get a k = btree_get b k" by (cases "btree_get a k"; cases "btree_get b k") auto
qed

lemma event_usage_exact:
  assumes ok: "codecs_ok env" and log: "log_holds env (content fs events_path) (ms_events st)" and ids: "ids_of_log st"
    and us: "transaction_event_usage env fs req capacity = Inr (ec, seen, n)"
  shows "ec = length (ms_events st)" and "seen = existing_event_ids req st"
proof -
  from us obtain events where ev: "read_events_jsonl_bounded env fs capacity (cap_snapshot_max_bytes capacity)
      ''memory_write_transaction'' = Inr events"
    and res: "ec = length events" "seen = btset_of_list (filter (btree_contains (btset_of_list
        (List.map_filter mutation_event_id (tr_mutations req)))) (map event_id events))"
    unfolding transaction_event_usage_def Let_def and_then_eq_Ok by auto
  have events: "events = ms_events st" by (rule read_events_exact [OF log ok ev])
  then show "ec = length (ms_events st)" using res by simp
  show "seen = existing_event_ids req st"
    by (rule btset_eqI) (use ids in \<open>auto simp: res(2) events existing_event_ids_def ids_of_log_def\<close>)
qed

lemma load_context_is_memory:
  assumes ok: "codecs_ok env" and d: "disk_repr env eng st fs" and ids: "ids_of_log st"
    and tk: "text_keys (btree_get (ms_json st))" "text_keys (btree_get (ms_blobs st))"
    and load: "load_transaction_context env h eng fs req capacity = Inr (cx, n)"
  obtains t where "expand_owner_transaction_dependencies h req capacity (touched_state (tr_read_set req) st)
      (\<lambda>ns k _. Ok (btree_get (ms_json st) (ns, k))) = Inr t" "cx = commit_context req t st"
proof -
  let ?rs = "tr_read_set req" and ?m = "btree_get (ms_json st)"
  have jl: "json_lane env eng {} (ms_json st) fs" and bl: "blob_lane env eng {} (ms_blobs st) fs"
    and log: "log_holds env (content fs events_path) (ms_events st)"
    using d by (simp_all add: disk_repr_def)
  from load_context_anatomy [OF load] obtain s s' t b ec seen jn bn bb where
    s: "try_fold (\<lambda>a. load_json env eng fs capacity (fst a) (snd a)) (btree_keys (rs_json ?rs)) (btree_empty, 0) = Inr s"
    and s': "try_fold (load_prefix env eng fs capacity) (btree_keys (rs_json_prefixes ?rs)) s = Inr s'"
    and t: "expand_owner_transaction_dependencies h req capacity
         \<lparr> ts_json = fst s', ts_blobs = btree_empty, ts_events = [] \<rparr>
         (\<lambda>namespace key remaining. and_then (get_json_value_unlocked_bounded env eng fs namespace key remaining) (\<lambda>found.
            Ok (map_option fst found))) = Inr t"
    and b: "try_fold (load_blob env eng fs capacity) (btree_keys (rs_blobs ?rs)) (btree_empty, 0) = Inr b"
    and us: "transaction_event_usage env fs req capacity = Inr (ec, seen, n)"
    and counts: "json_entry_count env eng fs = Inr jn" "blob_entry_count env eng fs = Inr bn" "blob_total_bytes env eng fs = Inr bb"
    and cx: "cx = \<lparr> cx_touched = t\<lparr>ts_blobs := fst b\<rparr>,
           cx_usage = \<lparr> us_kv_entries = saturating_add jn bn, us_blob_bytes = bb, us_event_count = ec \<rparr>,
           cx_existing_event_ids = seen \<rparr>"
    by (elim exE conjE) (rule that, assumption+)
  have "loaded ?m (dom (btree_get (rs_json ?rs))) (fst s)"
    using load_jsons_exact [OF ok jl _ s, of "{}"] by (simp add: loaded_empty set_keys)
  from load_prefixes_exact [OF ok jl this s'] obtain keys where
    keys: "\<forall>np \<in> set (btree_keys (rs_json_prefixes ?rs)). list_json_keys_unlocked env eng fs (fst np) = Inr (keys (fst np))"
    and l: "loaded ?m ((\<Union>np \<in> set (btree_keys (rs_json_prefixes ?rs)). prefix_addresses np (set (keys (fst np))))
        \<union> dom (btree_get (rs_json ?rs))) (fst s')" by blast
  have "set (keys (fst np)) = keys_at ?m (fst np)" if "np \<in> set (btree_keys (rs_json_prefixes ?rs))" for np
    using keys that list_keys_exact(1) [OF ok jl lanes(1) tk(1)] by (auto simp: list_json_keys_unlocked_def result_simps)
  then have "loaded ?m ((\<Union>np \<in> set (btree_keys (rs_json_prefixes ?rs)). prefix_addresses np (keys_at ?m (fst np)))
        \<union> dom (btree_get (rs_json ?rs))) (fst s')" using l by (simp cong: SUP_cong)
  from loaded_unique [OF this loaded_prefixes [OF loaded_selected]]
  have json: "fst s' = ts_json (touched_state ?rs st)" by (simp add: touched_state_def)
  have "loaded (btree_get (ms_blobs st)) (dom (btree_get (rs_blobs ?rs))) (fst b)"
    using load_blobs_exact [OF ok bl _ b, of "{}"] by (simp add: loaded_empty set_keys)
  from loaded_unique [OF this loaded_selected] have blobs: "fst b = ts_blobs (touched_state ?rs st)"
    by (simp add: touched_state_def)
  have ex: "expand_owner_transaction_dependencies h req capacity (touched_state ?rs st)
      (\<lambda>ns k _. Ok (btree_get (ms_json st) (ns, k))) = Inr ((touched_state ?rs st)\<lparr>ts_json := ts_json t\<rparr>)"
  proof (rule expand_reader [OF t])
    show "Ok (btree_get (ms_json st) (ns, k)) = Inr r"
      if "and_then (get_json_value_unlocked_bounded env eng fs ns k m) (\<lambda>found. Ok (map_option fst found)) = Inr r" for ns k m r
      using that get_json_bounded_exact [OF ok jl] by (auto simp: result_simps)
  qed (simp add: json)
  have "ts_events t = []"
    using t unfolding expand_owner_transaction_dependencies_def Let_def by (auto simp: result_simps)
  then have "t\<lparr>ts_blobs := fst b\<rparr> = (touched_state ?rs st)\<lparr>ts_json := ts_json t\<rparr>"
    by (cases t) (simp add: blobs touched_state_def)
  moreover have "saturating_add jn bn = saturating_add (btree_len (ms_json st)) (btree_len (ms_blobs st))"
    using json_count_exact [OF ok jl tk(1) counts(1)] blob_count_exact [OF ok bl tk(2) counts(2)] saturated_sum by simp
  moreover note event_usage_exact [OF ok log ids us] blob_total_exact [OF ok bl tk(2) counts(3)]
  ultimately show thesis
    using that [OF ex] by (simp add: cx commit_context_def usage_of_def)
qed

section \<open>Agreement of the engines\<close>

lemma file_commit_Ok:
  assumes ok: "codecs_ok env" and c: "contents env eng st fs"
    and run: "file_commit_transaction_admitted renv env h eng inputs req adm au fs = (au', (ops, Inr rep))"
  obtains rops cx n plan j wops where
    "settled env eng st (run_ops rops fs)"
    "validate_inside_engine_fence renv adm (fl_capacity eng) (fl_admission_authority eng) inputs au = (au', Inr ())"
    "load_transaction_context env h eng (run_ops rops fs) req (am_operation_capacity adm) = Inr (cx, n)"
    "apply_transaction h adm req cx = Inr plan" "journal_plan env req cx n plan = Inr j"
    "write_plan env eng j = emit wops" "ops = rops @ wops" "rep = pn_report plan"
proof -
  obtain rops where r: "recover_transaction_if_needed env eng fs = emit rops" "settled env eng st (run_ops rops fs)"
    using recover_contents [OF ok c] by metis
  obtain au'' where f: "validate_inside_engine_fence renv adm (fl_capacity eng) (fl_admission_authority eng) inputs au = (au'', Inr ())"
    and s: "au'' = au'" "script_then (rops, Ok ()) (\<lambda>_. commit_admitted_plan env h eng req adm (run_ops rops fs)) = (ops, Inr rep)"
    using run by (auto simp: file_commit_transaction_admitted_def r(1) split: prod.splits sum.splits)
  then obtain wops' where w: "commit_admitted_plan env h eng req adm (run_ops rops fs) = (wops', Inr rep)" "ops = rops @ wops'"
    by (cases "commit_admitted_plan env h eng req adm (run_ops rops fs)") auto
  show thesis
    using that [OF r(2) f [unfolded s(1)]] w
    by (auto simp: commit_admitted_plan_def script_then_eq_Ok)
qed

lemma file_commit_memory:
  assumes ok: "codecs_ok env" and c: "contents env eng st fs" and cov: "read_set_covers req"
    and pd: "places_disjoint eng (tr_read_set req) st" and ids: "ids_of_log st"
    and tk: "text_keys (btree_get (ms_json st))" "text_keys (btree_get (ms_blobs st))"
    and run: "file_commit_transaction_admitted renv env h eng inputs req adm au fs = (au', (ops, Inr rep))"
    and fits: "journal_fits eng ops"
  shows "\<exists>en'. commit_transaction_admitted renv h inputs req adm
       (au, \<lparr> en_capacity = fl_capacity eng, en_admission_authority = fl_admission_authority eng, en_state = st \<rparr>)
         = ((au', en'), Inr rep) \<and> settled env eng (en_state en') (run_ops ops fs)"
proof -
  let ?en = "\<lparr> en_capacity = fl_capacity eng, en_admission_authority = fl_admission_authority eng, en_state = st \<rparr>"
  obtain rops cx n plan j wops where a: "settled env eng st (run_ops rops fs)"
    "validate_inside_engine_fence renv adm (fl_capacity eng) (fl_admission_authority eng) inputs au = (au', Inr ())"
    "load_transaction_context env h eng (run_ops rops fs) req (am_operation_capacity adm) = Inr (cx, n)"
    "apply_transaction h adm req cx = Inr plan" "journal_plan env req cx n plan = Inr j"
    "write_plan env eng j = emit wops" "ops = rops @ wops" "rep = pn_report plan"
    using file_commit_Ok [OF ok c run] by metis
  have d: "disk_repr env eng st (run_ops rops fs)" using a(1) by (simp add: settled_def)
  obtain t where t: "expand_owner_transaction_dependencies h req (am_operation_capacity adm) (touched_state (tr_read_set req) st)
      (\<lambda>ns k _. Ok (btree_get (ms_json st) (ns, k))) = Inr t" "cx = commit_context req t st"
    using load_context_is_memory [OF ok d ids tk a(3)] by metis
  have plan: "plan_commit h adm req st = Inr plan"
    using a(4) t by (simp add: plan_commit_def commit_context_def)
  then obtain t' mss s where p: "planned h adm req st t' mss s plan" by (rule plan_commit_Ok)
  have "commit_transaction_admitted renv h inputs req adm (au, ?en) = ((au', ?en\<lparr>en_state := next_state plan st\<rparr>), Inr rep)"
    using a(2,8) plan planned_writes(1) [OF p] by (simp add: commit_transaction_admitted_def next_state_def)
  moreover have "atomic_outcome env eng st (next_state plan st) (run_ops rops fs) (write_plan env eng j)"
    using write_plan_atomic [OF ok a(1) plan_journal_between [OF ok d cov pd a(3-5)]] fits a(6,7) by simp
  ultimately show ?thesis using a(6,7) by (simp add: atomic_outcome_def)
qed


end
