(* ===== verification/File_Places.thy ===== *)
theory File_Places
  imports File_Layout
begin

text \<open>
  Which keys have a place in the files: the digest always is a sequence of hexadecimal
  digits of the configured length, so the only parts of a path a caller influences are the
  namespace and the limits on both.
\<close>

section \<open>Characters of a digest\<close>

definition hex_chars :: "char set" where
  "hex_chars = {c. from_hex_digit c \<noteq> None}"

lemma hex_digit_chars: "n < 16 \<Longrightarrow> hex_digit n \<in> hex_chars"
  using hex_digit_inverse [of n] by (simp add: hex_chars_def del: hex_digit.simps)

lemma hex16_chars: "set (hex16 n) \<subseteq> hex_chars"
  by (auto simp: hex16_def simp del: hex_digit.simps intro!: hex_digit_chars)

lemma digest_chars: "set (physical_key_digest lane ns k n) \<subseteq> hex_chars"
  using hex16_chars by (auto simp: physical_key_digest_def Let_def dest!: in_set_takeD)

section \<open>Well-formed components\<close>

definition plain_component :: "usize \<Rightarrow> string \<Rightarrow> bool" where
  "plain_component n s \<longleftrightarrow> s \<noteq> [] \<and> CHR ''/'' \<notin> set s \<and> char_of (92 :: nat) \<notin> set s \<and> length s \<le> n"

lemma directory_Ok: "validate_directory_component eng s stage = Inr u \<longleftrightarrow> plain_component (max_directory_name_bytes (fl_path_budget eng)) s"
  by (auto simp: validate_directory_component_def plain_component_def)

lemma file_name_Ok: "validate_file_name eng s stage = Inr u \<longleftrightarrow> plain_component (max_file_name_bytes (fl_path_budget eng)) s"
  by (auto simp: validate_file_name_def plain_component_def)

lemma relative_Ok: "validate_relative_path eng s stage = Inr u \<longleftrightarrow> length s \<le> max_relative_path_bytes (fl_path_budget eng)"
  by (auto simp: validate_relative_path_def)

lemma no_separator_hex: "CHR ''/'' \<notin> hex_chars" "char_of (92 :: nat) \<notin> hex_chars"
  by (simp_all add: hex_chars_def from_hex_digit_def Let_def)

lemma digest_plain:
  assumes "CHR ''/'' \<notin> set ext" "char_of (92 :: nat) \<notin> set ext"
    and "length (physical_key_digest lane ns k m) + 1 + length ext \<le> n"
  shows "plain_component n (physical_key_digest lane ns k m @ CHR ''.'' # ext)"
proof -
  have "c \<noteq> CHR ''/''" "c \<noteq> char_of (92 :: nat)" if "c \<in> set (physical_key_digest lane ns k m)" for c
    using that digest_chars no_separator_hex by blast+
  then show ?thesis using assms by (auto simp: plain_component_def char_of_def)
qed

lemma shard_plain:
  assumes "2 \<le> m" "2 \<le> n"
  shows "plain_component n (take 2 (physical_key_digest lane ns k m))"
proof -
  have "c \<noteq> CHR ''/''" "c \<noteq> char_of (92 :: nat)" if "c \<in> set (take 2 (physical_key_digest lane ns k m))" for c
    using in_set_takeD [OF that] digest_chars no_separator_hex by blast+
  moreover have "take 2 (physical_key_digest lane ns k m) \<noteq> []"
    using assms(1) digest_length [of lane ns k m] by (cases "physical_key_digest lane ns k m") auto
  ultimately show ?thesis using assms(2) by (auto simp: plain_component_def)
qed

lemma slash_join_length:
  "length (slash_join [a, b, c, d, e]) = length a + length b + length c + length d + length e + 4"
  by (simp add: slash_join_def upt_rec)

text \<open>A path budget with room for the digest and the directories of the store.\<close>

definition roomy :: "store_path_budget \<Rightarrow> bool" where
  "roomy b \<longleftrightarrow> 16 \<le> physical_key_digest_hex_chars b \<and> physical_key_digest_hex_chars b \<le> 32 \<and>
     physical_key_digest_hex_chars b + 5 \<le> max_file_name_bytes b \<and> 5 \<le> max_directory_name_bytes b \<and>
     physical_key_digest_hex_chars b + max_directory_name_bytes b + 22 \<le> max_relative_path_bytes b"

lemma default_roomy: "roomy (default_path_budget pr)"
  by (cases pr) (simp_all add: roomy_def path_esp_compact_def path_linux_device_def path_desktop_macos_def
      path_desktop_linux_def path_desktop_windows_def path_server_linux_def)

lemma paths_exist_room:
  assumes lane: "store_lane lane ext"
    and bounds: "16 \<le> physical_key_digest_hex_chars (fl_path_budget eng)" "physical_key_digest_hex_chars (fl_path_budget eng) \<le> 32"
      "physical_key_digest_hex_chars (fl_path_budget eng) + 5 \<le> max_file_name_bytes (fl_path_budget eng)"
      "5 \<le> max_directory_name_bytes (fl_path_budget eng)"
    and ns: "plain_component (max_directory_name_bytes (fl_path_budget eng)) ns"
    and room: "length lane + length ns + physical_key_digest_hex_chars (fl_path_budget eng) + 16
      \<le> max_relative_path_bytes (fl_path_budget eng)"
    and key: "enforce_logical_key_budget (fl_capacity eng) ns k ''file_store_addressing'' = Inr ()"
  obtains p where "physical_key_paths_at_root eng lane ns k ext = Inr p"
proof -
  let ?b = "fl_path_budget eng"
  let ?d = "physical_key_digest lane ns k (physical_key_digest_hex_chars ?b)"
  have len: "length ?d = physical_key_digest_hex_chars ?b" using bounds by simp
  have ext: "length ext \<le> 4" "CHR ''/'' \<notin> set ext" "char_of (92 :: nat) \<notin> set ext"
    using lane by (auto simp: store_lane_def char_of_def)
  have n: "plain_component (max_directory_name_bytes ?b) lane" "plain_component (max_directory_name_bytes ?b) ''_v2''"
    "plain_component (max_directory_name_bytes ?b) ''_keys''" "plain_component (max_directory_name_bytes ?b) (take 2 ?d)"
    "plain_component (max_file_name_bytes ?b) (?d @ CHR ''.'' # ext)" "plain_component (max_file_name_bytes ?b) (?d @ ''.json'')"
    using bounds lane ext(1,2,3) shard_plain [of "physical_key_digest_hex_chars ?b" "max_directory_name_bytes ?b" lane ns k]
      digest_plain [of ext lane ns k "physical_key_digest_hex_chars ?b" "max_file_name_bytes ?b"]
      digest_plain [of "''json''" lane ns k "physical_key_digest_hex_chars ?b" "max_file_name_bytes ?b"]
    by (auto simp: plain_component_def store_lane_def len char_of_def)
  have rel: "length (slash_join [lane, ns, ''_v2'', take 2 ?d, ?d @ CHR ''.'' # ext]) \<le> max_relative_path_bytes ?b"
    "length (slash_join [lane, ns, ''_keys'', take 2 ?d, ?d @ ''.json'']) \<le> max_relative_path_bytes ?b"
    using bounds room ext len unfolding slash_join_length by simp_all
  have "validate_addressing_budget eng ext ''file_store_addressing'' = Inr ()"
    using bounds ext(1) by (simp add: validate_addressing_budget_def Let_def MIN_PHYSICAL_DIGEST_HEX_CHARS_def
        MAX_PHYSICAL_DIGEST_HEX_CHARS_def)
  then show thesis
    using that key directory_Ok [THEN iffD2, OF ns] n(1-4) [THEN directory_Ok [THEN iffD2]]
      n(5,6) [THEN file_name_Ok [THEN iffD2]] rel [THEN relative_Ok [THEN iffD2]]
    by (simp add: physical_key_paths_at_root_def Let_def FILE_ADDRESSING_DATA_DIR_def FILE_ADDRESSING_INDEX_DIR_def)
qed

lemma paths_exist:
  assumes b: "roomy (fl_path_budget eng)" and lane: "store_lane lane ext"
    and ns: "plain_component (max_directory_name_bytes (fl_path_budget eng)) ns"
    and key: "enforce_logical_key_budget (fl_capacity eng) ns k ''file_store_addressing'' = Inr ()"
  obtains p where "physical_key_paths_at_root eng lane ns k ext = Inr p"
proof -
  have "length lane \<le> 4" "length ns \<le> max_directory_name_bytes (fl_path_budget eng)"
    using lane ns by (auto simp: store_lane_def plain_component_def)
  with b have "16 \<le> physical_key_digest_hex_chars (fl_path_budget eng)" "physical_key_digest_hex_chars (fl_path_budget eng) \<le> 32"
    "physical_key_digest_hex_chars (fl_path_budget eng) + 5 \<le> max_file_name_bytes (fl_path_budget eng)"
    "5 \<le> max_directory_name_bytes (fl_path_budget eng)"
    "length lane + length ns + physical_key_digest_hex_chars (fl_path_budget eng) + 16 \<le> max_relative_path_bytes (fl_path_budget eng)"
    by (simp_all add: roomy_def)
  from paths_exist_room [OF lane this(1-4) ns this(5) key] show thesis using that by blast
qed

end
