(* ===== verification/File_Samples.thy ===== *)
theory File_Samples
  imports File_Equivalence File_Places Store_Guarantees
begin

text \<open>
  A small file-backed store for the examples: documents are strings and print as themselves,
  a key index prints its version in unary, one event has a printed form, and the journals of
  one transaction print as one letter each.
\<close>

section \<open>Codecs\<close>

definition small_event :: store_event where
  "small_event = store_event_new ''e1'' MemoryDelete (event_scope_system ''s'') 5"

definition small_store_env :: "string store_env" where
  "small_store_env = sample_store_env\<lparr>se_event_json := (\<lambda>ev. if ev = small_event then Inr ''event'' else Inl ''unknown event'')\<rparr>"

definition small_hooks :: "(string, unit, unit) tx_hooks" where
  "small_hooks = sample_hooks\<lparr>h_store_env := small_store_env\<rparr>"

definition print_index :: "key_index \<Rightarrow> bytes" where
  "print_index i = replicate (ki_addressing_version i) (CHR ''v'') @ CHR '':'' # ki_key i"

definition parse_index :: "bytes \<Rightarrow> key_index" where
  "parse_index bs = \<lparr> ki_addressing_version = length (takeWhile (\<lambda>c. c = CHR ''v'') bs),
     ki_key = drop 1 (dropWhile (\<lambda>c. c = CHR ''v'') bs) \<rparr>"

text \<open>The codecs, with the two journals that have a printed form.\<close>

definition small_env :: "string transaction_journal result \<Rightarrow> string transaction_journal result \<Rightarrow> string file_env" where
  "small_env jp jc =
     \<lparr> fe_store = small_store_env, fe_pretty_json = Inr, fe_parse_json = Inr,
       fe_pretty_index = (\<lambda>i. Inr (print_index i)), fe_parse_index = (\<lambda>bs. Inr (parse_index bs)),
       fe_parse_event = (\<lambda>bs. if bs = ''event'' then Inr small_event else Inl ''unknown event''),
       fe_journal_json = (\<lambda>j. if jp = Ok j then Inr ''P'' else if jc = Ok j then Inr ''C'' else Inl ''unknown journal''),
       fe_checksum_json = (\<lambda>_ _ _ _ _. Inr ''sum''),
       fe_parse_journal = (\<lambda>bs. case (if bs = ''P'' then jp else jc) of Inl _ \<Rightarrow> Inl ''unknown journal'' | Inr j \<Rightarrow> Inr j),
       fe_object_fields = (\<lambda>_. None), fe_fault = (\<lambda>_. None) \<rparr>"

lemma parse_print_index: "parse_index (print_index i) = i"
  by (cases i) (simp add: parse_index_def print_index_def takeWhile_append dropWhile_append)

lemma small_codecs: "codecs_ok (small_env p c)"
  unfolding codecs_ok_def
proof (intro conjI allI impI)
  show "\<exists>bs. fe_pretty_index (small_env p c) i = Inr bs \<and> fe_parse_index (small_env p c) bs = Inr i" for i
    by (simp add: small_env_def parse_print_index)
  fix ev bs assume "se_event_json (fe_store (small_env p c)) ev = Inr bs"
  then have "ev = small_event" "bs = ''event''"
    by (auto simp: small_env_def small_store_env_def split: if_splits)
  then show "newline \<notin> set bs" "\<not> list_all ascii_whitespace bs" "fe_parse_event (small_env p c) bs = Inr ev"
    by (simp_all add: small_env_def newline_def ascii_whitespace_def char_of_def)
next
  fix j bs assume "fe_journal_json (small_env p c) j = Inr bs"
  then show "fe_parse_journal (small_env p c) bs = Inr j"
    by (auto simp: small_env_def split: if_splits)
qed (simp_all add: small_env_def)

section \<open>A transaction\<close>

definition small_engine :: file_engine where
  "small_engine = \<lparr> fl_fsync = True, fl_capacity = capacity_full, fl_path_budget = path_linux_device, fl_admission_authority = 7 \<rparr>"

definition small_request :: "(string, unit) transaction_request" where
  "small_request = request_new ''tx1'' [Absent ''docs'' ''b'']
     [PutJson ''docs'' ''b'' ''three'', PutBlob ''blobs'' ''x'' ''bytes'', AppendEvent small_event] None"

definition small_journal :: "string transaction_journal result" where
  "small_journal =
     and_then (load_transaction_context (small_env (Inl (Io [] [])) (Inl (Io [] []))) small_hooks small_engine btree_empty small_request
        (am_operation_capacity sample_admission)) (\<lambda>(cx, n).
     and_then (apply_transaction small_hooks sample_admission small_request cx) (\<lambda>plan.
     journal_plan (small_env (Inl (Io [] [])) (Inl (Io [] []))) small_request cx n plan))"

definition committed_journal :: "string transaction_journal result" where
  "committed_journal = and_then small_journal (\<lambda>j.
     refresh_checksum (small_env (Inl (Io [] [])) (Inl (Io [] []))) (j\<lparr>jo_state := Committed\<rparr>))"

definition file_env :: "string file_env" where
  "file_env = small_env small_journal committed_journal"

text \<open>The transaction on the empty store.\<close>

lemma small_places:
  "\<exists>p. json_paths small_engine ''docs'' ''b'' = Inr p" "\<exists>p. blob_paths small_engine ''blobs'' ''x'' = Inr p"
proof -
  have r: "roomy (fl_path_budget small_engine)" "max_directory_name_bytes (fl_path_budget small_engine) = 64"
    by (simp_all add: small_engine_def roomy_def path_linux_device_def)
  have k: "enforce_logical_key_budget (fl_capacity small_engine) ''docs'' ''b'' l = Inr ()"
    "enforce_logical_key_budget (fl_capacity small_engine) ''blobs'' ''x'' l = Inr ()" for l
    by (simp_all add: small_engine_def enforce_logical_key_budget_def capacity_full_def)
  have n: "plain_component 64 ''docs''" "plain_component 64 ''blobs''"
    by (simp_all add: plain_component_def char_of_def)
  show "\<exists>p. json_paths small_engine ''docs'' ''b'' = Inr p"
    using paths_exist [OF r(1) lanes(1), unfolded r(2), OF n(1) k(1)] by (metis json_paths_def)
  show "\<exists>p. blob_paths small_engine ''blobs'' ''x'' = Inr p"
    using paths_exist [OF r(1) lanes(2), unfolded r(2), OF n(2) k(2)] by (metis blob_paths_def)
qed

lemma small_reads:
  "btree_keys (rs_json (tr_read_set small_request)) = [(''docs'', ''b'')]"
  "btree_keys (rs_blobs (tr_read_set small_request)) = [(''blobs'', ''x'')]"
  "btree_keys (rs_json_prefixes (tr_read_set small_request)) = []"
  by code_simp+

definition small_context :: "string tx_context" where
  "small_context = \<lparr> cx_touched = \<lparr> ts_json = btree_empty, ts_blobs = btree_empty, ts_events = [] \<rparr>,
     cx_usage = \<lparr> us_kv_entries = 0, us_blob_bytes = 0, us_event_count = 0 \<rparr>, cx_existing_event_ids = btree_empty \<rparr>"

lemma empty_files: "btree_keys (btree_empty :: files) = []" "list_child_directory_names btree_empty d = []"
  by (simp_all add: btree_keys_def btree_empty.rep_eq list_child_directory_names_def btset_of_list_def)

lemma small_expand:
  "expand_owner_transaction_dependencies small_hooks small_request capacity_full
     \<lparr> ts_json = btree_empty, ts_blobs = btree_empty, ts_events = [] \<rparr> rd
   = Inr \<lparr> ts_json = btree_empty, ts_blobs = btree_empty, ts_events = [] \<rparr>"
  by code_simp

text \<open>Reads of empty files find nothing.\<close>

lemma empty_reads:
  assumes fault: "\<And>q. fe_fault env q = None"
  shows "load_json_counted msg env small_engine btree_empty capacity ''docs'' ''b'' s = Inr s"
    and "load_blob_counted msg env small_engine btree_empty capacity (''blobs'', ''x'') t = Inr t"
    and "read_events_jsonl_bounded env btree_empty capacity n stage = Inr []"
proof -
  obtain pj pb where paths: "json_paths small_engine ''docs'' ''b'' = Inr pj" "blob_paths small_engine ''blobs'' ''x'' = Inr pb"
    using small_places by blast
  have read: "read_file_bounded (fe_fault env) btree_empty q n stage = Inr None" for q n stage
    by (simp add: read_file_bounded_def fs_read_def fault missing_file_def is_not_found_or_invalid_filename_def)
  show "load_json_counted msg env small_engine btree_empty capacity ''docs'' ''b'' s = Inr s"
    by (cases s) (simp add: load_json_counted_def get_json_value_unlocked_bounded_def paths read_entry_bounded_def read read_key_index_def)
  show "load_blob_counted msg env small_engine btree_empty capacity (''blobs'', ''x'') t = Inr t"
    by (cases t) (simp add: load_blob_counted_def get_blob_unlocked_bounded_def paths read_entry_bounded_def read read_key_index_def)
  show "read_events_jsonl_bounded env btree_empty capacity n stage = Inr []"
    by (simp add: fs_read_def fault missing_file_def read_events_jsonl_bounded_def)
qed

lemma empty_load:
  assumes fault: "\<And>q. fe_fault env q = None"
  shows "load_transaction_context env small_hooks small_engine btree_empty small_request capacity_full = Inr (small_context, 0)"
proof -
  have ev: "transaction_event_usage env btree_empty small_request capacity_full = Inr (0, btree_empty, 0)"
    by (simp add: transaction_event_usage_def fs_read_def fault missing_file_def empty_reads(3) [OF fault] btset_of_list_def)
  show ?thesis
    by (simp add: load_transaction_context_def small_reads empty_reads(1,2) [OF fault] small_expand ev json_entry_count_def
        blob_entry_count_def blob_total_bytes_def empty_files small_context_def saturating_add_def)
qed

lemma small_load:
  "load_transaction_context (small_env p c) small_hooks small_engine btree_empty small_request capacity_full = Inr (small_context, 0)"
  by (rule empty_load) (simp add: small_env_def)

lemma small_capacity: "am_operation_capacity sample_admission = capacity_full"
  by (simp add: sample_admission_def admission_for_nonproduction_harness_def)

lemma small_plan:
  obtains plan where "apply_transaction small_hooks sample_admission small_request small_context = Inr plan"
    "List.map_filter appended_event (tr_mutations (pn_effective_request plan)) = [small_event]"
proof -
  have "case apply_transaction small_hooks sample_admission small_request small_context of Inl _ \<Rightarrow> False
      | Inr plan \<Rightarrow> List.map_filter appended_event (tr_mutations (pn_effective_request plan)) = [small_event]"
    by code_simp
  then show thesis using that by (cases "apply_transaction small_hooks sample_admission small_request small_context") auto
qed

lemma small_checksums: "refresh_checksum (small_env p c) j = Inr (j\<lparr>jo_checksum := replicate 64 (CHR ''a'')\<rparr>)"
  by (simp add: refresh_checksum_def expected_checksum_def small_env_def map_config_err_def small_store_env_def sample_store_env_def)

lemma small_journals:
  obtains plan j where "apply_transaction small_hooks sample_admission small_request small_context = Inr plan"
    "List.map_filter appended_event (tr_mutations (pn_effective_request plan)) = [small_event]"
    "\<forall>p c. journal_plan (small_env p c) small_request small_context 0 plan = Inr j"
    "small_journal = Inr j" "committed_journal = Inr (j\<lparr>jo_state := Committed, jo_checksum := replicate 64 (CHR ''a'')\<rparr>)"
proof -
  obtain plan where plan: "apply_transaction small_hooks sample_admission small_request small_context = Inr plan"
    "List.map_filter appended_event (tr_mutations (pn_effective_request plan)) = [small_event]" by (rule small_plan)
  obtain j where j: "\<forall>p c. journal_plan (small_env p c) small_request small_context 0 plan = Inr j"
    by (simp add: journal_plan_def journal_new_def small_checksums)
  have s: "small_journal = Inr j"
    by (simp add: small_journal_def small_capacity small_load plan(1) j)
  show thesis
    by (rule that [OF plan j s]) (simp add: committed_journal_def s small_checksums)
qed

lemma small_default: "settled env eng mem_state_default btree_empty"
  by (simp add: settled_def disk_repr_def mem_state_default_def lane_repr_def content_def log_holds_def)
    (rule exI [of _ "[]"], simp add: log_lines_def)

lemma small_covers: "read_set_covers small_request"
  unfolding small_request_def by (rule covers_request_new)

lemma small_disjoint: "places_disjoint small_engine (tr_read_set small_request) mem_state_default"
proof -
  have "dom (btree_get (rs_json (tr_read_set small_request))) = {(''docs'', ''b'')}"
    "dom (btree_get (rs_blobs (tr_read_set small_request))) = {(''blobs'', ''x'')}"
    using small_reads by (simp_all flip: set_keys)
  then show ?thesis by (simp add: places_disjoint_def collision_free_def mem_state_default_def)
qed

lemma small_short: "fe_journal_json file_env j = Inr bs \<Longrightarrow> length bs \<le> journal_limit small_engine"
  by (auto simp: file_env_def small_env_def journal_limit_def small_engine_def capacity_full_def saturating_add_def
      saturating_mul_def usize_max_def split: if_splits)

lemma small_commit:
  obtains ops rep where
    "file_commit_transaction_admitted renv file_env small_hooks small_engine sample_inputs small_request sample_admission au btree_empty
       = (au, (ops, Inr rep))" "journal_fits small_engine ops"
proof -
  obtain plan j where pj: "apply_transaction small_hooks sample_admission small_request small_context = Inr plan"
    "List.map_filter appended_event (tr_mutations (pn_effective_request plan)) = [small_event]"
    "\<forall>p c. journal_plan (small_env p c) small_request small_context 0 plan = Inr j"
    "small_journal = Inr j" "committed_journal = Inr (j\<lparr>jo_state := Committed, jo_checksum := replicate 64 (CHR ''a'')\<rparr>)"
    by (rule small_journals)
  have ok: "codecs_ok file_env" unfolding file_env_def by (rule small_codecs)
  have d: "disk_repr file_env small_engine mem_state_default btree_empty" using small_default by (simp add: settled_def)
  have load: "load_transaction_context file_env small_hooks small_engine btree_empty small_request (am_operation_capacity sample_admission)
      = Inr (small_context, 0)" unfolding file_env_def small_capacity by (rule small_load)
  have jp: "journal_plan file_env small_request small_context 0 plan = Inr j" unfolding file_env_def using pj(3) by blast
  note between = plan_journal_between [OF ok d small_covers small_disjoint load pj(1) jp]
  have after: "im_events (jo_after j) = ImageAppend 0 [small_event]"
    using journal_plan_Ok(4) [OF jp pj(1)] pj(2) by simp
  have "fe_journal_json file_env j = Inr ''P''" by (simp add: file_env_def small_env_def pj(4))
  moreover have "refresh_checksum file_env (j\<lparr>jo_state := Committed\<rparr>) = Inr (j\<lparr>jo_state := Committed, jo_checksum := replicate 64 (CHR ''a'')\<rparr>)"
    by (simp add: file_env_def small_checksums)
  moreover have "fe_journal_json file_env (j\<lparr>jo_state := Committed, jo_checksum := replicate 64 (CHR ''a'')\<rparr>) \<noteq> Inl e" for e
    by (simp add: file_env_def small_env_def pj(5))
  moreover have "printable file_env (image_events (im_events (jo_after j)))"
    by (simp add: after printable_def file_env_def small_env_def small_store_env_def)
  ultimately have w: "snd (write_plan file_env small_engine j) = Inr ()"
    using write_plan_succeeds [OF ok d between] by (metis obj_sumE)
  let ?s = "commit_admitted_plan file_env small_hooks small_engine small_request sample_admission btree_empty"
  have s: "?s = (fst (write_plan file_env small_engine j), Inr (pn_report plan))"
    using w by (cases "write_plan file_env small_engine j") (simp add: commit_admitted_plan_def load pj(1) jp)
  have rec: "recover_transaction_if_needed file_env small_engine btree_empty = emit []"
    by (simp add: recover_transaction_if_needed_def read_journal(1) [OF ok] recover_validated_transaction_def)
  have fence: "validate_inside_engine_fence renv sample_admission (fl_capacity small_engine) (fl_admission_authority small_engine)
      sample_inputs au = (au, Inr ())"
    using harness_fence by (simp add: small_engine_def)
  have "file_commit_transaction_admitted renv file_env small_hooks small_engine sample_inputs small_request sample_admission au btree_empty
       = (au, (fst (write_plan file_env small_engine j), Inr (pn_report plan)))"
    by (simp add: file_commit_transaction_admitted_def rec fence s)
  moreover have "journal_fits small_engine (fst (write_plan file_env small_engine j))"
    by (rule write_plan_fits [OF ok small_short between])
  ultimately show thesis using that by blast
qed


end
