(* ===== verification/File_Guarantees.thy ===== *)
theory File_Guarantees
  imports File_History File_Samples
begin

text \<open>
  What the file-backed store promises: a commit is atomic under crashes, recovery completes
  it whatever was cut short, a whole history is durable, its commits are those of the
  in-memory store, and every key within the limits has its place. The hypotheses on the
  codecs are that what was printed is read back and that a printed event is one line. The
  type of documents stands for those of which this is true: with the features the workspace
  enables, \<^verbatim>\<open>serde_json\<close> need not read back every floating-point number exactly and refuses
  values nested beyond its recursion limit. That no two addresses of a transaction and the
  store share a file is a property of the digests and is assumed; that the journal can be
  read back is a property of its size, and \<^verbatim>\<open>File_Limits\<close> shows what happens without it.
\<close>

section \<open>One commit\<close>

lemma small_engine_fields: "fl_capacity small_engine = capacity_full" "fl_admission_authority small_engine = 7"
  by (simp_all add: small_engine_def)

text \<open>
  C2. A commit of the file-backed store, cut short by a crash or a failing system call at any
  point, torn writes included, leaves files that hold the store before the transaction or the
  store after it, where these are abstract stores and a journal in the root is part of what
  the files hold. This includes a commit that starts by recovering an earlier one.
\<close>

theorem file_commit_crash_atomic:
  assumes "codecs_ok env" and "contents env eng st fs" and "read_set_covers req"
    and "places_disjoint eng (tr_read_set req) st"
    and "file_commit_transaction_admitted renv env h eng inputs req adm au fs = (au', (ops, res))"
    and "journal_fits eng ops" and "fs' \<in> set (crash_states ops fs)"
  shows "represents env eng (spec_of st) fs' \<or> represents env eng (spec_transaction (h_store_env h) req (spec_of st)) fs'"
  using file_commit_outcome [OF assms(1-5)] assms(6,7) by (simp add: spec_outcome_def)

theorem file_commit_crash_atomic_witness:
  "\<exists>au au' ops rep.
     file_commit_transaction_admitted sample_env file_env small_hooks small_engine sample_inputs small_request sample_admission au btree_empty
       = (au', (ops, Inr rep)) \<and>
     (\<forall>fs' \<in> set (crash_states ops btree_empty).
        represents file_env small_engine (spec_of mem_state_default) fs' \<or>
        represents file_env small_engine (spec_transaction small_store_env small_request (spec_of mem_state_default)) fs')"
proof -
  obtain au ops rep where run: "file_commit_transaction_admitted sample_env file_env small_hooks small_engine sample_inputs small_request
      sample_admission au btree_empty = (au, (ops, Inr rep))" "journal_fits small_engine ops"
    using small_commit by metis
  have "codecs_ok file_env" unfolding file_env_def by (rule small_codecs)
  from file_commit_crash_atomic [OF this settled_contents [OF small_default] small_covers small_disjoint run]
  show ?thesis using run(1) by (auto simp: small_hooks_def)
qed

text \<open>
  C6. A commit that returns has done what it reports: after a success the files themselves
  hold the abstract transaction applied to the store before, and no journal is left; after an
  error they hold the store before, perhaps through a journal that the next operation rolls
  back.
\<close>

theorem file_commit_result:
  assumes "codecs_ok env" and "contents env eng st fs" and "read_set_covers req"
    and "places_disjoint eng (tr_read_set req) st"
    and "file_commit_transaction_admitted renv env h eng inputs req adm au fs = (au', (ops, res))"
    and "journal_fits eng ops"
  shows "case res of
      Inl e \<Rightarrow> represents env eng (spec_of st) (run_ops ops fs)
    | Inr rep \<Rightarrow> represents_settled env eng (spec_transaction (h_store_env h) req (spec_of st)) (run_ops ops fs)"
  using file_commit_outcome [OF assms(1-5)] assms(6) by (cases res) (simp_all add: spec_outcome_def)

theorem file_commit_result_witness:
  "\<exists>au au' ops rep.
     file_commit_transaction_admitted sample_env file_env small_hooks small_engine sample_inputs small_request sample_admission au btree_empty
       = (au', (ops, Inr rep)) \<and>
     represents_settled file_env small_engine (spec_transaction small_store_env small_request (spec_of mem_state_default))
       (run_ops ops btree_empty)"
proof -
  obtain au ops rep where run: "file_commit_transaction_admitted sample_env file_env small_hooks small_engine sample_inputs small_request
      sample_admission au btree_empty = (au, (ops, Inr rep))" "journal_fits small_engine ops"
    using small_commit by metis
  have "codecs_ok file_env" unfolding file_env_def by (rule small_codecs)
  from file_commit_result [OF this settled_contents [OF small_default] small_covers small_disjoint run]
  show ?thesis using run(1) by (auto simp: small_hooks_def)
qed

text \<open>
  C4. The file-backed store commits only what the in-memory store commits: if its commit
  succeeds on files that hold a store, the in-memory engine with that store, the same
  capacity and the same admission authority accepts the same request, returns the same
  report and leaves the admission authority in the same state, and the files hold exactly
  the store it holds afterwards.
\<close>

theorem file_commit_matches_memory:
  assumes "codecs_ok env" and "contents env eng st fs" and "read_set_covers req"
    and "places_disjoint eng (tr_read_set req) st" and "ids_of_log st"
    and "text_keys (btree_get (ms_json st))" and "text_keys (btree_get (ms_blobs st))"
    and "file_commit_transaction_admitted renv env h eng inputs req adm au fs = (au', (ops, Inr rep))"
    and "journal_fits eng ops"
  shows "\<exists>en'. commit_transaction_admitted renv h inputs req adm
       (au, \<lparr> en_capacity = fl_capacity eng, en_admission_authority = fl_admission_authority eng, en_state = st \<rparr>)
         = ((au', en'), Inr rep) \<and> settled env eng (en_state en') (run_ops ops fs)"
  by (rule file_commit_memory [OF assms])

theorem file_commit_matches_memory_witness:
  "\<exists>au au' ops rep en'.
     file_commit_transaction_admitted sample_env file_env small_hooks small_engine sample_inputs small_request sample_admission au btree_empty
       = (au', (ops, Inr rep)) \<and>
     commit_transaction_admitted sample_env small_hooks sample_inputs small_request sample_admission
       (au, \<lparr> en_capacity = capacity_full, en_admission_authority = 7, en_state = mem_state_default \<rparr>) = ((au', en'), Inr rep) \<and>
     settled file_env small_engine (en_state en') (run_ops ops btree_empty)"
proof -
  obtain au ops rep where run: "file_commit_transaction_admitted sample_env file_env small_hooks small_engine sample_inputs small_request
      sample_admission au btree_empty = (au, (ops, Inr rep))" "journal_fits small_engine ops"
    using small_commit by metis
  have e: "ids_of_log mem_state_default" "text_keys (btree_get (ms_json mem_state_default))" "text_keys (btree_get (ms_blobs mem_state_default))"
    by (simp_all add: ids_of_log_def text_keys_def mem_state_default_def)
  have "codecs_ok file_env" unfolding file_env_def by (rule small_codecs)
  from file_commit_matches_memory [OF this settled_contents [OF small_default] small_covers small_disjoint e run]
  show ?thesis using run(1) unfolding small_engine_fields by blast
qed

section \<open>Recovery\<close>

text \<open>
  Recoveries that were cut short, one after the other.
\<close>

inductive interrupted_recoveries :: "'v file_env \<Rightarrow> file_engine \<Rightarrow> files \<Rightarrow> files \<Rightarrow> bool" for env eng fs where
  none: "interrupted_recoveries env eng fs fs"
| more: "interrupted_recoveries env eng fs fs' \<Longrightarrow>
    fs'' \<in> set (crash_states (fst (recover_transaction_if_needed env eng fs')) fs') \<Longrightarrow>
    interrupted_recoveries env eng fs fs''"

lemma interrupted_contents:
  assumes "interrupted_recoveries env eng fs fs'" and "codecs_ok env" and "contents env eng st fs"
  shows "contents env eng st fs'"
  using assms(1)
proof induction
  case (more fs' fs'')
  obtain ops where "recover_transaction_if_needed env eng fs' = emit ops"
    "\<And>g. g \<in> set (crash_states ops fs') \<Longrightarrow> contents env eng st g"
    using recover_contents [OF assms(2) more.IH] by metis
  then show ?case using more.hyps(2) by simp
qed (rule assms(3))

text \<open>
  C5. Recovery ends, and ends well: on files that hold a store, after any number of
  recoveries that were cut short anywhere, a recovery that runs to its end succeeds, removes
  the journal, and leaves files that hold the same store; recovering once more does nothing.
\<close>

theorem recovery_completes:
  assumes "codecs_ok env" and "contents env eng st fs" and "interrupted_recoveries env eng fs fs'"
  shows "\<exists>ops. recover_transaction_if_needed env eng fs' = (ops, Inr ()) \<and> settled env eng st (run_ops ops fs') \<and>
     recover_transaction_if_needed env eng (run_ops ops fs') = ([], Inr ())"
proof -
  note c = interrupted_contents [OF assms(3,1,2)]
  obtain ops where ops: "recover_transaction_if_needed env eng fs' = emit ops" "settled env eng st (run_ops ops fs')"
    using recover_contents [OF assms(1) c] by metis
  then have "recover_transaction_if_needed env eng (run_ops ops fs') = emit []"
    by (simp add: settled_def recover_transaction_if_needed_def read_journal(1) [OF assms(1)] recover_validated_transaction_def)
  then show ?thesis using ops by blast
qed

text \<open>The files in the middle of a commit: the journal is in place, the files are not.\<close>

lemma small_prepared:
  obtains fs bs where "contents file_env small_engine mem_state_default fs" "btree_get fs transaction_marker_path = Some bs"
proof -
  obtain plan j where pj: "apply_transaction small_hooks sample_admission small_request small_context = Inr plan"
    "\<forall>p c. journal_plan (small_env p c) small_request small_context 0 plan = Inr j" "small_journal = Inr j"
    using small_journals by metis
  have ok: "codecs_ok file_env" unfolding file_env_def by (rule small_codecs)
  have d: "disk_repr file_env small_engine mem_state_default btree_empty" using small_default by (simp add: settled_def)
  have load: "load_transaction_context file_env small_hooks small_engine btree_empty small_request (am_operation_capacity sample_admission)
      = Inr (small_context, 0)" unfolding file_env_def small_capacity by (rule small_load)
  have jp: "journal_plan file_env small_request small_context 0 plan = Inr j" unfolding file_env_def using pj(2) by blast
  note between = plan_journal_between [OF ok d small_covers small_disjoint load pj(1) jp]
  let ?fs = "btree_insert transaction_marker_path ''P'' btree_empty"
  have print: "fe_journal_json file_env j = Inr ''P''" by (simp add: file_env_def small_env_def pj(3))
  have "alike ?fs btree_empty" by (auto simp: alike_def)
  then have "image_applies file_env small_engine (selected_image j) mem_state_default ?fs"
    using alike_image journal_between_images(1) [OF between d] journal_plan_Ok(1) [OF jp pj(1)]
    by (metis selected_image_def journal_state.simps(3))
  then have "contents file_env small_engine mem_state_default ?fs"
    using contents_journal [OF print ok small_short [OF print]] journal_plan_Ok(2,5,6) [OF jp pj(1)] by simp
  then show thesis using that by simp
qed

theorem recovery_completes_witness:
  "\<exists>fs bs ops. btree_get fs transaction_marker_path = Some bs \<and>
     recover_transaction_if_needed file_env small_engine fs = (ops, Inr ()) \<and>
     settled file_env small_engine mem_state_default (run_ops ops fs)"
proof -
  obtain fs bs where fs: "contents file_env small_engine mem_state_default fs" "btree_get fs transaction_marker_path = Some bs"
    by (rule small_prepared)
  have "codecs_ok file_env" unfolding file_env_def by (rule small_codecs)
  from recovery_completes [OF this fs(1) interrupted_recoveries.none] fs(2) show ?thesis by blast
qed

section \<open>Histories\<close>

text \<open>
  C3. Durability. Take any sequence of commits and recoveries on the files, where each may
  succeed, fail, or be cut short at any system call. At its end the files hold the abstract
  store in which every commit that succeeded was applied, none that failed was, and each that
  was cut short was applied as a whole or not at all, in their order.
\<close>

theorem file_history_durable:
  assumes "store_run (file_run renv env h eng) (file_cuts renv env h eng) (file_admissible renv env h eng js bs) s hs s'"
    and "file_holds env eng js bs sp s"
  shows "\<exists>es. list_all2 (\<lambda>e x. e \<in> set (possible x)) es hs \<and> file_holds env eng js bs (fold (file_meaning h) (concat es) sp) s'"
  by (rule fl.history_durable [OF assms])

definition small_call :: "(string, unit) file_call" where
  "small_call = CommitCall sample_inputs small_request sample_admission"

theorem file_history_durable_witness:
  "\<exists>au fs sp. file_holds file_env small_engine {(''docs'', ''b'')} {(''blobs'', ''x'')} sp (au, fs) \<and>
     sp_json sp (''docs'', ''b'') = Some ''three''"
proof -
  let ?J = "{(''docs'', ''b'')}" and ?B = "{(''blobs'', ''x'')}"
  obtain au ops rep where run: "file_commit_transaction_admitted sample_env file_env small_hooks small_engine sample_inputs small_request
      sample_admission au btree_empty = (au, (ops, Inr rep))" "journal_fits small_engine ops"
    using small_commit by metis
  have within: "request_within ?J ?B small_call"
    using small_covers small_reads by (simp add: request_within_def small_call_def flip: set_keys)
  have script: "file_script sample_env file_env small_hooks small_engine small_call (au, btree_empty) = (au, (ops, Inr ()))"
    by (simp add: small_call_def run(1))
  then have adm: "file_admissible sample_env file_env small_hooks small_engine ?J ?B small_call (au, btree_empty)"
    using within run(2) by (simp add: file_admissible_def)
  have cut: "(au, btree_empty) \<in> set (file_cuts sample_env file_env small_hooks small_engine small_call (au, btree_empty))"
    using script crash_initial [of btree_empty ops] by (simp add: file_cuts_def)
  have ran: "file_run sample_env file_env small_hooks small_engine small_call (au, btree_empty) = ((au, run_ops ops btree_empty), Inr ())"
    using script by (simp add: file_run_def)
  let ?run = "store_run (file_run sample_env file_env small_hooks small_engine) (file_cuts sample_env file_env small_hooks small_engine)
      (file_admissible sample_env file_env small_hooks small_engine ?J ?B) (au, btree_empty)"
  have "?run [CutShort small_call] (au, btree_empty)"
    using store_run.cut [where hs = "[]" and t = small_call and u = "(au, btree_empty)", OF store_run.start] adm cut by simp
  then have "?run ([CutShort small_call] @ [Succeeded small_call]) (au, run_ops ops btree_empty)"
    using adm ran by (rule store_run.success)
  then have hist: "?run [CutShort small_call, Succeeded small_call] (au, run_ops ops btree_empty)" by simp
  have "codecs_ok file_env" unfolding file_env_def by (rule small_codecs)
  moreover have "represents file_env small_engine (spec_of mem_state_default) btree_empty"
    using settled_contents [OF small_default] unfolding represents_def by blast
  ultimately have "file_holds file_env small_engine ?J ?B (spec_of mem_state_default) (au, btree_empty)"
    by (simp add: file_holds_def collision_free_def spec_of_def mem_state_default_def)
  from file_history_durable [OF hist this] obtain es where
    es: "list_all2 (\<lambda>e x. e \<in> set (possible x)) es [CutShort small_call, Succeeded small_call]"
    "file_holds file_env small_engine ?J ?B (fold (file_meaning small_hooks) (concat es) (spec_of mem_state_default))
       (au, run_ops ops btree_empty)" by blast
  have "es = [[], [small_call]] \<or> es = [[small_call], [small_call]]"
    using es(1) by (auto simp: list_all2_Cons2)
  then have "sp_json (fold (file_meaning small_hooks) (concat es) (spec_of mem_state_default)) (''docs'', ''b'') = Some ''three''"
    by (auto simp: small_call_def spec_transaction_def small_request_def request_new_def)
  then show ?thesis using es(2) by blast
qed

end
