(* ===== verification/Read_Digest.thy ===== *)
theory Read_Digest
  imports Read_Session
begin

text \<open>
  The bytes a read receipt is a digest of, and that they determine the reads: every string is
  written after its length in eight bytes, every optional value after a tag, every list after
  its length, so the encoding can be taken apart from the left.
\<close>

section \<open>Encodings that can be taken apart from the left\<close>

locale prefix_code =
  fixes enc :: "'x \<Rightarrow> bytes"
    and fits :: "'x \<Rightarrow> bool"
  assumes cancel: "fits x \<Longrightarrow> fits y \<Longrightarrow> enc x @ r = enc y @ q \<Longrightarrow> x = y \<and> r = q"
begin

lemma list_cancel:
  "length xs = length ys \<Longrightarrow> list_all fits xs \<Longrightarrow> list_all fits ys \<Longrightarrow>
   concat (map enc xs) @ r = concat (map enc ys) @ q \<Longrightarrow> xs = ys \<and> r = q"
proof (induction xs ys rule: list_induct2)
  case (Cons x xs y ys)
  then have "x = y \<and> concat (map enc xs) @ r = concat (map enc ys) @ q" by (intro cancel) simp_all
  then show ?case using Cons by simp
qed simp

end

lemma le_bytes_Suc: "le_bytes (Suc n) v = char_of (v mod 256) # le_bytes n (v div 256)"
proof -
  have "[0..<Suc n] = 0 # map Suc [0..<n]" by (simp add: map_Suc_upt upt_conv_Cons del: upt_Suc)
  then show ?thesis unfolding le_bytes_def by (simp add: div_mult2_eq comp_def del: upt_Suc)
qed

lemma le_bytes_inject: "le_bytes n v = le_bytes n w \<Longrightarrow> v mod 256 ^ n = w mod 256 ^ n"
proof (induction n arbitrary: v w)
  case (Suc n)
  then have c: "char_of (v mod 256) = (char_of (w mod 256) :: char)" and "le_bytes n (v div 256) = le_bytes n (w div 256)"
    unfolding le_bytes_Suc by blast+
  then have "v div 256 mod 256 ^ n = w div 256 mod 256 ^ n" by (blast intro: Suc.IH)
  moreover have "v mod 256 mod 256 = w mod 256 mod 256"
    using arg_cong [OF c, of "of_char :: char \<Rightarrow> nat"] unfolding of_char_of .
  ultimately show ?case unfolding power_Suc mod_mult2_eq by simp
qed simp

lemma length_be_bytes [simp]: "length (be_bytes n v) = n"
  by (simp add: be_bytes_def le_bytes_def)

lemma be_bytes_inject: "v < 2 ^ 64 \<Longrightarrow> w < 2 ^ 64 \<Longrightarrow> be_bytes 8 v = be_bytes 8 w \<longleftrightarrow> v = w"
  using le_bytes_inject [of 8 v w] by (auto simp: be_bytes_def)

lemma be_bytes_cancel:
  assumes "v < 2 ^ 64" "w < 2 ^ 64" "be_bytes 8 v @ r = be_bytes 8 w @ q"
  shows "v = w \<and> r = q"
  using assms be_bytes_inject by (metis append_eq_append_conv length_be_bytes)

section \<open>Fields and reads\<close>

definition fits64 :: "'x list \<Rightarrow> bool" where
  "fits64 xs \<longleftrightarrow> length xs < 2 ^ 64"

definition field :: "bytes \<Rightarrow> bytes" where
  "field bs = be_bytes 8 (length bs) @ bs"

interpretation fld: prefix_code field fits64
proof
  fix x y r q :: bytes
  assume a: "fits64 x" "fits64 y" "field x @ r = field y @ q"
  have "be_bytes 8 (length x) @ (x @ r) = be_bytes 8 (length y) @ (y @ q)"
    using a(3) unfolding field_def append_assoc .
  from be_bytes_cancel [OF a(1,2) [unfolded fits64_def] this] show "x = y \<and> r = q"
    using append_eq_append_conv by blast
qed

type_synonym read_image = "string \<times> string \<times> bytes option"

fun image_fits :: "read_image \<Rightarrow> bool" where
  "image_fits (ns, k, v) \<longleftrightarrow> fits64 ns \<and> fits64 k \<and> (case v of None \<Rightarrow> True | Some bs \<Rightarrow> fits64 bs)"

definition encode_value :: "bytes option \<Rightarrow> bytes" where
  "encode_value v = (case v of None \<Rightarrow> [char_of (0 :: nat)] | Some bs \<Rightarrow> char_of (1 :: nat) # field bs)"

fun encode_read :: "string \<Rightarrow> read_image \<Rightarrow> bytes" where
  "encode_read tag (ns, k, v) = tag @ field ns @ field k @ encode_value v"

lemma tags_differ: "char_of (0 :: nat) \<noteq> (char_of (1 :: nat) :: char)"
  by (simp add: char_of_eq_iff)

interpretation vl: prefix_code encode_value "\<lambda>v. case v of None \<Rightarrow> True | Some bs \<Rightarrow> fits64 bs"
proof
  fix v w :: "bytes option" and r q
  assume "case v of None \<Rightarrow> True | Some bs \<Rightarrow> fits64 bs" "case w of None \<Rightarrow> True | Some bs \<Rightarrow> fits64 bs"
    "encode_value v @ r = encode_value w @ q"
  then show "v = w \<and> r = q"
    unfolding encode_value_def
    by (cases v; cases w) (simp_all only: option.case append_Cons append_Nil list.inject tags_differ
        tags_differ [symmetric] simp_thms, auto dest: fld.cancel)
qed

interpretation rd: prefix_code "encode_read tag" image_fits for tag
proof
  fix x y :: read_image and r q
  assume a: "image_fits x" "image_fits y" "encode_read tag x @ r = encode_read tag y @ q"
  obtain n k v m l w where x: "x = (n, k, v)" and y: "y = (m, l, w)" by (metis prod.exhaust)
  have fit: "fits64 n" "fits64 m" "fits64 k" "fits64 l"
    and vw: "case v of None \<Rightarrow> True | Some bs \<Rightarrow> fits64 bs" "case w of None \<Rightarrow> True | Some bs \<Rightarrow> fits64 bs"
    using a(1,2) by (simp_all add: x y)
  have "field n @ (field k @ encode_value v @ r) = field m @ (field l @ encode_value w @ q)"
    using a(3) unfolding x y encode_read.simps append_assoc same_append_eq .
  note ns = fld.cancel [OF fit(1,2) this]
  note ks = fld.cancel [OF fit(3,4) conjunct2 [OF ns]]
  note vs = vl.cancel [OF vw conjunct2 [OF ks]]
  show "x = y \<and> r = q" using ns ks vs x y by blast
qed

definition json_image :: "'v store_env \<Rightarrow> 'v json_read \<Rightarrow> read_image" where
  "json_image env r = (jr_namespace r, jr_key r,
     map_option (\<lambda>v. case se_json_bytes env v of Inl _ \<Rightarrow> [] | Inr bs \<Rightarrow> bs) (jr_value r))"

definition blob_image :: "blob_read \<Rightarrow> read_image" where
  "blob_image r = (br_namespace r, br_key r, br_value r)"

definition event_image :: "'v store_env \<Rightarrow> store_event \<Rightarrow> bytes" where
  "event_image env ev = (case se_event_json env ev of Inl _ \<Rightarrow> [] | Inr bs \<Rightarrow> bs)"

definition encode_event :: "bytes \<Rightarrow> bytes" where
  "encode_event bs = ''event'' @ field bs"

interpretation evc: prefix_code encode_event fits64
proof
  fix x y r q :: bytes
  assume a: "fits64 x" "fits64 y" "encode_event x @ r = encode_event y @ q"
  have "field x @ r = field y @ q" using a(3) unfolding encode_event_def append_assoc same_append_eq .
  then show "x = y \<and> r = q" by (rule fld.cancel [OF a(1,2)])
qed

lemma update_read_digest_field: "update_read_digest h bs = h @ field bs"
  by (simp add: update_read_digest_def field_def)

lemma feed_json_bytes:
  "try_fold (feed_json_read env) json h = Inr h' \<Longrightarrow>
   h' = h @ concat (map (encode_read ''json'') (map (json_image env) json))"
proof (induction json arbitrary: h)
  case (Cons r json)
  then obtain h1 where h1: "feed_json_read env r h = Inr h1" "try_fold (feed_json_read env) json h1 = Inr h'"
    by (auto simp: result_simps)
  have "h1 = h @ encode_read ''json'' (json_image env r)"
    using h1(1) by (auto simp: feed_json_read_def Let_def to_vec_def json_image_def encode_value_def update_read_digest_field result_simps
        split: option.splits sum.splits)
  then show ?case using Cons.IH [OF h1(2)] by simp
qed simp

lemma feed_blob_bytes:
  "try_fold feed_blob_read blobs h = Inr h' \<Longrightarrow>
   h' = h @ concat (map (encode_read ''blob'') (map blob_image blobs))"
proof (induction blobs arbitrary: h)
  case (Cons r blobs)
  then obtain h1 where h1: "feed_blob_read r h = Inr h1" "try_fold feed_blob_read blobs h1 = Inr h'"
    by (auto simp: result_simps)
  have "h1 = h @ encode_read ''blob'' (blob_image r)"
    using h1(1) by (auto simp: feed_blob_read_def Let_def blob_image_def encode_value_def update_read_digest_field split: option.splits)
  then show ?case using Cons.IH [OF h1(2)] by simp
qed simp

lemma feed_event_bytes:
  "try_fold (feed_event env) events h = Inr h' \<Longrightarrow>
   h' = h @ concat (map encode_event (map (event_image env) events))"
proof (induction events arbitrary: h)
  case (Cons ev events)
  then obtain h1 where h1: "feed_event env ev h = Inr h1" "try_fold (feed_event env) events h1 = Inr h'"
    by (auto simp: result_simps)
  have "h1 = h @ encode_event (event_image env ev)"
    using h1(1) by (auto simp: feed_event_def event_to_vec_def event_image_def encode_event_def update_read_digest_field
        result_simps split: sum.splits)
  then show ?case using Cons.IH [OF h1(2)] by simp
qed simp

section \<open>The bytes of a receipt\<close>

definition receipt_bytes :: "read_image list \<Rightarrow> read_image list \<Rightarrow> bytes list \<Rightarrow> bytes" where
  "receipt_bytes json blobs events =
     ''beetle_memory_bounded_known_key_read_v1'' @ be_bytes 8 (length json) @ concat (map (encode_read ''json'') json) @
     be_bytes 8 (length blobs) @ concat (map (encode_read ''blob'') blobs) @
     be_bytes 8 (length events) @ concat (map encode_event events)"

definition images_fit :: "read_image list \<Rightarrow> read_image list \<Rightarrow> bytes list \<Rightarrow> bool" where
  "images_fit json blobs events \<longleftrightarrow> fits64 json \<and> fits64 blobs \<and> fits64 events \<and>
     list_all image_fits json \<and> list_all image_fits blobs \<and> list_all fits64 events"

lemma receipt_bytes_inject:
  assumes "receipt_bytes j1 b1 e1 = receipt_bytes j2 b2 e2" and "images_fit j1 b1 e1" and "images_fit j2 b2 e2"
  shows "j1 = j2 \<and> b1 = b2 \<and> e1 = e2"
proof -
  have fit: "length j1 < 2 ^ 64" "length j2 < 2 ^ 64" "length b1 < 2 ^ 64" "length b2 < 2 ^ 64"
      "length e1 < 2 ^ 64" "length e2 < 2 ^ 64"
    and all: "list_all image_fits j1" "list_all image_fits j2" "list_all image_fits b1" "list_all image_fits b2"
      "list_all fits64 e1" "list_all fits64 e2"
    using assms(2,3) unfolding images_fit_def fits64_def by blast+
  from assms(1) have "be_bytes 8 (length j1) @ (concat (map (encode_read ''json'') j1) @ be_bytes 8 (length b1) @
        concat (map (encode_read ''blob'') b1) @ be_bytes 8 (length e1) @ concat (map encode_event e1)) =
      be_bytes 8 (length j2) @ (concat (map (encode_read ''json'') j2) @ be_bytes 8 (length b2) @
        concat (map (encode_read ''blob'') b2) @ be_bytes 8 (length e2) @ concat (map encode_event e2))"
    unfolding receipt_bytes_def same_append_eq .
  note s1 = be_bytes_cancel [OF fit(1,2) this]
  note s2 = rd.list_cancel [OF conjunct1 [OF s1] all(1,2) conjunct2 [OF s1]]
  note s3 = be_bytes_cancel [OF fit(3,4) conjunct2 [OF s2]]
  note s4 = rd.list_cancel [OF conjunct1 [OF s3] all(3,4) conjunct2 [OF s3]]
  note s5 = be_bytes_cancel [OF fit(5,6) conjunct2 [OF s4]]
  have "e1 = e2 \<and> ([] :: bytes) = []"
    using s5 by (intro evc.list_cancel all) (simp_all only: append_Nil2)
  then show ?thesis using s2 s4 by blast
qed

lemma receipt_digest:
  assumes "known_key_read_receipt env json blobs events = Inr r"
  shows "rr_state_digest r = se_sha256_hex env
     (receipt_bytes (map (json_image env) json) (map blob_image blobs) (map (event_image env) events))"
  using assms unfolding known_key_read_receipt_def receipt_bytes_def
  by (auto simp: result_simps dest!: feed_json_bytes feed_blob_bytes feed_event_bytes)

end
