(* ===== verification/Read_Guarantees.thy ===== *)
theory Read_Guarantees
  imports Store_Guarantees Read_Digest
begin

text \<open>
  What bounded reads promise: a session never exceeds its budgets and never reads an address
  twice within a batch, a failed session stays failed, what is read is what the store holds,
  and the digest of a receipt determines everything that was read.
\<close>

section \<open>Sessions\<close>

definition session_run :: "'v store_env \<Rightarrow> 'v session_call list \<Rightarrow> 'v read_session \<Rightarrow> 'v read_session" where
  "session_run env calls s = fold (\<lambda>c s. session_step env s c) calls s"

lemma session_step_capacity: "ss_capacity (session_step env s c) = ss_capacity s"
  by (cases c) (auto simp: begin_catalog_scan_def checkpoint_catalog_batch_def session_fail_def record_json_def
      record_blob_def try_record_json_def try_record_blob_def result_simps Let_def split: option.splits sum.splits)

lemma session_run_inv:
  "session_inv env s \<Longrightarrow> session_inv env (session_run env calls s) \<and> ss_capacity (session_run env calls s) = ss_capacity s"
  unfolding session_run_def
proof (induction calls arbitrary: s)
  case (Cons c calls)
  then show ?case by (simp add: session_step_inv session_step_capacity)
qed simp

text \<open>
  C38. After any calls on a session opened with a capacity, the current batch holds no address
  twice, its entries and its JSON and blob bytes are within the capacity, the byte counters are
  exactly the sizes of what was read, and there are no more catalog batches than the entry
  limit.
\<close>

theorem session_within_budget:
  "session_inv env (session_run env calls (session_new capacity)) \<and>
   ss_capacity (session_run env calls (session_new capacity)) = capacity"
  using session_run_inv [OF session_inv_new] by (metis (no_types, lifting) read_session.select_convs(1) session_new_def)

definition session_failed :: "'v store_env \<Rightarrow> 'v read_session \<Rightarrow> bool" where
  "session_failed env s \<longleftrightarrow>
     ss_poisoned s \<and> session_receipt env s = Err immutable_read_session_poisoned_error \<and>
     isl (snd (checkpoint_catalog_batch env s)) \<and>
     (\<forall>ns k v. record_json env s ns k v = (s, Err immutable_read_session_poisoned_error)) \<and>
     (\<forall>ns k v. record_blob s ns k v = (s, Err immutable_read_session_poisoned_error))"

lemma poisoned_failed: "ss_poisoned s \<Longrightarrow> session_failed env s"
  by (simp add: session_failed_def session_receipt_def record_json_def record_blob_def checkpoint_catalog_batch_def
      split: option.splits)

lemma poisoned_step: "ss_poisoned s \<Longrightarrow> session_step env s c = s"
  by (cases c) (auto simp: begin_catalog_scan_def checkpoint_catalog_batch_def record_json_def record_blob_def
      split: option.splits)

lemma poisoned_run: "ss_poisoned s \<Longrightarrow> session_run env calls s = s"
  unfolding session_run_def by (induction calls) (simp_all add: poisoned_step)

text \<open>
  C39. A session that failed once stays failed: after a read that returned an error, and any
  further calls, no read succeeds, no batch is closed, and no receipt is issued for the part
  that had been read.
\<close>

theorem failed_session_stays_failed:
  assumes "record_json env s ns k v = (s', Inl e) \<or> record_blob s ns k b = (s', Inl e)"
  shows "session_failed env (session_run env calls s')"
proof -
  have "ss_poisoned s'"
    using assms by (auto simp: record_json_def record_blob_def session_fail_def split: if_splits sum.splits)
  then show ?thesis by (simp add: poisoned_run poisoned_failed)
qed

definition sample_session :: "string read_session" where
  "sample_session = fst (record_json sample_store_env (session_new capacity_full) ''docs'' ''a'' (Some ''link''))"

theorem failed_session_stays_failed_witness:
  "session_failed sample_store_env (session_run sample_store_env [ReadJson ''docs'' ''b'' None]
     (fst (record_json sample_store_env sample_session ''docs'' ''a'' (Some ''link''))))"
proof -
  have "isl (snd (record_json sample_store_env sample_session ''docs'' ''a'' (Some ''link'')))" by code_simp
  then obtain e where "record_json sample_store_env sample_session ''docs'' ''a'' (Some ''link'') =
      (fst (record_json sample_store_env sample_session ''docs'' ''a'' (Some ''link'')), Inl e)"
    by (metis isl_def prod.collapse)
  then show ?thesis using failed_session_stays_failed by metis
qed

section \<open>Values\<close>

lemma record_json_Ok:
  assumes "record_json env s ns k v = (s', Inr r)"
  shows "r = \<lparr> jr_namespace = ns, jr_key = k, jr_value = v \<rparr>" "ss_json_reads s' = ss_json_reads s @ [r]"
  using assms by (auto simp: record_json_def try_record_json_def session_fail_def result_simps Let_def
      split: if_splits sum.splits)

text \<open>
  A batch of reads through a session of the engine returns, in the order asked, each
  address with exactly what the store holds there, and the session records the same reads.
\<close>

lemma session_reads_store_values:
  assumes "read_json_known_keys env st as s = (s', Inr rs)"
  shows "map (\<lambda>r. (jr_address r, jr_value r)) rs = map (\<lambda>a. (a, btree_get (ms_json st) a)) as \<and>
         ss_json_reads s' = ss_json_reads s @ rs"
  using assms
proof (induction as arbitrary: s rs)
  case (Cons a as)
  from Cons.prems obtain s1 r rs1 where
    r: "record_json env s (fst a) (snd a) (btree_get (ms_json st) a) = (s1, Inr r)"
    and rest: "read_json_known_keys env st as s1 = (s', Inr rs1)" and rs: "rs = r # rs1"
    by (auto split: prod.splits sum.splits)
  show ?case using Cons.IH [OF rest] record_json_Ok [OF r] by (simp add: rs jr_address_def)
qed simp

lemma session_reads_store_values_example:
  "\<exists>s' rs. read_json_known_keys sample_store_env sample_state [(''docs'', ''linked''), (''docs'', ''none'')] sample_session
       = (s', Inr rs) \<and>
     map (\<lambda>r. (jr_address r, jr_value r)) rs =
       map (\<lambda>a. (a, btree_get (ms_json sample_state) a)) [(''docs'', ''linked''), (''docs'', ''none'')]"
proof -
  let ?r = "read_json_known_keys sample_store_env sample_state [(''docs'', ''linked''), (''docs'', ''none'')] sample_session"
  have "\<not> isl (snd ?r)" by code_simp
  then obtain s' rs where r: "?r = (s', Inr rs)" by (cases ?r) (auto simp: isl_def split: sum.splits, metis sum.exhaust)
  then show ?thesis using session_reads_store_values [OF r] by blast
qed

section \<open>One-shot reads\<close>

lemma reject_duplicate_known_keys_Ok:
  "reject_duplicate_known_keys keys kind = Inr u \<longleftrightarrow> distinct keys"
proof -
  let ?f = "\<lambda>(namespace, key) unique.
        if btree_contains unique (namespace, key)
        then Err (config_error ''store_consistent_read'' (''duplicate '' @ kind @ '' address '' @ namespace @ ''/'' @ key))
        else Inr (btset_insert (namespace, key) unique)"
  have "(\<exists>w. try_fold ?f keys seen = Inr w) \<longleftrightarrow> distinct keys \<and> (\<forall>a \<in> set keys. \<not> btree_contains seen a)" for seen
  proof (induction keys arbitrary: seen)
    case (Cons a keys)
    obtain ns k where a: "a = (ns, k)" by force
    show ?case using Cons.IH [of "btset_insert a seen"] by (auto simp: a)
  qed simp
  from this [of btree_empty] show ?thesis
    unfolding reject_duplicate_known_keys_def by (simp add: and_then_eq_Ok)
qed

lemma read_known_json_step:
  assumes "read_known_json env capacity json a (b, reads) = Inr (b1, reads1)" and "b \<le> cap_snapshot_max_bytes capacity"
  shows "reads1 = reads @ [\<lparr> jr_namespace = fst a, jr_key = snd a, jr_value = btree_get json a \<rparr>] \<and> b1 \<le> cap_snapshot_max_bytes capacity"
  using assms by (cases a) (auto simp: read_known_json_def Let_def result_simps split: option.splits)

lemma read_known_json_Ok:
  assumes "try_fold (read_known_json env capacity json) keys (b, reads) = Inr (b', reads')"
    and "b \<le> cap_snapshot_max_bytes capacity"
  shows "map (\<lambda>r. (jr_address r, jr_value r)) reads' = map (\<lambda>r. (jr_address r, jr_value r)) reads
      @ map (\<lambda>a. (a, btree_get json a)) keys \<and> b' \<le> cap_snapshot_max_bytes capacity"
  using assms
proof (induction keys arbitrary: b reads)
  case (Cons a keys)
  then obtain b1 reads1 where step: "read_known_json env capacity json a (b, reads) = Inr (b1, reads1)"
    and rest: "try_fold (read_known_json env capacity json) keys (b1, reads1) = Inr (b', reads')" by (auto simp: result_simps)
  note one = read_known_json_step [OF step Cons.prems(2)]
  show ?case using Cons.IH [OF rest conjunct2 [OF one]] one by (simp add: jr_address_def)
qed simp

lemma read_known_blob_step:
  assumes "read_known_blob capacity blobs a (b, reads) = Inr (b1, reads1)" and "b \<le> cap_blob_max_bytes capacity"
  shows "reads1 = reads @ [\<lparr> br_namespace = fst a, br_key = snd a, br_value = btree_get blobs a \<rparr>] \<and> b1 \<le> cap_blob_max_bytes capacity"
  using assms by (cases a) (auto simp: read_known_blob_def Let_def result_simps split: option.splits)

lemma read_known_blob_Ok:
  assumes "try_fold (read_known_blob capacity blobs) keys (b, reads) = Inr (b', reads')"
    and "b \<le> cap_blob_max_bytes capacity"
  shows "map (\<lambda>r. (br_address r, br_value r)) reads' = map (\<lambda>r. (br_address r, br_value r)) reads
      @ map (\<lambda>a. (a, btree_get blobs a)) keys \<and> b' \<le> cap_blob_max_bytes capacity"
  using assms
proof (induction keys arbitrary: b reads)
  case (Cons a keys)
  then obtain b1 reads1 where step: "read_known_blob capacity blobs a (b, reads) = Inr (b1, reads1)"
    and rest: "try_fold (read_known_blob capacity blobs) keys (b1, reads1) = Inr (b', reads')" by (auto simp: result_simps)
  note one = read_known_blob_step [OF step Cons.prems(2)]
  show ?case using Cons.IH [OF rest conjunct2 [OF one]] one by (simp add: br_address_def)
qed simp

lemma receipt_counts:
  "known_key_read_receipt env json blobs events = Inr rc \<Longrightarrow>
   rr_entry_count rc = length json + length blobs \<and> rr_event_count rc = length events"
  by (auto simp: known_key_read_receipt_def result_simps arith_defs split: if_splits)

text \<open>
  C40. A one-shot read that succeeds was asked for distinct addresses, no more than the entry
  limit together, and returns in order exactly what the store holds at each of them, with the
  whole event log if asked for it, and a receipt with the right counts.
\<close>

theorem known_key_read_exact:
  assumes "read_consistent_known_keys env en json_keys blob_keys include_events capacity = Inr r"
  shows "distinct json_keys \<and> distinct blob_keys \<and>
    saturating_add (length json_keys) (length blob_keys) \<le> cap_kv_max_entries capacity \<and>
    map (\<lambda>r. (jr_address r, jr_value r)) (kr_json r) = map (\<lambda>a. (a, btree_get (ms_json (en_state en)) a)) json_keys \<and>
    map (\<lambda>r. (br_address r, br_value r)) (kr_blobs r) = map (\<lambda>a. (a, btree_get (ms_blobs (en_state en)) a)) blob_keys \<and>
    kr_events r = (if include_events then ms_events (en_state en) else []) \<and>
    rr_entry_count (kr_receipt r) = length json_keys + length blob_keys \<and>
    rr_event_count (kr_receipt r) = length (kr_events r)"
proof -
  from assms obtain jb jr bb br where
    d: "reject_duplicate_known_keys json_keys ''json'' = Inr ()" "reject_duplicate_known_keys blob_keys ''blob'' = Inr ()"
    and j: "try_fold (read_known_json env capacity (ms_json (en_state en))) json_keys (0, []) = Inr (jb, jr)"
    and b: "try_fold (read_known_blob capacity (ms_blobs (en_state en))) blob_keys (0, []) = Inr (bb, br)"
    and n: "saturating_add (length json_keys) (length blob_keys) \<le> cap_kv_max_entries capacity"
    and ev: "kr_events r = (if include_events then ms_events (en_state en) else [])"
    and rc: "known_key_read_receipt env jr br (kr_events r) = Inr (kr_receipt r)" "kr_json r = jr" "kr_blobs r = br"
    unfolding read_consistent_known_keys_def read_bounded_known_keys_from_parts_def Let_def
    by (auto simp: result_simps split: prod.splits if_splits)
  note J = read_known_json_Ok [OF j] and B = read_known_blob_Ok [OF b]
  have "length jr = length json_keys" "length br = length blob_keys"
    using J B by (metis (no_types, lifting) append_self_conv2 le0 length_map list.map(1))+
  then have "rr_entry_count (kr_receipt r) = length json_keys + length blob_keys"
    "rr_event_count (kr_receipt r) = length (kr_events r)"
    using receipt_counts [OF rc(1)] by simp_all
  then show ?thesis using d n ev J B rc(2,3) by (simp add: reject_duplicate_known_keys_Ok)
qed

theorem known_key_read_exact_witness:
  "\<exists>r. read_consistent_known_keys sample_store_env sample_engine [(''docs'', ''linked''), (''docs'', ''none'')] [] True capacity_full
       = Inr r \<and>
     map (\<lambda>r. (jr_address r, jr_value r)) (kr_json r) =
       map (\<lambda>a. (a, btree_get (ms_json (en_state sample_engine)) a)) [(''docs'', ''linked''), (''docs'', ''none'')]"
proof -
  let ?r = "read_consistent_known_keys sample_store_env sample_engine [(''docs'', ''linked''), (''docs'', ''none'')] [] True capacity_full"
  have "\<not> isl ?r" by code_simp
  then obtain r where r: "?r = Inr r" by (cases ?r) auto
  then show ?thesis using known_key_read_exact [OF r] by blast
qed

section \<open>Receipts\<close>

text \<open>
  C16. The digest of a read receipt binds what was read: if two receipts have one digest, and
  the hash does not collide on the two byte strings these receipts hash, they are receipts of
  the same documents in the same order, with the same serialised values, the same blobs and
  the same serialised events; in particular an absent value is told from an empty one, and no
  two fields can run into each other.
\<close>

theorem receipt_digest_binds_reads:
  assumes "inj_on (se_sha256_hex env)
      {receipt_bytes (map (json_image env) j1) (map blob_image b1) (map (event_image env) e1),
       receipt_bytes (map (json_image env) j2) (map blob_image b2) (map (event_image env) e2)}"
    and "known_key_read_receipt env j1 b1 e1 = Inr r1" and "known_key_read_receipt env j2 b2 e2 = Inr r2"
    and "images_fit (map (json_image env) j1) (map blob_image b1) (map (event_image env) e1)"
    and "images_fit (map (json_image env) j2) (map blob_image b2) (map (event_image env) e2)"
    and "rr_state_digest r1 = rr_state_digest r2"
  shows "map (json_image env) j1 = map (json_image env) j2 \<and> b1 = b2 \<and>
         map (event_image env) e1 = map (event_image env) e2"
proof -
  have "receipt_bytes (map (json_image env) j1) (map blob_image b1) (map (event_image env) e1) =
        receipt_bytes (map (json_image env) j2) (map blob_image b2) (map (event_image env) e2)"
    using assms(6) unfolding receipt_digest [OF assms(2)] receipt_digest [OF assms(3)] by (rule inj_onD [OF assms(1)]) simp_all
  from receipt_bytes_inject [OF this assms(4,5)]
  have i: "map (json_image env) j1 = map (json_image env) j2" "map blob_image b1 = map blob_image b2"
    "map (event_image env) e1 = map (event_image env) e2" by blast+
  have "inj blob_image" by (rule injI) (simp add: blob_image_def)
  then show ?thesis using i by (simp add: inj_map_eq_map)
qed

text \<open>The digest of the example has 64 digits, so it collides, but not on these two receipts.\<close>

definition receipt_env :: "string store_env" where
  "receipt_env = sample_store_env\<lparr>se_sha256_hex := sample_sha256\<rparr>"

theorem receipt_digest_binds_reads_witness:
  "\<exists>r1 r2.
     known_key_read_receipt receipt_env [\<lparr> jr_namespace = ''docs'', jr_key = ''a'', jr_value = None \<rparr>] [] [] = Inr r1 \<and>
     known_key_read_receipt receipt_env [\<lparr> jr_namespace = ''docs'', jr_key = ''a'', jr_value = Some [] \<rparr>] [] [] = Inr r2 \<and>
     rr_state_digest r1 \<noteq> rr_state_digest r2"
proof -
  let ?j1 = "[\<lparr> jr_namespace = ''docs'', jr_key = ''a'', jr_value = None \<rparr>] :: string json_read list"
  let ?j2 = "[\<lparr> jr_namespace = ''docs'', jr_key = ''a'', jr_value = Some [] \<rparr>] :: string json_read list"
  have "\<not> isl (known_key_read_receipt receipt_env ?j1 [] [])" "\<not> isl (known_key_read_receipt receipt_env ?j2 [] [])"
    by code_simp+
  then obtain r1 r2 where r: "known_key_read_receipt receipt_env ?j1 [] [] = Inr r1"
    "known_key_read_receipt receipt_env ?j2 [] [] = Inr r2"
    by (cases "known_key_read_receipt receipt_env ?j1 [] []";
        cases "known_key_read_receipt receipt_env ?j2 [] []") auto
  have "length (receipt_bytes (map (json_image receipt_env) ?j1) (map blob_image []) (map (event_image receipt_env) [])) mod 65 \<noteq>
      length (receipt_bytes (map (json_image receipt_env) ?j2) (map blob_image []) (map (event_image receipt_env) [])) mod 65"
    by code_simp
  from sample_sha256_inj_on [OF this] have inj: "inj_on (se_sha256_hex receipt_env)
      {receipt_bytes (map (json_image receipt_env) ?j1) (map blob_image []) (map (event_image receipt_env) []),
       receipt_bytes (map (json_image receipt_env) ?j2) (map blob_image []) (map (event_image receipt_env) [])}"
    by (simp add: receipt_env_def)
  have fit: "images_fit (map (json_image receipt_env) ?j1) (map blob_image []) (map (event_image receipt_env) [])"
    "images_fit (map (json_image receipt_env) ?j2) (map blob_image []) (map (event_image receipt_env) [])"
    by (simp_all add: images_fit_def fits64_def json_image_def receipt_env_def sample_store_env_def)
  have "map (json_image receipt_env) ?j1 \<noteq> map (json_image receipt_env) ?j2" by (simp add: json_image_def)
  then show ?thesis using receipt_digest_binds_reads [OF inj r fit] r by blast
qed

end
