(* ===== verification/File_Read_Guarantees.thy ===== *)
theory File_Read_Guarantees
  imports File_Reads File_Guarantees Read_Guarantees
begin

text \<open>
  What the reads of the file-backed store guarantee while other processes use the same files:
  they return, and what they return is what the in-memory store returns on the store the files
  then hold.
\<close>

section \<open>Other processes\<close>

text \<open>
  The others leave one of the given stores whenever they found one of them, perhaps with a
  journal in place: crash atomicity of commits says that they do.
\<close>

definition others_keep :: "'v file_env \<Rightarrow> file_engine \<Rightarrow> ('v mem_state \<Rightarrow> bool) \<Rightarrow> (nat \<Rightarrow> files \<Rightarrow> files) \<Rightarrow> bool" where
  "others_keep env eng K others \<longleftrightarrow>
     (\<forall>n fs st. K st \<and> contents env eng st fs \<longrightarrow> (\<exists>st'. K st' \<and> contents env eng st' (others n fs)))"

text \<open>From some moment on, none of them is cut short again.\<close>

definition quiet_from :: "nat \<Rightarrow> (nat \<Rightarrow> files \<Rightarrow> files) \<Rightarrow> bool" where
  "quiet_from k others \<longleftrightarrow>
     (\<forall>n fs. k \<le> n \<and> btree_get fs transaction_marker_path = None \<longrightarrow> btree_get (others n fs) transaction_marker_path = None)"

definition returns_on ::
  "'v file_env \<Rightarrow> file_engine \<Rightarrow> ('v mem_state \<Rightarrow> bool) \<Rightarrow> (files \<Rightarrow> 'b result) \<Rightarrow> (files \<times> 'b result) option \<Rightarrow> bool" where
  "returns_on env eng K operation r \<longleftrightarrow> (\<exists>fs st. r = Some (fs, operation fs) \<and> K st \<and> settled env eng st fs)"

lemma shared_direct:
  assumes "codecs_ok env" and "btree_get fs transaction_marker_path = None"
  shows "with_shared_backend env eng others stage operation n fs = Some (fs, operation fs)"
  using assms(2) by (subst with_shared_backend.simps) (simp add: fs_read_def no_fault [OF assms(1)] missing_file_def)

lemma shared_without_journal:
  assumes "codecs_ok env" and "K st" and "contents env eng st fs" and "btree_get fs transaction_marker_path = None"
  shows "returns_on env eng K operation (with_shared_backend env eng others stage operation n fs)"
  unfolding shared_direct [OF assms(1,4)] returns_on_def using assms by (auto simp: settled_def contents_def)

text \<open>One round of the loop.\<close>

lemma shared_round:
  assumes ok: "codecs_ok env" and keep: "others_keep env eng K others" and "K st" and "contents env eng st fs"
    and "btree_get fs transaction_marker_path = Some bs"
  obtains st' fs' where "K st'" "contents env eng st' (others (n + 1) fs')" "btree_get fs' transaction_marker_path = None"
    "with_shared_backend env eng others stage operation n fs
       = with_shared_backend env eng others stage operation (n + 2) (others (n + 1) fs')"
proof -
  obtain u where u: "K u" "contents env eng u (others n fs)"
    using keep assms(3,4) unfolding others_keep_def by blast
  obtain ops where ops: "recover_transaction_if_needed env eng (others n fs) = emit ops"
    "settled env eng u (run_ops ops (others n fs))"
    using recover_contents [OF ok u(2)] by metis
  obtain st' where st': "K st'" "contents env eng st' (others (n + 1) (run_ops ops (others n fs)))"
    using keep u(1) settled_contents [OF ops(2)] unfolding others_keep_def by blast
  have "with_shared_backend env eng others stage operation n fs
      = with_shared_backend env eng others stage operation (n + 2) (others (n + 1) (run_ops ops (others n fs)))"
    by (subst with_shared_backend.simps) (simp add: fs_read_def no_fault [OF ok] assms(5) ops(1))
  then show thesis using that st' ops(2) by (simp add: settled_def)
qed

lemma shared_returns:
  assumes ok: "codecs_ok env" and keep: "others_keep env eng K others" and quiet: "quiet_from k others"
    and "K st" and "contents env eng st fs"
  shows "returns_on env eng K operation (with_shared_backend env eng others stage operation n fs)"
  using assms(4,5)
proof (induction "k - n" arbitrary: n st fs rule: less_induct)
  case less
  show ?case
  proof (cases "btree_get fs transaction_marker_path")
    case None
    then show ?thesis using shared_without_journal [where K = K, OF ok less.prems] by blast
  next
    case (Some bs)
    then obtain st' fs' where round: "K st'" "contents env eng st' (others (n + 1) fs')" "btree_get fs' transaction_marker_path = None"
      "with_shared_backend env eng others stage operation n fs
         = with_shared_backend env eng others stage operation (n + 2) (others (n + 1) fs')"
      using shared_round [OF ok keep less.prems] by metis
    show ?thesis
    proof (cases "k \<le> n + 1")
      case True
      then have "btree_get (others (n + 1) fs') transaction_marker_path = None"
        using quiet round(3) unfolding quiet_from_def by blast
      then show ?thesis unfolding round(4) using shared_without_journal [where K = K, OF ok round(1,2)] by blast
    next
      case False
      then show ?thesis unfolding round(4) by (intro less.hyps [OF _ round(1,2)]) simp
    qed
  qed
qed

text \<open>
  C7. Reads return. A read that keeps finding journals recovers and starts again; if every
  other process leaves one of the given stores behind, perhaps through a journal, and from
  some moment on none of them is cut short, the loop ends. The operation then ran on files
  without a journal that hold one of these stores, and its result is the result of the read.
\<close>

theorem shared_read_terminates:
  assumes "codecs_ok env" and "others_keep env eng K others" and "quiet_from k others"
    and "K st" and "contents env eng st fs"
  shows "\<exists>fs' st'. with_shared_backend env eng others stage operation n fs = Some (fs', operation fs') \<and>
     K st' \<and> settled env eng st' fs'"
  using shared_returns [OF assms] by (simp add: returns_on_def)

text \<open>A store that another process left in the middle of a commit.\<close>

lemma nobody_keeps: "others_keep env eng K (\<lambda>_ fs. fs)" "quiet_from 0 (\<lambda>_ fs. fs)"
  by (auto simp: others_keep_def quiet_from_def)

theorem shared_read_terminates_witness:
  "\<exists>fs bs fs'. btree_get fs transaction_marker_path = Some bs \<and>
     with_shared_backend file_env small_engine (\<lambda>_ fs. fs) ''store_event_log'' (read_events_unlocked file_env small_engine) 0 fs
       = Some (fs', read_events_unlocked file_env small_engine fs') \<and>
     settled file_env small_engine mem_state_default fs'"
proof -
  obtain fs bs where fs: "contents file_env small_engine mem_state_default fs" "btree_get fs transaction_marker_path = Some bs"
    by (rule small_prepared)
  have "codecs_ok file_env" unfolding file_env_def by (rule small_codecs)
  from shared_read_terminates [OF this nobody_keeps, of "\<lambda>st. st = mem_state_default" mem_state_default small_engine fs, OF refl fs(1)]
  show ?thesis using fs(2) by blast
qed


section \<open>Known keys\<close>

lemma try_fold_cong:
  assumes "\<And>x s. x \<in> set xs \<Longrightarrow> f x s = g x s"
  shows "try_fold f xs s = try_fold g xs s"
  using assms
proof (induction xs arbitrary: s)
  case (Cons x xs)
  then have "try_fold f xs = try_fold g xs" by (intro ext) simp
  then show ?case using Cons.prems by simp
qed simp

lemma read_known_cong:
  "btree_get json a = btree_get json' a \<Longrightarrow> read_known_json env capacity json a s = read_known_json env capacity json' a s"
  "btree_get blobs a = btree_get blobs' a \<Longrightarrow> read_known_blob capacity blobs a t = read_known_blob capacity blobs' a t"
  by (cases a; cases s; cases t; simp add: read_known_json_def read_known_blob_def)+

text \<open>A bounded read depends on the store at the requested keys only.\<close>

lemma known_keys_cong:
  assumes "\<And>a. a \<in> set json_keys \<Longrightarrow> btree_get json a = btree_get json' a"
    and "\<And>a. a \<in> set blob_keys \<Longrightarrow> btree_get blobs a = btree_get blobs' a"
    and "include_events \<Longrightarrow> events = events'"
  shows "read_bounded_known_keys_from_parts env json_keys blob_keys include_events capacity json blobs events
     = read_bounded_known_keys_from_parts env json_keys blob_keys include_events capacity json' blobs' events'"
proof -
  have J: "try_fold (read_known_json env capacity json) json_keys s = try_fold (read_known_json env capacity json') json_keys s" for s
    by (rule try_fold_cong) (rule read_known_cong(1) [OF assms(1)])
  have B: "try_fold (read_known_blob capacity blobs) blob_keys s = try_fold (read_known_blob capacity blobs') blob_keys s" for s
    by (rule try_fold_cong) (rule read_known_cong(2) [OF assms(2)])
  show ?thesis
    unfolding read_bounded_known_keys_from_parts_def J B using assms(3)
    by (cases include_events) (simp_all add: Let_def cong: if_cong)
qed

abbreviation memory_engine :: "file_engine \<Rightarrow> 'v mem_state \<Rightarrow> 'v mem_engine" where
  "memory_engine eng st \<equiv> \<lparr> en_capacity = fl_capacity eng, en_admission_authority = fl_admission_authority eng, en_state = st \<rparr>"

lemma known_parts_exact:
  assumes ok: "codecs_ok env" and s: "settled env eng st fs"
    and r: "read_known_parts env eng json_keys blob_keys include_events capacity fs = Inr r"
  shows "read_consistent_known_keys (fe_store env) (memory_engine eng st) json_keys blob_keys include_events capacity = Inr r"
proof -
  have jl: "json_lane env eng {} (ms_json st) fs" and bl: "blob_lane env eng {} (ms_blobs st) fs"
    and ll: "log_holds env (content fs events_path) (ms_events st)"
    using s by (simp_all add: settled_def disk_repr_def)
  obtain j b events where
    j: "try_fold (\<lambda>a. load_json_counted ''consistent known-key JSON byte count overflow'' env eng fs capacity (fst a) (snd a))
         json_keys (btree_empty, 0) = Inr j"
    and b: "try_fold (load_blob_counted ''consistent known-key blob byte count overflow'' env eng fs capacity)
         blob_keys (btree_empty, 0) = Inr b"
    and e: "(if include_events then read_events_unlocked_bounded env fs capacity (snd j) else Ok []) = Inr events"
    and out: "read_bounded_known_keys_from_parts (fe_store env) json_keys blob_keys include_events capacity (fst j) (fst b) events = Inr r"
    using r unfolding read_known_parts_def case_prod_unfold and_then_eq_Ok by blast
  have lj: "loaded (btree_get (ms_json st)) (set json_keys) (fst j)"
    using load_jsons_exact [OF ok jl _ j, of "{}"] by (simp add: loaded_empty)
  have lb: "loaded (btree_get (ms_blobs st)) (set blob_keys) (fst b)"
    using load_blobs_exact [OF ok bl _ b, of "{}"] by (simp add: loaded_empty)
  have le: "events = ms_events st" if include_events
    using e that read_events_exact [OF ll ok]
    by (auto simp: read_events_unlocked_bounded_def and_then_eq_Ok split: if_splits)
  show ?thesis
    unfolding read_consistent_known_keys_def out [symmetric]
    using known_keys_cong [where json = "fst j" and json' = "ms_json st" and blobs = "fst b" and blobs' = "ms_blobs st"]
      loaded_part(2) [OF lj] loaded_part(2) [OF lb] le
    by (metis mem_engine.select_convs(3))
qed

text \<open>
  C8. The bounded read of known keys returns, and it returns only what the in-memory store
  returns: under the conditions that make the locking loop end, a successful result is the
  result of the in-memory engine, receipt and digest included, on one store, which the files
  held without a journal at the moment of the read.
\<close>

theorem file_known_keys_match_memory:
  assumes "codecs_ok env" and "others_keep env eng K others" and "quiet_from k others"
    and "K st" and "contents env eng st fs"
  shows "\<exists>fs' res. file_read_consistent_known_keys env eng others json_keys blob_keys include_events capacity fs = Some (fs', res) \<and>
     (\<forall>r. res = Inr r \<longrightarrow> (\<exists>st'. K st' \<and> settled env eng st' fs' \<and>
        read_consistent_known_keys (fe_store env) (memory_engine eng st') json_keys blob_keys include_events capacity = Inr r))"
proof -
  have "returns_on env eng K (read_known_parts env eng json_keys blob_keys include_events capacity)
      (with_shared_backend env eng others ''store_consistent_read''
         (read_known_parts env eng json_keys blob_keys include_events capacity) 0 fs)"
    by (rule shared_returns [OF assms])
  then obtain fs' st' where "with_shared_backend env eng others ''store_consistent_read''
         (read_known_parts env eng json_keys blob_keys include_events capacity) 0 fs
       = Some (fs', read_known_parts env eng json_keys blob_keys include_events capacity fs')" "K st'" "settled env eng st' fs'"
    unfolding returns_on_def by blast
  then show ?thesis
    using known_parts_exact [OF assms(1)]
    by (auto simp: file_read_consistent_known_keys_def Let_def split: sum.splits)
qed


lemma small_known_parts:
  obtains r where "read_known_parts file_env small_engine [(''docs'', ''b'')] [(''blobs'', ''x'')] True capacity_full btree_empty = Inr r"
proof -
  have fault: "fe_fault file_env q = None" for q by (simp add: file_env_def small_env_def)
  have e: "read_events_unlocked_bounded file_env btree_empty capacity_full 0 = Inr []"
    by (simp add: read_events_unlocked_bounded_def fs_read_def fault missing_file_def empty_reads(3) [OF fault] saturating_add_def)
  have st: "fe_store file_env = small_store_env" by (simp add: file_env_def small_env_def)
  have "\<not> isl (read_bounded_known_keys_from_parts small_store_env [(''docs'', ''b'')] [(''blobs'', ''x'')] True capacity_full
      btree_empty btree_empty [])" by code_simp
  then show thesis
    using that
    by (cases "read_bounded_known_keys_from_parts small_store_env [(''docs'', ''b'')] [(''blobs'', ''x'')] True capacity_full
      btree_empty btree_empty []") (simp_all add: read_known_parts_def empty_reads(1,2) [OF fault] e st)
qed

lemma small_key_checks:
  "\<not> isl (and_then (check_known_keys capacity_full ''json'' [(''docs'', ''b'')] btree_empty)
     (check_known_keys capacity_full ''blob'' [(''blobs'', ''x'')]))"
  by code_simp

theorem file_known_keys_match_memory_witness:
  "\<exists>r. file_read_consistent_known_keys file_env small_engine (\<lambda>_ fs. fs) [(''docs'', ''b'')] [(''blobs'', ''x'')] True capacity_full btree_empty
       = Some (btree_empty, Inr r) \<and>
     read_consistent_known_keys small_store_env (memory_engine small_engine mem_state_default)
       [(''docs'', ''b'')] [(''blobs'', ''x'')] True capacity_full = Inr r"
proof -
  have ok: "codecs_ok file_env" unfolding file_env_def by (rule small_codecs)
  obtain r where r: "read_known_parts file_env small_engine [(''docs'', ''b'')] [(''blobs'', ''x'')] True capacity_full btree_empty = Inr r"
    by (rule small_known_parts)
  have few: "\<not> cap_kv_max_entries capacity_full < saturating_add (length [(''docs'', ''b'')]) (length [(''blobs'', ''x'')])"
    by (simp add: saturating_add_def capacity_full_def usize_max_def)
  have run: "file_read_consistent_known_keys file_env small_engine (\<lambda>_ fs. fs) [(''docs'', ''b'')] [(''blobs'', ''x'')] True
      capacity_full btree_empty = Some (btree_empty, Inr r)"
    unfolding file_read_consistent_known_keys_def Let_def if_not_P [OF few]
    using small_key_checks by (auto simp: shared_direct [OF ok] r split: sum.splits)
  have st: "fe_store file_env = small_store_env" by (simp add: file_env_def small_env_def)
  from file_known_keys_match_memory [OF ok nobody_keeps, of "\<lambda>st. st = mem_state_default" mem_state_default small_engine btree_empty
      "[(''docs'', ''b'')]" "[(''blobs'', ''x'')]" True capacity_full, OF refl settled_contents [OF small_default]] run
  show ?thesis unfolding st by auto
qed

section \<open>Sessions\<close>

lemma session_json_exact:
  assumes "codecs_ok env" and "settled env eng st fs" and "session_read_json env eng fs as s = (s', Inr rs)"
  shows "read_json_known_keys (fe_store env) st as s = (s', Inr rs)"
  using assms(3)
proof (induction as arbitrary: s rs)
  case (Cons a as)
  have jl: "json_lane env eng {} (ms_json st) fs" using assms(2) by (simp add: settled_def disk_repr_def)
  from Cons.prems obtain found u r rs' where
    f: "get_json_value_unlocked_bounded env eng fs (fst a) (snd a) (remaining_json_bytes s) = Inr found"
    and u: "record_json (fe_store env) s (fst a) (snd a) (map_option fst found) = (u, Inr r)"
    and rest: "session_read_json env eng fs as u = (s', Inr rs')" "rs = r # rs'"
    by (auto simp: session_fail_def split: sum.splits prod.splits)
  have "map_option fst found = btree_get (ms_json st) a" using get_json_bounded_exact [OF assms(1) jl f] by simp
  then show ?case using u Cons.IH [OF rest(1)] rest(2) by simp
qed simp

lemma session_blobs_exact:
  assumes "codecs_ok env" and "settled env eng st fs" and "session_read_blobs env eng fs as s = (s', Inr rs)"
  shows "read_blob_known_keys st as s = (s', Inr rs)"
  using assms(3)
proof (induction as arbitrary: s rs)
  case (Cons a as)
  have bl: "blob_lane env eng {} (ms_blobs st) fs" using assms(2) by (simp add: settled_def disk_repr_def)
  from Cons.prems obtain found u r rs' where
    f: "get_blob_unlocked_bounded env eng fs (fst a) (snd a) (remaining_blob_bytes s) = Inr found"
    and u: "record_blob s (fst a) (snd a) (map_option fst found) = (u, Inr r)"
    and rest: "session_read_blobs env eng fs as u = (s', Inr rs')" "rs = r # rs'"
    by (auto simp: session_fail_def split: sum.splits prod.splits)
  have "map_option fst found = btree_get (ms_blobs st) a"
    using get_blob_bounded_exact [OF assms(1) bl f] by (simp add: option.map_comp comp_def option.map_ident)
  then show ?case using u Cons.IH [OF rest(1)] rest(2) by simp
qed simp


text \<open>
  C9. A read session works on one store. Opening it returns, and if it opens, the files hold
  one store without a journal; as long as the session keeps its lock, every batch of documents
  or blobs that it reads with success, from whatever state it is in, is the batch the
  in-memory session returns on that store, and leaves the session in the same state.
\<close>

theorem file_session_matches_memory:
  assumes "codecs_ok env" and "others_keep env eng K others" and "quiet_from k others"
    and "K st" and "contents env eng st fs"
  shows "\<exists>fs' res. file_open_immutable_read_session env eng others capacity fs = Some (fs', res) \<and>
     (\<forall>s. res = Inr s \<longrightarrow> (\<exists>st'. K st' \<and> settled env eng st' fs' \<and>
        open_immutable_read_session (memory_engine eng st') capacity = Inr s \<and>
        (\<forall>as u u' rs. session_read_json env eng fs' as u = (u', Inr rs) \<longrightarrow>
           read_json_known_keys (fe_store env) st' as u = (u', Inr rs)) \<and>
        (\<forall>as u u' rs. session_read_blobs env eng fs' as u = (u', Inr rs) \<longrightarrow>
           read_blob_known_keys st' as u = (u', Inr rs))))"
proof (cases "validate_immutable_read_session_capacity (fl_capacity eng) capacity")
  case (Inl e)
  then show ?thesis by (simp add: file_open_immutable_read_session_def)
next
  case (Inr u)
  obtain fs' st' where run: "acquire_immutable_read_lock env eng others fs = Some (fs', Inr ())" "K st'" "settled env eng st' fs'"
    using shared_returns [OF assms] unfolding acquire_immutable_read_lock_def returns_on_def by blast
  have "file_open_immutable_read_session env eng others capacity fs = Some (fs', Inr (session_new capacity))"
    "open_immutable_read_session (memory_engine eng st') capacity = Inr (session_new capacity)"
    by (simp_all add: file_open_immutable_read_session_def open_immutable_read_session_def Inr run(1))
  then show ?thesis
    using run(2,3) session_json_exact [OF assms(1) run(3)] session_blobs_exact [OF assms(1) run(3)] by blast
qed

theorem file_session_matches_memory_witness:
  "\<exists>fs bs fs' s. btree_get fs transaction_marker_path = Some bs \<and>
     file_open_immutable_read_session file_env small_engine (\<lambda>_ fs. fs) capacity_full fs = Some (fs', Inr s) \<and>
     settled file_env small_engine mem_state_default fs' \<and>
     (\<forall>as u u' rs. session_read_json file_env small_engine fs' as u = (u', Inr rs) \<longrightarrow>
        read_json_known_keys small_store_env mem_state_default as u = (u', Inr rs))"
proof -
  obtain fs bs where fs: "contents file_env small_engine mem_state_default fs" "btree_get fs transaction_marker_path = Some bs"
    by (rule small_prepared)
  have ok: "codecs_ok file_env" unfolding file_env_def by (rule small_codecs)
  have st: "fe_store file_env = small_store_env" by (simp add: file_env_def small_env_def)
  have v: "validate_immutable_read_session_capacity (fl_capacity small_engine) capacity_full = Inr ()"
    unfolding small_engine_fields by code_simp
  obtain fs' where "acquire_immutable_read_lock file_env small_engine (\<lambda>_ fs. fs) fs = Some (fs', Inr ())"
    using shared_returns [OF ok nobody_keeps, of "\<lambda>st. st = mem_state_default" mem_state_default small_engine fs, OF refl fs(1)]
    unfolding acquire_immutable_read_lock_def returns_on_def by blast
  then have "file_open_immutable_read_session file_env small_engine (\<lambda>_ fs. fs) capacity_full fs = Some (fs', Inr (session_new capacity_full))"
    by (simp add: file_open_immutable_read_session_def v)
  then show ?thesis
    using file_session_matches_memory [OF ok nobody_keeps, of "\<lambda>st. st = mem_state_default" mem_state_default small_engine fs capacity_full,
        OF refl fs(1)] fs(2) unfolding st by auto
qed

section \<open>Single reads and listings\<close>

text \<open>A single read that succeeds returns the entry of the store.\<close>

lemma get_json_exact:
  assumes "codecs_ok env" and "settled env eng st fs" and "get_json_value_unlocked env eng fs ns k = Inr found"
  shows "get_json_value (memory_engine eng st) ns k = Inr found"
proof -
  have jl: "json_lane env eng {} (ms_json st) fs" using assms(2) by (simp add: settled_def disk_repr_def)
  from assms(3) obtain p raw where p: "json_paths eng ns k = Inr p" and raw: "read_entry env eng fs p k ''file_store_json_read'' = Inr raw"
    and res: "case raw of None \<Rightarrow> found = None | Some bs \<Rightarrow> \<exists>v. fe_parse_json env bs = Inr v \<and> found = Some v"
    unfolding get_json_value_unlocked_def and_then_eq_Ok
    by (force simp: result_simps map_config_err_def split: option.splits sum.splits)
  have "holds_at (json_decode env) (btree_get (ms_json st) (ns, k)) raw"
    using read_entry_exact [OF assms(1) jl lanes(1) _ raw] p by (simp add: json_paths_def)
  then have "found = btree_get (ms_json st) (ns, k)"
    using res by (auto simp: holds_at_def json_decode_def split: option.splits)
  moreover have "enforce_logical_key_budget (fl_capacity eng) ns k l = Inr ()" for l
    using p by (auto simp: json_paths_def physical_key_paths_at_root_def Let_def and_then_eq_Ok enforce_logical_key_budget_def split: if_splits)
  ultimately show ?thesis by (simp add: get_json_value_def)
qed

lemma get_blob_exact:
  assumes "codecs_ok env" and "settled env eng st fs" and "get_blob_unlocked env eng fs ns k = Inr found"
  shows "get_blob (memory_engine eng st) ns k = Inr found"
proof -
  have bl: "blob_lane env eng {} (ms_blobs st) fs" using assms(2) by (simp add: settled_def disk_repr_def)
  from assms(3) obtain p where p: "blob_paths eng ns k = Inr p" and raw: "read_entry env eng fs p k ''file_store_blob_read'' = Inr found"
    by (auto simp: get_blob_unlocked_def result_simps)
  have "holds_at Some (btree_get (ms_blobs st) (ns, k)) found"
    using read_entry_exact [OF assms(1) bl lanes(2) _ raw] p by (simp add: blob_paths_def)
  moreover have "enforce_logical_key_budget (fl_capacity eng) ns k l = Inr ()" for l
    using p by (auto simp: blob_paths_def physical_key_paths_at_root_def Let_def and_then_eq_Ok enforce_logical_key_budget_def split: if_splits)
  ultimately show ?thesis by (auto simp: get_blob_def holds_at_def split: option.splits)
qed


text \<open>A listing is the listing of the in-memory store.\<close>

lemma keys_in_namespace_unique:
  assumes "set ks = keys_at (btree_get m) ns" and "distinct ks" and "sorted ks"
  shows "ks = keys_in_namespace ns m"
proof (rule sorted_distinct_set_unique [OF assms(3,2)])
  let ?as = "filter (\<lambda>a. fst a = ns) (btree_keys m)"
  show "sorted (keys_in_namespace ns m)" by (simp add: keys_in_namespace_def)
  have "inj_on snd (set ?as)" by (auto simp: inj_on_def)
  then show "distinct (keys_in_namespace ns m)"
    by (simp add: keys_in_namespace_def distinct_map keys_distinct)
  show "set ks = set (keys_in_namespace ns m)"
    unfolding assms(1) by (force simp: keys_in_namespace_def keys_at_def set_keys)
qed

lemma list_json_exact:
  assumes "codecs_ok env" and "settled env eng st fs" and "text_keys (btree_get (ms_json st))"
    and "list_json_keys_unlocked env eng fs ns = Inr ks"
  shows "ks = keys_in_namespace ns (ms_json st)"
proof -
  have jl: "json_lane env eng {} (ms_json st) fs" using assms(2) by (simp add: settled_def disk_repr_def)
  have "list_keys env eng fs ''kv'' ns ''json'' = Inr ks"
    using assms(4) by (auto simp: list_json_keys_unlocked_def result_simps)
  from keys_in_namespace_unique [OF list_keys_exact [OF assms(1) jl lanes(1) assms(3) this]] show ?thesis .
qed

lemma list_blob_exact:
  assumes "codecs_ok env" and "settled env eng st fs" and "text_keys (btree_get (ms_blobs st))"
    and "list_blob_keys_unlocked env eng fs ns = Inr ks"
  shows "ks = keys_in_namespace ns (ms_blobs st)"
proof -
  have bl: "blob_lane env eng {} (ms_blobs st) fs" using assms(2) by (simp add: settled_def disk_repr_def)
  have "list_keys env eng fs ''blob'' ns ''bin'' = Inr ks"
    using assms(4) by (auto simp: list_blob_keys_unlocked_def result_simps)
  from keys_in_namespace_unique [OF list_keys_exact [OF assms(1) bl lanes(2) assms(3) this]] show ?thesis .
qed

end
