(* ===== verification/File_Writes.thy ===== *)
theory File_Writes
  imports File_Read_Guarantees
begin

text \<open>
  The direct writes of the file-backed store (\<^verbatim>\<open>sdk/src/store_internal/file.rs\<close>): putting and
  deleting one document or blob and appending one event, outside a transaction. The code
  offers them to the replay harness and to tests. They take the exclusive lock, recover, and
  check the budgets of the store against what its files hold.
\<close>

section \<open>Operations\<close>

definition path_exists :: "'v file_env \<Rightarrow> files \<Rightarrow> path \<Rightarrow> bool" where
  "path_exists env fs p \<longleftrightarrow> \<not> isl (fs_read (fe_fault env) fs p)"

definition ensure_key_index_available ::
  "'v file_env \<Rightarrow> file_engine \<Rightarrow> files \<Rightarrow> physical_key_paths \<Rightarrow> string \<Rightarrow> string \<Rightarrow> unit result" where
  "ensure_key_index_available env eng fs paths key stage =
     and_then (read_key_index env eng fs (index_path paths) stage) (\<lambda>found.
     case found of
       Some existing \<Rightarrow>
         if existing \<noteq> key then Err (config_error stage ''file store physical key collision detected'')
         else Ok ()
     | None \<Rightarrow>
         if path_exists env fs (data_path paths)
         then Err (config_error stage ''file store physical data is missing key index'')
         else Ok ())"

definition validate_v2_pair_for_delete ::
  "'v file_env \<Rightarrow> file_engine \<Rightarrow> files \<Rightarrow> physical_key_paths \<Rightarrow> string \<Rightarrow> string \<Rightarrow> unit result" where
  "validate_v2_pair_for_delete env eng fs paths key stage =
     (let data_exists = path_exists env fs (data_path paths) in
      and_then (read_key_index env eng fs (index_path paths) stage) (\<lambda>index.
      case (data_exists, index) of
        (True, Some existing) \<Rightarrow>
          if existing = key then Ok ()
          else Err (config_error stage ''file store physical key collision detected'')
      | (True, None) \<Rightarrow> Err (config_error stage ''file store physical data is missing key index'')
      | (False, Some _) \<Rightarrow> Err (missing_physical_data stage)
      | (False, None) \<Rightarrow> Ok ()))"

definition ensure_can_append_event :: "'v file_env \<Rightarrow> file_engine \<Rightarrow> files \<Rightarrow> store_event \<Rightarrow> unit result" where
  "ensure_can_append_event env eng fs ev =
     and_then (enforce_event_key_budget (fl_capacity eng) ev ''store_event_log'') (\<lambda>_.
     and_then (read_events_unlocked env eng fs) (\<lambda>events.
     if list_ex (\<lambda>existing. event_id existing = event_id ev) events
     then Err (config_error ''store_event_log'' (''duplicate event id '' @ event_id ev))
     else if cap_event_log_max_items (fl_capacity eng) \<le> length events
     then Err (store_budget_error (''event log items '' @ dec (saturating_add (length events) 1) @ '' exceed ''
            @ dec (cap_event_log_max_items (fl_capacity eng))))
     else Ok ()))"

definition ensure_json_entry_budget :: "'v file_env \<Rightarrow> file_engine \<Rightarrow> files \<Rightarrow> string \<Rightarrow> string \<Rightarrow> unit result" where
  "ensure_json_entry_budget env eng fs namespace key =
     and_then (get_json_value_unlocked env eng fs namespace key) (\<lambda>found.
     if found \<noteq> None then Ok ()
     else
     and_then (json_entry_count env eng fs) (\<lambda>count.
     if cap_kv_max_entries (fl_capacity eng) \<le> count
     then Err (store_budget_error (''kv entries '' @ dec (saturating_add count 1) @ '' exceed ''
            @ dec (cap_kv_max_entries (fl_capacity eng))))
     else Ok ()))"

definition ensure_blob_total_budget ::
  "'v file_env \<Rightarrow> file_engine \<Rightarrow> files \<Rightarrow> string \<Rightarrow> string \<Rightarrow> usize \<Rightarrow> unit result" where
  "ensure_blob_total_budget env eng fs namespace key value_len =
     and_then (get_blob_unlocked env eng fs namespace key) (\<lambda>found.
     let previous = (case found of None \<Rightarrow> 0 | Some v \<Rightarrow> length v) in
     and_then (blob_total_bytes env eng fs) (\<lambda>tot.
     let next_bytes = saturating_add (saturating_sub tot previous) value_len in
     if cap_blob_max_bytes (fl_capacity eng) < next_bytes
     then Err (store_budget_error (''blob bytes '' @ dec next_bytes @ '' exceed ''
            @ dec (cap_blob_max_bytes (fl_capacity eng))))
     else Ok ()))"

definition append_event_unlocked :: "'v file_env \<Rightarrow> file_engine \<Rightarrow> store_event \<Rightarrow> files \<Rightarrow> unit script" where
  "append_event_unlocked env eng ev fs =
     script_then (compute (ensure_can_append_event env eng fs ev)) (\<lambda>_. append_event_unchecked env eng ev)"

definition put_json_value_unlocked ::
  "'v file_env \<Rightarrow> file_engine \<Rightarrow> string \<Rightarrow> string \<Rightarrow> 'v \<Rightarrow> files \<Rightarrow> unit script" where
  "put_json_value_unlocked env eng namespace key v fs =
     script_then (compute (json_paths eng namespace key)) (\<lambda>paths.
     script_then (compute (ensure_json_entry_budget env eng fs namespace key)) (\<lambda>_.
     script_then (compute (ensure_key_index_available env eng fs paths key ''file_store_json_write'')) (\<lambda>_.
     script_then (write_key_index env eng (index_path paths) key ''file_store_json_write'') (\<lambda>_.
     script_then (compute (map_config_err ''file_store_json_write'' (fe_pretty_json env v))) (\<lambda>bs.
     atomic_write (data_path paths) bs (fl_fsync eng))))))"

text \<open>Whether one of the removals found a file; the three paths are different.\<close>

definition delete_entry_files :: "files \<Rightarrow> physical_key_paths \<Rightarrow> bool script" where
  "delete_entry_files fs paths =
     script_then (remove_entry_files paths) (\<lambda>_.
     compute (Ok (btree_contains fs (data_path paths) \<or> btree_contains fs (index_path paths)
                  \<or> btree_contains fs (legacy_path paths))))"

definition delete_json_value_unlocked :: "'v file_env \<Rightarrow> file_engine \<Rightarrow> string \<Rightarrow> string \<Rightarrow> files \<Rightarrow> bool script" where
  "delete_json_value_unlocked env eng namespace key fs =
     script_then (compute (json_paths eng namespace key)) (\<lambda>paths.
     script_then (compute (validate_v2_pair_for_delete env eng fs paths key ''file_store_json_delete'')) (\<lambda>_.
     delete_entry_files fs paths))"

definition put_blob_unlocked ::
  "'v file_env \<Rightarrow> file_engine \<Rightarrow> string \<Rightarrow> string \<Rightarrow> bytes \<Rightarrow> files \<Rightarrow> unit script" where
  "put_blob_unlocked env eng namespace key v fs =
     script_then (compute (blob_paths eng namespace key)) (\<lambda>paths.
     script_then (compute (ensure_blob_total_budget env eng fs namespace key (length v))) (\<lambda>_.
     script_then (compute (ensure_key_index_available env eng fs paths key ''file_store_blob_write'')) (\<lambda>_.
     script_then (write_key_index env eng (index_path paths) key ''file_store_blob_write'') (\<lambda>_.
     atomic_write (data_path paths) v (fl_fsync eng)))))"

definition delete_blob_unlocked :: "'v file_env \<Rightarrow> file_engine \<Rightarrow> string \<Rightarrow> string \<Rightarrow> files \<Rightarrow> bool script" where
  "delete_blob_unlocked env eng namespace key fs =
     script_then (compute (blob_paths eng namespace key)) (\<lambda>paths.
     script_then (compute (validate_v2_pair_for_delete env eng fs paths key ''file_store_blob_delete'')) (\<lambda>_.
     delete_entry_files fs paths))"

definition with_exclusive_backend :: "'v file_env \<Rightarrow> file_engine \<Rightarrow> (files \<Rightarrow> 'b script) \<Rightarrow> files \<Rightarrow> 'b script" where
  "with_exclusive_backend env eng operation fs =
     (case recover_transaction_if_needed env eng fs of
        (ops, r) \<Rightarrow> script_then (ops, r) (\<lambda>_. operation (run_ops ops fs)))"

section \<open>Direct writes\<close>

datatype 'v direct_write =
    PutJsonCall string string 'v
  | DeleteJsonCall string string
  | PutBlobCall string string bytes
  | DeleteBlobCall string string
  | AppendEventCall store_event

text \<open>A call on either store; deletions return whether there was an entry.\<close>

abbreviation no_answer :: "unit script \<Rightarrow> bool option script" where
  "no_answer s \<equiv> script_then s (\<lambda>_. compute (Ok None))"

abbreviation answer :: "bool script \<Rightarrow> bool option script" where
  "answer s \<equiv> script_then s (\<lambda>b. compute (Ok (Some b)))"

fun direct_unlocked :: "'v file_env \<Rightarrow> file_engine \<Rightarrow> 'v direct_write \<Rightarrow> files \<Rightarrow> bool option script" where
  "direct_unlocked env eng (PutJsonCall namespace key v) fs = no_answer (put_json_value_unlocked env eng namespace key v fs)"
| "direct_unlocked env eng (DeleteJsonCall namespace key) fs = answer (delete_json_value_unlocked env eng namespace key fs)"
| "direct_unlocked env eng (PutBlobCall namespace key v) fs = no_answer (put_blob_unlocked env eng namespace key v fs)"
| "direct_unlocked env eng (DeleteBlobCall namespace key) fs = answer (delete_blob_unlocked env eng namespace key fs)"
| "direct_unlocked env eng (AppendEventCall ev) fs = no_answer (append_event_unlocked env eng ev fs)"

definition file_direct :: "'v file_env \<Rightarrow> file_engine \<Rightarrow> 'v direct_write \<Rightarrow> files \<Rightarrow> bool option script" where
  "file_direct env eng call = with_exclusive_backend env eng (direct_unlocked env eng call)"

abbreviation memory_answer :: "('b \<Rightarrow> bool option) \<Rightarrow> 'v mem_engine \<times> 'b result \<Rightarrow> 'v mem_engine \<times> bool option result" where
  "memory_answer f r \<equiv> (fst r, and_then (snd r) (\<lambda>x. Ok (f x)))"

fun memory_direct :: "'v direct_write \<Rightarrow> 'v mem_engine \<Rightarrow> 'v mem_engine \<times> bool option result" where
  "memory_direct (PutJsonCall namespace key v) en = memory_answer (\<lambda>_. None) (put_json_value namespace key v en)"
| "memory_direct (DeleteJsonCall namespace key) en = memory_answer Some (delete_json_value namespace key en)"
| "memory_direct (PutBlobCall namespace key v) en = memory_answer (\<lambda>_. None) (put_blob namespace key v en)"
| "memory_direct (DeleteBlobCall namespace key) en = memory_answer Some (delete_blob namespace key en)"
| "memory_direct (AppendEventCall ev) en = memory_answer (\<lambda>_. None) (append_event ev en)"

fun direct_places :: "'v direct_write \<Rightarrow> address set \<times> address set" where
  "direct_places (PutJsonCall namespace key _) = ({(namespace, key)}, {})"
| "direct_places (DeleteJsonCall namespace key) = ({(namespace, key)}, {})"
| "direct_places (PutBlobCall namespace key _) = ({}, {(namespace, key)})"
| "direct_places (DeleteBlobCall namespace key) = ({}, {(namespace, key)})"
| "direct_places (AppendEventCall _) = ({}, {})"

definition direct_disjoint :: "file_engine \<Rightarrow> 'v direct_write \<Rightarrow> 'v mem_state \<Rightarrow> bool" where
  "direct_disjoint eng call st \<longleftrightarrow>
     collision_free eng ''kv'' ''json'' (fst (direct_places call) \<union> dom (btree_get (ms_json st))) \<and>
     collision_free eng ''blob'' ''bin'' (snd (direct_places call) \<union> dom (btree_get (ms_blobs st)))"

section \<open>One entry of a lane\<close>

lemma entry_replaced:
  assumes s: "restores_entry env eng lane ext decode a ov (emit ops)" and lane: "store_lane lane ext"
    and r: "lane_repr env eng lane ext decode {} m fs" and cf: "collision_free eng lane ext ({a} \<union> dom m)"
  shows "lane_repr env eng lane ext decode {} (m(a := ov)) (run_ops ops fs)"
    and "script_touches ops \<subseteq> entry_zone eng lane ext a"
proof -
  obtain p where p: "physical_key_paths_at_root eng lane (fst a) (snd a) ext = Inr p"
    and zone: "script_touches ops \<subseteq> entry_zone eng lane ext a"
    and slots: "case ov of Some v \<Rightarrow> stored env decode p (snd a) v (run_ops ops fs)
        | None \<Rightarrow> (\<forall>q \<in> entry_slots eng lane ext a. btree_get (run_ops ops fs) q = None)"
    using s unfolding restores_entry_def by auto
  show "script_touches ops \<subseteq> entry_zone eng lane ext a" by (rule zone)
  have "lane_repr env eng lane ext decode {a} m fs" by (rule lane_repr_open [OF r]) auto
  then have "lane_repr env eng lane ext decode {a} m (run_ops ops fs)"
  proof (rule lane_repr_frame [OF _ lane cf])
    show "btree_get (run_ops ops fs) q = btree_get fs q" if "q \<notin> entry_zone eng lane ext a" for q
      using run_frame zone that by blast
  qed simp
  from lane_repr_close [OF this p slots] show "lane_repr env eng lane ext decode {} (m(a := ov)) (run_ops ops fs)" by simp
qed

text \<open>An entry is in the store when one of its files exists.\<close>

lemma entry_present:
  assumes r: "lane_repr env eng lane ext decode {} m fs" and lane: "store_lane lane ext"
    and cf: "collision_free eng lane ext ({(ns, k)} \<union> dom m)" and p: "physical_key_paths_at_root eng lane ns k ext = Inr p"
  shows "btree_contains fs (data_path p) \<or> btree_contains fs (index_path p) \<or> btree_contains fs (legacy_path p) \<longleftrightarrow> m (ns, k) \<noteq> None"
proof
  assume "btree_contains fs (data_path p) \<or> btree_contains fs (index_path p) \<or> btree_contains fs (legacy_path p)"
  then obtain q bs where q: "q \<in> entry_slots eng lane ext (ns, k)" "btree_get fs q = Some bs"
    by (auto simp: entry_slots_def p btree_contains_def)
  have "q \<noteq> []" "hd q = lane" "\<not> is_tmp q"
    using zone_shape [OF subsetD [OF slots_zone q(1)]] slots_not_tmp [OF lane q(1)] by auto
  then obtain a where a: "m a \<noteq> None" "q \<in> entry_slots eng lane ext a"
    using lane_repr_file [OF r q(2)] by blast
  then have "a \<in> {(ns, k)} \<union> dom m" "(ns, k) \<in> {(ns, k)} \<union> dom m" by auto
  then have "a = (ns, k)" using cf [unfolded collision_free_def, rule_format, of a "(ns, k)"] a(2) q(1) by blast
  then show "m (ns, k) \<noteq> None" using a(1) by simp
next
  assume "m (ns, k) \<noteq> None"
  then obtain v where "m (ns, k) = Some v" by blast
  then obtain p' where "physical_key_paths_at_root eng lane (fst (ns, k)) (snd (ns, k)) ext = Inr p'"
    "stored env decode p' (snd (ns, k)) v fs" using lane_repr_entry [OF r] by blast
  then have "stored env decode p k v fs" using p by simp
  then show "btree_contains fs (data_path p) \<or> btree_contains fs (index_path p) \<or> btree_contains fs (legacy_path p)"
    by (auto simp: stored_def btree_contains_def split: option.splits)
qed


lemma zone_kept:
  assumes "script_touches ops \<subseteq> entry_zone eng lane ext a" and "store_lane lane ext"
  shows "btree_get (run_ops ops fs) transaction_marker_path = btree_get fs transaction_marker_path"
    and "content (run_ops ops fs) events_path = content fs events_path"
    and "\<forall>q \<in> script_touches ops. hd q = lane"
proof -
  have lane: "lane = ''kv'' \<or> lane = ''blob''" using assms(2) by (auto simp: store_lane_def)
  have "q \<notin> script_touches ops" if "outside_lanes q" for q
    using that assms(1) zone_lanes lane by blast
  then have same: "btree_get (run_ops ops fs) q = btree_get fs q" if "outside_lanes q" for q
    using that run_frame by blast
  show "btree_get (run_ops ops fs) transaction_marker_path = btree_get fs transaction_marker_path"
    by (rule same) simp
  show "content (run_ops ops fs) events_path = content fs events_path"
    unfolding content_def using same [OF special_paths(1)] by simp
  show "\<forall>q \<in> script_touches ops. hd q = lane" using assms(1) zone_shape(2) by blast
qed

lemma json_written:
  assumes "settled env eng st fs" and "collision_free eng ''kv'' ''json'' ({a} \<union> dom (btree_get (ms_json st)))"
    and "restores_entry env eng ''kv'' ''json'' (json_decode env) a ov (emit ops)"
    and "btree_get m' = (btree_get (ms_json st))(a := ov)"
  shows "settled env eng (st\<lparr>ms_json := m'\<rparr>) (run_ops ops fs)"
proof -
  have d: "json_lane env eng {} (ms_json st) fs" "blob_lane env eng {} (ms_blobs st) fs"
    "log_holds env (content fs events_path) (ms_events st)" "btree_get fs transaction_marker_path = None"
    using assms(1) by (simp_all add: settled_def disk_repr_def)
  note e = entry_replaced [OF assms(3) lanes(1) d(1) assms(2)]
  note k = zone_kept [OF e(2) lanes(1)]
  have "blob_lane env eng {} (ms_blobs st) (run_ops ops fs)"
    by (rule lane_kept [OF _ d(2)]) (use k(3) in auto)
  then show ?thesis using e(1) d(3,4) k(1,2) by (simp add: settled_def disk_repr_def assms(4))
qed

lemma blob_written:
  assumes "settled env eng st fs" and "collision_free eng ''blob'' ''bin'' ({a} \<union> dom (btree_get (ms_blobs st)))"
    and "restores_entry env eng ''blob'' ''bin'' Some a ov (emit ops)"
    and "btree_get m' = (btree_get (ms_blobs st))(a := ov)"
  shows "settled env eng (st\<lparr>ms_blobs := m'\<rparr>) (run_ops ops fs)"
proof -
  have d: "json_lane env eng {} (ms_json st) fs" "blob_lane env eng {} (ms_blobs st) fs"
    "log_holds env (content fs events_path) (ms_events st)" "btree_get fs transaction_marker_path = None"
    using assms(1) by (simp_all add: settled_def disk_repr_def)
  note e = entry_replaced [OF assms(3) lanes(2) d(2) assms(2)]
  note k = zone_kept [OF e(2) lanes(2)]
  have "json_lane env eng {} (ms_json st) (run_ops ops fs)"
    by (rule lane_kept [OF _ d(1)]) (use k(3) in auto)
  then show ?thesis using e(1) d(3,4) k(1,2) by (simp add: settled_def disk_repr_def assms(4))
qed

section \<open>The calls\<close>

lemma script_then_pure:
  "script_then s (\<lambda>_. compute (Ok y)) = (ops, Inr z) \<longleftrightarrow> (\<exists>x. s = (ops, Inr x)) \<and> z = y"
  by (cases s; cases "snd s") (auto simp: script_then_def)

lemma script_swap: "script_then s (\<lambda>_. script_then (compute (Inr x)) g) = script_then s (\<lambda>_. g x)"
  by (simp add: script_then_def split: sum.splits)

lemma key_budget_any_stage: "enforce_logical_key_budget capacity ns k l = Inr () \<Longrightarrow> enforce_logical_key_budget capacity ns k l' = Inr ()"
  by (auto simp: enforce_logical_key_budget_def split: if_splits)

lemma paths_budget:
  assumes "physical_key_paths_at_root eng lane ns k ext = Inr p"
  shows "enforce_logical_key_budget (fl_capacity eng) ns k l = Inr ()"
  using assms by (auto simp: physical_key_paths_at_root_def Let_def and_then_eq_Ok intro: key_budget_any_stage)

lemma put_json_matches:
  assumes ok: "codecs_ok env" and s: "settled env eng st fs"
    and cf: "collision_free eng ''kv'' ''json'' ({(ns, k)} \<union> dom (btree_get (ms_json st)))"
    and t: "text_keys (btree_get (ms_json st))" and cap: "cap_kv_max_entries (fl_capacity eng) \<le> usize_max"
    and run: "put_json_value_unlocked env eng ns k v fs = (ops, Inr u)"
  shows "\<exists>en'. put_json_value ns k v (memory_engine eng st) = (en', Inr ()) \<and> settled env eng (en_state en') (run_ops ops fs)"
proof -
  obtain bs where bs: "fe_pretty_json env v = Inr bs" "fe_parse_json env bs = Inr v"
    using ok unfolding codecs_ok_def by blast
  from run obtain p where p: "json_paths eng ns k = Inr p" and b: "ensure_json_entry_budget env eng fs ns k = Inr ()"
    and w: "script_then (write_key_index env eng (index_path p) k ''file_store_json_write'')
        (\<lambda>_. atomic_write (data_path p) bs (fl_fsync eng)) = (ops, Inr u)"
    unfolding put_json_value_unlocked_def script_then_eq_Ok [of "compute _"]
    by (auto simp: bs(1) map_config_err_def script_swap)
  have "restores_entry env eng ''kv'' ''json'' (json_decode env) (ns, k) (Some v) (emit ops)"
    using write_entry [OF ok lanes(1), of eng "(ns, k)" p "json_decode env" bs v "''file_store_json_write''"] p bs w
    by (simp add: json_paths_def json_decode_def)
  note written = json_written [OF s cf this, of "btree_insert (ns, k) v (ms_json st)"]
  have jl: "json_lane env eng {} (ms_json st) fs" using s by (simp add: settled_def disk_repr_def)
  obtain found where f: "get_json_value_unlocked env eng fs ns k = Inr found"
    "found = None \<Longrightarrow> \<exists>n. json_entry_count env eng fs = Inr n \<and> n < cap_kv_max_entries (fl_capacity eng)"
    using b by (auto simp: ensure_json_entry_budget_def and_then_eq_Ok split: if_splits)
  have "found = btree_get (ms_json st) (ns, k)"
    using get_json_exact [OF ok s f(1)] by (auto simp: get_json_value_def and_then_eq_Ok)
  then have "\<not> (\<not> btree_contains (ms_json st) (ns, k) \<and> cap_kv_max_entries (fl_capacity eng) \<le> btree_len (ms_json st))"
    using f(2) json_count_exact [OF ok jl t] cap by (fastforce simp: btree_contains_def min_def split: if_splits)
  moreover have "enforce_logical_key_budget (fl_capacity eng) ns k l = Inr ()" for l
    using paths_budget p by (simp add: json_paths_def)
  ultimately show ?thesis using written by (auto simp: put_json_value_def Let_def)
qed

lemma put_blob_matches:
  assumes ok: "codecs_ok env" and s: "settled env eng st fs"
    and cf: "collision_free eng ''blob'' ''bin'' ({(ns, k)} \<union> dom (btree_get (ms_blobs st)))"
    and t: "text_keys (btree_get (ms_blobs st))"
    and run: "put_blob_unlocked env eng ns k v fs = (ops, Inr u)"
  shows "\<exists>en'. put_blob ns k v (memory_engine eng st) = (en', Inr ()) \<and> settled env eng (en_state en') (run_ops ops fs)"
proof -
  from run obtain p where p: "blob_paths eng ns k = Inr p" and b: "ensure_blob_total_budget env eng fs ns k (length v) = Inr ()"
    and w: "script_then (write_key_index env eng (index_path p) k ''file_store_blob_write'')
        (\<lambda>_. atomic_write (data_path p) v (fl_fsync eng)) = (ops, Inr u)"
    unfolding put_blob_unlocked_def script_then_eq_Ok [of "compute _"] by auto
  have "restores_entry env eng ''blob'' ''bin'' Some (ns, k) (Some v) (emit ops)"
    using write_entry [OF ok lanes(2), of eng "(ns, k)" p Some v v "''file_store_blob_write''"] p w
    by (simp add: blob_paths_def)
  note written = blob_written [OF s cf this, of "btree_insert (ns, k) v (ms_blobs st)"]
  have bl: "blob_lane env eng {} (ms_blobs st) fs" using s by (simp add: settled_def disk_repr_def)
  obtain found n where f: "get_blob_unlocked env eng fs ns k = Inr found" "blob_total_bytes env eng fs = Inr n"
    "\<not> cap_blob_max_bytes (fl_capacity eng)
       < saturating_add (saturating_sub n (case found of None \<Rightarrow> 0 | Some v \<Rightarrow> length v)) (length v)"
    using b by (auto simp: ensure_blob_total_budget_def and_then_eq_Ok Let_def split: if_splits)
  have "found = btree_get (ms_blobs st) (ns, k)"
    using get_blob_exact [OF ok s f(1)] by (auto simp: get_blob_def and_then_eq_Ok)
  moreover have "enforce_logical_key_budget (fl_capacity eng) ns k l = Inr ()" for l
    using paths_budget p by (simp add: blob_paths_def)
  ultimately show ?thesis
    using written f(3) blob_total_exact [OF ok bl t f(2)] by (auto simp: put_blob_def Let_def)
qed

lemma deleted_entry:
  "delete_entry_files fs p = (ops, Inr r) \<longleftrightarrow> remove_entry_files p = emit ops \<and>
     r = (btree_contains fs (data_path p) \<or> btree_contains fs (index_path p) \<or> btree_contains fs (legacy_path p))"
  by (auto simp: delete_entry_files_def script_then_pure)

lemma delete_json_matches:
  assumes s: "settled env eng st fs" and cf: "collision_free eng ''kv'' ''json'' ({(ns, k)} \<union> dom (btree_get (ms_json st)))"
    and run: "delete_json_value_unlocked env eng ns k fs = (ops, Inr r)"
  shows "\<exists>en'. delete_json_value ns k (memory_engine eng st) = (en', Inr r) \<and> settled env eng (en_state en') (run_ops ops fs)"
proof -
  from run obtain p where p: "json_paths eng ns k = Inr p" and d: "delete_entry_files fs p = (ops, Inr r)"
    unfolding delete_json_value_unlocked_def script_then_eq_Ok [of "compute _"] by auto
  have paths: "physical_key_paths_at_root eng ''kv'' ns k ''json'' = Inr p" using p by (simp add: json_paths_def)
  have jl: "json_lane env eng {} (ms_json st) fs" using s by (simp add: settled_def disk_repr_def)
  have "restores_entry env eng ''kv'' ''json'' (json_decode env) (ns, k) None (emit ops)"
    using remove_entry [of eng "''kv''" "(ns, k)" "''json''" p] paths d by (simp add: deleted_entry)
  note written = json_written [OF s cf this, of "btree_remove (ns, k) (ms_json st)"]
  have "r = btree_contains (ms_json st) (ns, k)"
    using d entry_present [OF jl lanes(1) cf paths] by (simp add: deleted_entry btree_contains_def)
  then show ?thesis using written paths_budget [OF paths] by (simp add: delete_json_value_def Let_def)
qed

lemma delete_blob_matches:
  assumes s: "settled env eng st fs" and cf: "collision_free eng ''blob'' ''bin'' ({(ns, k)} \<union> dom (btree_get (ms_blobs st)))"
    and run: "delete_blob_unlocked env eng ns k fs = (ops, Inr r)"
  shows "\<exists>en'. delete_blob ns k (memory_engine eng st) = (en', Inr r) \<and> settled env eng (en_state en') (run_ops ops fs)"
proof -
  from run obtain p where p: "blob_paths eng ns k = Inr p" and d: "delete_entry_files fs p = (ops, Inr r)"
    unfolding delete_blob_unlocked_def script_then_eq_Ok [of "compute _"] by auto
  have paths: "physical_key_paths_at_root eng ''blob'' ns k ''bin'' = Inr p" using p by (simp add: blob_paths_def)
  have bl: "blob_lane env eng {} (ms_blobs st) fs" using s by (simp add: settled_def disk_repr_def)
  have "restores_entry env eng ''blob'' ''bin'' Some (ns, k) None (emit ops)"
    using remove_entry [of eng "''blob''" "(ns, k)" "''bin''" p] paths d by (simp add: deleted_entry)
  note written = blob_written [OF s cf this, of "btree_remove (ns, k) (ms_blobs st)"]
  have "r = btree_contains (ms_blobs st) (ns, k)"
    using d entry_present [OF bl lanes(2) cf paths] by (simp add: deleted_entry btree_contains_def)
  then show ?thesis using written paths_budget [OF paths] by (simp add: delete_blob_def Let_def)
qed


lemma append_matches:
  assumes ok: "codecs_ok env" and s: "settled env eng st fs" and ids: "ids_of_log st"
    and run: "append_event_unlocked env eng ev fs = (ops, Inr u)"
  shows "\<exists>en'. append_event ev (memory_engine eng st) = (en', Inr ()) \<and> settled env eng (en_state en') (run_ops ops fs)"
proof -
  have d: "json_lane env eng {} (ms_json st) fs" "blob_lane env eng {} (ms_blobs st) fs"
    "log_holds env (content fs events_path) (ms_events st)" "btree_get fs transaction_marker_path = None"
    using s by (simp_all add: settled_def disk_repr_def)
  from run have c: "ensure_can_append_event env eng fs ev = Inr ()" and w: "append_event_unchecked env eng ev = (ops, Inr u)"
    unfolding append_event_unlocked_def script_then_eq_Ok [of "compute _"] by auto
  then have each: "script_for_each (append_event_unchecked env eng) [ev] = emit ops" by simp
  have pr: "printable env [ev]" using printable_if_appended [of env eng "[ev]"] each by simp
  have log: "content (run_ops ops fs) events_path = content fs events_path @ log_lines (map (event_line env) [ev])"
    using append_events_run [OF pr, of eng fs] each by auto
  have touch: "script_touches ops \<subseteq> {events_path}"
    using append_events_touches [of env eng "[ev]"] each by simp
  have "log_holds env (content (run_ops ops fs) events_path) (ms_events st @ [ev])"
    unfolding log by (rule log_holds_append [OF d(3) log_holds_events [OF ok pr]])
  moreover have "json_lane env eng {} (ms_json st) (run_ops ops fs)" "blob_lane env eng {} (ms_blobs st) (run_ops ops fs)"
    by (rule lane_kept [OF _ d(1)], use touch in \<open>auto simp: events_path_def\<close>)
      (rule lane_kept [OF _ d(2)], use touch in \<open>auto simp: events_path_def\<close>)
  moreover have "btree_get (run_ops ops fs) transaction_marker_path = None"
  proof -
    have "transaction_marker_path \<notin> script_touches ops" using touch special_paths(4) by (metis singletonD subsetD)
    then show ?thesis using run_frame d(4) by metis
  qed
  ultimately have settled: "settled env eng (st\<lparr>ms_event_ids := i, ms_events := ms_events st @ [ev]\<rparr>) (run_ops ops fs)" for i
    by (simp add: settled_def disk_repr_def)
  obtain events where e: "enforce_event_key_budget (fl_capacity eng) ev ''store_event_log'' = Inr ()"
    "read_events_unlocked env eng fs = Inr events" "\<not> list_ex (\<lambda>x. event_id x = event_id ev) events"
    "length events < cap_event_log_max_items (fl_capacity eng)"
    using c by (auto simp: ensure_can_append_event_def and_then_eq_Ok split: if_splits)
  have "events = ms_events st" using read_events_exact [OF d(3) ok] e(2) by (simp add: read_events_unlocked_def)
  moreover have "enforce_event_key_budget (fl_capacity eng) ev l = Inr ()" for l
    using e(1) by (auto simp: enforce_event_key_budget_def split: if_splits option.splits)
  ultimately show ?thesis
    using settled e(3,4) ids by (auto simp: append_event_def Let_def ids_of_log_def contains_dom list_ex_iff)
qed

lemma direct_unlocked_matches:
  assumes ok: "codecs_ok env" and s: "settled env eng st fs" and dj: "direct_disjoint eng call st" and ids: "ids_of_log st"
    and t: "text_keys (btree_get (ms_json st))" "text_keys (btree_get (ms_blobs st))"
    and cap: "cap_kv_max_entries (fl_capacity eng) \<le> usize_max"
    and run: "direct_unlocked env eng call fs = (ops, Inr r)"
  shows "\<exists>en'. memory_direct call (memory_engine eng st) = (en', Inr r) \<and> settled env eng (en_state en') (run_ops ops fs)"
proof (cases call)
  case (PutJsonCall ns k v)
  then show ?thesis
    using run put_json_matches [OF ok s _ t(1) cap] dj by (fastforce simp: script_then_pure direct_disjoint_def)
next
  case (DeleteJsonCall ns k)
  then obtain b where "delete_json_value_unlocked env eng ns k fs = (ops, Inr b)" "r = Some b"
    using run by (auto simp: script_then_eq_Ok)
  then show ?thesis using delete_json_matches [OF s] dj DeleteJsonCall by (fastforce simp: direct_disjoint_def)
next
  case (PutBlobCall ns k v)
  then show ?thesis
    using run put_blob_matches [OF ok s _ t(2)] dj by (fastforce simp: script_then_pure direct_disjoint_def)
next
  case (DeleteBlobCall ns k)
  then obtain b where "delete_blob_unlocked env eng ns k fs = (ops, Inr b)" "r = Some b"
    using run by (auto simp: script_then_eq_Ok)
  then show ?thesis using delete_blob_matches [OF s] dj DeleteBlobCall by (fastforce simp: direct_disjoint_def)
next
  case (AppendEventCall ev)
  then show ?thesis using run append_matches [OF ok s ids] by (fastforce simp: script_then_pure)
qed

text \<open>
  C17. The direct writes of the file-backed store do what those of the in-memory store do. If
  putting or deleting a document or a blob, or appending an event, succeeds on files that hold
  a store, a journal of an interrupted commit included, then the same call succeeds on the
  in-memory engine with that store and gives the same answer, and the files then hold, without
  a journal, the store the in-memory engine holds.
\<close>

theorem direct_writes_match_memory:
  assumes "codecs_ok env" and "contents env eng st fs" and "direct_disjoint eng call st" and "ids_of_log st"
    and "text_keys (btree_get (ms_json st))" and "text_keys (btree_get (ms_blobs st))"
    and "cap_kv_max_entries (fl_capacity eng) \<le> usize_max"
    and "file_direct env eng call fs = (ops, Inr r)"
  shows "\<exists>en'. memory_direct call (memory_engine eng st) = (en', Inr r) \<and> settled env eng (en_state en') (run_ops ops fs)"
proof -
  obtain a where a: "recover_transaction_if_needed env eng fs = emit a" "settled env eng st (run_ops a fs)"
    using recover_contents [OF assms(1,2)] by metis
  then obtain b where b: "direct_unlocked env eng call (run_ops a fs) = (b, Inr r)" "ops = a @ b"
    using assms(8)
    by (cases "direct_unlocked env eng call (run_ops a fs)") (simp add: file_direct_def with_exclusive_backend_def)
  from direct_unlocked_matches [OF assms(1) a(2) assms(3-7) b(1)] show ?thesis by (simp add: b(2))
qed

lemma small_put:
  obtains ops where "file_direct file_env small_engine (PutJsonCall ''docs'' ''b'' ''three'') btree_empty = (ops, Inr None)"
proof -
  have ok: "codecs_ok file_env" unfolding file_env_def by (rule small_codecs)
  obtain p where p: "json_paths small_engine ''docs'' ''b'' = Inr p" using small_places by blast
  have read: "read_file_bounded (fe_fault file_env) btree_empty q n stage = Inr None"
    "fs_read (fe_fault file_env) btree_empty q = Inl missing_file" for q n stage
    by (simp_all add: read_file_bounded_def fs_read_def no_fault [OF ok] missing_file_def is_not_found_or_invalid_filename_def)
  have "get_json_value_unlocked file_env small_engine btree_empty ''docs'' ''b'' = Inr None"
    by (simp add: get_json_value_unlocked_def p read_entry_def read read_key_index_def missing_file_def is_not_found_or_invalid_filename_def)
  then have "ensure_json_entry_budget file_env small_engine btree_empty ''docs'' ''b'' = Inr ()"
    by (simp add: ensure_json_entry_budget_def json_entry_count_def empty_files small_engine_fields capacity_full_def)
  moreover have "ensure_key_index_available file_env small_engine btree_empty p ''b'' ''file_store_json_write'' = Inr ()"
    by (simp add: ensure_key_index_available_def read_key_index_def read path_exists_def)
  moreover have "recover_transaction_if_needed file_env small_engine btree_empty = emit []"
    by (simp add: recover_transaction_if_needed_def read_journal(1) [OF ok] recover_validated_transaction_def)
  moreover have "\<exists>w. script_then (write_key_index file_env small_engine (index_path p) ''b'' ''file_store_json_write'')
      (\<lambda>_. atomic_write (data_path p) ''three'' (fl_fsync small_engine)) = emit w"
    using write_entry [OF ok lanes(1), of small_engine "(''docs'', ''b'')" p Some "''three''" "''three''" "''file_store_json_write''"] p
    by (auto simp: restores_entry_def json_paths_def)
  moreover have "fe_pretty_json file_env x = Inr x" for x by (simp add: file_env_def small_env_def)
  ultimately show thesis
    using that by (auto simp: file_direct_def with_exclusive_backend_def put_json_value_unlocked_def p map_config_err_def script_swap)
qed

theorem direct_writes_match_memory_witness:
  "\<exists>ops en'. file_direct file_env small_engine (PutJsonCall ''docs'' ''b'' ''three'') btree_empty = (ops, Inr None) \<and>
     memory_direct (PutJsonCall ''docs'' ''b'' ''three'') (memory_engine small_engine mem_state_default) = (en', Inr None) \<and>
     settled file_env small_engine (en_state en') (run_ops ops btree_empty)"
proof -
  have ok: "codecs_ok file_env" unfolding file_env_def by (rule small_codecs)
  obtain ops where run: "file_direct file_env small_engine (PutJsonCall ''docs'' ''b'' ''three'') btree_empty = (ops, Inr None)"
    by (rule small_put)
  have "direct_disjoint small_engine (PutJsonCall ''docs'' ''b'' ''three'') mem_state_default"
    by (simp add: direct_disjoint_def collision_free_def mem_state_default_def)
  moreover have "ids_of_log mem_state_default" "text_keys (btree_get (ms_json mem_state_default))" "text_keys (btree_get (ms_blobs mem_state_default))"
    by (simp_all add: ids_of_log_def text_keys_def mem_state_default_def)
  moreover have "cap_kv_max_entries (fl_capacity small_engine) \<le> usize_max"
    by (simp add: small_engine_fields capacity_full_def usize_max_def)
  ultimately show ?thesis
    using direct_writes_match_memory [OF ok settled_contents [OF small_default]] run by blast
qed

end
