(* ===== verification/File_Limits.thy ===== *)
theory File_Limits
  imports File_Guarantees File_Reads
begin

text \<open>
  Well-formedness and limits of the file-backed store: which addresses have files and what the
  paths look like, that a log within its budget is read back in full, and what happens when a
  journal is longer than recovery accepts.
\<close>

section \<open>Addresses\<close>

text \<open>A path below the root: five plain components that respect the limits of the path budget.\<close>

definition well_placed :: "store_path_budget \<Rightarrow> string \<Rightarrow> string \<Rightarrow> path \<Rightarrow> bool" where
  "well_placed b lane ns q \<longleftrightarrow>
     length q = 5 \<and> take 2 q = [lane, ns] \<and> list_all (plain_component (max_directory_name_bytes b)) (butlast q) \<and>
     plain_component (max_file_name_bytes b) (last q) \<and> length (slash_join q) \<le> max_relative_path_bytes b"

definition well_formed_paths :: "store_path_budget \<Rightarrow> string \<Rightarrow> string \<Rightarrow> physical_key_paths \<Rightarrow> bool" where
  "well_formed_paths b lane ns p \<longleftrightarrow>
     well_placed b lane ns (data_path p) \<and> well_placed b lane ns (index_path p) \<and>
     distinct [data_path p, index_path p, legacy_path p] \<and> take 2 (legacy_path p) = [lane, ns] \<and>
     (\<forall>q \<in> {data_path p, index_path p, legacy_path p}. \<not> is_tmp q)"

text \<open>
  The room an entry needs in a path budget, by lengths alone: the digest, the longer of the two
  directory names, the longer of the two file names, and the longer of the two relative paths.
\<close>

definition addressable :: "file_engine \<Rightarrow> string \<Rightarrow> string \<Rightarrow> string \<Rightarrow> bool" where
  "addressable eng lane ns k \<longleftrightarrow>
     (let b = fl_path_budget eng; d = physical_key_digest_hex_chars b in
      16 \<le> d \<and> d \<le> 32 \<and> d + 5 \<le> max_file_name_bytes b \<and> 5 \<le> max_directory_name_bytes b \<and>
      plain_component (max_directory_name_bytes b) ns \<and> length lane + length ns + d + 16 \<le> max_relative_path_bytes b \<and>
      length ns \<le> cap_logical_namespace_max_bytes (fl_capacity eng) \<and> length k \<le> cap_logical_key_max_bytes (fl_capacity eng))"

lemma paths_checks:
  assumes "physical_key_paths_at_root eng lane ns k ext = Inr p"
  defines "b \<equiv> fl_path_budget eng" and "d \<equiv> physical_key_digest lane ns k (physical_key_digest_hex_chars (fl_path_budget eng))"
  shows "plain_component (max_directory_name_bytes b) lane" "plain_component (max_directory_name_bytes b) ns"
    "plain_component (max_directory_name_bytes b) ''_v2''" "plain_component (max_directory_name_bytes b) ''_keys''"
    "plain_component (max_directory_name_bytes b) (take 2 d)" "plain_component (max_file_name_bytes b) (d @ CHR ''.'' # ext)"
    "plain_component (max_file_name_bytes b) (d @ ''.json'')"
    "length (slash_join [lane, ns, ''_v2'', take 2 d, d @ CHR ''.'' # ext]) \<le> max_relative_path_bytes b"
    "length (slash_join [lane, ns, ''_keys'', take 2 d, d @ ''.json'']) \<le> max_relative_path_bytes b"
    "enforce_logical_key_budget (fl_capacity eng) ns k ''file_store_addressing'' = Inr ()"
    "data_path p = [lane, ns, ''_v2'', take 2 d, d @ CHR ''.'' # ext]"
    "index_path p = [lane, ns, ''_keys'', take 2 d, d @ ''.json'']"
    "legacy_path p = [lane, ns, hex_encode k @ CHR ''.'' # ext]"
    "validate_addressing_budget eng ext ''file_store_addressing'' = Inr ()"
  using assms(1) unfolding b_def d_def
  by (auto simp: physical_key_paths_at_root_def Let_def and_then_eq_Ok directory_Ok file_name_Ok relative_Ok
      FILE_ADDRESSING_DATA_DIR_def FILE_ADDRESSING_INDEX_DIR_def)

lemma paths_well_formed:
  assumes "physical_key_paths_at_root eng lane ns k ext = Inr p" and "store_lane lane ext"
  shows "well_formed_paths (fl_path_budget eng) lane ns p"
  using paths_checks [OF assms(1)] paths_names(5-10) [OF assms] unfolding well_formed_paths_def well_placed_def by simp

lemma digest_budget_Ok:
  "validate_addressing_budget eng ext stage = Inr u \<longleftrightarrow>
   16 \<le> physical_key_digest_hex_chars (fl_path_budget eng) \<and> physical_key_digest_hex_chars (fl_path_budget eng) \<le> 32 \<and>
   physical_key_digest_hex_chars (fl_path_budget eng) + 1 + max (length ext) 4 \<le> max_file_name_bytes (fl_path_budget eng)"
  by (auto simp: validate_addressing_budget_def Let_def MIN_PHYSICAL_DIGEST_HEX_CHARS_def MAX_PHYSICAL_DIGEST_HEX_CHARS_def)

lemma addressable_iff:
  assumes lane: "store_lane lane ext"
  shows "(\<exists>p. physical_key_paths_at_root eng lane ns k ext = Inr p) \<longleftrightarrow> addressable eng lane ns k"
proof
  let ?b = "fl_path_budget eng"
  let ?d = "physical_key_digest lane ns k (physical_key_digest_hex_chars ?b)"
  have ext: "length ext \<le> 4" "CHR ''/'' \<notin> set ext" "char_of (92 :: nat) \<notin> set ext"
    using lane by (auto simp: store_lane_def char_of_def)
  assume "\<exists>p. physical_key_paths_at_root eng lane ns k ext = Inr p"
  then obtain p where "physical_key_paths_at_root eng lane ns k ext = Inr p" ..
  note c = paths_checks [OF this]
  have d: "16 \<le> physical_key_digest_hex_chars ?b" "physical_key_digest_hex_chars ?b \<le> 32"
    "physical_key_digest_hex_chars ?b + 5 \<le> max_file_name_bytes ?b"
    using c(14) by (auto simp: digest_budget_Ok max_def split: if_splits)
  then have "length ?d = physical_key_digest_hex_chars ?b" by simp
  then have "length lane + length ns + physical_key_digest_hex_chars ?b + 16 \<le> max_relative_path_bytes ?b"
    using c(9) d unfolding slash_join_length by simp
  then show "addressable eng lane ns k"
    using d c(2,4,10) by (simp add: addressable_def Let_def plain_component_def key_budget_Ok)
next
  let ?b = "fl_path_budget eng"
  let ?d = "physical_key_digest lane ns k (physical_key_digest_hex_chars ?b)"
  assume a: "addressable eng lane ns k"
  then have room: "16 \<le> physical_key_digest_hex_chars ?b" "physical_key_digest_hex_chars ?b \<le> 32"
    "physical_key_digest_hex_chars ?b + 5 \<le> max_file_name_bytes ?b" "5 \<le> max_directory_name_bytes ?b"
    "plain_component (max_directory_name_bytes ?b) ns"
    "length lane + length ns + physical_key_digest_hex_chars ?b + 16 \<le> max_relative_path_bytes ?b"
    by (simp_all add: addressable_def Let_def)
  obtain p where "physical_key_paths_at_root eng lane ns k ext = Inr p"
    using paths_exist_room [OF lane room] a by (auto simp: addressable_def Let_def key_budget_Ok)
  then show "\<exists>p. physical_key_paths_at_root eng lane ns k ext = Inr p" ..
qed

lemma default_addressable:
  assumes "fl_path_budget eng = default_path_budget pr" and "store_lane lane ext"
  shows "addressable eng lane ns k \<longleftrightarrow>
     plain_component (max_directory_name_bytes (default_path_budget pr)) ns \<and>
     length ns \<le> cap_logical_namespace_max_bytes (fl_capacity eng) \<and> length k \<le> cap_logical_key_max_bytes (fl_capacity eng)"
  using default_roomy [of pr] assms by (auto simp: addressable_def roomy_def plain_component_def store_lane_def Let_def)

text \<open>
  C21. Addressing is well formed and decided by lengths. Under any path budget an entry has
  files exactly when the digest has between 16 and 32 digits and fits a file name, the
  directories of the store fit a directory name, the namespace is a non-empty name without
  separators within the directory limit, the longer relative path is within its limit, and
  namespace and key are within the logical limits; every other address is refused. With the
  default path budget of a profile only the conditions on namespace and key remain. Where an
  entry has files, data and index file have five components, the first two of them lane and
  namespace, all within the limits of the budget; the two and the file of an older store,
  whose name is the key in hexadecimal and has no limit, are three different files, and none
  is named like a temporary file. The names are not interpreted: a namespace of two dots is
  accepted like any other.
\<close>

theorem addressing_well_formed:
  assumes "store_lane lane ext"
  shows "((\<exists>p. physical_key_paths_at_root eng lane ns k ext = Inr p) \<longleftrightarrow> addressable eng lane ns k) \<and>
     (\<forall>p. physical_key_paths_at_root eng lane ns k ext = Inr p \<longrightarrow> well_formed_paths (fl_path_budget eng) lane ns p) \<and>
     (\<forall>pr. fl_path_budget eng = default_path_budget pr \<longrightarrow>
        ((\<exists>p. physical_key_paths_at_root eng lane ns k ext = Inr p) \<longleftrightarrow>
         plain_component (max_directory_name_bytes (default_path_budget pr)) ns \<and>
         length ns \<le> cap_logical_namespace_max_bytes (fl_capacity eng) \<and>
         length k \<le> cap_logical_key_max_bytes (fl_capacity eng)))"
  using addressable_iff [OF assms, of eng ns k] paths_well_formed [OF _ assms, of eng ns k]
    default_addressable [OF _ assms, of eng _ ns k] by simp

theorem addressing_well_formed_witness:
  "(\<exists>p. json_paths (small_engine\<lparr>fl_path_budget := default_path_budget ServerLinuxMemoryGateway\<rparr>) ''docs'' ''b'' = Inr p \<and>
      well_formed_paths (default_path_budget ServerLinuxMemoryGateway) ''kv'' ''docs'' p) \<and>
   (\<exists>e. json_paths (small_engine\<lparr>fl_path_budget := default_path_budget ServerLinuxMemoryGateway\<rparr>) ''a/b'' ''b'' = Inl e) \<and>
   (\<exists>e. json_paths (small_engine\<lparr>fl_path_budget := (default_path_budget ServerLinuxMemoryGateway)
        \<lparr>max_relative_path_bytes := 20\<rparr>\<rparr>) ''docs'' ''b'' = Inl e)"
proof -
  let ?b = "default_path_budget ServerLinuxMemoryGateway"
  let ?eng = "small_engine\<lparr>fl_path_budget := ?b\<rparr>"
  let ?tight = "small_engine\<lparr>fl_path_budget := ?b\<lparr>max_relative_path_bytes := 20\<rparr>\<rparr>"
  have lane: "store_lane ''kv'' ''json''" by (simp add: store_lane_def)
  have names: "plain_component (max_directory_name_bytes ?b) ''docs''" "\<not> plain_component (max_directory_name_bytes ?b) ''a/b''"
    by code_simp+
  have tight: "\<not> addressable ?tight ''kv'' ''docs'' ''b''" by (simp add: addressable_def Let_def)
  have caps: "4 \<le> cap_logical_namespace_max_bytes (fl_capacity ?eng)" "1 \<le> cap_logical_key_max_bytes (fl_capacity ?eng)"
    by (simp_all add: small_engine_def capacity_full_def)
  have eng: "fl_path_budget ?eng = ?b" by simp
  have refused: "\<exists>e. x = Inl e" if "\<nexists>p. x = Inr p" for x :: "physical_key_paths result" using that by (cases x) auto
  note good = addressing_well_formed [OF lane, of ?eng "''docs''" "''b''"]
    and bad = addressing_well_formed [OF lane, of ?eng "''a/b''" "''b''"]
    and narrow = addressing_well_formed [OF lane, of ?tight "''docs''" "''b''"]
  obtain p where p: "physical_key_paths_at_root ?eng ''kv'' ''docs'' ''b'' ''json'' = Inr p"
    using good [THEN conjunct2, THEN conjunct2, rule_format, OF eng] names(1) caps by auto
  then have "well_formed_paths ?b ''kv'' ''docs'' p"
    using good [THEN conjunct2, THEN conjunct1, rule_format, OF p] unfolding eng by simp
  moreover have "\<exists>e. physical_key_paths_at_root ?eng ''kv'' ''a/b'' ''b'' ''json'' = Inl e"
    using bad [THEN conjunct2, THEN conjunct2, rule_format, OF eng] names(2) by (intro refused) simp
  moreover have "\<exists>e. physical_key_paths_at_root ?tight ''kv'' ''docs'' ''b'' ''json'' = Inl e"
    using narrow [THEN conjunct1] tight by (intro refused) simp
  ultimately show ?thesis using p unfolding json_paths_def by blast
qed

section \<open>The log within its budget\<close>

lemma jsonl_bytes:
  assumes "events_jsonl_bytes env evs = Inr bs"
  shows "printable env evs" and "bs = log_lines (map (event_line env) evs)"
proof -
  have "printable env evs \<and> bs = log_lines (map (event_line env) evs)"
    using assms
  proof (induction evs arbitrary: bs)
    case (Cons ev evs)
    then show ?case
      by (cases "se_event_json (fe_store env) ev")
        (auto simp: map_config_err_def and_then_eq_Ok printable_def log_lines_def event_line_def newline_def)
  qed (simp add: printable_def log_lines_def)
  then show "printable env evs" "bs = log_lines (map (event_line env) evs)" by simp_all
qed

lemma read_lines_total:
  assumes ok: "codecs_ok env" and "printable env evs" and "\<forall>ev \<in> set evs. validate_current_schema ev b = Inr ()"
    and "length acc + length evs \<le> cap_event_log_max_items capacity"
    and "c + length (log_lines (map (event_line env) evs)) \<le> m" and "m \<le> usize_max"
  shows "read_events_from_reader_bounded env capacity m i b (log_lines (map (event_line env) evs)) [] c acc
     = Inr (acc @ evs, c + length (log_lines (map (event_line env) evs)))"
  using assms(2-5)
proof (induction evs arbitrary: c acc)
  case Nil
  then show ?case by (simp add: log_lines_def read_events_from_reader_bounded.simps [of env capacity m i b "[]"])
next
  case (Cons ev evs)
  let ?l = "event_line env ev" and ?rest = "log_lines (map (event_line env) evs)"
  have l: "newline \<notin> set ?l" "\<not> list_all ascii_whitespace ?l" "fe_parse_event env ?l = Inr ev"
    using ok Cons.prems(1) unfolding codecs_ok_def printable_def event_line_def by (auto split: sum.splits)
  have lines: "log_lines (map (event_line env) (ev # evs)) = ?l @ newline # ?rest" by (simp add: log_lines_def)
  have body: "takeWhile (\<lambda>x. x \<noteq> newline) (?l @ newline # ?rest) = ?l"
    using l(1) by (induction ?l) (auto simp: takeWhile_append)
  have push: "push_bounded_event_line env capacity i b ?l acc = Inr (acc @ [ev])"
    using l Cons.prems(2,3) by (simp add: push_bounded_event_line_def map_config_err_def saturating_add_def)
  have room: "checked_add c (Suc (length ?l)) = Some (Suc (c + length ?l))" "\<not> m < Suc (c + length ?l)" "\<not> m < saturating_add 0 (length ?l)"
    using Cons.prems(4) [unfolded lines] assms(6) by (simp_all add: checked_add_def saturating_add_def)
  have "read_events_from_reader_bounded env capacity m i b (?l @ newline # ?rest) [] c acc
      = read_events_from_reader_bounded env capacity m i b ?rest [] (c + length ?l + 1) (acc @ [ev])"
    by (subst read_events_from_reader_bounded.simps) (simp add: body Let_def push room)
  also have "\<dots> = Inr ((acc @ [ev]) @ evs, c + length ?l + 1 + length ?rest)"
    by (rule Cons.IH) (use Cons.prems [unfolded lines] in \<open>auto simp: printable_def\<close>)
  finally show ?case unfolding lines by simp
qed

text \<open>
  C22. Round trip of the event log. The lines printed for any events of the current schema, in
  any number up to the item limit, are read back as exactly these events in their order, with
  every byte accounted for, as soon as the byte limit admits the text; no event is lost or
  merged at a line boundary.
\<close>

theorem event_log_roundtrip:
  assumes "codecs_ok env" and "events_jsonl_bytes env evs = Inr bs"
    and "\<forall>ev \<in> set evs. validate_current_schema ev byte_stage = Inr ()"
    and "length evs \<le> cap_event_log_max_items capacity" and "length bs \<le> max_bytes" and "max_bytes \<le> usize_max"
  shows "read_events_from_reader_bounded env capacity max_bytes item_stage byte_stage bs [] 0 [] = Inr (evs, length bs)"
  using read_lines_total [OF assms(1) jsonl_bytes(1) [OF assms(2)] assms(3), of "[]" capacity 0 max_bytes item_stage] assms(4-6)
  by (simp add: jsonl_bytes(2) [OF assms(2)])

theorem event_log_roundtrip_witness:
  "\<exists>bs. events_jsonl_bytes file_env [small_event, small_event] = Inr bs \<and>
     read_events_from_reader_bounded file_env capacity_full 100 ''items'' ''bytes'' bs [] 0 [] = Inr ([small_event, small_event], 12)"
proof -
  have ok: "codecs_ok file_env" unfolding file_env_def by (rule small_codecs)
  let ?bs = "''event'' @ [newline] @ ''event'' @ [newline]"
  have bs: "events_jsonl_bytes file_env [small_event, small_event] = Inr ?bs"
    by (simp add: file_env_def small_env_def small_store_env_def map_config_err_def newline_def)
  have "validate_current_schema small_event ''bytes'' = Inr ()" by code_simp
  then show ?thesis
    using event_log_roundtrip [OF ok bs, of "''bytes''" capacity_full 100 "''items''"] bs
    by (simp add: capacity_full_def usize_max_def)
qed

section \<open>Journals beyond the limit of recovery\<close>

lemma long_journal_refused:
  assumes "fe_fault env transaction_marker_path = None" and "btree_get fs transaction_marker_path = Some bs" and "journal_limit eng < length bs"
  obtains e where "recover_transaction_if_needed env eng fs = ([], Inl e)"
  using that assms
  by (auto simp: recover_transaction_if_needed_def read_transaction_journal_read_only_def read_file_bounded_def fs_read_def)

text \<open>
  C20. A commit does not compare its journal with the limit that recovery reads it with. If the
  journal of a planned transaction prints to more bytes than that limit, there is a point where
  an interruption of the commit leaves files that no operation recovers: from then on every
  recovery, every commit with any request and admission, and every read returns the same
  error and changes nothing.
\<close>

theorem oversized_journal_blocks_store:
  assumes "fe_fault env transaction_marker_path = None" and "btree_get fs transaction_marker_path = None"
    and "validate_inside_engine_fence renv adm (fl_capacity eng) (fl_admission_authority eng) inputs au = (au', Inr u)"
    and "load_transaction_context env h eng fs req (am_operation_capacity adm) = Inr (cx, n)"
    and "apply_transaction h adm req cx = Inr plan" and "journal_plan env req cx n plan = Inr j"
    and "fe_journal_json env j = Inr bs" and "journal_limit eng < length bs"
    and "file_commit_transaction_admitted renv env h eng inputs req adm au fs = (au'', (ops, res))"
  shows "\<exists>fs' \<in> set (crash_states ops fs). \<exists>e.
     recover_transaction_if_needed env eng fs' = ([], Inl e) \<and>
     (\<forall>renv' inputs' req' adm' au. file_commit_transaction_admitted renv' env h' eng inputs' req' adm' au fs' = (au, ([], Inl e))) \<and>
     with_shared_backend env eng (\<lambda>_ fs. fs) stage operation 0 fs' = Some (fs', Inl e)"
proof -
  obtain a where "atomic_write transaction_marker_path bs (fl_fsync eng) = emit a"
    "\<And>fs. btree_get (run_ops a fs) transaction_marker_path = Some bs"
    using atomic_write_script [of transaction_marker_path bs "fl_fsync eng"] by (metis get_insert fun_upd_same)
  then obtain w where w: "write_transaction_journal env eng j = emit w" "btree_get (run_ops w fs) transaction_marker_path = Some bs"
    using assms(7) by (simp add: write_transaction_journal_def map_config_err_def)
  have none: "recover_transaction_if_needed env eng fs = ([], Inr ())"
    using assms(1,2) by (simp add: recover_transaction_if_needed_def read_transaction_journal_read_only_def read_file_bounded_def
        fs_read_def missing_file_def is_not_found_or_invalid_filename_def recover_validated_transaction_def)
  obtain rest where ops: "ops = w @ rest"
    using assms(9) by (auto simp: file_commit_transaction_admitted_def none assms(3) commit_admitted_plan_def assms(4-6)
        write_plan_def w(1) script_then_def split: sum.splits)
  have cut: "run_ops w fs \<in> set (crash_states ops fs)"
    unfolding ops crash_states_append using crash_final by blast
  obtain e where e: "recover_transaction_if_needed env eng (run_ops w fs) = ([], Inl e)"
    by (rule long_journal_refused [OF assms(1) w(2) assms(8)])
  have "with_shared_backend env eng (\<lambda>_ fs. fs) stage operation 0 (run_ops w fs) = Some (run_ops w fs, Inl e)"
    by (subst with_shared_backend.simps) (simp add: fs_read_def assms(1) w(2) e)
  moreover have "file_commit_transaction_admitted renv' env h' eng inputs' req' adm' au (run_ops w fs) = (au, ([], Inl e))"
    for renv' inputs' req' adm' au
    by (simp add: file_commit_transaction_admitted_def e)
  ultimately show ?thesis using cut e by blast
qed

text \<open>A printer whose text for the journal is one byte longer than the limit.\<close>

definition long_env :: "string file_env" where
  "long_env = file_env\<lparr>fe_journal_json := (\<lambda>_. Inr (replicate (journal_limit small_engine + 1) (CHR ''j'')))\<rparr>"

theorem oversized_journal_blocks_store_witness:
  "\<exists>au au' ops res fs' e.
     file_commit_transaction_admitted sample_env long_env small_hooks small_engine sample_inputs small_request sample_admission au btree_empty
       = (au', (ops, res)) \<and> fs' \<in> set (crash_states ops btree_empty) \<and>
     recover_transaction_if_needed long_env small_engine fs' = ([], Inl e) \<and>
     (\<forall>renv inputs req adm au.
        file_commit_transaction_admitted renv long_env small_hooks small_engine inputs req adm au fs' = (au, ([], Inl e)))"
proof -
  have fault: "fe_fault long_env q = None" for q by (simp add: long_env_def file_env_def small_env_def)
  obtain plan where plan: "apply_transaction small_hooks sample_admission small_request small_context = Inr plan"
    using small_plan by metis
  have "refresh_checksum long_env j = Inr (j\<lparr>jo_checksum := replicate 64 (CHR ''a'')\<rparr>)" for j
    by (simp add: refresh_checksum_def expected_checksum_def long_env_def file_env_def small_env_def map_config_err_def
        small_store_env_def sample_store_env_def)
  then obtain j where j: "journal_plan long_env small_request small_context 0 plan = Inr j"
    by (simp add: journal_plan_def journal_new_def)
  have print: "fe_journal_json long_env j = Inr (replicate (journal_limit small_engine + 1) (CHR ''j''))"
    "journal_limit small_engine < length (replicate (journal_limit small_engine + 1) (CHR ''j''))"
    by (simp_all add: long_env_def)
  have fence: "validate_inside_engine_fence sample_env sample_admission (fl_capacity small_engine) (fl_admission_authority small_engine)
      sample_inputs au = (au, Inr ())" for au
    using harness_fence by (simp add: small_engine_def)
  have load: "load_transaction_context long_env small_hooks small_engine btree_empty small_request (am_operation_capacity sample_admission)
      = Inr (small_context, 0)"
    unfolding small_capacity by (rule empty_load [OF fault])
  have "btree_get btree_empty transaction_marker_path = None" by simp
  note blocks = oversized_journal_blocks_store [OF fault this fence load plan j print]
  obtain au au' ops res where run: "file_commit_transaction_admitted sample_env long_env small_hooks small_engine sample_inputs
      small_request sample_admission au btree_empty = (au', (ops, res))" by (metis prod.exhaust)
  from blocks [OF run, where h' = small_hooks] obtain fs' e where "fs' \<in> set (crash_states ops btree_empty)"
    "recover_transaction_if_needed long_env small_engine fs' = ([], Inl e)"
    "\<forall>renv inputs req adm au. file_commit_transaction_admitted renv long_env small_hooks small_engine inputs req adm au fs' = (au, ([], Inl e))"
    by blast
  with run show ?thesis by (intro exI conjI)
qed

end
