(* ===== verification/Capabilities.thy ===== *)
theory Capabilities
  imports Store_Config
begin

text \<open>
  The capability catalogue of \<^verbatim>\<open>core/src/feature_gate.rs\<close>: one row per profile with what the
  profile allows, and the features a build was compiled with. Which features are enabled is
  decided by the build, so the report of compiled features is an argument.
\<close>

section \<open>Rows\<close>

record procedural_learning_catalog =
  pl_standard_agent_skill_mount :: bool
  pl_agent_tool_registry :: bool
  pl_agent_tool_experience_read :: bool
  pl_agent_tool_hint :: bool
  pl_agent_tool_learning :: bool
  pl_selection_receipt :: bool
  pl_finalize_feedback :: bool
  pl_worker :: bool

definition learning_forbidden :: procedural_learning_catalog where
  "learning_forbidden = \<lparr> pl_standard_agent_skill_mount = False, pl_agent_tool_registry = False, pl_agent_tool_experience_read = False, pl_agent_tool_hint = False, pl_agent_tool_learning = False, pl_selection_receipt = False, pl_finalize_feedback = False, pl_worker = False \<rparr>"

definition learning_full :: procedural_learning_catalog where
  "learning_full = \<lparr> pl_standard_agent_skill_mount = True, pl_agent_tool_registry = True, pl_agent_tool_experience_read = True, pl_agent_tool_hint = True, pl_agent_tool_learning = True, pl_selection_receipt = True, pl_finalize_feedback = True, pl_worker = True \<rparr>"

record transport_capability =
  tc_allowed :: bool
  tc_client_allowed :: bool
  tc_server_allowed :: bool
  tc_private_data_allowed :: bool

definition transport_forbidden :: transport_capability where
  "transport_forbidden = \<lparr> tc_allowed = False, tc_client_allowed = False, tc_server_allowed = False, tc_private_data_allowed = False \<rparr>"

definition transport_local :: "bool \<Rightarrow> transport_capability" where
  "transport_local private = \<lparr> tc_allowed = True, tc_client_allowed = False, tc_server_allowed = False, tc_private_data_allowed = private \<rparr>"

definition transport_client :: "bool \<Rightarrow> transport_capability" where
  "transport_client private = \<lparr> tc_allowed = True, tc_client_allowed = True, tc_server_allowed = False, tc_private_data_allowed = private \<rparr>"

definition transport_server :: "bool \<Rightarrow> transport_capability" where
  "transport_server private = \<lparr> tc_allowed = True, tc_client_allowed = False, tc_server_allowed = True, tc_private_data_allowed = private \<rparr>"

definition transport_bidirectional :: "bool \<Rightarrow> transport_capability" where
  "transport_bidirectional private = \<lparr> tc_allowed = True, tc_client_allowed = True, tc_server_allowed = True, tc_private_data_allowed = private \<rparr>"

record adapter_catalog =
  ac_cli :: transport_capability
  ac_http :: transport_capability
  ac_wss :: transport_capability
  ac_mcp :: transport_capability
  ac_a2a :: transport_capability

record capability_entry =
  ce_profile :: profile_id
  ce_target :: target_feature
  ce_role :: role_feature
  ce_sqlite_index_allowed :: bool
  ce_lexical_archive_recall :: bool
  ce_compact_runtime_skill_recall_allowed :: bool
  ce_dynamic_state_recall_allowed :: bool
  ce_historical_as_of_recall_allowed :: bool
  ce_procedural_recall_allowed :: bool
  ce_environment_premise_evaluation_allowed :: bool
  ce_update_lineage_inspection_allowed :: bool
  ce_heuristic_task_learning_recall :: bool
  ce_indexed_archive_recall_allowed :: bool
  ce_indexed_continuity_capsule_recall_allowed :: bool
  ce_indexed_runtime_skill_recall_allowed :: bool
  ce_indexed_task_learning_recall_allowed :: bool
  ce_communication_adapter_allowed :: bool
  ce_llm_gateway_server_allowed :: bool
  ce_procedural_learning :: procedural_learning_catalog
  ce_adapter :: adapter_catalog

definition dev_full_catalog_entry :: "profile_id \<Rightarrow> target_feature \<Rightarrow> capability_entry" where
  "dev_full_catalog_entry profile target =
     \<lparr> ce_profile = profile, ce_target = target, ce_role = DevFull,
       ce_sqlite_index_allowed = True, ce_lexical_archive_recall = True, ce_compact_runtime_skill_recall_allowed = False,
       ce_dynamic_state_recall_allowed = True, ce_historical_as_of_recall_allowed = True, ce_procedural_recall_allowed = True,
       ce_environment_premise_evaluation_allowed = True, ce_update_lineage_inspection_allowed = True, ce_heuristic_task_learning_recall = True,
       ce_indexed_archive_recall_allowed = True, ce_indexed_continuity_capsule_recall_allowed = True, ce_indexed_runtime_skill_recall_allowed = True,
       ce_indexed_task_learning_recall_allowed = True, ce_communication_adapter_allowed = True, ce_llm_gateway_server_allowed = True,
       ce_procedural_learning = learning_full,
       ce_adapter = \<lparr> ac_cli = transport_local True, ac_http = transport_server True, ac_wss = transport_bidirectional False,
         ac_mcp = transport_server False, ac_a2a = transport_bidirectional False \<rparr> \<rparr>"

definition entry_esp_standalone_memory :: capability_entry where
  "entry_esp_standalone_memory =
     \<lparr> ce_profile = EspStandaloneMemory, ce_target = Esp_target, ce_role = StandaloneMemory,
       ce_sqlite_index_allowed = False, ce_lexical_archive_recall = True, ce_compact_runtime_skill_recall_allowed = True,
       ce_dynamic_state_recall_allowed = True, ce_historical_as_of_recall_allowed = False, ce_procedural_recall_allowed = True,
       ce_environment_premise_evaluation_allowed = True, ce_update_lineage_inspection_allowed = False, ce_heuristic_task_learning_recall = True,
       ce_indexed_archive_recall_allowed = False, ce_indexed_continuity_capsule_recall_allowed = False, ce_indexed_runtime_skill_recall_allowed = False,
       ce_indexed_task_learning_recall_allowed = False, ce_communication_adapter_allowed = True, ce_llm_gateway_server_allowed = False,
       ce_procedural_learning = learning_forbidden,
       ce_adapter = \<lparr> ac_cli = transport_local False, ac_http = transport_forbidden, ac_wss = transport_client False,
         ac_mcp = transport_forbidden, ac_a2a = transport_forbidden \<rparr> \<rparr>"

definition entry_esp_embedded_sdk :: capability_entry where
  "entry_esp_embedded_sdk =
     \<lparr> ce_profile = EspEmbeddedSdk, ce_target = Esp_target, ce_role = EmbeddedSdk,
       ce_sqlite_index_allowed = False, ce_lexical_archive_recall = True, ce_compact_runtime_skill_recall_allowed = True,
       ce_dynamic_state_recall_allowed = True, ce_historical_as_of_recall_allowed = False, ce_procedural_recall_allowed = True,
       ce_environment_premise_evaluation_allowed = True, ce_update_lineage_inspection_allowed = False, ce_heuristic_task_learning_recall = True,
       ce_indexed_archive_recall_allowed = False, ce_indexed_continuity_capsule_recall_allowed = False, ce_indexed_runtime_skill_recall_allowed = False,
       ce_indexed_task_learning_recall_allowed = False, ce_communication_adapter_allowed = False, ce_llm_gateway_server_allowed = False,
       ce_procedural_learning = learning_forbidden,
       ce_adapter = \<lparr> ac_cli = transport_forbidden, ac_http = transport_forbidden, ac_wss = transport_forbidden,
         ac_mcp = transport_forbidden, ac_a2a = transport_forbidden \<rparr> \<rparr>"

definition entry_linux_device_standalone_memory :: capability_entry where
  "entry_linux_device_standalone_memory =
     \<lparr> ce_profile = LinuxDeviceStandaloneMemory, ce_target = LinuxDevice, ce_role = StandaloneMemory,
       ce_sqlite_index_allowed = True, ce_lexical_archive_recall = True, ce_compact_runtime_skill_recall_allowed = False,
       ce_dynamic_state_recall_allowed = True, ce_historical_as_of_recall_allowed = False, ce_procedural_recall_allowed = True,
       ce_environment_premise_evaluation_allowed = True, ce_update_lineage_inspection_allowed = True, ce_heuristic_task_learning_recall = True,
       ce_indexed_archive_recall_allowed = True, ce_indexed_continuity_capsule_recall_allowed = True, ce_indexed_runtime_skill_recall_allowed = True,
       ce_indexed_task_learning_recall_allowed = True, ce_communication_adapter_allowed = True, ce_llm_gateway_server_allowed = False,
       ce_procedural_learning = learning_full,
       ce_adapter = \<lparr> ac_cli = transport_local False, ac_http = transport_server False, ac_wss = transport_bidirectional False,
         ac_mcp = transport_forbidden, ac_a2a = transport_forbidden \<rparr> \<rparr>"

definition entry_desktop_macos_standalone_memory :: capability_entry where
  "entry_desktop_macos_standalone_memory =
     \<lparr> ce_profile = DesktopMacosStandaloneMemory, ce_target = DesktopMacos, ce_role = StandaloneMemory,
       ce_sqlite_index_allowed = True, ce_lexical_archive_recall = True, ce_compact_runtime_skill_recall_allowed = False,
       ce_dynamic_state_recall_allowed = True, ce_historical_as_of_recall_allowed = True, ce_procedural_recall_allowed = True,
       ce_environment_premise_evaluation_allowed = True, ce_update_lineage_inspection_allowed = True, ce_heuristic_task_learning_recall = True,
       ce_indexed_archive_recall_allowed = True, ce_indexed_continuity_capsule_recall_allowed = True, ce_indexed_runtime_skill_recall_allowed = True,
       ce_indexed_task_learning_recall_allowed = True, ce_communication_adapter_allowed = True, ce_llm_gateway_server_allowed = True,
       ce_procedural_learning = learning_full,
       ce_adapter = \<lparr> ac_cli = transport_local True, ac_http = transport_server True, ac_wss = transport_bidirectional True,
         ac_mcp = transport_bidirectional True, ac_a2a = transport_forbidden \<rparr> \<rparr>"

definition entry_desktop_macos_embedded_sdk :: capability_entry where
  "entry_desktop_macos_embedded_sdk =
     \<lparr> ce_profile = DesktopMacosEmbeddedSdk, ce_target = DesktopMacos, ce_role = EmbeddedSdk,
       ce_sqlite_index_allowed = True, ce_lexical_archive_recall = True, ce_compact_runtime_skill_recall_allowed = False,
       ce_dynamic_state_recall_allowed = True, ce_historical_as_of_recall_allowed = True, ce_procedural_recall_allowed = True,
       ce_environment_premise_evaluation_allowed = True, ce_update_lineage_inspection_allowed = True, ce_heuristic_task_learning_recall = True,
       ce_indexed_archive_recall_allowed = True, ce_indexed_continuity_capsule_recall_allowed = True, ce_indexed_runtime_skill_recall_allowed = True,
       ce_indexed_task_learning_recall_allowed = True, ce_communication_adapter_allowed = True, ce_llm_gateway_server_allowed = False,
       ce_procedural_learning = learning_full,
       ce_adapter = \<lparr> ac_cli = transport_local True, ac_http = transport_server True, ac_wss = transport_bidirectional True,
         ac_mcp = transport_bidirectional True, ac_a2a = transport_forbidden \<rparr> \<rparr>"

definition entry_desktop_linux_embedded_sdk :: capability_entry where
  "entry_desktop_linux_embedded_sdk =
     \<lparr> ce_profile = DesktopLinuxEmbeddedSdk, ce_target = DesktopLinux, ce_role = EmbeddedSdk,
       ce_sqlite_index_allowed = True, ce_lexical_archive_recall = True, ce_compact_runtime_skill_recall_allowed = False,
       ce_dynamic_state_recall_allowed = True, ce_historical_as_of_recall_allowed = True, ce_procedural_recall_allowed = True,
       ce_environment_premise_evaluation_allowed = True, ce_update_lineage_inspection_allowed = True, ce_heuristic_task_learning_recall = True,
       ce_indexed_archive_recall_allowed = True, ce_indexed_continuity_capsule_recall_allowed = True, ce_indexed_runtime_skill_recall_allowed = True,
       ce_indexed_task_learning_recall_allowed = True, ce_communication_adapter_allowed = True, ce_llm_gateway_server_allowed = False,
       ce_procedural_learning = learning_full,
       ce_adapter = \<lparr> ac_cli = transport_local True, ac_http = transport_server True, ac_wss = transport_bidirectional True,
         ac_mcp = transport_bidirectional True, ac_a2a = transport_forbidden \<rparr> \<rparr>"

definition entry_desktop_windows_embedded_sdk :: capability_entry where
  "entry_desktop_windows_embedded_sdk =
     \<lparr> ce_profile = DesktopWindowsEmbeddedSdk, ce_target = DesktopWindows, ce_role = EmbeddedSdk,
       ce_sqlite_index_allowed = True, ce_lexical_archive_recall = True, ce_compact_runtime_skill_recall_allowed = False,
       ce_dynamic_state_recall_allowed = True, ce_historical_as_of_recall_allowed = True, ce_procedural_recall_allowed = True,
       ce_environment_premise_evaluation_allowed = True, ce_update_lineage_inspection_allowed = True, ce_heuristic_task_learning_recall = True,
       ce_indexed_archive_recall_allowed = True, ce_indexed_continuity_capsule_recall_allowed = True, ce_indexed_runtime_skill_recall_allowed = True,
       ce_indexed_task_learning_recall_allowed = True, ce_communication_adapter_allowed = True, ce_llm_gateway_server_allowed = False,
       ce_procedural_learning = learning_full,
       ce_adapter = \<lparr> ac_cli = transport_local True, ac_http = transport_server True, ac_wss = transport_bidirectional True,
         ac_mcp = transport_bidirectional True, ac_a2a = transport_forbidden \<rparr> \<rparr>"

definition entry_server_linux_memory_gateway :: capability_entry where
  "entry_server_linux_memory_gateway =
     \<lparr> ce_profile = ServerLinuxMemoryGateway, ce_target = ServerLinux, ce_role = MemoryGateway,
       ce_sqlite_index_allowed = True, ce_lexical_archive_recall = True, ce_compact_runtime_skill_recall_allowed = False,
       ce_dynamic_state_recall_allowed = True, ce_historical_as_of_recall_allowed = True, ce_procedural_recall_allowed = True,
       ce_environment_premise_evaluation_allowed = True, ce_update_lineage_inspection_allowed = True, ce_heuristic_task_learning_recall = True,
       ce_indexed_archive_recall_allowed = True, ce_indexed_continuity_capsule_recall_allowed = True, ce_indexed_runtime_skill_recall_allowed = True,
       ce_indexed_task_learning_recall_allowed = True, ce_communication_adapter_allowed = True, ce_llm_gateway_server_allowed = True,
       ce_procedural_learning = learning_full,
       ce_adapter = \<lparr> ac_cli = transport_local True, ac_http = transport_server True, ac_wss = transport_bidirectional False,
         ac_mcp = transport_server False, ac_a2a = transport_bidirectional False \<rparr> \<rparr>"

definition PROFILE_CAPABILITY_CATALOG :: "capability_entry list" where
  "PROFILE_CAPABILITY_CATALOG =
     [entry_esp_standalone_memory,
      entry_esp_embedded_sdk,
      entry_linux_device_standalone_memory,
      entry_desktop_macos_standalone_memory,
      entry_desktop_macos_embedded_sdk,
      dev_full_catalog_entry DesktopMacosDevFull DesktopMacos,
      entry_desktop_linux_embedded_sdk,
      entry_desktop_windows_embedded_sdk,
      dev_full_catalog_entry DesktopWindowsDevFull DesktopWindows,
      entry_server_linux_memory_gateway,
      dev_full_catalog_entry ServerLinuxDevFull ServerLinux]"

section \<open>Compiled features\<close>

record compiled_feature_report =
  cf_target_esp :: bool
  cf_target_linux_device :: bool
  cf_target_desktop_macos :: bool
  cf_target_desktop_linux :: bool
  cf_target_desktop_windows :: bool
  cf_target_server_linux :: bool
  cf_role_standalone_memory :: bool
  cf_role_embedded_sdk :: bool
  cf_role_memory_gateway :: bool
  cf_role_dev_full :: bool
  cf_profile_esp_standalone_memory :: bool
  cf_profile_esp_embedded_sdk :: bool
  cf_profile_linux_device_standalone_memory :: bool
  cf_profile_desktop_macos_standalone_memory :: bool
  cf_profile_desktop_macos_embedded_sdk :: bool
  cf_profile_desktop_macos_dev_full :: bool
  cf_profile_desktop_linux_embedded_sdk :: bool
  cf_profile_desktop_windows_embedded_sdk :: bool
  cf_profile_desktop_windows_dev_full :: bool
  cf_profile_server_linux_memory_gateway :: bool
  cf_profile_server_linux_dev_full :: bool
  cf_replay_harness_compiled :: bool
  cf_sqlite_index_compiled :: bool
  cf_rusqlite_dependency_compiled :: bool

fun report_profile_compiled :: "compiled_feature_report \<Rightarrow> profile_id \<Rightarrow> bool" where
  "report_profile_compiled r EspStandaloneMemory = cf_profile_esp_standalone_memory r"
| "report_profile_compiled r EspEmbeddedSdk = cf_profile_esp_embedded_sdk r"
| "report_profile_compiled r LinuxDeviceStandaloneMemory = cf_profile_linux_device_standalone_memory r"
| "report_profile_compiled r DesktopMacosStandaloneMemory = cf_profile_desktop_macos_standalone_memory r"
| "report_profile_compiled r DesktopMacosEmbeddedSdk = cf_profile_desktop_macos_embedded_sdk r"
| "report_profile_compiled r DesktopMacosDevFull = cf_profile_desktop_macos_dev_full r"
| "report_profile_compiled r DesktopLinuxEmbeddedSdk = cf_profile_desktop_linux_embedded_sdk r"
| "report_profile_compiled r DesktopWindowsEmbeddedSdk = cf_profile_desktop_windows_embedded_sdk r"
| "report_profile_compiled r DesktopWindowsDevFull = cf_profile_desktop_windows_dev_full r"
| "report_profile_compiled r ServerLinuxMemoryGateway = cf_profile_server_linux_memory_gateway r"
| "report_profile_compiled r ServerLinuxDevFull = cf_profile_server_linux_dev_full r"

section \<open>Laws of the catalogue\<close>

lemmas catalog_defs = PROFILE_CAPABILITY_CATALOG_def dev_full_catalog_entry_def
  entry_esp_standalone_memory_def entry_esp_embedded_sdk_def entry_linux_device_standalone_memory_def entry_desktop_macos_standalone_memory_def entry_desktop_macos_embedded_sdk_def entry_desktop_linux_embedded_sdk_def entry_desktop_windows_embedded_sdk_def entry_server_linux_memory_gateway_def
  learning_forbidden_def learning_full_def transport_forbidden_def transport_local_def transport_client_def
  transport_server_def transport_bidirectional_def

fun transports :: "adapter_catalog \<Rightarrow> transport_capability list" where
  "transports a = [ac_cli a, ac_http a, ac_wss a, ac_mcp a, ac_a2a a]"

text \<open>
  A row is coherent: it names the target and role of its profile; a transport is allowed
  whenever one of its directions or private data is; the row allows communication exactly when
  some transport is allowed; indexed recall needs the index; a gateway needs an HTTP server.
\<close>

definition coherent_entry :: "capability_entry \<Rightarrow> bool" where
  "coherent_entry c \<longleftrightarrow>
     ce_target c = profile_target (ce_profile c) \<and> ce_role c = profile_role (ce_profile c) \<and>
     list_all (\<lambda>t. tc_client_allowed t \<or> tc_server_allowed t \<or> tc_private_data_allowed t \<longrightarrow> tc_allowed t) (transports (ce_adapter c)) \<and>
     (ce_communication_adapter_allowed c \<longleftrightarrow> list_ex tc_allowed (transports (ce_adapter c))) \<and>
     (ce_indexed_archive_recall_allowed c \<or> ce_indexed_continuity_capsule_recall_allowed c \<or>
        ce_indexed_runtime_skill_recall_allowed c \<or> ce_indexed_task_learning_recall_allowed c \<longrightarrow> ce_sqlite_index_allowed c) \<and>
     (ce_llm_gateway_server_allowed c \<longrightarrow> tc_server_allowed (ac_http (ce_adapter c)))"

lemma catalog_coherent: "list_all coherent_entry PROFILE_CAPABILITY_CATALOG"
  by (simp add: catalog_defs coherent_entry_def)

lemma catalog_profiles: "distinct (map ce_profile PROFILE_CAPABILITY_CATALOG)" "pr \<in> set (map ce_profile PROFILE_CAPABILITY_CATALOG)"
  by (simp_all add: catalog_defs) (cases pr; simp)

lemma catalog_row: "\<exists>!c. c \<in> set PROFILE_CAPABILITY_CATALOG \<and> ce_profile c = pr"
proof -
  have "inj_on ce_profile (set PROFILE_CAPABILITY_CATALOG)"
    using catalog_profiles(1) by (simp add: distinct_map)
  then show ?thesis using catalog_profiles(2) [of pr] by (auto dest: inj_onD)
qed

text \<open>
  The catalogue and the store configuration agree on the SQLite backend, and the gateway
  belongs to the profiles the documentation names.
\<close>

lemma catalog_backends:
  assumes "c \<in> set PROFILE_CAPABILITY_CATALOG"
  shows "ce_sqlite_index_allowed c \<longleftrightarrow> validate_backend_profile Sqlite (ce_profile c) = Ok ()"
    and "ce_llm_gateway_server_allowed c \<longleftrightarrow>
       ce_role c = DevFull \<or> ce_profile c \<in> {ServerLinuxMemoryGateway, DesktopMacosStandaloneMemory}"
  using assms by (auto simp: catalog_defs validate_backend_profile_def profile_is_esp_def)

end
