(* ===== verification/Spec2Isabelle.thy ===== *)
theory Spec2Isabelle
  imports Store_Histories Snapshot_Guarantees Embedded File_Writes File_Limits Capabilities
begin

text \<open>
  Verification of the Beetle Memory runtime: its runtime budgets, its transaction planner and
  three of its four store engines. Paths below are relative to \<^verbatim>\<open>src/crates\<close>.

  \<^bold>\<open>The program.\<close> A host opens a store under a runtime budget. The budget authority
  (\<^verbatim>\<open>core/src/budget.rs\<close>) compiles a budget report from a profile (\<^verbatim>\<open>core/src/feature_gate.rs\<close>)
  and from resource observations (\<^verbatim>\<open>core/src/resource.rs\<close>), and refreshes it when observations
  expire. A change of the store is a transaction request with preconditions and a read set
  (\<^verbatim>\<open>sdk/src/store_internal/transaction.rs\<close>), admitted under a report. An engine checks the
  admission inside its own lock (the fence), reads what the request and its dependencies
  name, has \<^verbatim>\<open>apply_transaction\<close> plan the effective mutations and check closure and budgets, and
  writes them: in memory (\<^verbatim>\<open>in_memory.rs\<close>, \<^verbatim>\<open>embedded.rs\<close>) or in files under a journal
  (\<^verbatim>\<open>file.rs\<close>). Reads go through bounded known-key reads and immutable read sessions.

  \<^bold>\<open>Library.\<close> \<^verbatim>\<open>Rust_Prelude\<close> has results, bounded and saturating integers, strings and bytes;
  \<^verbatim>\<open>BTree\<close> the ordered maps and sets with the locale \<^verbatim>\<open>ordered_map\<close>; \<^verbatim>\<open>Project_Error\<close> the error type.

  \<^bold>\<open>Budgets.\<close> \<^verbatim>\<open>Profiles\<close> and \<^verbatim>\<open>Capabilities\<close> model \<^verbatim>\<open>feature_gate.rs\<close>, \<^verbatim>\<open>Resource\<close> models
  \<^verbatim>\<open>resource.rs\<close>, and \<^verbatim>\<open>Budget_Types\<close>, \<^verbatim>\<open>Budget_Profiles\<close>, \<^verbatim>\<open>Budget_Compile\<close>, \<^verbatim>\<open>Budget_Limits\<close> and
  \<^verbatim>\<open>Budget_Authority\<close> follow \<^verbatim>\<open>budget.rs\<close>. The state of the authority is a record; each public
  method is a function on it, which takes the answers of clock and probe as arguments, and an
  inductive relation describes the reachable authorities and the reports they issued.
  \<^verbatim>\<open>Budget_Guarantees\<close>: issued reports are valid, bounded by profile and admission ceiling and
  identified by their contents; compilation is monotone and bounded; refresh does not block;
  the pressure level is antitone in free memory exactly on hosts of at most five gibibytes.

  \<^bold>\<open>Planner and engines in memory.\<close> \<^verbatim>\<open>Store_Config\<close> models configuration and events,
  \<^verbatim>\<open>Store_Transaction\<close> and \<^verbatim>\<open>Store_Apply\<close> the planner, \<^verbatim>\<open>Read_Session\<close> the bounded reads,
  \<^verbatim>\<open>In_Memory\<close> and \<^verbatim>\<open>Embedded\<close> the two engines. A mutex makes each operation one step, so an
  operation is a function from an engine to an engine and a result. \<^verbatim>\<open>Store_Refinement\<close> gives the
  abstract store, maps and a log, and proves that a commit is the abstract transaction;
  \<^verbatim>\<open>Store_Invariants\<close> and \<^verbatim>\<open>Store_Closure\<close> prove capacities, event identities, protected entries and
  closed read sets. The locale \<^verbatim>\<open>transactional_store\<close> of \<^verbatim>\<open>Store_Guarantees\<close> is the contract of an
  engine; both engines interpret it, and \<^verbatim>\<open>Store_Histories\<close> draws the properties of histories
  from it. \<^verbatim>\<open>Read_Digest\<close> (locale \<^verbatim>\<open>prefix_code\<close>) and \<^verbatim>\<open>Read_Guarantees\<close> treat receipts and
  sessions, \<^verbatim>\<open>Snapshot_Guarantees\<close> the import of snapshots. \<^verbatim>\<open>Embedded\<close> proves that the embedded
  engine commits exactly as the in-memory one and states how its direct append differs.

  \<^bold>\<open>File engine.\<close> \<^verbatim>\<open>File_System\<close> has the files as a map from paths to bytes and the system calls
  as a list; the states a crash can leave are those after each prefix of the list, with the
  last write torn at any byte. An operation of the engine reads files and yields such a list
  with a result. \<^verbatim>\<open>File_Address\<close> models the paths of an entry, \<^verbatim>\<open>File_Journal\<close> journal and recovery,
  \<^verbatim>\<open>File_Store\<close> reads, listings, event log and commit, \<^verbatim>\<open>File_Reads\<close> the reads under the shared
  lock, \<^verbatim>\<open>File_Writes\<close> the direct writes. \<^verbatim>\<open>File_Layout\<close> relates files to stores; \<^verbatim>\<open>File_Recovery\<close>,
  \<^verbatim>\<open>File_Commit\<close>, \<^verbatim>\<open>File_Context\<close>, \<^verbatim>\<open>File_Listing\<close>, \<^verbatim>\<open>File_Atomicity\<close>, \<^verbatim>\<open>File_Equivalence\<close>, \<^verbatim>\<open>File_Places\<close>
  and \<^verbatim>\<open>File_History\<close> (locale \<^verbatim>\<open>crash_safe_store\<close>) hold the argument; \<^verbatim>\<open>File_Guarantees\<close>,
  \<^verbatim>\<open>File_Read_Guarantees\<close> and \<^verbatim>\<open>File_Limits\<close> the properties: atomicity under crashes, durability of
  histories, completion of recovery, agreement of commits, reads and direct writes with the
  in-memory engine, well-formed addresses, the round trip of the event log, and what a
  journal beyond the read limit does. \<^verbatim>\<open>File_Samples\<close> is a small store for the witnesses.

  This theory joins budgets and stores: a current admission passes the fence, a commit under
  the runtime budget leaves the store within the report current inside the fence, and a
  report altered after it was issued yields no admission.

  \<^bold>\<open>Parameters.\<close> JSON printing and parsing, SHA-256, the clocks, the resource probe, the parsers of
  owner documents (\<^verbatim>\<open>tx_hooks\<close>) and the set of compiled features are arguments. The hypotheses
  on them are that what was printed is read back, that a printed event is one non-blank
  line and that reading a file does not fail (\<^verbatim>\<open>codecs_ok\<close>), that the addresses in use have
  different files (\<^verbatim>\<open>places_disjoint\<close>, \<^verbatim>\<open>collision_free\<close>), that a journal fits the limit it is
  read with (\<^verbatim>\<open>journal_fits\<close>), that a request reads what it writes (\<^verbatim>\<open>read_set_covers\<close>, which
  the request constructor establishes), and, for the identities of receipts and reports, that
  the hash does not collide on the two inputs compared. Documents are a type variable, which
  stands for the documents that are read back as printed: floating-point numbers that
  \<^verbatim>\<open>serde_json\<close> does not read back exactly and values nested beyond its recursion limit are not
  among them. The witnesses instantiate all of these; their digests have 64 digits.

  \<^bold>\<open>Bounds.\<close> \<^verbatim>\<open>usize\<close> and the fixed-width integers are natural numbers with the 64-bit bound and the
  checked or saturating operation written out; the address digest is computed on 64-bit
  words, where multiplication wraps. Loops are total functions, except
  the locking loop of a read, which depends on other processes: it is a partial function, and
  its return is proved once the other processes stop leaving journals. No definition has fuel.

  \<^bold>\<open>Not modelled.\<close> Directories and the meaning of \<^verbatim>\<open>.\<close> and \<^verbatim>\<open>..\<close> in a path, and so the opening of a file store with its preflight, manifest and
  repair, and the staging of a snapshot import into files; the loss of unsynced data at a
  power failure (a crash keeps the system calls made); waiting for a lock and its failure;
  the metadata calls, which are reads of the file in the model; the metric events and the
  unbounded \<^verbatim>\<open>read_consistent\<close> of the embedded and the file engine; the scoped projection of an
  archive, whose closure depends on every owner document format; the SQLite engine, whose
  state and steps are those of SQL statements run by a library that is not in the sources;
  the parsing of what the host answers to the resource probe. The memory domain, the SDK
  runtime, the protocol adapters, the gateways, the replay tools and the user interfaces lie
  above the store interface, where this development stops.
\<close>

section \<open>Budgets and the store together\<close>

lemma profile_store_ceiling_bounded:
  "bounded_capacity (from_runtime_budget (pc_store_budget (profile_budget_ceiling pr)))"
  by (cases pr) (simp_all add: bounded_capacity_def from_runtime_budget_def store_ceiling_def spec_defs usize_max_def)

text \<open>The capacity a store is opened with is far below the largest \<open>usize\<close>.\<close>

lemma opened_capacity_bounded:
  assumes "authority_run env harness src au issued"
  shows "bounded_capacity (from_runtime_budget (admission_store_ceiling au))"
proof -
  obtain pr where "within (sb_fields (admission_store_ceiling au)) (sb_fields (pc_store_budget (profile_budget_ceiling pr)))"
    using authority_run_ceiling [OF assms] by blast
  then show ?thesis
    using profile_store_ceiling_bounded [of pr]
    by (simp add: bounded_capacity_def from_runtime_budget_def sb_fields_def)
qed

lemma fresh_engine_sound: "bounded_capacity cap \<Longrightarrow> sound_store (au, new_with_admission_authority cap auth)"
  by (simp add: sound_store_def engine_inv_def new_with_admission_authority_def mem_state_default_def
      within_capacity_def event_ids_inv_def blob_bytes_weight btree_empty.rep_eq)

lemma report_identity_not_blank:
  assumes "identity_covers_payload env r"
  shows "trim (rb_report_id r) \<noteq> []"
proof -
  have "rb_report_id r = rb_report_id (finalize_runtime_budget_report_id env r)"
    using assms by (simp add: identity_covers_payload_def)
  then obtain x where "rb_report_id r = CHR ''r'' # x"
    by (simp add: finalize_runtime_budget_report_id_def Let_def)
  then show ?thesis by (simp add: trim_starts_r)
qed

lemma fence_admits_current:
  assumes run: "authority_run env harness src au issued"
    and cap: "resolve_store_capacity au = Inr capacity"
    and fresh: "\<not> requires_refresh (au_cache au) (fi_now_secs inputs) (fi_tick1 inputs)"
  shows "\<exists>adm. admission_from_runtime_budget env (au_report au) auth (fi_now_secs inputs) = Inr adm \<and>
     validate_inside_engine_fence env adm capacity auth inputs au = (au, Inr ())"
proof -
  have inv: "authority_inv env au" using authority_run_inv [OF run] by simp
  then have good: "report_good env (admission_store_ceiling au) (au_report au)"
    and snap: "rb_resource_snapshot (au_report au) = sc_snapshot (au_cache au)"
    by (simp_all add: authority_inv_def)
  have live: "\<not> stale (sc_snapshot (au_cache au))" "\<not> is_expired (sc_snapshot (au_cache au)) (fi_now_secs inputs)"
    using fresh by (auto simp: requires_refresh_def)
  have ok: "validate_for_admission env (au_report au) (fi_now_secs inputs) = Inr ()"
    using good live by (simp add: validate_for_admission_def report_good_def identity_covers_payload_def snap)
  have id: "trim (rb_report_id (au_report au)) \<noteq> []"
    using good by (intro report_identity_not_blank [of env]) (simp add: report_good_def)
  define adm where "adm = \<lparr> am_authority = auth, am_runtime_budget = True, am_report_id = rb_report_id (au_report au),
    am_operation_capacity = from_runtime_budget (rb_store_budget (au_report au)),
    am_resource_snapshot = Some (rb_resource_snapshot (au_report au)) \<rparr>"
  have "admission_from_runtime_budget env (au_report au) auth (fi_now_secs inputs) = Inr adm"
    using ok id by (simp add: admission_from_runtime_budget_def adm_def)
  moreover have "admits_runtime_budget capacity (rb_store_budget (au_report au))"
    using cap good by (auto simp: resolve_store_capacity_def admits_iff_within report_good_def)
  then have "validate_inside_engine_fence env adm capacity auth inputs au = (au, Inr ())"
    using ok live fresh
    by (simp add: validate_inside_engine_fence_def adm_def snap current_report_def fence_capacity_def Let_def)
  ultimately show ?thesis by blast
qed

text \<open>
  C30. While the report of a runtime budget authority is current, a transaction admission made
  from it succeeds and passes the fence of a store that was opened with that authority's
  ceiling, without the authority being refreshed.
\<close>

theorem current_admission_passes_fence:
  assumes run: "authority_run env harness src au issued"
    and cap: "resolve_store_capacity au = Inr capacity"
    and fresh: "\<not> requires_refresh (au_cache au) (fi_now_secs inputs) (fi_tick1 inputs)"
  shows "\<exists>adm. admission_from_runtime_budget env (au_report au) auth (fi_now_secs inputs) = Inr adm \<and>
     validate_inside_engine_fence env adm capacity auth inputs au = (au, Inr ())"
  by (rule fence_admits_current [OF assms])

lemma sample_authority_fresh:
  assumes "sample_authority = Inr au"
  shows "\<not> requires_refresh (au_cache au) 100 0"
  using assms
  by (auto simp: sample_authority_def with_host_probe_def new_with_mode_def registration_host_def
      storage_observation_def validate_authority_configuration_def Let_def manifest_for_profile_def
      target_accepts_source_def is_host_source_def map_probe_error_def probe_snapshot_def
      validate_authority_snapshot_def sample_observation_def host_probe_def from_observation_def
      observation.defs validate_host_resource_snapshot_def requires_refresh_def cache_new_def is_expired_def
      monotonic_refresh_deadline_def div_ceil_def instant_max_def)

lemma sample_authority_reached:
  assumes "sample_authority = Inr au"
  shows "authority_run sample_env False HostLinux au {}"
  using assms unfolding sample_authority_def by (rule authority_run.host)

theorem current_admission_passes_fence_witness:
  "\<exists>au capacity adm. authority_run sample_env False HostLinux au {} \<and> resolve_store_capacity au = Inr capacity \<and>
     admission_from_runtime_budget sample_env (au_report au) 7 100 = Inr adm \<and>
     validate_inside_engine_fence sample_env adm capacity 7 sample_inputs au = (au, Inr ())"
proof -
  obtain au where au: "sample_authority = Inr au" using sample_authority_built by blast
  have cap: "resolve_store_capacity au = Inr (from_runtime_budget (admission_store_ceiling au))"
    by (simp add: resolve_store_capacity_def)
  have fresh: "\<not> requires_refresh (au_cache au) (fi_now_secs sample_inputs) (fi_tick1 sample_inputs)"
    using sample_authority_fresh [OF au] by (simp add: sample_inputs_def)
  from current_admission_passes_fence [OF sample_authority_reached [OF au] cap fresh, of 7] cap
  show ?thesis using sample_authority_reached [OF au] by (auto simp: sample_inputs_def)
qed

text \<open>
  C13. A commit admitted by the runtime budget leaves the store within the budget the authority
  grants at the time of the commit: the report current inside the fence is the one the
  admission was made from, it is admissible then, it does not exceed the ceiling the store was
  opened with, and after the commit the entries, blob bytes and events are within its store
  budget. An admission whose report has been replaced in the meantime cannot commit.
\<close>

theorem production_commit_within_current_budget:
  assumes run: "authority_run env harness src au issued"
    and cap: "resolve_store_capacity au = Inr (en_capacity en)"
    and c: "read_set_covers req" and inv: "engine_inv en" and tied: "am_runtime_budget adm"
    and commit: "commit_transaction_admitted env h inputs req adm (au, en) = ((au', en'), Inr rep)"
  shows "\<exists>current. current_report env au (fi_now_secs inputs) (fi_tick1 inputs) (fi_tick2 inputs) (fi_tick3 inputs)
            (fi_probe inputs) = (au', current) \<and>
     rb_report_id current = am_report_id adm \<and>
     validate_for_admission env current (fi_now_secs inputs) = Inr () \<and>
     within (sb_fields (rb_store_budget current)) (sb_fields (admission_store_ceiling au')) \<and>
     within_capacity (from_runtime_budget (rb_store_budget current)) (en_state en')"
  using commit
proof (rule commit_Ok)
  fix t mss s plan
  assume p: "planned h adm req (en_state en) t mss s plan"
    and en': "en' = en\<lparr>en_state := fst (apply_in_memory_transaction_plan (concat mss) (en_state en))\<rparr>"
    and f: "validate_inside_engine_fence env adm (en_capacity en) (en_admission_authority en) inputs au = (au', Inr ())"
  obtain current where current: "current_report env au (fi_now_secs inputs) (fi_tick1 inputs) (fi_tick2 inputs)
      (fi_tick3 inputs) (fi_probe inputs) = (au', current)"
    and ok: "validate_for_admission env current (fi_now_secs inputs) = Inr ()"
    "rb_report_id current = am_report_id adm" "from_runtime_budget (rb_store_budget current) = am_operation_capacity adm"
    using f tied by (auto simp: validate_inside_engine_fence_def Let_def result_simps split: if_splits prod.splits)
  have "report_good env (admission_store_ceiling au') current"
    using current_report_inv [OF current] authority_run_inv [OF run] by simp
  moreover have "within_capacity (am_operation_capacity adm) (en_state en')"
    using planned_within_capacity [OF p c] admitted_capacity(1) [OF fence_Ok(2) [OF f]] inv opened_capacity_bounded [OF run] cap
    by (simp add: en' resolve_store_capacity_def engine_inv_def within_capacity_def bounded_capacity_def)
  ultimately show ?thesis using current ok by (auto simp: report_good_def)
qed

definition noop_request :: "(string, unit) transaction_request" where
  "noop_request = request_new ''tx0'' [] [] None"

lemma noop_plan:
  "\<exists>plan. plan_commit sample_hooks adm noop_request mem_state_default = Inr plan"
proof -
  have t: "trim ''tx0'' \<noteq> []" by code_simp
  have e: "btree_of_list [] = btree_empty" "btree_keys btree_empty = []" "btree_values btree_empty = []"
    "entries btree_empty = []" "btree_len btree_empty = 0"
    by (simp_all add: btree_of_list_def btree_keys_def btree_values_def btree_empty.rep_eq)
  show ?thesis
    by (simp add: plan_commit_def noop_request_def request_new_def mem_state_default_def read_set_from_request_parts_def
        read_set_empty_def touched_state_def select_addresses_def e List.map_filter_simps
        expand_owner_transaction_dependencies_def sum_json_len_def dependency_loop.simps pop_first.simps
        apply_transaction_def t check_read_set_size_def materialize_conditional_mutations_def
        validate_preconditions_def validate_blob_preconditions_def validate_next_image_def validate_transitions_def
        sample_hooks_def for_each_def check_selection_authority_def check_ledgers_def check_method_closure_def
        actual_methods_def declared_methods_def check_governed_batch_def check_budgets_def apply_start_def
        touched_entries_def usage_of_def blob_bytes_of_def saturating_add_def saturating_sub_def Let_def)
qed

theorem production_commit_within_current_budget_witness:
  "\<exists>au adm en' rep (current :: runtime_budget_report).
     commit_transaction_admitted sample_env sample_hooks sample_inputs noop_request adm
       (au, new_with_admission_authority (from_runtime_budget (admission_store_ceiling au)) 7) = ((au, en'), Inr rep) \<and>
     rb_report_id current = am_report_id adm \<and>
     within_capacity (from_runtime_budget (rb_store_budget current)) (en_state en')"
proof -
  obtain au where au: "sample_authority = Inr au" using sample_authority_built by blast
  let ?en = "new_with_admission_authority (from_runtime_budget (admission_store_ceiling au)) 7 :: string mem_engine"
  have run: "authority_run sample_env False HostLinux au {}" by (rule sample_authority_reached [OF au])
  have cap: "resolve_store_capacity au = Inr (en_capacity ?en)"
    by (simp add: resolve_store_capacity_def new_with_admission_authority_def)
  have fresh: "\<not> requires_refresh (au_cache au) (fi_now_secs sample_inputs) (fi_tick1 sample_inputs)"
    using sample_authority_fresh [OF au] by (simp add: sample_inputs_def)
  obtain adm where adm: "admission_from_runtime_budget sample_env (au_report au) 7 (fi_now_secs sample_inputs) = Inr adm"
    and f: "validate_inside_engine_fence sample_env adm (en_capacity ?en) 7 sample_inputs au = (au, Inr ())"
    using fence_admits_current [OF run cap fresh] by blast
  have tied: "am_runtime_budget adm" using adm by (auto simp: admission_from_runtime_budget_def result_simps)
  obtain plan where plan: "plan_commit sample_hooks adm noop_request (mem_state_default :: string mem_state) = Inr plan"
    using noop_plan by blast
  then obtain t mss s where p: "planned sample_hooks adm noop_request mem_state_default t mss s plan" by (rule plan_commit_Ok)
  obtain en' where commit: "commit_transaction_admitted sample_env sample_hooks sample_inputs noop_request adm (au, ?en)
      = ((au, en'), Inr (pn_report plan))"
    using f plan planned_writes(1) [OF p] by (simp add: commit_transaction_admitted_def new_with_admission_authority_def)
  have "sound_store (au, ?en)" by (rule fresh_engine_sound [OF opened_capacity_bounded [OF run]])
  then have inv: "engine_inv ?en" by (simp add: sound_store_def)
  have c: "read_set_covers noop_request" unfolding noop_request_def by (rule covers_request_new)
  from production_commit_within_current_budget [OF run cap c inv tied commit] obtain current :: runtime_budget_report where
    "rb_report_id current = am_report_id adm"
    "within_capacity (from_runtime_budget (rb_store_budget current)) (en_state en')" by blast
  with commit show ?thesis by (intro exI conjI)
qed

section \<open>Altered reports\<close>

text \<open>
  C27. A report altered after it was issued admits nothing. Take a report that the authority
  issued and any report that carries its identity but serialises to another payload. If the
  digest does not collide on the two inputs these identities are computed from, the altered
  report is refused at every time with the error that its identity does not cover its payload,
  and no admission to write can be made from it. The issued report itself is refused for
  nothing but age: it yields an admission exactly while its observation is neither stale nor
  expired.
\<close>

theorem altered_report_refused:
  assumes "authority_run env harness src au issued" and "r \<in> issued"
    and "rb_report_id r' = rb_report_id r"
    and "report_json env (r'\<lparr>rb_report_id := []\<rparr>) \<noteq> report_json env (r\<lparr>rb_report_id := []\<rparr>)"
    and "inj_on (sha256_hex env) {identity_input env r, identity_input env r'}"
  shows "admission_from_runtime_budget env r' auth now =
      Err (config_error ''runtime_budget_admission'' ''runtime budget report identity does not cover its payload'') \<and>
    ((\<exists>adm. admission_from_runtime_budget env r auth now = Inr adm) \<longleftrightarrow>
      \<not> stale (rb_resource_snapshot r) \<and> \<not> is_expired (rb_resource_snapshot r) now)"
proof -
  have covers: "identity_covers_payload env r"
    using authority_run_inv [OF assms(1)] assms(2) by (simp add: report_good_def)
  show ?thesis
    using altered_identity [OF covers assms(3-5)] report_identity_not_blank [OF covers] covers
    by (auto simp: admission_from_runtime_budget_def validate_for_admission_def identity_covers_payload_def)
qed

theorem altered_report_refused_witness:
  "\<exists>au r. authority_run sample_env False HostLinux au {r} \<and>
     admission_from_runtime_budget sample_env (r\<lparr>rb_limited_by := ''x'' # rb_limited_by r\<rparr>) 7 100 =
       Err (config_error ''runtime_budget_admission'' ''runtime budget report identity does not cover its payload'')"
proof -
  obtain au r where run: "authority_run sample_env False HostLinux au {r}" by (rule sample_run)
  let ?r' = "r\<lparr>rb_limited_by := ''x'' # rb_limited_by r\<rparr>"
  have json: "report_json sample_env (?r'\<lparr>rb_report_id := []\<rparr>) = CHR ''x'' # report_json sample_env (r\<lparr>rb_report_id := []\<rparr>)"
    by (simp add: sample_env_def)
  then have "length (identity_input sample_env ?r') = Suc (length (identity_input sample_env r))"
    by (simp add: identity_input_def Let_def le_bytes_def)
  then have "length (identity_input sample_env r) mod 65 \<noteq> length (identity_input sample_env ?r') mod 65"
    by (simp add: mod_Suc)
  note inj = sample_sha256_inj_on [OF this]
  have "sha256_hex sample_env = sample_sha256" by (simp add: sample_env_def)
  with inj have "inj_on (sha256_hex sample_env) {identity_input sample_env r, identity_input sample_env ?r'}" by simp
  from altered_report_refused [OF run _ _ _ this] json run show ?thesis by auto
qed

end
